(* ===== verification/Prelude.thy ===== *)
theory Prelude
  imports Complex_Main "HOL-Library.Sublist" "HOL-Library.Multiset"
begin

text \<open>
  The vocabulary every component of the development shares: the exceptions the services
  throw and the result type they are carried in, the JavaScript string operations the code
  calls, the decimal rendering of numbers inside template literals, JSON values, and the
  three SQL shapes of the queries (a guarded update with its returned rows, a selection
  that takes the first row, an ordered selection).

  JavaScript numbers that hold identifiers, counters and minor currency units are \<open>int\<close>
  (they are exact integers below \<open>2^53\<close> in the code), fractional ones are \<open>rat\<close>; a
  string is a list of characters; \<open>null\<close> and \<open>undefined\<close> are \<open>None\<close>.
\<close>

subsection \<open>Collections of facts\<close>

named_theorems sql_simps \<open>equations of the SQL helpers\<close>
named_theorems frame \<open>which tables an operation leaves alone\<close>

subsection \<open>Exceptions and results\<close>

text \<open>
  The exception classes of NestJS that the services throw, the plain \<open>Error\<close> of the
  routing and provider services, and the errors PostgreSQL raises (the trigger of the
  \<open>messages\<close> table).
\<close>

datatype exn =
    BadRequestException string
  | UnauthorizedException string
  | ForbiddenException string
  | NotFoundException string
  | ConflictException string
  | TooManyRequests string
  | InternalServerErrorException string
  | ServiceUnavailableException string
  | PlainError string
  | DatabaseError string

text \<open>What PostgreSQL throws when a row breaks a constraint of its table.\<close>

definition foreign_key_error :: exn where
  "foreign_key_error = DatabaseError ''violates foreign key constraint''"

definition too_long :: exn where
  "too_long = DatabaseError ''value too long for type character varying''"

definition duplicate_key :: exn where
  "duplicate_key = DatabaseError ''duplicate key value violates unique constraint''"

type_synonym 'a result = "exn + 'a"

definition and_then :: "'a result \<Rightarrow> ('a \<Rightarrow> 'b result) \<Rightarrow> 'b result" where
  "and_then r f = (case r of Inl e \<Rightarrow> Inl e | Inr x \<Rightarrow> f x)"

lemma and_then_simps [simp]:
  "and_then (Inl e) f = Inl e"
  "and_then (Inr x) f = f x"
  by (simp_all add: and_then_def)

lemma and_then_eq_Inr: "and_then r f = Inr y \<longleftrightarrow> (\<exists>x. r = Inr x \<and> f x = Inr y)"
  by (cases r) simp_all

lemma and_then_eq_Inl:
  "and_then r f = Inl e \<longleftrightarrow> r = Inl e \<or> (\<exists>x. r = Inr x \<and> f x = Inl e)"
  by (cases r) simp_all

lemma and_thenE:
  assumes "and_then r f = Inr y"
  obtains x where "r = Inr x" "f x = Inr y"
  using assms by (auto simp: and_then_eq_Inr)

text \<open>
  A transaction body computes a result and the new state; \<open>withTransaction\<close> of
  \<open>database.service.ts\<close> commits the new state or, on an exception, rolls back to the old
  one and rethrows.
\<close>

type_synonym ('d, 'a) tx = "'d \<Rightarrow> ('a \<times> 'd) result"

definition with_transaction :: "('d, 'a) tx \<Rightarrow> 'd \<Rightarrow> 'a result \<times> 'd" where
  "with_transaction executor d =
     (case executor d of
        Inl e \<Rightarrow> (Inl e, d)
      | Inr (result, d') \<Rightarrow> (Inr result, d'))"

lemma with_transaction_Inl [simp]:
  "executor d = Inl e \<Longrightarrow> with_transaction executor d = (Inl e, d)"
  by (simp add: with_transaction_def)

lemma with_transaction_Inr [simp]:
  "executor d = Inr (a, d') \<Longrightarrow> with_transaction executor d = (Inr a, d')"
  by (simp add: with_transaction_def)

lemma with_transaction_state:
  "snd (with_transaction executor d) = d \<or>
   (\<exists>a. executor d = Inr (a, snd (with_transaction executor d)))"
  by (auto simp: with_transaction_def split: sum.splits)

subsection \<open>Strings\<close>

definition starts_with :: "string \<Rightarrow> string \<Rightarrow> bool" where
  "starts_with s p \<longleftrightarrow> take (length p) s = p"

lemma starts_with_append [simp]: "starts_with (p @ s) p"
  by (simp add: starts_with_def)

lemma starts_with_Nil [simp]: "starts_with s []"
  by (simp add: starts_with_def)

lemma starts_with_Cons [simp]:
  "starts_with s (c # p) \<longleftrightarrow> (case s of [] \<Rightarrow> False | d # t \<Rightarrow> d = c \<and> starts_with t p)"
  by (auto simp: starts_with_def split: list.splits)

lemma starts_with_iff_prefix: "starts_with s p \<longleftrightarrow> prefix p s"
  unfolding starts_with_def by (metis append_eq_conv_conj prefix_def)

fun js_includes :: "string \<Rightarrow> string \<Rightarrow> bool" where
  "js_includes [] t = (t = [])"
| "js_includes (c # s) t = (starts_with (c # s) t \<or> js_includes s t)"

lemma js_includes_iff_sublist: "js_includes s t \<longleftrightarrow> sublist t s"
proof (induction s)
  case Nil
  then show ?case by simp
next
  case (Cons c s)
  have "js_includes (c # s) t \<longleftrightarrow> prefix t (c # s) \<or> js_includes s t"
    by (simp only: js_includes.simps starts_with_iff_prefix)
  with Cons show ?case by (simp add: sublist_Cons_right)
qed

definition is_digit :: "char \<Rightarrow> bool" where
  "is_digit c \<longleftrightarrow> c \<in> set ''0123456789''"

definition lower_char :: "char \<Rightarrow> char" where
  "lower_char c =
     (let n = (of_char c :: nat) in if 65 \<le> n \<and> n \<le> 90 then char_of (n + 32) else c)"

text \<open>\<open>toLowerCase\<close>, on the ASCII letters.\<close>

definition to_lower :: "string \<Rightarrow> string" where
  "to_lower s = map lower_char s"

lemma length_to_lower [simp]: "length (to_lower s) = length s"
  by (simp add: to_lower_def)

fun split_char :: "char \<Rightarrow> string \<Rightarrow> string list" where
  "split_char d [] = [[]]"
| "split_char d (c # s) =
     (if c = d then [] # split_char d s
      else (case split_char d s of [] \<Rightarrow> [[c]] | w # ws \<Rightarrow> (c # w) # ws))"

lemma split_char_not_Nil [simp]: "split_char d s \<noteq> []"
  by (cases s) (auto split: list.splits)

lemma split_char_free: "d \<notin> set s \<Longrightarrow> split_char d s = [s]"
  by (induction s) auto

lemma split_char_append:
  "d \<notin> set s \<Longrightarrow> split_char d (s @ d # t) = s # split_char d t"
  by (induction s) auto

fun join_with :: "string \<Rightarrow> string list \<Rightarrow> string" where
  "join_with sep [] = []"
| "join_with sep [x] = x"
| "join_with sep (x # y # xs) = x @ sep @ join_with sep (y # xs)"

text \<open>A separator that does not occur in the heads makes a concatenation unambiguous.\<close>

lemma sep_append_eq:
  assumes "c \<notin> set a" and "c \<notin> set b" and "a @ c # s = b @ c # t"
  shows "a = b \<and> s = t"
proof -
  have "takeWhile (\<lambda>x. x \<noteq> c) (a @ c # s) = a"
    using assms(1) by (induction a) auto
  moreover have "takeWhile (\<lambda>x. x \<noteq> c) (b @ c # t) = b"
    using assms(2) by (induction b) auto
  ultimately have "a = b" using assms(3) by metis
  with assms(3) show ?thesis by simp
qed

subsection \<open>Numbers inside template literals\<close>

definition digit_char :: "nat \<Rightarrow> char" where
  "digit_char d = char_of (48 + d)"

fun nat_str :: "nat \<Rightarrow> string" where
  "nat_str n = (if n < 10 then [digit_char n] else nat_str (n div 10) @ [digit_char (n mod 10)])"

declare nat_str.simps [simp del]

definition int_str :: "int \<Rightarrow> string" where
  "int_str i = (if i < 0 then CHR ''-'' # nat_str (nat (- i)) else nat_str (nat i))"

definition digit_val :: "char \<Rightarrow> nat" where
  "digit_val c = of_char c - 48"

definition str_nat :: "string \<Rightarrow> nat" where
  "str_nat s = foldl (\<lambda>acc c. acc * 10 + digit_val c) 0 s"

lemma digit_val_digit_char: "d < 10 \<Longrightarrow> digit_val (digit_char d) = d"
  by (simp add: digit_val_def digit_char_def of_char_of)

lemma str_nat_nat_str: "str_nat (nat_str n) = n"
proof (induction n rule: nat_str.induct)
  case (1 n)
  show ?case
  proof (cases "n < 10")
    case True
    then show ?thesis
      by (subst nat_str.simps) (simp add: str_nat_def digit_val_digit_char)
  next
    case False
    with 1 have IH: "str_nat (nat_str (n div 10)) = n div 10" by simp
    have "str_nat (nat_str n) = str_nat (nat_str (n div 10)) * 10 + digit_val (digit_char (n mod 10))"
      using False by (subst nat_str.simps) (simp add: str_nat_def)
    with IH show ?thesis by (simp add: digit_val_digit_char)
  qed
qed

lemma nat_str_inject [simp]: "nat_str m = nat_str n \<longleftrightarrow> m = n"
  by (metis str_nat_nat_str)

lemma of_char_digit_char: "d < 10 \<Longrightarrow> (of_char (digit_char d) :: nat) = 48 + d"
  by (simp add: digit_char_def of_char_of)

lemma digit_char_eq_iff:
  "d < 10 \<Longrightarrow> digit_char d = c \<longleftrightarrow> (of_char c :: nat) = 48 + d"
  by (metis char_of_char digit_char_def of_char_digit_char)

lemma digit_char_not:
  "d < 10 \<Longrightarrow> digit_char d \<noteq> CHR ''-''"
  "d < 10 \<Longrightarrow> digit_char d \<noteq> CHR '':''"
  by (simp_all add: digit_char_eq_iff)

lemma nat_str_chars: "CHR ''-'' \<notin> set (nat_str n) \<and> CHR '':'' \<notin> set (nat_str n)"
proof (induction n rule: nat_str.induct)
  case (1 n)
  show ?case
  proof (cases "n < 10")
    case True
    then show ?thesis
      by (subst (1 2) nat_str.simps) (auto simp: digit_char_not [symmetric] dest: digit_char_not)
  next
    case False
    with 1 show ?thesis
      using digit_char_not [of "n mod 10"]
      by (subst (1 2) nat_str.simps) (auto dest: sym)
  qed
qed

lemma int_str_no_colon [simp]: "CHR '':'' \<notin> set (int_str i)"
  using nat_str_chars by (simp add: int_str_def)

lemma int_str_inject [simp]: "int_str i = int_str j \<longleftrightarrow> i = j"
proof
  assume eq: "int_str i = int_str j"
  have neg: "CHR ''-'' # s \<noteq> nat_str n" for s n
    using nat_str_chars [of n] by (metis list.set_intros(1))
  from eq show "i = j"
    using neg neg [symmetric] by (auto simp: int_str_def split: if_splits)
qed simp

subsection \<open>Strings as numbers\<close>

text \<open>\<open>Number(s)\<close> for a decimal literal; \<open>None\<close> stands for a value that is not finite.\<close>

definition is_space :: "char \<Rightarrow> bool" where
  "is_space c \<longleftrightarrow> (of_char c :: nat) \<in> {9, 10, 11, 12, 13, 32, 160}"

definition trim :: "string \<Rightarrow> string" where
  "trim s = rev (dropWhile is_space (rev (dropWhile is_space s)))"

definition digits_val :: "string \<Rightarrow> rat" where
  "digits_val ds = of_nat (str_nat ds)"

definition decimal_val :: "string \<Rightarrow> rat option" where
  "decimal_val s =
     (let whole = takeWhile is_digit s; rest = dropWhile is_digit s in
      if rest = [] then (if whole = [] then None else Some (digits_val whole))
      else if hd rest = CHR ''.'' \<and> (\<forall>c \<in> set (tl rest). is_digit c) \<and> (whole \<noteq> [] \<or> tl rest \<noteq> [])
      then Some (digits_val whole + digits_val (tl rest) / 10 ^ length (tl rest))
      else None)"

definition js_number :: "string \<Rightarrow> rat option" where
  "js_number s =
     (let t = trim s in
      if t = [] then Some 0
      else if hd t = CHR ''-'' then map_option uminus (decimal_val (tl t))
      else if hd t = CHR ''+'' then decimal_val (tl t)
      else decimal_val t)"

subsection \<open>JSON\<close>

text \<open>
  The values \<open>JSON.stringify\<close> writes into the \<open>jsonb\<close> columns. \<open>jobj\<close> is an object
  literal: a field whose value is \<open>undefined\<close> is left out, as \<open>JSON.stringify\<close> does.
\<close>

datatype json =
    JNull
  | JBool bool
  | JNum rat
  | JStr string
  | JArr "json list"
  | JObj "(string \<times> json) list"

definition jobj :: "(string \<times> json option) list \<Rightarrow> json" where
  "jobj fields = JObj (List.map_filter (\<lambda>(k, v). map_option (Pair k) v) fields)"

definition jint :: "int \<Rightarrow> json" where
  "jint i = JNum (of_int i)"

text \<open>A nullable column or variable is written as JSON \<open>null\<close> when it is absent.\<close>

definition jnullable :: "('a \<Rightarrow> json) \<Rightarrow> 'a option \<Rightarrow> json" where
  "jnullable f x = (case x of None \<Rightarrow> JNull | Some v \<Rightarrow> f v)"

fun json_field :: "json \<Rightarrow> string \<Rightarrow> json option" where
  "json_field (JObj kvs) k = map_of kvs k"
| "json_field _ k = None"

subsection \<open>SQL\<close>

text \<open>
  \<open>rows[0]\<close> of a result, and \<open>x ?? d\<close>.
\<close>

definition first_row :: "'r list \<Rightarrow> 'r option" where
  "first_row rs = (case rs of [] \<Rightarrow> None | r # _ \<Rightarrow> Some r)"

lemma first_row_simps [simp]:
  "first_row [] = None"
  "first_row (r # rs) = Some r"
  by (simp_all add: first_row_def)

lemma first_row_filter_Some:
  "first_row (filter P rs) = Some r \<Longrightarrow> r \<in> set rs \<and> P r"
  by (induction rs) (auto split: if_splits)

lemma first_row_eq_None [simp]: "first_row rs = None \<longleftrightarrow> rs = []"
  by (cases rs) simp_all

lemma first_row_mem: "first_row rs = Some r \<Longrightarrow> r \<in> set rs"
  by (cases rs) auto

definition coalesce :: "'a option \<Rightarrow> 'a \<Rightarrow> 'a" where
  "coalesce x d = (case x of None \<Rightarrow> d | Some v \<Rightarrow> v)"

lemma coalesce_simps [simp]:
  "coalesce None d = d"
  "coalesce (Some v) d = v"
  by (simp_all add: coalesce_def)

text \<open>\<open>COALESCE(a, b)\<close> and \<open>a ?? b\<close> on two nullable values.\<close>

definition or_else :: "'a option \<Rightarrow> 'a option \<Rightarrow> 'a option" where
  "or_else x y = (case x of None \<Rightarrow> y | Some v \<Rightarrow> Some v)"

lemma or_else_simps [simp]:
  "or_else None y = y"
  "or_else (Some v) y = Some v"
  by (simp_all add: or_else_def)

text \<open>The truth value of an optional string or number: absent, empty and zero are false.\<close>

definition truthy_str :: "string option \<Rightarrow> bool" where
  "truthy_str s \<longleftrightarrow> s \<noteq> None \<and> s \<noteq> Some []"

definition truthy_int :: "int option \<Rightarrow> bool" where
  "truthy_int i \<longleftrightarrow> i \<noteq> None \<and> i \<noteq> Some 0"

lemma truthy_simps [simp]:
  "\<not> truthy_str None" "truthy_str (Some s) \<longleftrightarrow> s \<noteq> []"
  "\<not> truthy_int None" "truthy_int (Some i) \<longleftrightarrow> i \<noteq> 0"
  by (simp_all add: truthy_str_def truthy_int_def)

text \<open>A condition that a query adds only when its parameter is given.\<close>

definition sql_filter :: "'a option \<Rightarrow> ('a \<Rightarrow> bool) \<Rightarrow> bool" where
  "sql_filter x P = (case x of None \<Rightarrow> True | Some v \<Rightarrow> P v)"

lemma sql_filter_simps [simp]:
  "sql_filter None P" "sql_filter (Some v) P = P v"
  by (simp_all add: sql_filter_def)

text \<open>Equality of two nullable values: never true of \<open>NULL\<close>.\<close>

definition sql_eq :: "'a option \<Rightarrow> 'a option \<Rightarrow> bool" where
  "sql_eq a b \<longleftrightarrow> a \<noteq> None \<and> a = b"

lemma sql_eq_simps [simp]:
  "\<not> sql_eq None b" "\<not> sql_eq a None" "sql_eq (Some x) b \<longleftrightarrow> b = Some x"
  "sql_eq a (Some x) \<longleftrightarrow> a = Some x"
  by (auto simp: sql_eq_def)

text \<open>A query parameter that is dropped when it is not truthy.\<close>

definition given_str :: "string option \<Rightarrow> string option" where
  "given_str s = (if truthy_str s then s else None)"

definition given_int :: "int option \<Rightarrow> int option" where
  "given_int i = (if truthy_int i then i else None)"

text \<open>The answer of a list operation: a page of items and the number of all of them.\<close>

record 'a page_result =
  pg_items :: "'a list"
  pg_page :: int
  pg_limit :: int
  pg_total :: int

text \<open>\<open>ORDER BY key DESC\<close>, ties in table order.\<close>

definition sort_desc :: "('r \<Rightarrow> int) \<Rightarrow> 'r list \<Rightarrow> 'r list" where
  "sort_desc key rows = sort_key (\<lambda>r. - key r) rows"

lemma set_sort_desc [simp]: "set (sort_desc key rows) = set rows"
  by (simp add: sort_desc_def)

lemma mset_sort_desc [simp]: "mset (sort_desc key rows) = mset rows"
  by (simp add: sort_desc_def)

lemma length_sort_desc [simp]: "length (sort_desc key rows) = length rows"
  by (simp add: sort_desc_def)

lemma sort_desc_head:
  "sort_desc key rows = r # rs \<Longrightarrow> x \<in> set (r # rs) \<Longrightarrow> key x \<le> key r"
  using sorted_sort_key [of "\<lambda>r. - key r" rows] by (auto simp: sort_desc_def)

lemma sort_desc_tail:
  "sort_desc key rows = r # s # rs \<Longrightarrow> x \<in> set (s # rs) \<Longrightarrow> key x \<le> key s"
  using sorted_sort_key [of "\<lambda>r. - key r" rows] by (auto simp: sort_desc_def)

text \<open>The first row of a stable ascending sort is the first row with the least key.\<close>

lemma first_row_sort_key:
  assumes "first_row (sort_key f xs) = Some x"
  shows "\<exists>pre post. xs = pre @ x # post \<and> (\<forall>q \<in> set pre. f x < f q) \<and> (\<forall>q \<in> set post. f x \<le> f q)"
proof -
  obtain ys where ys: "sort_key f xs = x # ys"
    using assms by (cases "sort_key f xs") auto
  have "set (x # ys) = set xs" by (simp flip: ys)
  moreover have "\<forall>q \<in> set (x # ys). f x \<le> f q"
    using sorted_sort_key [of f xs] ys by auto
  ultimately have least: "\<forall>q \<in> set xs. f x \<le> f q" by blast
  have "filter (\<lambda>y. f y = f x) xs = x # filter (\<lambda>y. f y = f x) ys"
    using sort_key_stable [of f "f x" xs] ys by simp
  then obtain pre post where "xs = pre @ x # post" "\<forall>q \<in> set pre. f q \<noteq> f x"
    by (auto dest: filter_eq_ConsD)
  with least show ?thesis by (fastforce simp: less_le)
qed

text \<open>\<open>LIMIT limit OFFSET (page - 1) * limit\<close>.\<close>

definition paginate :: "int \<Rightarrow> int \<Rightarrow> 'r list \<Rightarrow> 'r list" where
  "paginate page limit rows = take (nat limit) (drop (nat ((page - 1) * limit)) rows)"

lemma paginate_concat:
  assumes "0 \<le> limit"
  shows "concat (map (\<lambda>p. paginate (int p + 1) limit rows) [0..<n]) = take (n * nat limit) rows"
proof (induction n)
  case 0
  then show ?case by simp
next
  case (Suc n)
  have off: "nat (int n * limit) = n * nat limit" using assms by (simp add: nat_mult_distrib)
  have "concat (map (\<lambda>p. paginate (int p + 1) limit rows) [0..<Suc n]) =
      take (n * nat limit) rows @ take (nat limit) (drop (n * nat limit) rows)"
    using Suc by (simp add: paginate_def off)
  also have "\<dots> = take (n * nat limit + nat limit) rows" by (rule take_add [symmetric])
  finally show ?case by (simp add: add.commute)
qed

lemma length_paginate: "length (paginate page limit rows) \<le> nat limit"
  by (simp add: paginate_def)

text \<open>
  \<open>UPDATE table SET ... WHERE cond RETURNING *\<close> for a table without triggers.
\<close>

definition sql_update :: "('r \<Rightarrow> bool) \<Rightarrow> ('r \<Rightarrow> 'r) \<Rightarrow> 'r list \<Rightarrow> 'r list" where
  "sql_update cond f rs = map (\<lambda>r. if cond r then f r else r) rs"

definition sql_returning :: "('r \<Rightarrow> bool) \<Rightarrow> ('r \<Rightarrow> 'r) \<Rightarrow> 'r list \<Rightarrow> 'r list" where
  "sql_returning cond f rs = map f (filter cond rs)"

lemma sql_update_simps [simp, sql_simps]:
  "sql_update cond f [] = []"
  "sql_update cond f (r # rs) = (if cond r then f r else r) # sql_update cond f rs"
  by (simp_all add: sql_update_def)

lemma sql_returning_first:
  assumes "first_row (sql_returning cond f rs) = Some u"
  obtains r where "r \<in> set rs" "cond r" "u = f r"
proof -
  obtain r rest where r: "filter cond rs = r # rest" "u = f r"
    using assms by (cases "filter cond rs") (auto simp: sql_returning_def)
  then have "r \<in> set (filter cond rs)" by simp
  with r(2) that show thesis by auto
qed

lemma length_sql_update [simp]: "length (sql_update cond f rs) = length rs"
  by (simp add: sql_update_def)

lemma map_sql_update:
  "(\<And>r. cond r \<Longrightarrow> g (f r) = g r) \<Longrightarrow> map g (sql_update cond f rs) = map g rs"
  by (induction rs) auto

lemma set_sql_update:
  "set (sql_update cond f rs) = f ` {r \<in> set rs. cond r} \<union> {r \<in> set rs. \<not> cond r}"
  by (auto simp: sql_update_def)

lemma bex_sql_update:
  "(\<exists>r \<in> set (sql_update cond f rs). P r) \<longleftrightarrow> (\<exists>r \<in> set rs. P (if cond r then f r else r))"
  by (auto simp: sql_update_def)

lemma ball_sql_update:
  "(\<forall>r \<in> set (sql_update cond f rs). P r) \<longleftrightarrow> (\<forall>r \<in> set rs. P (if cond r then f r else r))"
  by (auto simp: sql_update_def)

lemma sum_sql_update:
  fixes g :: "'r \<Rightarrow> 'n::ab_group_add"
  shows "sum_list (map g (sql_update cond f rs)) =
    sum_list (map g rs) - sum_list (map g (filter cond rs))
      + sum_list (map (\<lambda>r. g (f r)) (filter cond rs))"
  by (induction rs) (auto simp: algebra_simps)

text \<open>
  A column that is unique over the table selects at most one row.
\<close>

lemma distinct_key_filter:
  assumes "distinct (map key rs)" and "r \<in> set rs"
  shows "filter (\<lambda>x. key x = key r) rs = [r]"
  using assms
proof (induction rs)
  case Nil
  then show ?case by simp
next
  case (Cons x xs)
  show ?case
  proof (cases "x = r")
    case True
    with Cons.prems have "filter (\<lambda>y. key y = key r) xs = []"
      by (auto simp: filter_empty_conv image_iff)
    with True show ?thesis by simp
  next
    case False
    with Cons.prems have "key x \<noteq> key r" by auto
    with False Cons show ?thesis by simp
  qed
qed

lemma distinct_key_eqD:
  "distinct (map key rs) \<Longrightarrow> r \<in> set rs \<Longrightarrow> s \<in> set rs \<Longrightarrow> key r = key s \<Longrightarrow> r = s"
  by (auto simp: distinct_map dest: inj_onD)

text \<open>
  A loop of single-row updates, one per element of a list with pairwise different keys, is
  one pass over the table.
\<close>

lemma sql_update_skip:
  "(\<And>r. r \<in> set rs \<Longrightarrow> \<not> cond r) \<Longrightarrow> sql_update cond f rs = rs"
  by (induction rs) auto

lemma fold_sql_update:
  assumes "\<And>x r. key (f x r) = key r" and "distinct (map key xs)"
  shows "fold (\<lambda>x. sql_update (\<lambda>r. key r = key x) (f x)) xs rs =
    map (\<lambda>r. case find (\<lambda>x. key x = key r) xs of None \<Rightarrow> r | Some x \<Rightarrow> f x r) rs"
  using assms(2)
proof (induction xs arbitrary: rs)
  case Nil
  then show ?case by simp
next
  case (Cons x xs)
  have none: "find (\<lambda>y. key y = key x) xs = None"
    unfolding find_None_iff using Cons.prems by (auto, metis image_eqI)
  have "fold (\<lambda>x. sql_update (\<lambda>r. key r = key x) (f x)) (x # xs) rs =
      map (\<lambda>r. case find (\<lambda>x. key x = key r) xs of None \<Rightarrow> r | Some x \<Rightarrow> f x r)
        (sql_update (\<lambda>r. key r = key x) (f x) rs)"
    using Cons by simp
  also have "\<dots> = map (\<lambda>r. case find (\<lambda>x. key x = key r) (x # xs) of None \<Rightarrow> r | Some x \<Rightarrow> f x r) rs"
    using none by (auto simp: sql_update_def assms(1))
  finally show ?case .
qed

lemma find_key_in:
  assumes "distinct (map key rs)" and "set xs \<subseteq> set rs" and "r \<in> set rs"
  shows "find (\<lambda>x. key x = key r) xs = (if r \<in> set xs then Some r else None)"
proof (cases "r \<in> set xs")
  case True
  then obtain y where y: "find (\<lambda>x. key x = key r) xs = Some y"
    by (cases "find (\<lambda>x. key x = key r) xs") (auto simp: find_None_iff)
  then have "y \<in> set xs" "key y = key r"
    by (auto simp: find_Some_iff)
  with assms have "y = r" by (auto dest: distinct_key_eqD)
  with y True show ?thesis by simp
next
  case False
  then have "find (\<lambda>x. key x = key r) xs = None"
    using assms by (auto simp: find_None_iff dest: distinct_key_eqD)
  with False show ?thesis by simp
qed

lemma distinct_map_take_sort_filter:
  assumes "distinct (map key rs)"
  shows "distinct (map key (take n (sort_key g (filter P rs))))"
proof -
  have "mset (map key (sort_key g (filter P rs))) = mset (map key (filter P rs))"
    by simp
  moreover have "distinct (map key (filter P rs))"
    using assms by (rule distinct_map_filter)
  ultimately have "distinct (map key (sort_key g (filter P rs)))"
    using mset_eq_imp_distinct_iff by blast
  then show ?thesis by (simp add: distinct_take flip: take_map)
qed

end
