(* ===== verification/Tables.thy ===== *)
theory Tables
  imports Prelude
begin

text \<open>
  The data model: the rows of the PostgreSQL tables the message pipeline reads and writes,
  as the row interfaces of the services (and, for the columns no interface lists, the
  schema in \<open>migrations/001_init.sql\<close>) have them, and the database as the record of its
  tables. Row fields carry a prefix (\<open>m_\<close> for messages, \<open>wl_\<close> for wallets, and so on)
  because record fields are constants; the suffix is the column's name.

  A table is the list of its rows in insertion order. Identity columns that the code reads
  have their sequence in the database record; the identity columns of the two log tables,
  which no code reads, are left out. Every statement runs at a point of time \<open>c_now\<close>
  (\<open>now()\<close>, which PostgreSQL fixes at the start of a transaction) on a date \<open>c_today\<close>
  (\<open>CURRENT_DATE\<close>).
\<close>

type_synonym tenant = string
type_synonym time = int

record ctx =
  c_now :: time
  c_today :: string

subsection \<open>Messages\<close>

datatype message_status =
    Accepted
  | Routed
  | Submitting
  | ProviderAccepted
  | Delivered
  | Failed

fun status_str :: "message_status \<Rightarrow> string" where
  "status_str Accepted = ''accepted''"
| "status_str Routed = ''routed''"
| "status_str Submitting = ''submitting''"
| "status_str ProviderAccepted = ''provider_accepted''"
| "status_str Delivered = ''delivered''"
| "status_str Failed = ''failed''"

lemma status_str_inject [simp]: "status_str a = status_str b \<longleftrightarrow> a = b"
  by (cases a; cases b) simp_all

record composite_id =
  c_submit_date :: string
  c_tenant_id :: tenant
  c_id :: int

record message_row =
  m_id :: int
  m_submit_date :: string
  m_tenant_id :: tenant
  m_campaign_id :: "int option"
  m_api_key_id :: "string option"
  m_client_message_id :: "string option"
  m_api_idempotency_key :: "string option"
  m_source_addr :: "string option"
  m_phone_number :: string
  m_body :: string
  m_traffic_type :: string
  m_status :: message_status
  m_version :: int
  m_attempt_count :: int
  m_provider_id :: "int option"
  m_smpp_config_id :: "int option"
  m_route_rule_id :: "int option"
  m_provider_message_id :: "string option"
  m_price_minor :: int
  m_cost_minor :: int
  m_billing_state :: string
  m_message_parts :: int
  m_accepted_at :: time
  m_sent_at :: "time option"
  m_delivered_at :: "time option"
  m_failed_at :: "time option"
  m_last_error_code :: "string option"
  m_last_error_message :: "string option"
  m_body_hash :: "string option"
  m_state_changed_at :: time

text \<open>The primary key \<open>(submit_date, tenant_id, id)\<close> of the table.\<close>

definition message_key :: "message_row \<Rightarrow> string \<times> tenant \<times> int" where
  "message_key m = (m_submit_date m, m_tenant_id m, m_id m)"

definition composite_key :: "composite_id \<Rightarrow> string \<times> tenant \<times> int" where
  "composite_key c = (c_submit_date c, c_tenant_id c, c_id c)"

record message_log =
  ml_log_date :: string
  ml_tenant_id :: tenant
  ml_message_submit_date :: string
  ml_message_id :: int
  ml_event_type :: string
  ml_status_from :: "message_status option"
  ml_status_to :: "message_status option"
  ml_provider_id :: "int option"
  ml_provider_message_id :: "string option"
  ml_attempt_no :: int
  ml_payload :: json
  ml_created_at :: time

subsection \<open>Wallets and their ledger\<close>

record wallet_row =
  wl_id :: int
  wl_tenant_id :: tenant
  wl_currency :: string
  wl_available_balance_minor :: int
  wl_reserved_balance_minor :: int
  wl_credit_limit_minor :: int
  wl_low_balance_threshold_minor :: int
  wl_version :: int
  wl_updated_at :: time

datatype billing_operation = Reserve | Debit | Release

fun billing_operation_str :: "billing_operation \<Rightarrow> string" where
  "billing_operation_str Reserve = ''reserve''"
| "billing_operation_str Debit = ''debit''"
| "billing_operation_str Release = ''release''"

record transaction_row =
  tr_ledger_date :: string
  tr_id :: int
  tr_tenant_id :: tenant
  tr_wallet_id :: int
  tr_message_submit_date :: "string option"
  tr_message_id :: "int option"
  tr_campaign_id :: "int option"
  tr_provider_id :: "int option"
  tr_kind :: billing_operation
  tr_amount_minor :: int
  tr_currency :: string
  tr_balance_before_minor :: int
  tr_balance_after_minor :: int
  tr_idempotency_key :: string
  tr_metadata :: json
  tr_created_at :: time

subsection \<open>Audit log\<close>

record audit_entry =
  au_tenant_id :: "tenant option"
  au_user_id :: "string option"
  au_api_key_id :: "string option"
  au_action :: string
  au_target_type :: "string option"
  au_target_id :: "string option"
  au_source_ip :: "string option"
  au_metadata :: json

record audit_row = audit_entry +
  au_log_date :: string
  au_created_at :: time

subsection \<open>Events\<close>

text \<open>
  The protocols of a provider, and the payload of the events about one message. A field
  that may be \<open>undefined\<close> is an option; \<open>smppConfigId\<close> and \<open>routeRuleId\<close> may in
  addition be \<open>null\<close>, which the consumers treat like \<open>undefined\<close>.
\<close>

datatype protocol = Http | Smpp

record message_event =
  ev_submit_date :: string
  ev_tenant_id :: tenant
  ev_message_id :: int
  ev_version :: int
  ev_phone_number :: string
  ev_body :: string
  ev_sender_id :: string
  ev_traffic_type :: string
  ev_provider_id :: "int option"
  ev_smpp_config_id :: "int option"
  ev_route_rule_id :: "int option"
  ev_protocol :: "protocol option"
  ev_provider_message_id :: "string option"
  ev_accepted :: "bool option"
  ev_error_code :: "string option"
  ev_error_message :: "string option"
  ev_latency_ms :: "int option"
  ev_retryable :: "bool option"
  ev_uncertain :: "bool option"

text \<open>
  The payloads of the outbox: a message event, a reconciliation request about a message,
  one about a delivery receipt, and the notice that a receipt was stored.
\<close>

datatype event_payload =
    MessageEvent message_event
  | MessageReconcile tenant "int option" string int string string message_event
      \<comment> \<open>tenant, provider, submit date, message id, kind, reason, payload\<close>
  | DlrReconcile "tenant option" int string string json
      \<comment> \<open>tenant, provider, kind, reason, payload\<close>
  | DlrReceived string int int
      \<comment> \<open>received date, webhook id, provider\<close>

record outbox_input =
  oi_tenant_id :: "tenant option"
  oi_aggregate_type :: string
  oi_aggregate_id :: string
  oi_event_type :: string
  oi_topic_name :: string
  oi_partition_key :: string
  oi_dedupe_key :: string
  oi_payload :: event_payload
  oi_next_attempt_at :: "time option"

record outbox_row =
  ob_event_date :: string
  ob_id :: int
  ob_tenant_id :: "tenant option"
  ob_aggregate_type :: string
  ob_aggregate_id :: string
  ob_event_type :: string
  ob_topic_name :: string
  ob_partition_key :: string
  ob_dedupe_key :: string
  ob_payload :: event_payload
  ob_status :: string
  ob_retry_count :: int
  ob_next_attempt_at :: time
  ob_created_at :: time
  ob_processed_at :: "time option"
  ob_last_error :: "string option"

text \<open>The names of the Kafka topics (\<open>kafka-topics.ts\<close>).\<close>

datatype kafka_topic =
    SmsAccepted | SmsRouted | SmsDispatchRealtime | SmsDispatchBulk | SmsRetry | SmsDlr
  | SmsReconcile | SmsDispatchResults | SmsDlq | FraudAlerts

fun topic_name :: "kafka_topic \<Rightarrow> string" where
  "topic_name SmsAccepted = ''sms.accepted''"
| "topic_name SmsRouted = ''sms.route''"
| "topic_name SmsDispatchRealtime = ''sms.dispatch.realtime''"
| "topic_name SmsDispatchBulk = ''sms.dispatch.bulk''"
| "topic_name SmsRetry = ''sms.retry''"
| "topic_name SmsDlr = ''sms.dlr''"
| "topic_name SmsReconcile = ''sms.reconcile''"
| "topic_name SmsDispatchResults = ''sms.dispatch.results''"
| "topic_name SmsDlq = ''sms.dlq''"
| "topic_name FraudAlerts = ''fraud.alerts''"

lemma topic_name_inject [simp]: "topic_name a = topic_name b \<longleftrightarrow> a = b"
  by (cases a; cases b) simp_all

subsection \<open>Delivery receipts and reconciliation\<close>

record webhook_row =
  wh_id :: int
  wh_received_date :: string
  wh_provider_id :: int
  wh_tenant_id :: "tenant option"
  wh_provider_message_id :: "string option"
  wh_callback_id :: "string option"
  wh_headers :: json
  wh_payload :: json
  wh_normalized_status :: "string option"
  wh_processed :: bool
  wh_processing_error :: "string option"
  wh_received_at :: time
  wh_processed_at :: "time option"

datatype reconciliation_payload = FromMessage message_event | FromReceipt json

record reconciliation_row =
  rc_event_date :: string
  rc_tenant_id :: "tenant option"
  rc_provider_id :: "int option"
  rc_message_submit_date :: "string option"
  rc_message_id :: "int option"
  rc_kind :: string
  rc_reason :: string
  rc_payload :: reconciliation_payload
  rc_status :: string

subsection \<open>Prices\<close>

record pricing_rule =
  pr_id :: int
  pr_kind :: string
  pr_tenant_id :: "tenant option"
  pr_provider_id :: "int option"
  pr_country_code :: string
  pr_traffic_type :: string
  pr_parts_from :: int
  pr_parts_to :: int
  pr_unit_price_minor :: int
  pr_currency :: string
  pr_effective_from :: time
  pr_effective_to :: "time option"
  pr_is_active :: bool

subsection \<open>The database\<close>

record db =
  messages :: "message_row list"
  message_logs :: "message_log list"
  wallets :: "wallet_row list"
  transactions :: "transaction_row list"
  outbox_events :: "outbox_row list"
  audit_logs :: "audit_row list"
  dlr_webhooks :: "webhook_row list"
  reconciliation_events :: "reconciliation_row list"
  next_message_id :: int
  next_transaction_id :: int
  next_outbox_id :: int
  next_webhook_id :: int

definition empty_db :: db where
  "empty_db =
     \<lparr>messages = [], message_logs = [], wallets = [], transactions = [], outbox_events = [],
      audit_logs = [], dlr_webhooks = [], reconciliation_events = [],
      next_message_id = 1, next_transaction_id = 1, next_outbox_id = 1, next_webhook_id = 1\<rparr>"

end
