(* ===== verification/Outbox.thy ===== *)
theory Outbox
  imports Tables
begin

text \<open>
  The audit log (\<open>audit.service.ts\<close>, \<open>write\<close>) and the transactional outbox:
  \<open>outbox.service.ts\<close> (\<open>enqueue\<close>, an insert that does nothing when an event with the
  same date and dedupe key exists) and \<open>outbox-relay.service.ts\<close> (\<open>flushBatch\<close>, which
  claims a batch of due events, publishes each and records the outcome).

  The locale \<open>dedup_queue\<close> is the contract the handlers rely on: an event whose key is
  present changes nothing, a new one is appended. It is interpreted on \<open>enqueue\<close>.
\<close>

subsection \<open>The audit log\<close>

definition audit_write :: "ctx \<Rightarrow> audit_entry \<Rightarrow> db \<Rightarrow> db" where
  "audit_write c entry d =
     d\<lparr>audit_logs := audit_logs d @
        [\<lparr>au_tenant_id = au_tenant_id entry,
          au_user_id = au_user_id entry,
          au_api_key_id = au_api_key_id entry,
          au_action = au_action entry,
          au_target_type = au_target_type entry,
          au_target_id = au_target_id entry,
          au_source_ip = au_source_ip entry,
          au_metadata = au_metadata entry,
          au_log_date = c_today c,
          au_created_at = c_now c\<rparr>]\<rparr>"

lemma audit_write_frame [simp, frame]:
  "messages (audit_write c e d) = messages d"
  "message_logs (audit_write c e d) = message_logs d"
  "wallets (audit_write c e d) = wallets d"
  "transactions (audit_write c e d) = transactions d"
  "outbox_events (audit_write c e d) = outbox_events d"
  "dlr_webhooks (audit_write c e d) = dlr_webhooks d"
  "reconciliation_events (audit_write c e d) = reconciliation_events d"
  "next_message_id (audit_write c e d) = next_message_id d"
  "next_transaction_id (audit_write c e d) = next_transaction_id d"
  "next_outbox_id (audit_write c e d) = next_outbox_id d"
  "next_webhook_id (audit_write c e d) = next_webhook_id d"
  by (simp_all add: audit_write_def)

subsection \<open>Enqueueing\<close>

definition outbox_key :: "outbox_row \<Rightarrow> string \<times> string" where
  "outbox_key r = (ob_event_date r, ob_dedupe_key r)"

definition new_outbox_row :: "ctx \<Rightarrow> outbox_input \<Rightarrow> int \<Rightarrow> outbox_row" where
  "new_outbox_row c event i =
     \<lparr>ob_event_date = c_today c,
      ob_id = i,
      ob_tenant_id = oi_tenant_id event,
      ob_aggregate_type = oi_aggregate_type event,
      ob_aggregate_id = oi_aggregate_id event,
      ob_event_type = oi_event_type event,
      ob_topic_name = oi_topic_name event,
      ob_partition_key = oi_partition_key event,
      ob_dedupe_key = oi_dedupe_key event,
      ob_payload = oi_payload event,
      ob_status = ''pending'',
      ob_retry_count = 0,
      ob_next_attempt_at = coalesce (oi_next_attempt_at event) (c_now c),
      ob_created_at = c_now c,
      ob_processed_at = None,
      ob_last_error = None\<rparr>"

definition enqueue :: "ctx \<Rightarrow> outbox_input \<Rightarrow> db \<Rightarrow> db" where
  "enqueue c event d =
     (if (c_today c, oi_dedupe_key event) \<in> set (map outbox_key (outbox_events d)) then d
      else d\<lparr>outbox_events := outbox_events d @ [new_outbox_row c event (next_outbox_id d)],
             next_outbox_id := next_outbox_id d + 1\<rparr>)"

lemma enqueue_frame [simp, frame]:
  "messages (enqueue c e d) = messages d"
  "message_logs (enqueue c e d) = message_logs d"
  "wallets (enqueue c e d) = wallets d"
  "transactions (enqueue c e d) = transactions d"
  "audit_logs (enqueue c e d) = audit_logs d"
  "dlr_webhooks (enqueue c e d) = dlr_webhooks d"
  "reconciliation_events (enqueue c e d) = reconciliation_events d"
  "next_message_id (enqueue c e d) = next_message_id d"
  "next_transaction_id (enqueue c e d) = next_transaction_id d"
  "next_webhook_id (enqueue c e d) = next_webhook_id d"
  by (simp_all add: enqueue_def)

text \<open>The contract of a queue that drops an event whose key it holds already.\<close>

locale dedup_queue =
  fixes insert_event :: "'e \<Rightarrow> 'q \<Rightarrow> 'q"
    and key_of :: "'e \<Rightarrow> 'k"
    and keys :: "'q \<Rightarrow> 'k list"
  assumes insert_dup: "key_of e \<in> set (keys q) \<Longrightarrow> insert_event e q = q"
    and insert_new: "key_of e \<notin> set (keys q) \<Longrightarrow> keys (insert_event e q) = keys q @ [key_of e]"
begin

lemma keys_insert: "set (keys (insert_event e q)) = insert (key_of e) (set (keys q))"
  by (cases "key_of e \<in> set (keys q)") (auto simp: insert_dup insert_new)

lemma insert_idem: "insert_event e (insert_event e q) = insert_event e q"
  by (rule insert_dup) (simp add: keys_insert)

lemma distinct_insert: "distinct (keys q) \<Longrightarrow> distinct (keys (insert_event e q))"
  by (cases "key_of e \<in> set (keys q)") (auto simp: insert_dup insert_new)

lemma keys_fold:
  "set (keys (fold insert_event es q)) = key_of ` set es \<union> set (keys q)"
  by (induction es arbitrary: q) (auto simp: keys_insert)

lemma distinct_fold: "distinct (keys q) \<Longrightarrow> distinct (keys (fold insert_event es q))"
  by (induction es arbitrary: q) (auto simp: distinct_insert)

text \<open>
  Redelivering any part of what was already inserted changes nothing.
\<close>

lemma fold_redelivery:
  assumes "key_of ` set fs \<subseteq> set (keys q)"
  shows "fold insert_event fs q = q"
  using assms by (induction fs) (auto simp: insert_dup)

lemma fold_twice: "fold insert_event es (fold insert_event es q) = fold insert_event es q"
  by (rule fold_redelivery) (simp add: keys_fold)

end

interpretation outbox: dedup_queue
  "enqueue c"
  "\<lambda>event. (c_today c, oi_dedupe_key event)"
  "\<lambda>d. map outbox_key (outbox_events d)"
  for c
  by unfold_locales (auto simp: enqueue_def outbox_key_def new_outbox_row_def)

subsection \<open>The relay\<close>

text \<open>
  \<open>flushBatch\<close>, first half: one transaction that returns expired leases to
  \<open>pending\<close>, selects the due events in creation order up to the batch size, and
  leases them.
\<close>

definition release_expired_leases :: "ctx \<Rightarrow> outbox_row list \<Rightarrow> outbox_row list" where
  "release_expired_leases c rows =
     sql_update (\<lambda>r. ob_status r = ''publishing'' \<and> ob_next_attempt_at r \<le> c_now c)
       (\<lambda>r. r\<lparr>ob_status := ''pending''\<rparr>) rows"

definition due :: "ctx \<Rightarrow> outbox_row \<Rightarrow> bool" where
  "due c r \<longleftrightarrow> ob_status r = ''pending'' \<and> ob_next_attempt_at r \<le> c_now c"

definition select_due :: "ctx \<Rightarrow> int \<Rightarrow> outbox_row list \<Rightarrow> outbox_row list" where
  "select_due c batch_size rows =
     take (nat batch_size) (sort_key ob_created_at (filter (due c) rows))"

definition row_id :: "outbox_row \<Rightarrow> string \<times> int" where
  "row_id r = (ob_event_date r, ob_id r)"

definition lease_row :: "ctx \<Rightarrow> int \<Rightarrow> outbox_row \<Rightarrow> outbox_row" where
  "lease_row c lease_seconds r =
     r\<lparr>ob_status := ''publishing'', ob_next_attempt_at := c_now c + lease_seconds * 1000\<rparr>"

definition lease :: "ctx \<Rightarrow> int \<Rightarrow> outbox_row \<Rightarrow> outbox_row list \<Rightarrow> outbox_row list" where
  "lease c lease_seconds row rows =
     sql_update (\<lambda>r. row_id r = row_id row) (lease_row c lease_seconds) rows"

definition claim_batch :: "ctx \<Rightarrow> int \<Rightarrow> int \<Rightarrow> db \<Rightarrow> outbox_row list \<times> db" where
  "claim_batch c batch_size lease_seconds d =
     (let rows = release_expired_leases c (outbox_events d);
          selected = select_due c batch_size rows
      in (selected, d\<lparr>outbox_events := fold (lease c lease_seconds) selected rows\<rparr>))"

text \<open>
  The second half: every claimed event is published; the outcome is recorded on its row.
  \<open>publish\<close> is the call to the Kafka producer, \<open>None\<close> when it succeeds and the error's
  message when it throws.
\<close>

definition backoff_seconds :: "int \<Rightarrow> int" where
  "backoff_seconds retry_count = min 300 (max 5 ((retry_count + 1) * 5))"

definition published_row :: "ctx \<Rightarrow> outbox_row \<Rightarrow> outbox_row" where
  "published_row c r = r\<lparr>ob_status := ''published'', ob_processed_at := Some (c_now c)\<rparr>"

definition publish_failed_row :: "ctx \<Rightarrow> string \<Rightarrow> outbox_row \<Rightarrow> outbox_row" where
  "publish_failed_row c err r =
     r\<lparr>ob_status := (if ob_retry_count r + 1 \<ge> 10 then ''failed'' else ''pending''),
       ob_retry_count := ob_retry_count r + 1,
       ob_next_attempt_at := c_now c + backoff_seconds (ob_retry_count r) * 1000,
       ob_last_error := Some err\<rparr>"

definition settled_row :: "ctx \<Rightarrow> string option \<Rightarrow> outbox_row \<Rightarrow> outbox_row" where
  "settled_row c outcome r =
     (case outcome of None \<Rightarrow> published_row c r | Some err \<Rightarrow> publish_failed_row c err r)"

definition settle_event :: "ctx \<Rightarrow> (outbox_row \<Rightarrow> string option) \<Rightarrow> outbox_row \<Rightarrow> db \<Rightarrow> db" where
  "settle_event c publish row d =
     d\<lparr>outbox_events :=
        sql_update (\<lambda>r. row_id r = row_id row) (settled_row c (publish row)) (outbox_events d)\<rparr>"

definition flush_batch ::
  "ctx \<Rightarrow> ctx \<Rightarrow> int \<Rightarrow> int \<Rightarrow> (outbox_row \<Rightarrow> string option) \<Rightarrow> db \<Rightarrow> db" where
  "flush_batch c c' batch_size lease_seconds publish d =
     (let (rows, d') = claim_batch c batch_size lease_seconds d
      in fold (settle_event c' publish) rows d')"

subsection \<open>What a flush does\<close>

lemma row_id_updates [simp]:
  "row_id (lease_row c n r) = row_id r"
  "row_id (published_row c r) = row_id r"
  "row_id (publish_failed_row c err r) = row_id r"
  "row_id (settled_row c outcome r) = row_id r"
  by (simp_all add: row_id_def lease_row_def published_row_def publish_failed_row_def
      settled_row_def split: option.splits)

lemma map_row_id_release [simp]:
  "map row_id (release_expired_leases c rows) = map row_id rows"
  unfolding release_expired_leases_def by (rule map_sql_update) (simp add: row_id_def)

lemma release_expired_leases_idem [simp]:
  "release_expired_leases c (release_expired_leases c rows) = release_expired_leases c rows"
  by (induction rows) (auto simp: release_expired_leases_def)

lemma set_select_due: "set (select_due c n rows) \<subseteq> {r \<in> set rows. due c r}"
  unfolding select_due_def by (auto dest: in_set_takeD)

lemma length_select_due: "length (select_due c n rows) = min (nat n) (length (filter (due c) rows))"
  by (simp add: select_due_def min.commute)

lemma sorted_select_due: "sorted (map ob_created_at (select_due c n rows))"
  by (simp add: select_due_def sorted_wrt_take flip: take_map)

lemma distinct_select_due:
  "distinct (map row_id rows) \<Longrightarrow> distinct (map row_id (select_due c n rows))"
  unfolding select_due_def by (rule distinct_map_take_sort_filter)

lemma outbox_events_fold_settle:
  "outbox_events (fold (settle_event c publish) xs d) =
   fold (\<lambda>x. sql_update (\<lambda>r. row_id r = row_id x) (settled_row c (publish x))) xs (outbox_events d)"
  by (induction xs arbitrary: d) (simp_all add: settle_event_def)

definition flushed_row ::
  "ctx \<Rightarrow> ctx \<Rightarrow> int \<Rightarrow> (outbox_row \<Rightarrow> string option) \<Rightarrow> outbox_row list \<Rightarrow> outbox_row \<Rightarrow> outbox_row"
where
  "flushed_row c c' lease_seconds publish claimed r =
     (if r \<in> set claimed then settled_row c' (publish r) (lease_row c lease_seconds r) else r)"

lemma flush_batch_rows:
  assumes "distinct (map row_id (outbox_events d))"
  shows "outbox_events (flush_batch c c' n lease_seconds publish d) =
    (let rows = release_expired_leases c (outbox_events d)
     in map (flushed_row c c' lease_seconds publish (select_due c n rows)) rows)"
proof -
  define rows where "rows = release_expired_leases c (outbox_events d)"
  define sel where "sel = select_due c n rows"
  have dist: "distinct (map row_id rows)" using assms by (simp add: rows_def)
  have dsel: "distinct (map row_id sel)" unfolding sel_def using dist by (rule distinct_select_due)
  have sub: "set sel \<subseteq> set rows" using set_select_due by (auto simp: sel_def)
  have leased: "fold (lease c lease_seconds) sel rows =
      map (\<lambda>r. case find (\<lambda>x. row_id x = row_id r) sel of None \<Rightarrow> r
                 | Some x \<Rightarrow> lease_row c lease_seconds r) rows"
    using fold_sql_update [OF _ dsel, of "\<lambda>_. lease_row c lease_seconds" rows]
    by (simp add: lease_def [abs_def])
  have "outbox_events (flush_batch c c' n lease_seconds publish d) =
      map (\<lambda>r. case find (\<lambda>x. row_id x = row_id r) sel of None \<Rightarrow> r
                 | Some x \<Rightarrow> settled_row c' (publish x) r) (fold (lease c lease_seconds) sel rows)"
    using fold_sql_update [OF _ dsel, of "\<lambda>x. settled_row c' (publish x)"]
    by (simp add: flush_batch_def claim_batch_def outbox_events_fold_settle rows_def sel_def Let_def)
  also have "\<dots> = map (flushed_row c c' lease_seconds publish sel) rows"
    unfolding leased using find_key_in [OF dist sub]
    by (auto simp: flushed_row_def)
  finally show ?thesis by (simp add: rows_def sel_def Let_def)
qed

text \<open>The well-formed outbox: unique identifiers below the sequence, and a retry counter
  that reaches ten exactly when the event has failed for good.\<close>

definition relay_ok :: "outbox_row \<Rightarrow> bool" where
  "relay_ok r \<longleftrightarrow>
     0 \<le> ob_retry_count r \<and> ob_retry_count r \<le> 10 \<and>
     (ob_status r = ''failed'' \<longleftrightarrow> ob_retry_count r = 10) \<and>
     ob_status r \<in> {''pending'', ''publishing'', ''published'', ''failed''}"

definition outbox_wf :: "db \<Rightarrow> bool" where
  "outbox_wf d \<longleftrightarrow>
     distinct (map row_id (outbox_events d)) \<and>
     distinct (map outbox_key (outbox_events d)) \<and>
     (\<forall>r \<in> set (outbox_events d). relay_ok r \<and> ob_id r < next_outbox_id d)"

lemma outbox_wf_empty: "outbox_wf empty_db"
  by (simp add: outbox_wf_def empty_db_def)

lemma enqueue_wf: "outbox_wf d \<Longrightarrow> outbox_wf (enqueue c event d)"
  using outbox.distinct_insert [of d c event]
  by (auto simp: outbox_wf_def enqueue_def relay_ok_def new_outbox_row_def row_id_def)

lemma relay_ok_due_settled:
  assumes "relay_ok r" and "due c r"
  shows "relay_ok (settled_row c' outcome (lease_row c lease_seconds r))"
  using assms
  by (auto simp: relay_ok_def due_def settled_row_def lease_row_def published_row_def
      publish_failed_row_def split: option.splits)

lemma outbox_key_flushed [simp]:
  "outbox_key (flushed_row c c' n publish claimed r) = outbox_key r"
  "row_id (flushed_row c c' n publish claimed r) = row_id r"
  "ob_id (flushed_row c c' n publish claimed r) = ob_id r"
  by (auto simp: flushed_row_def settled_row_def published_row_def publish_failed_row_def
      lease_row_def outbox_key_def row_id_def split: option.splits)

lemma release_set:
  "r \<in> set (release_expired_leases c rows) \<Longrightarrow>
   \<exists>r0 \<in> set rows. r = r0 \<or> (ob_status r0 = ''publishing'' \<and> r = r0\<lparr>ob_status := ''pending''\<rparr>)"
  by (auto simp: release_expired_leases_def set_sql_update)

lemma map_outbox_key_release [simp]:
  "map outbox_key (release_expired_leases c rows) = map outbox_key rows"
  unfolding release_expired_leases_def by (rule map_sql_update) (simp add: outbox_key_def)

lemma next_outbox_id_flush [simp]: "next_outbox_id (flush_batch c c' n l publish d) = next_outbox_id d"
proof -
  have "next_outbox_id (fold (settle_event c' publish) xs e) = next_outbox_id e" for xs e
    by (induction xs arbitrary: e) (simp_all add: settle_event_def)
  then show ?thesis by (simp add: flush_batch_def claim_batch_def Let_def)
qed

lemma flush_batch_wf_aux:
  assumes "outbox_wf d"
  shows "outbox_wf (flush_batch c c' n lease_seconds publish d)"
proof -
  define rows where "rows = release_expired_leases c (outbox_events d)"
  have ev: "outbox_events (flush_batch c c' n lease_seconds publish d) =
      map (flushed_row c c' lease_seconds publish (select_due c n rows)) rows"
    using assms flush_batch_rows [of d c c' n lease_seconds publish]
    by (simp add: outbox_wf_def rows_def Let_def)
  have ok: "relay_ok r \<and> ob_id r < next_outbox_id d" if "r \<in> set rows" for r
    using release_set [OF that [unfolded rows_def]] assms
    by (auto simp: outbox_wf_def relay_ok_def)
  have "relay_ok (flushed_row c c' lease_seconds publish (select_due c n rows) r)"
    if "r \<in> set rows" for r
    using ok [OF that] set_select_due [of c n rows] relay_ok_due_settled
    by (auto simp: flushed_row_def)
  moreover have "map row_id (outbox_events (flush_batch c c' n lease_seconds publish d)) =
      map row_id (outbox_events d)"
    by (simp add: ev comp_def) (simp add: rows_def)
  moreover have "map outbox_key (outbox_events (flush_batch c c' n lease_seconds publish d)) =
      map outbox_key (outbox_events d)"
    by (simp add: ev comp_def) (simp add: rows_def)
  ultimately show ?thesis
    using assms ok by (auto simp: outbox_wf_def) (auto simp: ev)
qed


text \<open>A concrete outbox, for the witnesses.\<close>

definition ex_ctx :: ctx where
  "ex_ctx = \<lparr>c_now = 1763500000000, c_today = ''2025-11-18''\<rparr>"

definition ex_later :: ctx where
  "ex_later = \<lparr>c_now = 1763500060000, c_today = ''2025-11-18''\<rparr>"

definition ex_receipt :: "int \<Rightarrow> outbox_input" where
  "ex_receipt i =
     \<lparr>oi_tenant_id = None, oi_aggregate_type = ''dlr_webhook'',
      oi_aggregate_id = ''2025-11-18:'' @ int_str i, oi_event_type = ''dlr.received'',
      oi_topic_name = topic_name SmsDlr, oi_partition_key = ''3'',
      oi_dedupe_key = ''dlr:2025-11-18:'' @ int_str i,
      oi_payload = DlrReceived ''2025-11-18'' i 3, oi_next_attempt_at = None\<rparr>"

definition ex_outbox :: db where
  "ex_outbox = enqueue ex_ctx (ex_receipt 2) (enqueue ex_ctx (ex_receipt 1) empty_db)"

lemma ex_outbox_wf: "outbox_wf ex_outbox"
  by (simp add: ex_outbox_def enqueue_wf outbox_wf_empty)


subsection \<open>The relay drains the backlog\<close>

definition backlog :: "ctx \<Rightarrow> db \<Rightarrow> nat" where
  "backlog c d = length (filter (due c) (release_expired_leases c (outbox_events d)))"

lemma length_filter_member:
  assumes "distinct (map key rs)" and "distinct (map key xs)" and "set xs \<subseteq> set rs"
  shows "length (filter (\<lambda>r. r \<in> set xs) rs) = length xs"
proof -
  have "distinct rs" "distinct xs" using assms by (auto simp: distinct_map)
  then have "length (filter (\<lambda>r. r \<in> set xs) rs) = card (set (filter (\<lambda>r. r \<in> set xs) rs))"
    by (metis distinct_card distinct_filter)
  also have "set (filter (\<lambda>r. r \<in> set xs) rs) = set xs" using assms(3) by auto
  also have "card (set xs) = length xs" using \<open>distinct xs\<close> by (rule distinct_card)
  finally show ?thesis .
qed

lemma backlog_flush:
  assumes "distinct (map row_id (outbox_events d))"
  shows "backlog c (flush_batch c c' n lease_seconds (\<lambda>_. None) d) = backlog c d - nat n"
proof -
  define rows where "rows = release_expired_leases c (outbox_events d)"
  define sel where "sel = select_due c n rows"
  define F where "F = flushed_row c c' lease_seconds (\<lambda>_. None) sel"
  have dist: "distinct (map row_id rows)" using assms by (simp add: rows_def)
  have sub: "set sel \<subseteq> {r \<in> set rows. due c r}" unfolding sel_def by (rule set_select_due)
  have stale: "\<not> (ob_status r = ''publishing'' \<and> ob_next_attempt_at r \<le> c_now c)"
    if "r \<in> set rows" for r
    using that by (auto simp: rows_def release_expired_leases_def set_sql_update)
  have F: "F r = (if r \<in> set sel then published_row c' (lease_row c lease_seconds r) else r)" for r
    by (simp add: F_def flushed_row_def settled_row_def)
  have "release_expired_leases c (map F rows) = map F rows"
    unfolding release_expired_leases_def using stale
    by (intro sql_update_skip) (auto simp: F published_row_def)
  moreover have "outbox_events (flush_batch c c' n lease_seconds (\<lambda>_. None) d) = map F rows"
    using flush_batch_rows [OF assms] by (simp add: Let_def F_def sel_def rows_def)
  ultimately have "backlog c (flush_batch c c' n lease_seconds (\<lambda>_. None) d) =
      length (filter (due c \<circ> F) rows)"
    by (simp add: backlog_def filter_map)
  also have "filter (due c \<circ> F) rows = filter (\<lambda>r. r \<notin> set sel) (filter (due c) rows)"
    by (auto simp: F due_def published_row_def intro!: filter_cong split: if_splits)
  also have "length \<dots> = length (filter (due c) rows) - length (filter (\<lambda>r. r \<in> set sel) (filter (due c) rows))"
    using sum_length_filter_compl [of "\<lambda>r. r \<in> set sel" "filter (due c) rows"] by simp
  also have "length (filter (\<lambda>r. r \<in> set sel) (filter (due c) rows)) = length sel"
    using dist distinct_select_due [OF dist] sub
    by (intro length_filter_member [where key = row_id])
      (auto simp: sel_def intro: distinct_map_filter)
  finally show ?thesis
    by (simp add: backlog_def rows_def sel_def length_select_due)
qed

text \<open>C21: while the broker accepts every publication, each flush takes a full batch off the
  backlog of due events, so a backlog of \<open>k\<close> events is empty after \<open>m\<close> flushes as soon
  as \<open>m * batch_size\<close> reaches \<open>k\<close>.\<close>

theorem relay_drains_backlog:
  assumes "outbox_wf d"
  shows "backlog c ((flush_batch c c' n lease_seconds (\<lambda>_. None) ^^ m) d) = backlog c d - m * nat n"
proof (induction m)
  case 0
  then show ?case by simp
next
  case (Suc m)
  have "outbox_wf ((flush_batch c c' n lease_seconds (\<lambda>_. None) ^^ m) d)"
    using assms by (induction m) (auto intro: flush_batch_wf_aux)
  then show ?case
    using Suc by (simp add: backlog_flush outbox_wf_def)
qed

lemma backlog_ex_outbox: "backlog ex_later ex_outbox = 2"
  by (simp add: backlog_def release_expired_leases_def due_def ex_outbox_def enqueue_def
      ex_receipt_def ex_ctx_def ex_later_def empty_db_def outbox_key_def new_outbox_row_def)

theorem relay_drains_backlog_witness:
  "backlog ex_later ex_outbox = 2 \<and>
   backlog ex_later ((flush_batch ex_later ex_later 1 30 (\<lambda>_. None) ^^ 2) ex_outbox) = 0"
  using relay_drains_backlog [OF ex_outbox_wf, where c = ex_later and c' = ex_later and n = 1 and lease_seconds = 30 and m = 2]
  by (simp add: backlog_ex_outbox)

text \<open>A failed publication is retried after at least five and at most fifty seconds: the
  cap of 300 seconds in the query is never reached, because the tenth failure is final.\<close>

theorem backoff_bounds:
  assumes "relay_ok r" and "due c r"
  shows "5 \<le> backoff_seconds (ob_retry_count r) \<and> backoff_seconds (ob_retry_count r) \<le> 50"
  using assms by (auto simp: relay_ok_def due_def backoff_seconds_def)

theorem backoff_bounds_witness:
  "5 \<le> backoff_seconds (ob_retry_count (new_outbox_row ex_ctx (ex_receipt 1) 1)) \<and>
   backoff_seconds (ob_retry_count (new_outbox_row ex_ctx (ex_receipt 1) 1)) \<le> 50"
  by (rule backoff_bounds [where c = ex_ctx])
    (simp_all add: relay_ok_def due_def new_outbox_row_def ex_receipt_def ex_ctx_def)

end
