(* ===== verification/Wallet.thy ===== *)
theory Wallet
  imports Outbox
begin

text \<open>
  The wallet ledger of \<open>messages.service.ts\<close>: \<open>ledgerExists\<close>, \<open>applyWalletLedger\<close> and
  its three operations \<open>reserveWallet\<close>, \<open>debitReservedWallet\<close>,
  \<open>releaseReservedWallet\<close>. An operation runs inside a transaction: it throws, or returns
  whether it was applied together with the new database.

  The locale \<open>ledger\<close> is the contract the message pipeline relies on: a posting under a
  key that was posted before, or of no positive amount, changes nothing; any other either
  throws or moves the amount between the balances and records the key. Conservation of
  money, the credit limit, idempotence and the effect of whole sequences of postings are
  proved once inside it. The interpretation \<open>wallet\<close> discharges the contract for
  \<open>apply_wallet_ledger\<close>.
\<close>

subsection \<open>The operations\<close>

definition ledger_exists :: "tenant \<Rightarrow> string \<Rightarrow> db \<Rightarrow> bool" where
  "ledger_exists tenant key d \<longleftrightarrow>
     (\<exists>t \<in> set (transactions d). tr_tenant_id t = tenant \<and> tr_idempotency_key t = key)"

text \<open>The balances after an operation (the three \<open>if\<close> blocks of the method).\<close>

definition ledger_balances :: "wallet_row \<Rightarrow> int \<Rightarrow> billing_operation \<Rightarrow> (int \<times> int) result" where
  "ledger_balances wallet amount operation =
     (case operation of
        Reserve \<Rightarrow>
          if wl_available_balance_minor wallet + wl_credit_limit_minor wallet < amount
          then Inl (ForbiddenException ''Insufficient wallet balance'')
          else Inr (wl_available_balance_minor wallet - amount,
                    wl_reserved_balance_minor wallet + amount)
      | Debit \<Rightarrow>
          if wl_reserved_balance_minor wallet < amount
          then Inl (ConflictException ''Reserved wallet balance is insufficient for debit'')
          else Inr (wl_available_balance_minor wallet,
                    wl_reserved_balance_minor wallet - amount)
      | Release \<Rightarrow>
          if wl_reserved_balance_minor wallet < amount
          then Inl (ConflictException ''Reserved wallet balance is insufficient for release'')
          else Inr (wl_available_balance_minor wallet + amount,
                    wl_reserved_balance_minor wallet - amount))"

definition message_ref_json :: "composite_id \<Rightarrow> json" where
  "message_ref_json ref =
     jobj [(''submitDate'', Some (JStr (c_submit_date ref))),
           (''tenantId'', Some (JStr (c_tenant_id ref))),
           (''id'', Some (jint (c_id ref)))]"

definition apply_wallet_ledger ::
  "ctx \<Rightarrow> tenant \<Rightarrow> int \<Rightarrow> billing_operation \<Rightarrow> string \<Rightarrow> composite_id \<Rightarrow> (db, bool) tx"
where
  "apply_wallet_ledger c tenant amount operation key ref d =
     (if amount \<le> 0 then Inr (False, d)
      else if ledger_exists tenant key d then Inr (False, d)
      else
        (case first_row (filter (\<lambda>w. wl_tenant_id w = tenant) (wallets d)) of
           None \<Rightarrow> Inl (NotFoundException ''Wallet not found'')
         | Some wallet \<Rightarrow>
             and_then (ledger_balances wallet amount operation) (\<lambda>(available_after, reserved_after).
               let balance_before =
                     (if operation = Reserve then wl_available_balance_minor wallet
                      else wl_reserved_balance_minor wallet);
                   balance_after =
                     (if operation = Reserve then available_after else reserved_after);
                   entry =
                     \<lparr>tr_ledger_date = c_today c,
                      tr_id = next_transaction_id d,
                      tr_tenant_id = tenant,
                      tr_wallet_id = wl_id wallet,
                      tr_message_submit_date = Some (c_submit_date ref),
                      tr_message_id = Some (c_id ref),
                      tr_campaign_id = None,
                      tr_provider_id = None,
                      tr_kind = operation,
                      tr_amount_minor = amount,
                      tr_currency = wl_currency wallet,
                      tr_balance_before_minor = balance_before,
                      tr_balance_after_minor = balance_after,
                      tr_idempotency_key = key,
                      tr_metadata =
                        jobj [(''messageRef'', Some (message_ref_json ref)),
                              (''operation'', Some (JStr (billing_operation_str operation)))],
                      tr_created_at = c_now c\<rparr>;
                   d1 = d\<lparr>wallets :=
                          sql_update (\<lambda>w. wl_tenant_id w = tenant)
                            (\<lambda>w. w\<lparr>wl_available_balance_minor := available_after,
                                   wl_reserved_balance_minor := reserved_after,
                                   wl_version := wl_version w + 1,
                                   wl_updated_at := c_now c\<rparr>)
                            (wallets d),
                         transactions := transactions d @ [entry],
                         next_transaction_id := next_transaction_id d + 1\<rparr>;
                   d2 = audit_write c
                          \<lparr>au_tenant_id = Some tenant,
                           au_user_id = None,
                           au_api_key_id = None,
                           au_action = ''wallet.'' @ billing_operation_str operation,
                           au_target_type = Some ''wallet'',
                           au_target_id = Some (int_str (wl_id wallet)),
                           au_source_ip = None,
                           au_metadata =
                             jobj [(''amountMinor'', Some (jint amount)),
                                   (''currency'', Some (JStr (wl_currency wallet))),
                                   (''messageRef'', Some (message_ref_json ref)),
                                   (''idempotencyKey'', Some (JStr key))]\<rparr> d1
               in Inr (True, d2))))"

definition reserve_wallet :: "ctx \<Rightarrow> tenant \<Rightarrow> int \<Rightarrow> string \<Rightarrow> composite_id \<Rightarrow> (db, bool) tx" where
  "reserve_wallet c tenant amount key ref = apply_wallet_ledger c tenant amount Reserve key ref"

definition debit_reserved_wallet ::
  "ctx \<Rightarrow> tenant \<Rightarrow> int \<Rightarrow> string \<Rightarrow> composite_id \<Rightarrow> (db, bool) tx" where
  "debit_reserved_wallet c tenant amount key ref = apply_wallet_ledger c tenant amount Debit key ref"

definition release_reserved_wallet ::
  "ctx \<Rightarrow> tenant \<Rightarrow> int \<Rightarrow> string \<Rightarrow> composite_id \<Rightarrow> (db, bool) tx" where
  "release_reserved_wallet c tenant amount key ref = apply_wallet_ledger c tenant amount Release key ref"

lemmas wallet_ops_defs = reserve_wallet_def debit_reserved_wallet_def release_reserved_wallet_def

subsection \<open>The contract of a ledger\<close>

text \<open>An account is an available and a reserved balance; the credit line is its parameter.\<close>

fun account_refuses :: "billing_operation \<Rightarrow> int \<Rightarrow> int \<Rightarrow> int \<times> int \<Rightarrow> bool" where
  "account_refuses Reserve credit amount (available, reserved) \<longleftrightarrow> available + credit < amount"
| "account_refuses Debit credit amount (available, reserved) \<longleftrightarrow> reserved < amount"
| "account_refuses Release credit amount (available, reserved) \<longleftrightarrow> reserved < amount"

fun account_effect :: "billing_operation \<Rightarrow> int \<Rightarrow> int \<times> int \<Rightarrow> int \<times> int" where
  "account_effect Reserve amount (available, reserved) = (available - amount, reserved + amount)"
| "account_effect Debit amount (available, reserved) = (available, reserved - amount)"
| "account_effect Release amount (available, reserved) = (available + amount, reserved - amount)"

locale ledger =
  fixes post :: "billing_operation \<Rightarrow> int \<Rightarrow> 'k \<Rightarrow> ('s, bool) tx"
    and ok :: "'s \<Rightarrow> bool"
    and balances :: "'s \<Rightarrow> int \<times> int"
    and credit :: "'s \<Rightarrow> int"
    and posted :: "'s \<Rightarrow> 'k set"
    and total :: "billing_operation \<Rightarrow> 's \<Rightarrow> int"
  assumes post_void:
      "ok s \<Longrightarrow> amount \<le> 0 \<or> key \<in> posted s \<Longrightarrow> post op amount key s = Inr (False, s)"
    and post_refused:
      "ok s \<Longrightarrow> 0 < amount \<Longrightarrow> key \<notin> posted s \<Longrightarrow>
        account_refuses op (credit s) amount (balances s) \<Longrightarrow> \<exists>e. post op amount key s = Inl e"
    and post_applied:
      "ok s \<Longrightarrow> 0 < amount \<Longrightarrow> key \<notin> posted s \<Longrightarrow>
        \<not> account_refuses op (credit s) amount (balances s) \<Longrightarrow>
        \<exists>s'. post op amount key s = Inr (True, s') \<and> ok s' \<and>
             balances s' = account_effect op amount (balances s) \<and>
             credit s' = credit s \<and> posted s' = insert key (posted s) \<and>
             (\<forall>k. total k s' = total k s + (if k = op then amount else 0))"
begin

text \<open>Every posting falls under exactly one of the three laws.\<close>

lemma post_cases:
  assumes "ok s"
  obtains (void) "amount \<le> 0 \<or> key \<in> posted s" "post op amount key s = Inr (False, s)"
  | (refused) e where "0 < amount" "key \<notin> posted s"
      "account_refuses op (credit s) amount (balances s)" "post op amount key s = Inl e"
  | (applied) s' where "0 < amount" "key \<notin> posted s"
      "\<not> account_refuses op (credit s) amount (balances s)"
      "post op amount key s = Inr (True, s')" "ok s'"
      "balances s' = account_effect op amount (balances s)" "credit s' = credit s"
      "posted s' = insert key (posted s)"
      "\<And>k. total k s' = total k s + (if k = op then amount else 0)"
proof (cases "amount \<le> 0 \<or> key \<in> posted s")
  case True
  with assms show ?thesis by (blast intro: void post_void)
next
  case False
  then have *: "0 < amount" "key \<notin> posted s" by auto
  show ?thesis
  proof (cases "account_refuses op (credit s) amount (balances s)")
    case True
    with assms * post_refused show ?thesis by (blast intro: refused)
  next
    case False
    from post_applied [OF assms * False] show ?thesis
      using * False by (blast intro: applied)
  qed
qed

text \<open>A posting inside a transaction: an exception leaves the state as it was.\<close>

definition after_post :: "billing_operation \<Rightarrow> int \<Rightarrow> 'k \<Rightarrow> 's \<Rightarrow> 's" where
  "after_post op amount key s = snd (with_transaction (post op amount key) s)"

lemma ok_after: "ok s \<Longrightarrow> ok (after_post op amount key s)"
  by (rule post_cases [of s amount key op]) (simp_all add: after_post_def with_transaction_def)

lemma post_twice:
  assumes "ok s" and "post op amount key s = Inr (b, s')"
  shows "post op' amount' key s' = Inr (False, s') \<or> s' = s \<and> amount \<le> 0"
  using assms(1)
proof (cases rule: post_cases [where amount = amount and key = key and op = op])
  case void
  with assms show ?thesis using post_void [of s amount' key op'] by auto
next
  case (refused e)
  with assms show ?thesis by simp
next
  case (applied s'')
  with assms show ?thesis using post_void [of s' amount' key op'] by auto
qed

definition solvent :: "'s \<Rightarrow> bool" where
  "solvent s \<longleftrightarrow> 0 \<le> fst (balances s) + credit s \<and> 0 \<le> snd (balances s)"

lemma solvent_after:
  assumes "ok s" and "solvent s"
  shows "solvent (after_post op amount key s)"
  using assms(1)
proof (cases rule: post_cases [where amount = amount and key = key and op = op])
  case (applied s')
  with assms(2) show ?thesis
    by (cases op; cases "balances s") (auto simp: after_post_def solvent_def)
qed (simp_all add: after_post_def with_transaction_def assms)

text \<open>
  What the ledger records explains the balances: the available balance moves by the
  reservations and releases, the reserved one by all three kinds, and the sum of both
  with the debits never moves.
\<close>

definition explained :: "int \<times> int \<Rightarrow> 's \<Rightarrow> bool" where
  "explained opening s \<longleftrightarrow>
     fst (balances s) = fst opening - total Reserve s + total Release s \<and>
     snd (balances s) = snd opening + total Reserve s - total Debit s - total Release s"

lemma explained_after:
  assumes "ok s" and "explained opening s"
  shows "explained opening (after_post op amount key s)"
  using assms(1)
proof (cases rule: post_cases [where amount = amount and key = key and op = op])
  case (applied s')
  with assms(2) show ?thesis
    by (cases op; cases "balances s") (auto simp: after_post_def explained_def)
qed (simp_all add: after_post_def with_transaction_def assms)

fun after_posts :: "(billing_operation \<times> int \<times> 'k) list \<Rightarrow> 's \<Rightarrow> 's" where
  "after_posts [] s = s"
| "after_posts ((op, amount, key) # ps) s = after_posts ps (after_post op amount key s)"

lemma after_posts_inv:
  assumes "ok s" and "solvent s" and "explained opening s"
  shows "ok (after_posts ps s) \<and> solvent (after_posts ps s) \<and> explained opening (after_posts ps s)"
  using assms
  by (induction ps s rule: after_posts.induct)
    (auto simp: ok_after solvent_after explained_after)

lemma conservation:
  assumes "explained opening s"
  shows "fst (balances s) + snd (balances s) + total Debit s = fst opening + snd opening"
  using assms by (simp add: explained_def)

end

subsection \<open>The wallet of a tenant keeps the contract\<close>

definition wallet_of :: "tenant \<Rightarrow> db \<Rightarrow> wallet_row option" where
  "wallet_of tenant d = first_row (filter (\<lambda>w. wl_tenant_id w = tenant) (wallets d))"

text \<open>The unique constraint on \<open>wallets.tenant_id\<close>.\<close>

definition has_wallet :: "tenant \<Rightarrow> db \<Rightarrow> bool" where
  "has_wallet tenant d \<longleftrightarrow> length (filter (\<lambda>w. wl_tenant_id w = tenant) (wallets d)) = 1"

definition wallet_balances :: "tenant \<Rightarrow> db \<Rightarrow> int \<times> int" where
  "wallet_balances tenant d =
     (case wallet_of tenant d of None \<Rightarrow> (0, 0)
      | Some w \<Rightarrow> (wl_available_balance_minor w, wl_reserved_balance_minor w))"

definition wallet_credit :: "tenant \<Rightarrow> db \<Rightarrow> int" where
  "wallet_credit tenant d =
     (case wallet_of tenant d of None \<Rightarrow> 0 | Some w \<Rightarrow> wl_credit_limit_minor w)"

definition posted_keys :: "tenant \<Rightarrow> db \<Rightarrow> string set" where
  "posted_keys tenant d =
     tr_idempotency_key ` {t \<in> set (transactions d). tr_tenant_id t = tenant}"

definition ledger_total :: "tenant \<Rightarrow> billing_operation \<Rightarrow> db \<Rightarrow> int" where
  "ledger_total tenant k d =
     sum_list (map tr_amount_minor
       (filter (\<lambda>t. tr_tenant_id t = tenant \<and> tr_kind t = k) (transactions d)))"

lemma ledger_exists_posted: "ledger_exists tenant key d \<longleftrightarrow> key \<in> posted_keys tenant d"
  by (auto simp: ledger_exists_def posted_keys_def)

lemma has_walletE:
  assumes "has_wallet tenant d"
  obtains w where "filter (\<lambda>w. wl_tenant_id w = tenant) (wallets d) = [w]" "wallet_of tenant d = Some w"
  using assms by (auto simp: has_wallet_def wallet_of_def length_Suc_conv)

lemma filter_sql_update_same:
  "(\<And>r. cond r \<Longrightarrow> cond (f r)) \<Longrightarrow> filter cond (sql_update cond f rs) = map f (filter cond rs)"
  by (induction rs) auto

lemma filter_sql_update_other:
  "(\<And>r. cond r \<Longrightarrow> \<not> P r \<and> \<not> P (f r)) \<Longrightarrow> filter P (sql_update cond f rs) = filter P rs"
  by (induction rs) auto

lemma posted_keys_append:
  "transactions d' = transactions d @ [e] \<Longrightarrow>
   posted_keys tenant d' =
     (if tr_tenant_id e = tenant then insert (tr_idempotency_key e) (posted_keys tenant d)
      else posted_keys tenant d)"
  by (auto simp: posted_keys_def image_iff)

lemma ledger_total_append:
  "transactions d' = transactions d @ [e] \<Longrightarrow>
   ledger_total tenant k d' = ledger_total tenant k d +
     (if tr_tenant_id e = tenant \<and> tr_kind e = k then tr_amount_minor e else 0)"
  by (simp add: ledger_total_def)

text \<open>
  The four outcomes of the operation on a database with a wallet for the tenant, in the
  terms of the contract.
\<close>

lemma ledger_balances_account:
  "ledger_balances w amount op =
     (if account_refuses op (wl_credit_limit_minor w) amount
           (wl_available_balance_minor w, wl_reserved_balance_minor w)
      then Inl (case op of
          Reserve \<Rightarrow> ForbiddenException ''Insufficient wallet balance''
        | Debit \<Rightarrow> ConflictException ''Reserved wallet balance is insufficient for debit''
        | Release \<Rightarrow> ConflictException ''Reserved wallet balance is insufficient for release'')
      else Inr (account_effect op amount (wl_available_balance_minor w, wl_reserved_balance_minor w)))"
  by (cases op) (simp_all add: ledger_balances_def)

lemma apply_wallet_ledger_void:
  "amount \<le> 0 \<or> key \<in> posted_keys tenant d \<Longrightarrow>
   apply_wallet_ledger c tenant amount op key ref d = Inr (False, d)"
  by (auto simp: apply_wallet_ledger_def ledger_exists_posted)

lemma apply_wallet_ledger_refused:
  assumes "has_wallet tenant d" and "0 < amount" and "key \<notin> posted_keys tenant d"
    and "account_refuses op (wallet_credit tenant d) amount (wallet_balances tenant d)"
  shows "\<exists>e. apply_wallet_ledger c tenant amount op key ref d = Inl e"
  using assms
  by (elim has_walletE)
    (auto simp: apply_wallet_ledger_def ledger_exists_posted ledger_balances_account
      wallet_credit_def wallet_balances_def)

text \<open>An applied posting appends one entry, which names the message it is for.\<close>

lemma apply_wallet_ledger_entry:
  assumes "has_wallet tenant d" and "0 < amount" and "key \<notin> posted_keys tenant d"
    and "\<not> account_refuses op (wallet_credit tenant d) amount (wallet_balances tenant d)"
  obtains d' e w av rs where "apply_wallet_ledger c tenant amount op key ref d = Inr (True, d')"
    "wallet_of tenant d = Some w"
    "account_effect op amount (wallet_balances tenant d) = (av, rs)"
    "wallets d' = sql_update (\<lambda>w. wl_tenant_id w = tenant)
      (\<lambda>w. w\<lparr>wl_available_balance_minor := av, wl_reserved_balance_minor := rs,
             wl_version := wl_version w + 1, wl_updated_at := c_now c\<rparr>) (wallets d)"
    "transactions d' = transactions d @ [e]"
    "tr_tenant_id e = tenant" "tr_kind e = op" "tr_amount_minor e = amount"
    "tr_idempotency_key e = key" "tr_message_submit_date e = Some (c_submit_date ref)"
    "tr_message_id e = Some (c_id ref)"
proof -
  from assms(1) obtain w where w: "filter (\<lambda>w. wl_tenant_id w = tenant) (wallets d) = [w]"
    "wallet_of tenant d = Some w" by (rule has_walletE)
  obtain av rs where eff: "account_effect op amount
      (wl_available_balance_minor w, wl_reserved_balance_minor w) = (av, rs)"
    by fastforce
  with assms(4) w(2) have "ledger_balances w amount op = Inr (av, rs)"
    by (simp add: ledger_balances_account wallet_credit_def wallet_balances_def)
  with assms w eff that show thesis
    by (simp add: apply_wallet_ledger_def ledger_exists_posted Let_def wallet_of_def
        wallet_balances_def)
qed

lemma apply_wallet_ledger_applied:
  assumes "has_wallet tenant d" and "0 < amount" and "key \<notin> posted_keys tenant d"
    and "\<not> account_refuses op (wallet_credit tenant d) amount (wallet_balances tenant d)"
  shows "\<exists>d'. apply_wallet_ledger c tenant amount op key ref d = Inr (True, d') \<and>
    has_wallet tenant d' \<and>
    wallet_balances tenant d' = account_effect op amount (wallet_balances tenant d) \<and>
    wallet_credit tenant d' = wallet_credit tenant d \<and>
    posted_keys tenant d' = insert key (posted_keys tenant d) \<and>
    (\<forall>k. ledger_total tenant k d' = ledger_total tenant k d + (if k = op then amount else 0))"
proof -
  obtain d' e w av rs where
    post: "apply_wallet_ledger c tenant amount op key ref d = Inr (True, d')"
    and wo: "wallet_of tenant d = Some w"
    and eff: "account_effect op amount (wallet_balances tenant d) = (av, rs)"
    and wl: "wallets d' = sql_update (\<lambda>w. wl_tenant_id w = tenant)
      (\<lambda>w. w\<lparr>wl_available_balance_minor := av, wl_reserved_balance_minor := rs,
             wl_version := wl_version w + 1, wl_updated_at := c_now c\<rparr>) (wallets d)"
    and tr: "transactions d' = transactions d @ [e]"
    and e: "tr_tenant_id e = tenant" "tr_kind e = op" "tr_amount_minor e = amount"
      "tr_idempotency_key e = key"
    by (rule apply_wallet_ledger_entry [OF assms, of c ref]) (rule that)
  from assms(1) wo have w: "filter (\<lambda>w. wl_tenant_id w = tenant) (wallets d) = [w]"
    by (auto elim: has_walletE)
  have "wallet_of tenant d' = Some (w\<lparr>wl_available_balance_minor := av,
      wl_reserved_balance_minor := rs, wl_version := wl_version w + 1, wl_updated_at := c_now c\<rparr>)"
    "has_wallet tenant d'"
    using w by (simp_all add: wallet_of_def has_wallet_def wl filter_sql_update_same)
  then show ?thesis
    using post wo eff e
    by (auto simp: posted_keys_append [OF tr] ledger_total_append [OF tr]
        wallet_balances_def wallet_credit_def)
qed

interpretation wallet: ledger
  "\<lambda>op amount key. apply_wallet_ledger c tenant amount op key ref"
  "has_wallet tenant"
  "wallet_balances tenant"
  "wallet_credit tenant"
  "posted_keys tenant"
  "ledger_total tenant"
  for c tenant ref
  by unfold_locales
    (simp_all add: apply_wallet_ledger_void apply_wallet_ledger_refused apply_wallet_ledger_applied)

text \<open>What a posting leaves alone.\<close>

lemma apply_wallet_ledger_frame:
  assumes "apply_wallet_ledger c tenant amount op key ref d = Inr (b, d')"
  shows "messages d' = messages d" "message_logs d' = message_logs d"
    "outbox_events d' = outbox_events d" "dlr_webhooks d' = dlr_webhooks d"
    "reconciliation_events d' = reconciliation_events d"
    "next_message_id d' = next_message_id d" "next_outbox_id d' = next_outbox_id d"
    "next_webhook_id d' = next_webhook_id d"
    "map wl_tenant_id (wallets d') = map wl_tenant_id (wallets d)"
  using assms
  by (auto simp: apply_wallet_ledger_def Let_def and_then_eq_Inr map_sql_update
      split: if_splits option.splits prod.splits)

lemma apply_wallet_ledger_other:
  assumes "apply_wallet_ledger c tenant amount op key ref d = Inr (b, d')" and "t \<noteq> tenant"
  shows "wallet_of t d' = wallet_of t d" "posted_keys t d' = posted_keys t d"
    "ledger_total t k d' = ledger_total t k d"
  using assms
  by (auto simp: apply_wallet_ledger_def Let_def and_then_eq_Inr wallet_of_def
      filter_sql_update_other posted_keys_def ledger_total_def
      split: if_splits option.splits prod.splits)

end
