(* ===== verification/Access.thy ===== *)
theory Access
  imports Tables
begin

text \<open>
  Who may call what: the claims of a session and of an API key (\<open>auth.types.ts\<close>), the guards
  in front of every handler (\<open>common/guards\<close>), the tenant a request may read
  (\<open>common/utils/tenant-scope.ts\<close>) and the capabilities of a process role
  (\<open>runtime-role.service.ts\<close>).

  The verification of a token (\<open>jwtService.verifyAsync\<close>) and the lookup of an API key are
  parameters: a function from the token to its claims, \<open>None\<close> when the library throws.
\<close>

subsection \<open>Claims and principals\<close>

record jwt_claims =
  jc_sub :: string
  jc_tenant_id :: tenant
  jc_home_tenant_id :: "tenant option"
  jc_role :: string
  jc_email :: "string option"

record reauth_claims = jwt_claims +
  jc_kind :: string
  jc_scope :: string
  jc_reauth_at :: int

record api_principal =
  ap_api_key_id :: string
  ap_tenant_id :: tenant
  ap_name :: string
  ap_scopes :: "string list"
  ap_rate_limit_rps :: "int option"
  ap_daily_quota :: "int option"

text \<open>The part of a request the guards look at: four headers and what they attach.\<close>

record request =
  rq_api_key :: "string option"
  rq_authorization :: "string option"
  rq_reauth_tokens :: "string list"
  rq_request_id :: "string option"
  rq_idempotency_key :: "string option"
  rq_user :: "jwt_claims option"
  rq_api_principal :: "api_principal option"

subsection \<open>The tenant of a request\<close>

definition cross_tenant_roles :: "string set" where
  "cross_tenant_roles = {''admin'', ''support''}"

definition resolve_tenant_scope :: "jwt_claims \<Rightarrow> tenant option \<Rightarrow> tenant result" where
  "resolve_tenant_scope user requested =
     (if \<not> truthy_str requested \<or> requested = Some (jc_tenant_id user) then Inr (jc_tenant_id user)
      else if jc_role user \<notin> cross_tenant_roles
      then Inl (ForbiddenException ''Cross-tenant access is not allowed for this role'')
      else Inr (the requested))"

definition can_use_cross_tenant_scope :: "jwt_claims \<Rightarrow> bool" where
  "can_use_cross_tenant_scope user \<longleftrightarrow> jc_role user \<in> cross_tenant_roles"

lemma resolve_own_tenant:
  "jc_role user \<notin> cross_tenant_roles \<Longrightarrow> resolve_tenant_scope user requested = Inr t \<Longrightarrow>
   t = jc_tenant_id user"
  by (simp add: resolve_tenant_scope_def split: if_splits)

lemma resolve_default [simp]: "resolve_tenant_scope user None = Inr (jc_tenant_id user)"
  by (simp add: resolve_tenant_scope_def)

subsection \<open>The guards\<close>

definition jwt_auth_guard ::
  "(string \<Rightarrow> jwt_claims option) \<Rightarrow> bool \<Rightarrow> request \<Rightarrow> request result" where
  "jwt_auth_guard verify is_public request =
     (if is_public then Inr request
      else if truthy_str (rq_api_key request) then Inr request
      else if \<not> (case rq_authorization request of None \<Rightarrow> False
                 | Some h \<Rightarrow> starts_with h ''Bearer '')
      then Inl (UnauthorizedException ''Missing bearer token or API key'')
      else
        (case verify (drop 7 (the (rq_authorization request))) of
           Some payload \<Rightarrow> Inr (request\<lparr>rq_user := Some payload\<rparr>)
         | None \<Rightarrow> Inl (UnauthorizedException ''Invalid bearer token'')))"

definition roles_guard :: "string list option \<Rightarrow> request \<Rightarrow> request result" where
  "roles_guard roles request =
     (if roles = None \<or> roles = Some [] then Inr request
      else
        (let role = map_option jc_role (rq_user request)
         in if \<not> truthy_str role \<or> the role \<notin> set (the roles)
            then Inl (ForbiddenException ''Insufficient role'')
            else Inr request))"

definition api_key_guard ::
  "(string \<Rightarrow> api_principal result) \<Rightarrow> request \<Rightarrow> request result" where
  "api_key_guard validate_api_key request =
     (if \<not> truthy_str (rq_api_key request)
      then Inl (UnauthorizedException ''Missing X-API-Key header'')
      else
        and_then (validate_api_key (the (rq_api_key request))) (\<lambda>principal.
          Inr (request\<lparr>rq_api_principal := Some principal\<rparr>)))"

definition reauth_guard ::
  "(string \<Rightarrow> reauth_claims option) \<Rightarrow> request \<Rightarrow> request result" where
  "reauth_guard verify request =
     (case rq_user request of
        None \<Rightarrow> Inl (UnauthorizedException
          ''A valid session is required before password confirmation can be checked'')
      | Some current_user \<Rightarrow>
          (let token = first_row (rq_reauth_tokens request)
           in if \<not> truthy_str token
              then Inl (UnauthorizedException ''Password confirmation is required for this action'')
              else
                (case verify (the token) of
                   None \<Rightarrow>
                     Inl (UnauthorizedException ''Re-authentication token is invalid or expired'')
                 | Some payload \<Rightarrow>
                     if jc_kind payload \<noteq> ''reauth'' \<or> jc_scope payload \<noteq> ''dangerous_action''
                     then Inl (UnauthorizedException ''Invalid re-authentication token scope'')
                     else if jc_sub payload \<noteq> jc_sub current_user
                          \<or> jc_tenant_id payload \<noteq> jc_tenant_id current_user
                          \<or> jc_home_tenant_id payload \<noteq> jc_home_tenant_id current_user
                     then Inl (UnauthorizedException
                       ''Re-authentication token does not match the active session context'')
                     else Inr request)))"

text \<open>
  The guards of a handler in the order they run: the two global ones, then the handler's own.
\<close>

record access_rule =
  ar_public :: bool
  ar_roles :: "string list option"
  ar_api_key :: bool
  ar_reauth :: bool

definition admit ::
  "(string \<Rightarrow> jwt_claims option) \<Rightarrow> (string \<Rightarrow> reauth_claims option) \<Rightarrow>
   (string \<Rightarrow> api_principal result) \<Rightarrow> access_rule \<Rightarrow> request \<Rightarrow> request result"
where
  "admit verify verify_reauth validate_api_key rule request =
     and_then (jwt_auth_guard verify (ar_public rule) request) (\<lambda>r1.
     and_then (roles_guard (ar_roles rule) r1) (\<lambda>r2.
     and_then (if ar_reauth rule then reauth_guard verify_reauth r2 else Inr r2) (\<lambda>r3.
       if ar_api_key rule then api_key_guard validate_api_key r3 else Inr r3)))"

subsection \<open>The handlers\<close>

text \<open>
  Every handler of the controllers with the service operation it calls and the decorators in
  front of it: \<open>@Public\<close>, \<open>@Roles\<close>, \<open>@UseGuards(ReauthGuard)\<close>,
  \<open>@UseGuards(ApiKeyGuard)\<close>, or none of them.
\<close>

type_synonym route = "string \<times> string \<times> access_rule"

definition open_route :: access_rule where
  "open_route = \<lparr>ar_public = True, ar_roles = None, ar_api_key = False, ar_reauth = False\<rparr>"

definition session_route :: access_rule where
  "session_route = \<lparr>ar_public = False, ar_roles = None, ar_api_key = False, ar_reauth = False\<rparr>"

definition api_key_route :: access_rule where
  "api_key_route = \<lparr>ar_public = False, ar_roles = None, ar_api_key = True, ar_reauth = False\<rparr>"

definition role_route :: "string list \<Rightarrow> access_rule" where
  "role_route roles =
     \<lparr>ar_public = False, ar_roles = Some roles, ar_api_key = False, ar_reauth = False\<rparr>"

definition reauth_route :: "string list \<Rightarrow> access_rule" where
  "reauth_route roles =
     \<lparr>ar_public = False, ar_roles = Some roles, ar_api_key = False, ar_reauth = True\<rparr>"

lemmas route_defs = open_route_def session_route_def api_key_route_def role_route_def
  reauth_route_def

definition analytics_routes :: "route list" where
  "analytics_routes =
    [(''GET /analytics/sms-summary'', ''AnalyticsService.getSmsSummary'', role_route [''owner'', ''admin'', ''finance'', ''support'', ''viewer'']),
     (''GET /analytics/provider-health'', ''AnalyticsService.getProviderHealth'', role_route [''owner'', ''admin'', ''support'', ''viewer''])]"

definition audit_routes :: "route list" where
  "audit_routes =
    [(''GET /audit/logs'', ''AuditService.list'', role_route [''owner'', ''admin'', ''finance'', ''support'', ''viewer''])]"

definition auth_routes :: "route list" where
  "auth_routes =
    [(''POST /auth/login'', ''AuthService.login'', open_route),
     (''GET /auth/me'', ''AuthService.getCurrentUser'', session_route),
     (''POST /auth/re-auth'', ''AuthService.reauthenticate'', session_route),
     (''POST /auth/switch-tenant'', ''AuthService.switchTenant'', role_route [''admin'', ''support'']),
     (''POST /api-keys'', ''AuthService.createApiKey'', role_route [''owner'', ''admin'', ''developer'']),
     (''GET /api-keys'', ''AuthService.listApiKeys'', role_route [''owner'', ''admin'', ''developer'']),
     (''POST /api-keys/:id/rotate'', ''AuthService.rotateApiKey'', reauth_route [''owner'', ''admin'']),
     (''DELETE /api-keys/:id'', ''AuthService.disableApiKey'', reauth_route [''owner'', ''admin''])]"

definition campaigns_routes :: "route list" where
  "campaigns_routes =
    [(''POST /campaigns/schedule'', ''CampaignsService.scheduleCampaign'', role_route [''owner'', ''admin'', ''developer'']),
     (''GET /campaigns'', ''CampaignsService.listCampaigns'', role_route [''owner'', ''admin'', ''developer'', ''support'', ''viewer'']),
     (''GET /campaigns/:id'', ''CampaignsService.getCampaignDetail'', role_route [''owner'', ''admin'', ''developer'', ''support'', ''viewer'']),
     (''GET /campaign-schedules'', ''CampaignsService.listSchedules'', role_route [''owner'', ''admin'', ''developer'', ''support'', ''viewer'']),
     (''POST /campaign-schedules/:id/pause'', ''CampaignsService.setScheduleActive'', role_route [''owner'', ''admin'', ''developer'']),
     (''POST /campaign-schedules/:id/resume'', ''CampaignsService.setScheduleActive'', role_route [''owner'', ''admin'', ''developer'']),
     (''POST /campaigns/:id/cancel'', ''CampaignsService.cancelCampaign'', reauth_route [''owner'', ''admin'', ''developer'']),
     (''GET /campaign-jobs/:id'', ''CampaignsService.getCampaignJob'', role_route [''owner'', ''admin'', ''developer'', ''support'', ''viewer''])]"

definition compliance_routes :: "route list" where
  "compliance_routes =
    [(''POST /compliance/opt-outs'', ''ComplianceService.createOptOut'', role_route [''owner'', ''admin'', ''support'']),
     (''GET /compliance/opt-outs'', ''ComplianceService.listOptOuts'', role_route [''owner'', ''admin'', ''support'', ''viewer'']),
     (''POST /compliance/suppressions'', ''ComplianceService.createSuppression'', role_route [''owner'', ''admin'', ''support'']),
     (''GET /compliance/suppressions'', ''ComplianceService.listSuppressions'', role_route [''owner'', ''admin'', ''support'', ''viewer''])]"

definition contacts_routes :: "route list" where
  "contacts_routes =
    [(''POST /contacts'', ''ContactsService.createContact'', role_route [''owner'', ''admin'', ''developer'', ''support'']),
     (''GET /contacts'', ''ContactsService.listContacts'', role_route [''owner'', ''admin'', ''developer'', ''support'', ''viewer'']),
     (''GET /contacts/:id'', ''ContactsService.getContact'', role_route [''owner'', ''admin'', ''developer'', ''support'', ''viewer'']),
     (''PUT /contacts/:id'', ''ContactsService.updateContact'', role_route [''owner'', ''admin'', ''developer'', ''support'']),
     (''POST /contact-groups'', ''ContactsService.createGroup'', role_route [''owner'', ''admin'', ''developer'', ''support'']),
     (''GET /contact-groups'', ''ContactsService.listGroups'', role_route [''owner'', ''admin'', ''developer'', ''support'', ''viewer'']),
     (''GET /contact-groups/:id'', ''ContactsService.getGroupDetail'', role_route [''owner'', ''admin'', ''developer'', ''support'', ''viewer'']),
     (''POST /contact-uploads/inline'', ''ContactsService.importInlineCsv'', role_route [''owner'', ''admin'', ''developer'', ''support'']),
     (''GET /contact-uploads'', ''ContactsService.listUploads'', role_route [''owner'', ''admin'', ''developer'', ''support'', ''viewer'']),
     (''GET /contact-uploads/:id/errors'', ''ContactsService.listUploadErrors'', role_route [''owner'', ''admin'', ''developer'', ''support'', ''viewer''])]"

definition dashboard_routes :: "route list" where
  "dashboard_routes =
    [(''GET /dashboard/tenant'', ''DashboardService.getTenantDashboard'', role_route [''owner'', ''admin'', ''finance'', ''support'', ''developer'', ''viewer''])]"

definition dlr_routes :: "route list" where
  "dlr_routes =
    [(''POST /providers/:providerCode/dlr'', ''DlrService.acceptWebhook'', open_route)]"

definition fraud_routes :: "route list" where
  "fraud_routes =
    [(''POST /fraud/rules'', ''FraudService.createRule'', role_route [''owner'', ''admin'']),
     (''GET /fraud/rules'', ''FraudService.listRules'', role_route [''owner'', ''admin'', ''support'']),
     (''GET /fraud/events'', ''FraudService.listEvents'', role_route [''owner'', ''admin'', ''support''])]"

definition health_routes :: "route list" where
  "health_routes =
    [(''GET /health'', ''HealthService.getReadiness'', open_route),
     (''GET /health/live'', ''HealthService.getLiveness'', open_route),
     (''GET /health/ready'', ''HealthService.getReadiness'', open_route),
     (''GET /health/startup'', ''HealthService.getLiveness'', open_route),
     (''GET /metrics'', ''MetricsService.getMetrics'', open_route)]"

definition messages_routes :: "route list" where
  "messages_routes =
    [(''POST /messages'', ''MessagesService.submitMessage'', api_key_route),
     (''POST /messages/control-plane'', ''MessagesService.submitControlPlaneMessage'', role_route [''owner'', ''admin'', ''developer'', ''support'']),
     (''GET /messages'', ''MessagesService.listMessages'', role_route [''owner'', ''admin'', ''developer'', ''support'', ''viewer'']),
     (''GET /messages/:submitDate/:tenantId/:id'', ''MessagesService.getMessage'', session_route),
     (''GET /messages/:submitDate/:tenantId/:id/trace'', ''MessagesService.getMessageTrace'', role_route [''owner'', ''admin'', ''developer'', ''support'', ''viewer''])]"

definition notifications_routes :: "route list" where
  "notifications_routes =
    [(''GET /notifications'', ''NotificationsService.list'', role_route [''owner'', ''admin'', ''finance'', ''support'', ''developer'', ''viewer''])]"

definition operations_routes :: "route list" where
  "operations_routes =
    [(''GET /operations/overview'', ''OperationsService.getOverview'', role_route [''admin'', ''support''])]"

definition providers_routes :: "route list" where
  "providers_routes =
    [(''GET /providers'', ''ProvidersService.listProviders'', role_route [''admin'', ''support'']),
     (''GET /providers/:id'', ''ProvidersService.getProviderDetail'', role_route [''admin'', ''support'']),
     (''GET /providers/:id/health'', ''ProvidersService.getProviderHealthHistory'', role_route [''admin'', ''support'']),
     (''POST /providers/:id/circuit'', ''ProvidersService.setCircuitState'', reauth_route [''admin'', ''support''])]"

definition routing_routes :: "route list" where
  "routing_routes =
    [(''POST /routing/preview'', ''RoutingService.selectRoute'', role_route [''owner'', ''admin'', ''developer'', ''support'']),
     (''GET /routing/rules'', ''RoutingService.listRoutingRules'', role_route [''admin'', ''support'']),
     (''POST /routing/rules'', ''RoutingService.upsertRoutingRule'', reauth_route [''admin'', ''support'']),
     (''PUT /routing/rules/:id'', ''RoutingService.upsertRoutingRule'', reauth_route [''admin'', ''support'']),
     (''GET /routing/pricing-rules'', ''RoutingService.listPricingRules'', role_route [''admin'', ''support'']),
     (''POST /routing/pricing-rules'', ''RoutingService.upsertPricingRule'', reauth_route [''admin'', ''support'']),
     (''PUT /routing/pricing-rules/:id'', ''RoutingService.upsertPricingRule'', reauth_route [''admin'', ''support'']),
     (''GET /routing/retry-policies'', ''RoutingService.listRetryPolicies'', role_route [''admin'', ''support'']),
     (''POST /routing/retry-policies'', ''RoutingService.upsertRetryPolicy'', reauth_route [''admin'', ''support'']),
     (''PUT /routing/retry-policies/:id'', ''RoutingService.upsertRetryPolicy'', reauth_route [''admin'', ''support''])]"

definition search_routes :: "route list" where
  "search_routes =
    [(''GET /search/global'', ''SearchService.globalSearch'', role_route [''owner'', ''admin'', ''finance'', ''support'', ''developer'', ''viewer''])]"

definition sender_ids_routes :: "route list" where
  "sender_ids_routes =
    [(''POST /sender-ids'', ''SenderIdsService.create'', role_route [''owner'', ''admin'', ''developer'']),
     (''GET /sender-ids'', ''SenderIdsService.list'', role_route [''owner'', ''admin'', ''developer'', ''support'', ''viewer'']),
     (''POST /sender-ids/:id/approve'', ''SenderIdsService.approve'', reauth_route [''admin'', ''support'']),
     (''POST /sender-ids/:id/reject'', ''SenderIdsService.reject'', reauth_route [''admin'', ''support''])]"

definition templates_routes :: "route list" where
  "templates_routes =
    [(''POST /templates'', ''TemplatesService.createTemplate'', role_route [''owner'', ''admin'', ''developer'']),
     (''GET /templates'', ''TemplatesService.listTemplates'', role_route [''owner'', ''admin'', ''developer'', ''support'', ''viewer'']),
     (''PUT /templates/:id'', ''TemplatesService.updateTemplate'', role_route [''owner'', ''admin'', ''developer'']),
     (''DELETE /templates/:id'', ''TemplatesService.deleteTemplate'', role_route [''owner'', ''admin''])]"

definition wallets_routes :: "route list" where
  "wallets_routes =
    [(''GET /wallet'', ''WalletsService.getWalletSummary'', role_route [''owner'', ''admin'', ''finance'', ''support'', ''viewer'']),
     (''GET /wallet/transactions'', ''WalletsService.listTransactions'', role_route [''owner'', ''admin'', ''finance'', ''support'', ''viewer''])]"

lemmas routes_defs =
  analytics_routes_def
  audit_routes_def
  auth_routes_def
  campaigns_routes_def
  compliance_routes_def
  contacts_routes_def
  dashboard_routes_def
  dlr_routes_def
  fraud_routes_def
  health_routes_def
  messages_routes_def
  notifications_routes_def
  operations_routes_def
  providers_routes_def
  routing_routes_def
  search_routes_def
  sender_ids_routes_def
  templates_routes_def
  wallets_routes_def

definition all_routes :: "route list" where
  "all_routes =
     analytics_routes @
     audit_routes @
     auth_routes @
     campaigns_routes @
     compliance_routes @
     contacts_routes @
     dashboard_routes @
     dlr_routes @
     fraud_routes @
     health_routes @
     messages_routes @
     notifications_routes @
     operations_routes @
     providers_routes @
     routing_routes @
     search_routes @
     sender_ids_routes @
     templates_routes @
     wallets_routes"

subsection \<open>What the guards guarantee\<close>

lemma roles_guard_Inr:
  "roles_guard roles rq = Inr rq' \<Longrightarrow>
   rq' = rq \<and> (roles \<noteq> None \<and> roles \<noteq> Some [] \<longrightarrow>
     (\<exists>user. rq_user rq = Some user \<and> jc_role user \<in> set (the roles)))"
  by (cases "rq_user rq") (auto simp: roles_guard_def Let_def split: if_splits)

lemma reauth_guard_Inr:
  assumes "reauth_guard vr rq = Inr rq'"
  obtains user token payload where "rq' = rq" "rq_user rq = Some user"
    "first_row (rq_reauth_tokens rq) = Some token" "vr token = Some payload"
    "jc_kind payload = ''reauth''" "jc_scope payload = ''dangerous_action''"
    "jc_sub payload = jc_sub user" "jc_tenant_id payload = jc_tenant_id user"
proof -
  obtain user where u: "rq_user rq = Some user"
    using assms by (cases "rq_user rq") (simp_all add: reauth_guard_def)
  obtain token where t: "first_row (rq_reauth_tokens rq) = Some token"
    using assms u by (cases "first_row (rq_reauth_tokens rq)") (simp_all add: reauth_guard_def Let_def)
  obtain payload where p: "vr token = Some payload"
    using assms u t
    by (cases "vr token") (simp_all add: reauth_guard_def Let_def split: if_splits)
  show thesis
    using assms u t p that [OF _ u t p]
    by (simp add: reauth_guard_def Let_def split: if_splits)
qed

lemma jwt_auth_guard_Inr:
  assumes "jwt_auth_guard verify pub rq = Inr rq'" and "\<not> pub"
  shows "truthy_str (rq_api_key rq) \<and> rq' = rq \<or>
    (\<exists>h user. rq_authorization rq = Some h \<and> starts_with h ''Bearer '' \<and>
       verify (drop 7 h) = Some user \<and> rq' = rq\<lparr>rq_user := Some user\<rparr>)"
proof (cases "truthy_str (rq_api_key rq)")
  case True
  with assms show ?thesis by (simp add: jwt_auth_guard_def)
next
  case False
  then obtain h where h: "rq_authorization rq = Some h" "starts_with h ''Bearer ''"
    using assms by (cases "rq_authorization rq") (auto simp: jwt_auth_guard_def split: if_splits)
  then show ?thesis
    using assms False by (cases "verify (drop 7 h)") (simp_all add: jwt_auth_guard_def)
qed

lemma api_key_guard_Inr: "api_key_guard vk rq = Inr rq' \<Longrightarrow> rq_user rq' = rq_user rq"
  by (auto simp: api_key_guard_def and_then_eq_Inr split: if_splits)

lemma admitE:
  assumes "admit verify vr vk rule rq = Inr rq'"
  obtains r1 where "jwt_auth_guard verify (ar_public rule) rq = Inr r1"
    "roles_guard (ar_roles rule) r1 = Inr r1"
    "ar_reauth rule \<Longrightarrow> reauth_guard vr r1 = Inr r1" "rq_user rq' = rq_user r1"
proof -
  from assms obtain r1 r2 r3 where r: "jwt_auth_guard verify (ar_public rule) rq = Inr r1"
    "roles_guard (ar_roles rule) r1 = Inr r2"
    "(if ar_reauth rule then reauth_guard vr r2 else Inr r2) = Inr r3"
    "(if ar_api_key rule then api_key_guard vk r3 else Inr r3) = Inr rq'"
    by (auto simp: admit_def and_then_eq_Inr)
  have "r2 = r1" using roles_guard_Inr [OF r(2)] by simp
  moreover have "r3 = r2" using r(3) by (auto split: if_splits elim: reauth_guard_Inr)
  moreover have "rq_user rq' = rq_user r3"
    using r(4) by (auto split: if_splits dest: api_key_guard_Inr)
  ultimately show thesis using that [of r1] r by (cases "ar_reauth rule") simp_all
qed

lemma admit_user:
  assumes "admit verify vr vk rule rq = Inr rq'" and "rq_user rq = None"
    and "\<not> ar_public rule" and "ar_roles rule = Some roles" and "roles \<noteq> []"
  obtains h user where "rq_authorization rq = Some h" "starts_with h ''Bearer ''"
    "verify (drop 7 h) = Some user" "jc_role user \<in> set roles" "rq_user rq' = Some user"
proof -
  from assms(1) obtain r1 where r1: "jwt_auth_guard verify (ar_public rule) rq = Inr r1"
    "roles_guard (ar_roles rule) r1 = Inr r1" "rq_user rq' = rq_user r1"
    by (rule admitE)
  from roles_guard_Inr [OF r1(2)] assms obtain user where
    "rq_user r1 = Some user" "jc_role user \<in> set roles" by auto
  with jwt_auth_guard_Inr [OF r1(1)] assms r1(3) that show thesis by auto
qed


text \<open>C14: a handler with roles runs only for a request whose bearer token verifies and names one
  of these roles, and the handler sees exactly the verified claims; an API key never opens it.\<close>

theorem role_route_admits_verified_role:
  assumes "admit verify vr vk rule rq = Inr rq'" and "rq_user rq = None"
    and "\<not> ar_public rule" and "ar_roles rule = Some roles" and "roles \<noteq> []"
  shows "\<exists>h user. rq_authorization rq = Some h \<and> verify (drop 7 h) = Some user \<and>
    jc_role user \<in> set roles \<and> rq_user rq' = Some user"
  using assms by (auto elim: admit_user)

definition ex_request :: request where
  "ex_request =
     \<lparr>rq_api_key = None, rq_authorization = Some ''Bearer t1'', rq_reauth_tokens = [''r1''],
      rq_request_id = None, rq_idempotency_key = None, rq_user = None, rq_api_principal = None\<rparr>"

definition ex_claims :: jwt_claims where
  "ex_claims = \<lparr>jc_sub = ''u1'', jc_tenant_id = ''ten1'', jc_home_tenant_id = None,
     jc_role = ''admin'', jc_email = None\<rparr>"

definition ex_verify :: "string \<Rightarrow> jwt_claims option" where
  "ex_verify token = (if token = ''t1'' then Some ex_claims else None)"

definition ex_verify_reauth :: "string \<Rightarrow> reauth_claims option" where
  "ex_verify_reauth token =
     (if token = ''r1''
      then Some \<lparr>jc_sub = ''u1'', jc_tenant_id = ''ten1'', jc_home_tenant_id = None,
        jc_role = ''admin'', jc_email = None, jc_kind = ''reauth'',
        jc_scope = ''dangerous_action'', jc_reauth_at = 0\<rparr>
      else None)"

lemmas ex_access_defs = ex_request_def ex_claims_def ex_verify_def ex_verify_reauth_def

lemma ex_admit:
  "admit ex_verify ex_verify_reauth (\<lambda>_. Inl (UnauthorizedException ''Invalid API key''))
     (reauth_route [''admin'', ''support'']) ex_request =
   Inr (ex_request\<lparr>rq_user := Some ex_claims\<rparr>)"
  by (simp add: admit_def jwt_auth_guard_def roles_guard_def reauth_guard_def ex_access_defs
      route_defs Let_def)

theorem role_route_admits_verified_role_witness:
  "\<exists>h user. rq_authorization ex_request = Some h \<and> ex_verify (drop 7 h) = Some user \<and>
    jc_role user \<in> set [''admin'', ''support''] \<and>
    rq_user (ex_request\<lparr>rq_user := Some ex_claims\<rparr>) = Some user"
  by (rule role_route_admits_verified_role [OF ex_admit])
    (simp_all add: route_defs ex_request_def)




lemma find_in_set: "List.find P xs = Some x \<Longrightarrow> x \<in> set xs"
  by (metis find_Some_iff nth_mem)




text \<open>C29: a handler without roles that is not public runs for every request that merely carries an
  \<open>x-api-key\<close> header, whatever its value; among the handlers this is the one that reads a
  message by its date, tenant and identifier, so an unauthenticated request reaches the
  message of any tenant.\<close>

theorem message_read_route_is_open:
  "(''GET /messages/:submitDate/:tenantId/:id'', ''MessagesService.getMessage'', session_route)
     \<in> set all_routes \<and>
   (\<forall>verify vr vk rq. truthy_str (rq_api_key rq) \<longrightarrow>
      admit verify vr vk session_route rq = Inr rq)"
  by (intro conjI find_in_set [where P = "\<lambda>r. fst (snd r) = ''MessagesService.getMessage''"], code_simp)
    (simp add: admit_def jwt_auth_guard_def roles_guard_def session_route_def)

theorem message_read_route_is_open_witness:
  "admit (\<lambda>_. None) (\<lambda>_. None) (\<lambda>_. Inl (UnauthorizedException ''Invalid API key''))
     session_route (ex_request\<lparr>rq_api_key := Some ''anything'', rq_authorization := None\<rparr>) =
   Inr (ex_request\<lparr>rq_api_key := Some ''anything'', rq_authorization := None\<rparr>)"
  using message_read_route_is_open by (simp add: ex_request_def)

end
