(* ===== verification/Messages.thy ===== *)
theory Messages
  imports Wallet Access
begin

text \<open>
  Messages as \<open>messages.service.ts\<close> stores them: the normalisation of a destination, the
  number of parts and the price of a body, the status machine \<open>AllowedTransitions\<close> with the
  optimistic updates \<open>patchMessage\<close> and \<open>transitionMessage\<close>, the event log, the message
  explorer and the correlation of a delivery receipt with a message.

  Every \<open>UPDATE\<close> of the table runs through the trigger
  \<open>enforce_message_state_transition\<close> of \<open>migrations/001_init.sql\<close>. The locale
  \<open>versioned_table\<close> is the contract of a table whose rows are updated under their version:
  a client that holds an old snapshot of a row cannot overwrite a newer one. It is
  interpreted on the messages table.
\<close>

subsection \<open>Destinations, parts and prices\<close>

definition normalize_phone_number :: "string \<Rightarrow> string result" where
  "normalize_phone_number phone_number =
     (let trimmed = filter (\<lambda>c. is_digit c \<or> c = CHR ''+'') phone_number in
      if starts_with trimmed ''+'' then Inr trimmed
      else if starts_with trimmed ''251'' then Inr (''+'' @ trimmed)
      else if starts_with trimmed ''0'' then Inr (''+251'' @ drop 1 trimmed)
      else Inl (BadRequestException ''Phone number must be in Ethiopian local format or E.164''))"

definition compute_message_parts :: "string \<Rightarrow> int" where
  "compute_message_parts body =
     (if length body \<le> 160 then 1 else \<lceil>(of_nat (length body) :: rat) / 153\<rceil>)"

definition country_code_for :: "string \<Rightarrow> string" where
  "country_code_for phone_number = (if starts_with phone_number ''+251'' then ''ET'' else ''INTL'')"

definition to_date_string :: "string \<Rightarrow> string" where
  "to_date_string value = take 10 value"

definition build_aggregate_id :: "composite_id \<Rightarrow> string" where
  "build_aggregate_id composite =
     c_submit_date composite @ '':'' @ c_tenant_id composite @ '':'' @ int_str (c_id composite)"

definition build_message_response :: "message_row \<Rightarrow> json option \<Rightarrow> json" where
  "build_message_response row route_preview =
     jobj [(''id'', Some (jint (m_id row))),
           (''submitDate'', Some (JStr (to_date_string (m_submit_date row)))),
           (''tenantId'', Some (JStr (m_tenant_id row))),
           (''clientMessageId'', Some (jnullable JStr (m_client_message_id row))),
           (''phoneNumber'', Some (JStr (m_phone_number row))),
           (''body'', Some (JStr (m_body row))),
           (''trafficType'', Some (JStr (m_traffic_type row))),
           (''status'', Some (JStr (status_str (m_status row)))),
           (''version'', Some (jint (m_version row))),
           (''attemptCount'', Some (jint (m_attempt_count row))),
           (''providerId'', Some (jnullable jint (m_provider_id row))),
           (''providerMessageId'', Some (jnullable JStr (m_provider_message_id row))),
           (''priceMinor'', Some (jint (m_price_minor row))),
           (''billingState'', Some (JStr (m_billing_state row))),
           (''routePreview'', route_preview),
           (''acceptedAt'', Some (jint (m_accepted_at row))),
           (''sentAt'', Some (jnullable jint (m_sent_at row))),
           (''deliveredAt'', Some (jnullable jint (m_delivered_at row))),
           (''failedAt'', Some (jnullable jint (m_failed_at row))),
           (''lastErrorCode'', Some (jnullable JStr (m_last_error_code row))),
           (''lastErrorMessage'', Some (jnullable JStr (m_last_error_message row)))]"

subsection \<open>The status machine\<close>

fun allowed_transitions :: "message_status \<Rightarrow> message_status list" where
  "allowed_transitions Accepted = [Routed]"
| "allowed_transitions Routed = [Submitting]"
| "allowed_transitions Submitting = [ProviderAccepted, Failed]"
| "allowed_transitions ProviderAccepted = [Delivered, Failed]"
| "allowed_transitions Delivered = []"
| "allowed_transitions Failed = []"

text \<open>The trigger: the error it raises for the replacement of \<open>old\<close> by \<open>new\<close>, if any.\<close>

definition enforce_message_state_transition :: "message_row \<Rightarrow> message_row \<Rightarrow> string option" where
  "enforce_message_state_transition old new =
     (if m_version new \<noteq> m_version old + 1
      then Some ''messages.version must increment by exactly 1''
      else if m_state_changed_at new \<le> m_state_changed_at old
      then Some ''messages.state_changed_at must move forward''
      else if m_status new = m_status old then None
      else if m_status old = Accepted \<and> m_status new = Routed then None
      else if m_status old = Routed \<and> m_status new = Submitting then None
      else if m_status old = Submitting \<and> m_status new \<in> {ProviderAccepted, Failed} then None
      else if m_status old = ProviderAccepted \<and> m_status new = Delivered then None
      else if m_status old = ProviderAccepted \<and> m_status new = Failed \<and>
              coalesce (m_last_error_code new) '''' = ''dlr_failed'' then None
      else Some (''illegal message status transition '' @ status_str (m_status old) @ '' -> '' @
                 status_str (m_status new)))"

text \<open>
  The columns the services assign in the \<open>fields\<close> argument; a field that is
  \<open>undefined\<close> is not in the list.
\<close>

datatype assignment =
    ProviderId "int option"
  | SmppConfigId "int option"
  | RouteRuleId "int option"
  | CostMinor int
  | LastErrorCode "string option"
  | LastErrorMessage "string option"
  | BillingState string
  | ProviderMessageId "string option"
  | AttemptCount int

fun assign :: "assignment \<Rightarrow> message_row \<Rightarrow> message_row" where
  "assign (ProviderId v) r = r\<lparr>m_provider_id := v\<rparr>"
| "assign (SmppConfigId v) r = r\<lparr>m_smpp_config_id := v\<rparr>"
| "assign (RouteRuleId v) r = r\<lparr>m_route_rule_id := v\<rparr>"
| "assign (CostMinor v) r = r\<lparr>m_cost_minor := v\<rparr>"
| "assign (LastErrorCode v) r = r\<lparr>m_last_error_code := v\<rparr>"
| "assign (LastErrorMessage v) r = r\<lparr>m_last_error_message := v\<rparr>"
| "assign (BillingState v) r = r\<lparr>m_billing_state := v\<rparr>"
| "assign (ProviderMessageId v) r = r\<lparr>m_provider_message_id := v\<rparr>"
| "assign (AttemptCount v) r = r\<lparr>m_attempt_count := v\<rparr>"

text \<open>
  The statement both operations send: the \<open>SET\<close> clause applied to the row that still has
  the date, tenant, identifier, status and version of the snapshot the caller holds.
\<close>

definition current_as :: "message_row \<Rightarrow> message_row \<Rightarrow> bool" where
  "current_as message r \<longleftrightarrow>
     m_submit_date r = to_date_string (m_submit_date message) \<and>
     m_tenant_id r = m_tenant_id message \<and>
     m_id r = m_id message \<and>
     m_status r = m_status message \<and>
     m_version r = m_version message"

definition update_message ::
  "message_row \<Rightarrow> (message_row \<Rightarrow> message_row) \<Rightarrow> (db, message_row) tx" where
  "update_message message set_clause d =
     (case first_row (List.map_filter
             (\<lambda>r. enforce_message_state_transition r (set_clause r))
             (filter (current_as message) (messages d))) of
        Some err \<Rightarrow> Inl (DatabaseError err)
      | None \<Rightarrow>
          (case first_row (sql_returning (current_as message) set_clause (messages d)) of
             None \<Rightarrow> Inl (ConflictException ''Message version conflict'')
           | Some updated \<Rightarrow>
               Inr (updated,
                    d\<lparr>messages := sql_update (current_as message) set_clause (messages d)\<rparr>)))"

definition patch_clause :: "ctx \<Rightarrow> assignment list \<Rightarrow> message_row \<Rightarrow> message_row" where
  "patch_clause c cols r =
     fold assign cols (r\<lparr>m_version := m_version r + 1, m_state_changed_at := c_now c\<rparr>)"

definition patch_message ::
  "ctx \<Rightarrow> message_row \<Rightarrow> assignment list \<Rightarrow> (db, message_row) tx" where
  "patch_message c message cols d = update_message message (patch_clause c cols) d"

definition transition_clause ::
  "ctx \<Rightarrow> message_status \<Rightarrow> assignment list \<Rightarrow> bool \<Rightarrow> message_row \<Rightarrow> message_row" where
  "transition_clause c next_status cols increment_attempt r =
     (let r1 = fold assign cols
                 (r\<lparr>m_status := next_status, m_version := m_version r + 1,
                    m_state_changed_at := c_now c\<rparr>);
          r2 = (if increment_attempt then r1\<lparr>m_attempt_count := m_attempt_count r + 1\<rparr> else r1);
          r3 = (if next_status = ProviderAccepted
                then r2\<lparr>m_sent_at := or_else (m_sent_at r) (Some (c_now c)),
                        m_billing_state := ''debited''\<rparr>
                else r2);
          r4 = (if next_status = Delivered
                then r3\<lparr>m_delivered_at := or_else (m_delivered_at r) (Some (c_now c))\<rparr> else r3)
      in if next_status = Failed
         then r4\<lparr>m_failed_at := or_else (m_failed_at r) (Some (c_now c))\<rparr> else r4)"

definition row_composite :: "message_row \<Rightarrow> composite_id" where
  "row_composite m =
     \<lparr>c_submit_date = to_date_string (m_submit_date m), c_tenant_id = m_tenant_id m, c_id = m_id m\<rparr>"

definition transition_audit ::
  "message_row \<Rightarrow> message_status \<Rightarrow> message_row \<Rightarrow> audit_entry" where
  "transition_audit message next_status updated =
     \<lparr>au_tenant_id = Some (m_tenant_id updated),
      au_user_id = None,
      au_api_key_id = m_api_key_id updated,
      au_action = ''messages.transition'',
      au_target_type = Some ''message'',
      au_target_id = Some (build_aggregate_id (row_composite updated)),
      au_source_ip = None,
      au_metadata =
        jobj [(''from'', Some (JStr (status_str (m_status message)))),
              (''to'', Some (JStr (status_str next_status))),
              (''version'', Some (jint (m_version updated))),
              (''providerId'', Some (jnullable jint (m_provider_id updated))),
              (''providerMessageId'', Some (jnullable JStr (m_provider_message_id updated))),
              (''attemptCount'', Some (jint (m_attempt_count updated)))]\<rparr>"

definition transition_message ::
  "ctx \<Rightarrow> message_row \<Rightarrow> message_status \<Rightarrow> assignment list \<Rightarrow> bool \<Rightarrow> (db, message_row) tx" where
  "transition_message c message next_status cols increment_attempt d =
     (if next_status \<notin> set (allowed_transitions (m_status message))
      then Inl (ConflictException
        (''Invalid status transition '' @ status_str (m_status message) @ '' -> '' @
         status_str next_status))
      else
        and_then (update_message message (transition_clause c next_status cols increment_attempt) d)
          (\<lambda>(updated, d1). Inr (updated, audit_write c (transition_audit message next_status updated) d1)))"

definition get_message_row :: "composite_id \<Rightarrow> db \<Rightarrow> message_row result" where
  "get_message_row ref d =
     (case first_row (filter (\<lambda>r. message_key r = composite_key ref) (messages d)) of
        None \<Rightarrow> Inl (NotFoundException ''Message not found'')
      | Some row \<Rightarrow> Inr row)"

definition log_event ::
  "ctx \<Rightarrow> composite_id \<Rightarrow> string \<Rightarrow> message_status option \<Rightarrow> message_status option \<Rightarrow> json \<Rightarrow>
   int option \<Rightarrow> string option \<Rightarrow> int \<Rightarrow> db \<Rightarrow> db" where
  "log_event c ref event_type status_from status_to payload provider_id provider_message_id attempt_no d =
     d\<lparr>message_logs := message_logs d @
        [\<lparr>ml_log_date = c_submit_date ref, ml_tenant_id = c_tenant_id ref,
          ml_message_submit_date = c_submit_date ref, ml_message_id = c_id ref,
          ml_event_type = event_type, ml_status_from = status_from, ml_status_to = status_to,
          ml_provider_id = provider_id, ml_provider_message_id = provider_message_id,
          ml_attempt_no = attempt_no, ml_payload = payload, ml_created_at = c_now c\<rparr>]\<rparr>"

subsection \<open>Tables updated under a version\<close>

locale versioned_table =
  fixes update :: "'r \<Rightarrow> ('r \<Rightarrow> 'r) \<Rightarrow> ('s, 'r) tx"
    and rows :: "'s \<Rightarrow> 'r list"
    and key :: "'r \<Rightarrow> 'k"
    and version :: "'r \<Rightarrow> int"
    and norm :: "'k \<Rightarrow> 'k"
    and wf :: "'s \<Rightarrow> bool"
    and clause :: "('r \<Rightarrow> 'r) \<Rightarrow> bool"
  assumes wf_keys: "wf s \<Longrightarrow> distinct (map key (rows s))"
    and wf_norm: "wf s \<Longrightarrow> r \<in> set (rows s) \<Longrightarrow> norm (key r) = key r"
    and clause_key: "clause f \<Longrightarrow> key (f r) = key r"
    and clause_version: "clause f \<Longrightarrow> version (f r) = version r + 1"
    and update_success:
      "wf s \<Longrightarrow> clause f \<Longrightarrow> update m f s = Inr (u, s') \<Longrightarrow>
        wf s' \<and> (\<exists>r \<in> set (rows s). key r = norm (key m) \<and> version r = version m \<and>
          u = f r \<and> rows s' = sql_update (\<lambda>x. key x = key r) f (rows s))"
begin

text \<open>
  A snapshot that was read at some earlier point: the row it was read from exists still, has
  not gone back to an older version, and is unchanged if the version is.
\<close>

definition seen :: "'r \<Rightarrow> 's \<Rightarrow> bool" where
  "seen m s \<longleftrightarrow> (\<exists>r \<in> set (rows s). key r = key m \<and> version m \<le> version r \<and>
     (version r = version m \<longrightarrow> r = m))"

lemma seen_row: "r \<in> set (rows s) \<Longrightarrow> seen r s"
  by (auto simp: seen_def)

lemma row_of_key: "wf s \<Longrightarrow> r \<in> set (rows s) \<Longrightarrow> x \<in> set (rows s) \<Longrightarrow> key r = key x \<Longrightarrow> r = x"
  by (rule distinct_key_eqD [OF wf_keys])

lemma update_row:
  assumes "wf s" and "clause f" and "update m f s = Inr (u, s')"
  obtains r where "r \<in> set (rows s)" "key r = norm (key m)" "version r = version m" "u = f r"
    "rows s' = sql_update (\<lambda>x. key x = key r) f (rows s)" "wf s'"
  using update_success [OF assms] by blast

lemma seen_update:
  assumes "wf s" and "clause f" and "update m f s = Inr (u, s')" and "seen x s"
  shows "seen x s'"
proof -
  obtain r where r: "r \<in> set (rows s)" "rows s' = sql_update (\<lambda>x. key x = key r) f (rows s)"
    using update_row [OF assms(1-3)] by metis
  from assms(4) obtain y where y: "y \<in> set (rows s)" "key y = key x" "version x \<le> version y"
    "version y = version x \<longrightarrow> y = x" by (auto simp: seen_def)
  show ?thesis
  proof (cases "key y = key r")
    case True
    with y(1) r have "f y \<in> set (rows s')" by (auto simp: set_sql_update)
    with y show ?thesis
      unfolding seen_def
      by (intro bexI [of _ "f y"]) (auto simp: clause_key [OF assms(2)] clause_version [OF assms(2)])
  next
    case False
    with y(1) r have "y \<in> set (rows s')" by (auto simp: set_sql_update)
    with y show ?thesis by (auto simp: seen_def)
  qed
qed

text \<open>An update that succeeds from a snapshot found exactly that snapshot in the table.\<close>

lemma seen_exact:
  assumes "wf s" and "clause f" and "update m f s = Inr (u, s')" and "seen m s"
  shows "m \<in> set (rows s)" "u = f m" "rows s' = sql_update (\<lambda>x. key x = key m) f (rows s)"
proof -
  obtain r where r: "r \<in> set (rows s)" "key r = norm (key m)" "version r = version m" "u = f r"
    "rows s' = sql_update (\<lambda>x. key x = key r) f (rows s)"
    using update_row [OF assms(1-3)] by metis
  from assms(4) obtain y where y: "y \<in> set (rows s)" "key y = key m"
    "version y = version m \<longrightarrow> y = m" by (auto simp: seen_def)
  with r(2) have "key r = key y" using wf_norm [OF assms(1) y(1)] by simp
  then have "r = y" using row_of_key [OF assms(1) r(1) y(1)] by simp
  with y r show "m \<in> set (rows s)" "u = f m" "rows s' = sql_update (\<lambda>x. key x = key m) f (rows s)"
    by simp_all
qed

text \<open>Of two updates from the same snapshot at most one succeeds: no update is lost.\<close>

lemma no_lost_update:
  assumes "wf s" and "clause f" and "clause g" and "update m f s = Inr (u, s')"
  shows "\<exists>e. update m g s' = Inl e"
proof (rule ccontr)
  assume "\<nexists>e. update m g s' = Inl e"
  then obtain u' s'' where "update m g s' = Inr (u', s'')"
    by (metis obj_sumE surj_pair)
  moreover obtain r where r: "r \<in> set (rows s)" "key r = norm (key m)" "version r = version m"
    "rows s' = sql_update (\<lambda>x. key x = key r) f (rows s)" "wf s'"
    using update_row [OF assms(1,2,4)] by metis
  ultimately obtain x where x: "x \<in> set (rows s')" "key x = norm (key m)" "version x = version m"
    using update_row [OF _ assms(3)] by metis
  have "f r \<in> set (rows s')" using r by (auto simp: set_sql_update)
  with x(1,2) r have "x = f r"
    using row_of_key [OF r(5)] clause_key [OF assms(2)] by metis
  with x(3) r(3) show False using clause_version [OF assms(2)] by simp
qed

end

subsection \<open>The messages table keeps the contract\<close>

definition messages_wf :: "db \<Rightarrow> bool" where
  "messages_wf d \<longleftrightarrow>
     distinct (map message_key (messages d)) \<and>
     (\<forall>m \<in> set (messages d). length (m_submit_date m) = 10)"

definition norm_key :: "string \<times> tenant \<times> int \<Rightarrow> string \<times> tenant \<times> int" where
  "norm_key k = (case k of (date, tenant, i) \<Rightarrow> (to_date_string date, tenant, i))"

definition update_clause :: "(message_row \<Rightarrow> message_row) \<Rightarrow> bool" where
  "update_clause f \<longleftrightarrow>
     (\<forall>r. message_key (f r) = message_key r \<and> m_version (f r) = m_version r + 1)"

lemma assign_frame [simp]:
  "message_key (assign a r) = message_key r"
  "m_version (assign a r) = m_version r"
  "m_status (assign a r) = m_status r"
  "m_state_changed_at (assign a r) = m_state_changed_at r"
  "m_price_minor (assign a r) = m_price_minor r"
  "m_submit_date (assign a r) = m_submit_date r"
  "m_tenant_id (assign a r) = m_tenant_id r"
  "m_id (assign a r) = m_id r"
  by (cases a; simp add: message_key_def)+

lemma fold_assign_frame [simp]:
  "message_key (fold assign as r) = message_key r"
  "m_version (fold assign as r) = m_version r"
  "m_status (fold assign as r) = m_status r"
  "m_state_changed_at (fold assign as r) = m_state_changed_at r"
  "m_price_minor (fold assign as r) = m_price_minor r"
  "m_submit_date (fold assign as r) = m_submit_date r"
  "m_tenant_id (fold assign as r) = m_tenant_id r"
  "m_id (fold assign as r) = m_id r"
  by (induction as arbitrary: r) simp_all

lemma patch_clause_frame [simp]:
  "message_key (patch_clause c as r) = message_key r"
  "m_version (patch_clause c as r) = m_version r + 1"
  "m_status (patch_clause c as r) = m_status r"
  "m_price_minor (patch_clause c as r) = m_price_minor r"
  "m_tenant_id (patch_clause c as r) = m_tenant_id r"
  "m_id (patch_clause c as r) = m_id r"
  "m_submit_date (patch_clause c as r) = m_submit_date r"
  "m_state_changed_at (patch_clause c as r) = c_now c"
  by (simp_all add: patch_clause_def) (simp add: message_key_def)

lemma transition_clause_frame [simp]:
  "message_key (transition_clause c st as inc r) = message_key r"
  "m_version (transition_clause c st as inc r) = m_version r + 1"
  "m_status (transition_clause c st as inc r) = st"
  "m_price_minor (transition_clause c st as inc r) = m_price_minor r"
  "m_tenant_id (transition_clause c st as inc r) = m_tenant_id r"
  "m_id (transition_clause c st as inc r) = m_id r"
  "m_submit_date (transition_clause c st as inc r) = m_submit_date r"
  "m_state_changed_at (transition_clause c st as inc r) = c_now c"
  by (auto simp: transition_clause_def Let_def message_key_def)

lemma update_clauses [simp, intro]:
  "update_clause (patch_clause c as)"
  "update_clause (transition_clause c st as inc)"
  by (simp_all add: update_clause_def)

lemma current_as_key: "current_as m r \<Longrightarrow> message_key r = norm_key (message_key m)"
  by (simp add: current_as_def message_key_def norm_key_def)

lemma update_messageE:
  assumes "messages_wf d" and "update_message m f d = Inr (u, d')"
  obtains r where "r \<in> set (messages d)" "current_as m r" "u = f r"
    "enforce_message_state_transition r (f r) = None"
    "d' = d\<lparr>messages := sql_update (\<lambda>x. message_key x = message_key r) f (messages d)\<rparr>"
proof -
  obtain r where r: "r \<in> set (messages d)" "current_as m r"
    using assms(2) filter_set [of "current_as m" "messages d"]
    by (cases "filter (current_as m) (messages d)")
      (force simp: update_message_def sql_returning_def map_filter_def)+
  have same: "current_as m x \<longleftrightarrow> message_key x = message_key r" if "x \<in> set (messages d)" for x
    using that r assms(1) distinct_key_eqD [of message_key "messages d" x r]
    by (metis current_as_key messages_wf_def)
  then have "filter (current_as m) (messages d) = [r]"
    using distinct_key_filter [of message_key "messages d" r] assms(1) r(1)
    by (simp add: messages_wf_def cong: filter_cong)
  moreover have "sql_update (current_as m) f (messages d) =
      sql_update (\<lambda>x. message_key x = message_key r) f (messages d)"
    unfolding sql_update_def using same by (intro map_cong) auto
  ultimately show thesis
    using assms(2) that [OF r]
    by (cases "enforce_message_state_transition r (f r)")
      (simp_all add: update_message_def sql_returning_def map_filter_def)
qed

lemma messages_wf_update:
  assumes "messages_wf d" and "update_clause f"
  shows "messages_wf (d\<lparr>messages := sql_update P f (messages d)\<rparr>)"
proof -
  have "map message_key (sql_update P f (messages d)) = map message_key (messages d)"
    using assms(2) by (intro map_sql_update) (simp add: update_clause_def)
  moreover have "m_submit_date (f r) = m_submit_date r" for r
    using assms(2) by (simp add: update_clause_def message_key_def)
  ultimately show ?thesis
    using assms(1) by (auto simp: messages_wf_def set_sql_update)
qed

interpretation mtable: versioned_table update_message messages message_key m_version norm_key
  messages_wf update_clause
proof unfold_locales
  show "messages_wf s \<Longrightarrow> r \<in> set (messages s) \<Longrightarrow> norm_key (message_key r) = message_key r" for s r
    by (simp add: messages_wf_def norm_key_def message_key_def to_date_string_def)
  fix s f m u s'
  assume *: "messages_wf s" "update_clause f" "update_message m f s = Inr (u, s')"
  obtain r where "r \<in> set (messages s)" "current_as m r" "u = f r"
    "s' = s\<lparr>messages := sql_update (\<lambda>x. message_key x = message_key r) f (messages s)\<rparr>"
    using update_messageE [OF *(1,3)] by metis
  moreover have "message_key r = norm_key (message_key m)" "m_version r = m_version m"
    using \<open>current_as m r\<close> by (simp_all add: current_as_key) (simp add: current_as_def)
  ultimately show "messages_wf s' \<and> (\<exists>r \<in> set (messages s). message_key r = norm_key (message_key m) \<and>
      m_version r = m_version m \<and> u = f r \<and>
      messages s' = sql_update (\<lambda>x. message_key x = message_key r) f (messages s))"
    using * messages_wf_update by auto
qed (simp_all add: messages_wf_def update_clause_def)

text \<open>An update from a snapshot that is the current row: only the trigger can refuse it.\<close>

lemma current_as_self:
  "messages_wf d \<Longrightarrow> m \<in> set (messages d) \<Longrightarrow> x \<in> set (messages d) \<Longrightarrow>
   current_as m x \<longleftrightarrow> x = m"
  using mtable.row_of_key [of d x m] mtable.wf_norm [of d m]
  by (auto dest: current_as_key)
    (simp add: current_as_def messages_wf_def to_date_string_def)

lemma update_message_current:
  assumes "messages_wf d" and "m \<in> set (messages d)"
  shows "update_message m f d =
    (case enforce_message_state_transition m (f m) of
       Some err \<Rightarrow> Inl (DatabaseError err)
     | None \<Rightarrow> Inr (f m,
         d\<lparr>messages := sql_update (\<lambda>x. message_key x = message_key m) f (messages d)\<rparr>))"
proof -
  have same: "current_as m x \<longleftrightarrow> message_key x = message_key m" if "x \<in> set (messages d)" for x
    using current_as_self [OF assms that] mtable.row_of_key [OF assms(1) that assms(2)] by auto
  then have "filter (current_as m) (messages d) = [m]"
    using distinct_key_filter [of message_key "messages d" m] assms
    by (simp add: messages_wf_def cong: filter_cong)
  moreover have "sql_update (current_as m) f (messages d) =
      sql_update (\<lambda>x. message_key x = message_key m) f (messages d)"
    unfolding sql_update_def using same by (intro map_cong) auto
  ultimately show ?thesis
    by (cases "enforce_message_state_transition m (f m)")
      (simp_all add: update_message_def sql_returning_def map_filter_def)
qed

lemma get_message_row_found:
  "get_message_row ref d = Inr m \<longleftrightarrow>
   first_row (filter (\<lambda>r. message_key r = composite_key ref) (messages d)) = Some m"
  by (auto simp: get_message_row_def split: option.splits)

lemma get_message_row_in:
  "get_message_row ref d = Inr m \<Longrightarrow> m \<in> set (messages d) \<and> message_key m = composite_key ref"
  unfolding get_message_row_found by (rule first_row_filter_Some)

lemma get_message_row_current:
  assumes "messages_wf d" and "m \<in> set (messages d)" and "composite_key ref = message_key m"
  shows "get_message_row ref d = Inr m"
  using distinct_key_filter [of message_key "messages d" m] assms
  by (simp add: get_message_row_def messages_wf_def)

subsection \<open>Patches and transitions\<close>

lemma patch_message_seen:
  assumes "messages_wf d" and "mtable.seen m d" and "patch_message c m cols d = Inr (u, d')"
  shows "m \<in> set (messages d)" "u = patch_clause c cols m"
    "d' = d\<lparr>messages := sql_update (\<lambda>x. message_key x = message_key m) (patch_clause c cols) (messages d)\<rparr>"
    "m_state_changed_at m < c_now c"
proof -
  have up: "update_message m (patch_clause c cols) d = Inr (u, d')"
    using assms(3) by (simp add: patch_message_def)
  show m: "m \<in> set (messages d)" "u = patch_clause c cols m"
    using mtable.seen_exact [OF assms(1) _ up assms(2)] by simp_all
  show "d' = d\<lparr>messages := sql_update (\<lambda>x. message_key x = message_key m) (patch_clause c cols) (messages d)\<rparr>"
    "m_state_changed_at m < c_now c"
    using up update_message_current [OF assms(1) m(1), of "patch_clause c cols"]
    by (auto simp: enforce_message_state_transition_def split: option.splits if_splits)
qed

lemma transition_message_seen:
  assumes "messages_wf d" and "mtable.seen m d"
    and "transition_message c m next cols inc d = Inr (u, d')"
  shows "m \<in> set (messages d)" "u = transition_clause c next cols inc m"
    "next \<in> set (allowed_transitions (m_status m))"
    "d' = audit_write c (transition_audit m next u)
       (d\<lparr>messages := sql_update (\<lambda>x. message_key x = message_key m)
          (transition_clause c next cols inc) (messages d)\<rparr>)"
    "m_state_changed_at m < c_now c"
proof -
  obtain d1 where up: "update_message m (transition_clause c next cols inc) d = Inr (u, d1)"
    and d': "d' = audit_write c (transition_audit m next u) d1"
    and "next \<in> set (allowed_transitions (m_status m))"
    using assms(3) by (auto simp: transition_message_def and_then_eq_Inr split: if_splits)
  then show "next \<in> set (allowed_transitions (m_status m))" by simp
  show m: "m \<in> set (messages d)" "u = transition_clause c next cols inc m"
    using mtable.seen_exact [OF assms(1) _ up assms(2)] by simp_all
  show "d' = audit_write c (transition_audit m next u)
       (d\<lparr>messages := sql_update (\<lambda>x. message_key x = message_key m)
          (transition_clause c next cols inc) (messages d)\<rparr>)"
    "m_state_changed_at m < c_now c"
    using up d' update_message_current [OF assms(1) m(1), of "transition_clause c next cols inc"]
    by (auto simp: enforce_message_state_transition_def split: option.splits if_splits)
qed

lemma trigger_transition:
  "next \<in> set (allowed_transitions (m_status m)) \<Longrightarrow>
   enforce_message_state_transition m (transition_clause c next cols inc m) = None \<longleftrightarrow>
     m_state_changed_at m < c_now c \<and>
     (m_status m = ProviderAccepted \<and> next = Failed \<longrightarrow>
        m_last_error_code (transition_clause c next cols inc m) = Some ''dlr_failed'')"
  by (cases "m_status m")
    (auto simp: enforce_message_state_transition_def coalesce_def split: option.splits)

lemma trigger_patch:
  "enforce_message_state_transition m (patch_clause c cols m) = None \<longleftrightarrow>
     m_state_changed_at m < c_now c"
  by (auto simp: enforce_message_state_transition_def)

text \<open>C18: a transition of the current row succeeds exactly when the status machine allows it, the
  clock has moved past the row's last change, and a message the provider had accepted fails
  only with the error code of a delivery receipt; a refused transition is an exception.\<close>

theorem transition_succeeds_iff:
  assumes "messages_wf d" and "m \<in> set (messages d)"
  shows "(\<exists>u d'. transition_message c m next cols inc d = Inr (u, d')) \<longleftrightarrow>
    next \<in> set (allowed_transitions (m_status m)) \<and> m_state_changed_at m < c_now c \<and>
    (m_status m = ProviderAccepted \<and> next = Failed \<longrightarrow>
       m_last_error_code (transition_clause c next cols inc m) = Some ''dlr_failed'')"
proof (cases "next \<in> set (allowed_transitions (m_status m))")
  case True
  then show ?thesis
    using trigger_transition [OF True, of c cols inc]
    by (auto simp: transition_message_def update_message_current [OF assms] and_then_eq_Inr
        split: option.splits)
qed (simp add: transition_message_def)

lemma stale_update:
  assumes "messages_wf d" and "update_clause f" and "update_clause g"
    and "update_message m f d = Inr (u, d')" and "messages d'' = messages d'"
  shows "\<exists>e. update_message m g d'' = Inl e"
proof -
  obtain e where "update_message m g d' = Inl e"
    using mtable.no_lost_update [OF assms(1-4)] by blast
  with assms(5) show ?thesis
    by (auto simp: update_message_def split: option.splits)
qed

text \<open>C19: of two handlers that read the same snapshot of a message at most one changes it: once a
  transition from the snapshot has committed, every later transition or patch from it throws.\<close>

theorem stale_snapshot_is_refused:
  assumes "messages_wf d" and "transition_message c m next cols inc d = Inr (u, d')"
  shows "(\<exists>e. transition_message c' m next' cols' inc' d' = Inl e) \<and>
    (\<exists>e. patch_message c' m cols' d' = Inl e)"
proof -
  obtain d1 where up: "update_message m (transition_clause c next cols inc) d = Inr (u, d1)"
    and d': "messages d' = messages d1"
    using assms(2) by (auto simp: transition_message_def and_then_eq_Inr split: if_splits)
  then show ?thesis
    using stale_update [OF assms(1) _ _ up d', of "transition_clause c' next' cols' inc'"]
      stale_update [OF assms(1) _ _ up d', of "patch_clause c' cols'"]
    by (auto simp: transition_message_def patch_message_def and_then_eq_Inl)
qed

text \<open>A concrete message, for the witnesses.\<close>

definition ex_message :: message_row where
  "ex_message =
     \<lparr>m_id = 7, m_submit_date = ''2025-11-18'', m_tenant_id = ''ten1'', m_campaign_id = None,
      m_api_key_id = Some ''k1'', m_client_message_id = None, m_api_idempotency_key = None,
      m_source_addr = Some ''MYAPP'', m_phone_number = ''+251911234567'', m_body = ''hello'',
      m_traffic_type = ''transactional'', m_status = Submitting, m_version = 2,
      m_attempt_count = 1, m_provider_id = Some 3, m_smpp_config_id = None,
      m_route_rule_id = Some 5, m_provider_message_id = None, m_price_minor = 30,
      m_cost_minor = 18, m_billing_state = ''reserved'', m_message_parts = 1,
      m_accepted_at = 100, m_sent_at = None, m_delivered_at = None, m_failed_at = None,
      m_last_error_code = None, m_last_error_message = None, m_body_hash = None,
      m_state_changed_at = 200\<rparr>"

definition ex_messages :: db where
  "ex_messages = empty_db\<lparr>messages := [ex_message]\<rparr>"

lemma ex_messages_wf: "messages_wf ex_messages" "ex_message \<in> set (messages ex_messages)"
  by (simp_all add: messages_wf_def ex_messages_def ex_message_def)

theorem transition_succeeds_iff_witness:
  "(\<exists>u d'. transition_message ex_ctx ex_message ProviderAccepted [] False ex_messages = Inr (u, d')) \<and>
   \<not> (\<exists>u d'. transition_message ex_ctx ex_message Delivered [] False ex_messages = Inr (u, d'))"
  using transition_succeeds_iff [OF ex_messages_wf, of ex_ctx ProviderAccepted "[]" False]
    transition_succeeds_iff [OF ex_messages_wf, of ex_ctx Delivered "[]" False]
  by (simp add: ex_message_def ex_ctx_def)

lemma ex_transition:
  "transition_message ex_ctx ex_message ProviderAccepted [] False ex_messages =
     Inr (the_elem {fst (projr (transition_message ex_ctx ex_message ProviderAccepted [] False ex_messages))},
          snd (projr (transition_message ex_ctx ex_message ProviderAccepted [] False ex_messages)))"
proof -
  have "enforce_message_state_transition ex_message
      (transition_clause ex_ctx ProviderAccepted [] False ex_message) = None"
    by (subst trigger_transition) (simp_all add: ex_message_def ex_ctx_def)
  then show ?thesis
    by (simp add: transition_message_def update_message_current [OF ex_messages_wf])
      (simp add: ex_message_def)
qed

theorem stale_snapshot_is_refused_witness:
  "\<exists>e. transition_message ex_later ex_message Failed [LastErrorCode (Some ''timeout'')] False
     (snd (projr (transition_message ex_ctx ex_message ProviderAccepted [] False ex_messages))) = Inl e"
  using stale_snapshot_is_refused [OF ex_messages_wf(1) ex_transition] by blast

subsection \<open>What the helpers compute\<close>

lemma digits_kept:
  assumes "normalize_phone_number p = Inr q"
  shows "starts_with q ''+''" "filter (\<lambda>c. is_digit c \<or> c = CHR ''+'') q = q"
proof -
  define t where "t = filter (\<lambda>c. is_digit c \<or> c = CHR ''+'') p"
  have t: "\<forall>c \<in> set t. is_digit c \<or> c = CHR ''+''" by (simp add: t_def)
  have q: "q = t \<and> starts_with t ''+'' \<or> q = ''+'' @ t \<or> q = ''+251'' @ drop 1 t"
    using assms by (auto simp: normalize_phone_number_def t_def Let_def split: if_splits)
  have digits: "is_digit (CHR ''2'')" "is_digit (CHR ''5'')" "is_digit (CHR ''1'')"
    by (simp_all add: is_digit_def)
  have "\<forall>c \<in> set (drop 1 t). is_digit c \<or> c = CHR ''+''"
    using t set_drop_subset [of 1 t] by blast
  with q t digits have "\<forall>c \<in> set q. is_digit c \<or> c = CHR ''+''"
    by (elim disjE) simp_all
  then show "filter (\<lambda>c. is_digit c \<or> c = CHR ''+'') q = q" by (simp add: filter_id_conv)
  show "starts_with q ''+''" using q by auto
qed

text \<open>The normalised destination starts with a plus sign, consists of digits and plus signs,
  and normalising it again changes nothing.\<close>

theorem normalize_phone_number_normal:
  assumes "normalize_phone_number p = Inr q"
  shows "starts_with q ''+'' \<and> (\<forall>c \<in> set q. is_digit c \<or> c = CHR ''+'') \<and>
    normalize_phone_number q = Inr q"
  using digits_kept [OF assms]
  by (auto simp: filter_id_conv normalize_phone_number_def Let_def)

theorem normalize_phone_number_normal_witness:
  "normalize_phone_number ''0911-23 45 67'' = Inr ''+251911234567'' \<and>
   normalize_phone_number ''+251911234567'' = Inr ''+251911234567''"
proof -
  have n: "normalize_phone_number ''0911-23 45 67'' = Inr ''+251911234567''"
    by (simp add: normalize_phone_number_def is_digit_def)
  with normalize_phone_number_normal [OF n] show ?thesis by blast
qed

text \<open>A body of at most 160 characters is one part; a longer one has the least number of parts
  of 153 characters that hold it.\<close>

theorem message_parts_minimal:
  "(length body \<le> 160 \<longrightarrow> compute_message_parts body = 1) \<and>
   (160 < length body \<longrightarrow>
      int (length body) \<le> 153 * compute_message_parts body \<and>
      153 * (compute_message_parts body - 1) < int (length body))"
proof -
  define n where "n = int (length body)"
  have "(of_nat (length body) :: rat) = of_int n" by (simp add: n_def)
  moreover have "n \<le> 153 * \<lceil>(of_int n :: rat) / 153\<rceil>"
  proof -
    have "(of_int n :: rat) / 153 \<le> of_int \<lceil>(of_int n :: rat) / 153\<rceil>" by (rule le_of_int_ceiling)
    then have "(of_int n :: rat) / 153 * 153 \<le> of_int \<lceil>(of_int n :: rat) / 153\<rceil> * 153"
      by (intro mult_right_mono) simp_all
    then have "(of_int n :: rat) \<le> of_int (153 * \<lceil>(of_int n :: rat) / 153\<rceil>)"
      by (simp add: mult.commute)
    then show ?thesis by (simp only: of_int_le_iff)
  qed
  moreover have "153 * (\<lceil>(of_int n :: rat) / 153\<rceil> - 1) < n"
  proof -
    have "of_int (\<lceil>(of_int n :: rat) / 153\<rceil> - 1) < (of_int n :: rat) / 153"
      using ceiling_correct [of "(of_int n :: rat) / 153"] by simp
    then have "of_int (153 * (\<lceil>(of_int n :: rat) / 153\<rceil> - 1)) < (of_int n :: rat)" by simp
    then show ?thesis by (simp only: of_int_less_iff)
  qed
  ultimately show ?thesis
    by (simp add: compute_message_parts_def flip: n_def)
qed

theorem message_parts_minimal_witness:
  "compute_message_parts (replicate 160 CHR ''a'') = 1 \<and>
   int (length (replicate 307 CHR ''a'')) \<le> 153 * compute_message_parts (replicate 307 CHR ''a'')"
  using message_parts_minimal [of "replicate 160 CHR ''a''"]
    message_parts_minimal [of "replicate 307 CHR ''a''"] by simp

end
