(* ===== verification/Queries.thy ===== *)
theory Queries
  imports Messages
begin

text \<open>
  The read side of \<open>messages.service.ts\<close>: the sell price of a body
  (\<open>getSellUnitPriceMinor\<close>), the message explorer (\<open>listMessages\<close>), the trace of one message
  (\<open>getMessageTrace\<close>) and the correlation of a delivery receipt (\<open>correlateMessageForDlr\<close>);
  and the wallet's queries of \<open>wallets.service.ts\<close>. Timestamps in query strings are parsed by
  PostgreSQL; here they are given as instants.
\<close>

subsection \<open>Prices\<close>

definition price_in_force :: "ctx \<Rightarrow> string \<Rightarrow> string \<Rightarrow> pricing_rule \<Rightarrow> bool" where
  "price_in_force c country_code traffic_type r \<longleftrightarrow>
     pr_country_code r = country_code \<and> pr_traffic_type r = traffic_type \<and> pr_is_active r \<and>
     (case pr_effective_to r of None \<Rightarrow> True | Some t \<Rightarrow> c_now c < t)"

definition get_sell_unit_price_minor ::
  "ctx \<Rightarrow> pricing_rule list \<Rightarrow> tenant \<Rightarrow> string \<Rightarrow> string \<Rightarrow> int \<Rightarrow> int" where
  "get_sell_unit_price_minor c rules tenant country_code traffic_type parts =
     coalesce
       (map_option pr_unit_price_minor
         (first_row (sort_desc pr_effective_from
           (filter (\<lambda>r. pr_kind r = ''sell'' \<and> pr_tenant_id r = Some tenant \<and>
                price_in_force c country_code traffic_type r \<and>
                pr_parts_from r \<le> parts \<and> parts \<le> pr_parts_to r) rules)))) 0"

subsection \<open>The message explorer\<close>

record explorer_query =
  me_tenant_id :: "tenant option"
  me_status :: "message_status option"
  me_sender_id :: "string option"
  me_provider_id :: "int option"
  me_campaign_id :: "int option"
  me_phone_number :: "string option"
  me_provider_message_id :: "string option"
  me_from :: "time option"
  me_to :: "time option"
  me_page :: int
  me_limit :: int

definition explorer_phone :: "explorer_query \<Rightarrow> string option result" where
  "explorer_phone query =
     (case given_str (me_phone_number query) of
        None \<Rightarrow> Inr None
      | Some p \<Rightarrow> and_then (normalize_phone_number p) (\<lambda>q. Inr (Some q)))"

definition explorer_match ::
  "tenant \<Rightarrow> explorer_query \<Rightarrow> string option \<Rightarrow> message_row \<Rightarrow> bool" where
  "explorer_match tenant query phone r \<longleftrightarrow>
     m_tenant_id r = tenant \<and>
     sql_filter (me_status query) (\<lambda>v. m_status r = v) \<and>
     sql_filter (given_str (me_sender_id query)) (\<lambda>v. m_source_addr r = Some v) \<and>
     sql_filter (given_int (me_provider_id query)) (\<lambda>v. m_provider_id r = Some v) \<and>
     sql_filter (given_int (me_campaign_id query)) (\<lambda>v. m_campaign_id r = Some v) \<and>
     sql_filter phone (\<lambda>v. m_phone_number r = v) \<and>
     sql_filter (given_str (me_provider_message_id query)) (\<lambda>v. m_provider_message_id r = Some v) \<and>
     sql_filter (me_from query) (\<lambda>v. v \<le> m_accepted_at r) \<and>
     sql_filter (me_to query) (\<lambda>v. m_accepted_at r \<le> v)"

definition list_messages ::
  "jwt_claims \<Rightarrow> explorer_query \<Rightarrow> db \<Rightarrow> json page_result result" where
  "list_messages user query d =
     and_then (resolve_tenant_scope user (me_tenant_id query)) (\<lambda>tenant.
     and_then (explorer_phone query) (\<lambda>phone.
       let matching = filter (explorer_match tenant query phone) (messages d) in
       Inr \<lparr>pg_items = map (\<lambda>r. build_message_response r None)
                (paginate (me_page query) (me_limit query) (sort_desc m_accepted_at matching)),
            pg_page = me_page query, pg_limit = me_limit query,
            pg_total = int (length matching)\<rparr>))"

text \<open>The pages of the explorer list every matching message of the tenant in scope exactly
  once, newest first, as soon as there are enough pages for the total.\<close>

theorem explorer_pages_cover:
  assumes "resolve_tenant_scope user (me_tenant_id query) = Inr tenant"
    and "explorer_phone query = Inr phone" and "0 \<le> me_limit query"
    and "length (filter (explorer_match tenant query phone) (messages d)) \<le> n * nat (me_limit query)"
  shows "concat (map (\<lambda>p. pg_items (projr (list_messages user (query\<lparr>me_page := int p + 1\<rparr>) d))) [0..<n]) =
    map (\<lambda>r. build_message_response r None)
      (sort_desc m_accepted_at (filter (explorer_match tenant query phone) (messages d)))"
proof -
  have same: "explorer_match tenant (query\<lparr>me_page := p\<rparr>) phone = explorer_match tenant query phone"
    "explorer_phone (query\<lparr>me_page := p\<rparr>) = explorer_phone query" for p
    by (simp_all add: explorer_match_def [abs_def] explorer_phone_def)
  define ms where "ms = sort_desc m_accepted_at (filter (explorer_match tenant query phone) (messages d))"
  have "pg_items (projr (list_messages user (query\<lparr>me_page := int p + 1\<rparr>) d)) =
      map (\<lambda>r. build_message_response r None) (paginate (int p + 1) (me_limit query) ms)" for p
    using assms(1,2) by (simp add: list_messages_def same Let_def ms_def)
  then have "concat (map (\<lambda>p. pg_items (projr (list_messages user (query\<lparr>me_page := int p + 1\<rparr>) d))) [0..<n]) =
      map (\<lambda>r. build_message_response r None)
        (concat (map (\<lambda>p. paginate (int p + 1) (me_limit query) ms) [0..<n]))"
    by (simp add: map_concat comp_def)
  also have "\<dots> = map (\<lambda>r. build_message_response r None) ms"
    using assms(4) by (simp add: paginate_concat [OF assms(3)] ms_def)
  finally show ?thesis by (simp add: ms_def)
qed

definition ex_query :: explorer_query where
  "ex_query = \<lparr>me_tenant_id = None, me_status = Some Submitting, me_sender_id = None,
     me_provider_id = None, me_campaign_id = None, me_phone_number = Some ''0911234567'',
     me_provider_message_id = None, me_from = None, me_to = None, me_page = 1, me_limit = 25\<rparr>"

theorem explorer_pages_cover_witness:
  "concat (map (\<lambda>p. pg_items (projr (list_messages ex_claims (ex_query\<lparr>me_page := int p + 1\<rparr>) ex_messages))) [0..<1]) =
   [build_message_response ex_message None]"
proof -
  have "explorer_phone ex_query = Inr (Some ''+251911234567'')"
    by (simp add: explorer_phone_def ex_query_def given_str_def normalize_phone_number_def is_digit_def)
  moreover have "filter (explorer_match ''ten1'' ex_query (Some ''+251911234567'')) (messages ex_messages) = [ex_message]"
    by (simp add: explorer_match_def ex_query_def ex_messages_def ex_message_def given_str_def given_int_def)
  moreover have "resolve_tenant_scope ex_claims (me_tenant_id ex_query) = Inr ''ten1''"
    by (simp add: ex_query_def ex_claims_def)
  ultimately show ?thesis
    using explorer_pages_cover [where user = ex_claims and query = ex_query and tenant = "''ten1''"
        and phone = "Some ''+251911234567''" and d = ex_messages and n = 1]
    by (simp add: ex_query_def sort_desc_def)
qed

subsection \<open>The trace of a message\<close>







subsection \<open>Correlating a delivery receipt\<close>

record dlr_lookup =
  lk_tenant_id :: "tenant option"
  lk_provider_id :: int
  lk_provider_message_id :: "string option"
  lk_phone_number :: "string option"
  lk_sender_id :: "string option"
  lk_event_at :: "time option"
  lk_body_hash :: "string option"
  lk_campaign_id :: "int option"
  lk_route_rule_id :: "int option"

text \<open>\<open>ORDER BY sent_at DESC NULLS LAST\<close>.\<close>

definition by_sent_desc :: "message_row list \<Rightarrow> message_row list" where
  "by_sent_desc rows =
     sort_desc (\<lambda>r. case m_sent_at r of None \<Rightarrow> 0 | Some t \<Rightarrow> t)
       (filter (\<lambda>r. m_sent_at r \<noteq> None) rows) @
     filter (\<lambda>r. m_sent_at r = None) rows"

definition correlate_direct :: "dlr_lookup \<Rightarrow> db \<Rightarrow> message_row option" where
  "correlate_direct input d =
     first_row (by_sent_desc
       (filter (\<lambda>r. m_provider_id r = Some (lk_provider_id input) \<and>
            sql_filter (lk_tenant_id input) (\<lambda>t. m_tenant_id r = t) \<and>
            sql_eq (m_provider_message_id r) (lk_provider_message_id input)) (messages d)))"

definition time_score :: "time option \<Rightarrow> time option \<Rightarrow> int" where
  "time_score event_at sent_at =
     (case (event_at, sent_at) of
        (Some e, Some s) \<Rightarrow>
          if \<bar>s - e\<bar> \<le> 900 * 1000 then 3 else if \<bar>s - e\<bar> \<le> 21600 * 1000 then 1 else 0
      | _ \<Rightarrow> 0)"

definition confidence_score :: "dlr_lookup \<Rightarrow> message_row \<Rightarrow> int" where
  "confidence_score input r =
     (if sql_eq (m_source_addr r) (lk_sender_id input) then 3 else 0) +
     (if sql_eq (m_body_hash r) (lk_body_hash input) then 6 else 0) +
     (if sql_eq (m_campaign_id r) (lk_campaign_id input) then 4 else 0) +
     (if sql_eq (m_route_rule_id r) (lk_route_rule_id input) then 4 else 0) +
     time_score (lk_event_at input) (m_sent_at r)"

definition hours :: "int \<Rightarrow> int" where
  "hours h = h * 3600 * 1000"

definition correlation_candidate :: "ctx \<Rightarrow> dlr_lookup \<Rightarrow> message_row \<Rightarrow> bool" where
  "correlation_candidate c input r \<longleftrightarrow>
     m_provider_id r = Some (lk_provider_id input) \<and>
     sql_filter (lk_tenant_id input) (\<lambda>t. m_tenant_id r = t) \<and>
     lk_phone_number input = Some (m_phone_number r) \<and>
     (case m_sent_at r of
        None \<Rightarrow> False
      | Some s \<Rightarrow>
          coalesce (map_option (\<lambda>e. e - hours 6) (lk_event_at input)) (c_now c - hours 24) \<le> s \<and>
          s \<le> coalesce (map_option (\<lambda>e. e + hours 6) (lk_event_at input)) (c_now c))"

definition correlate_fallback :: "ctx \<Rightarrow> dlr_lookup \<Rightarrow> db \<Rightarrow> message_row option" where
  "correlate_fallback c input d =
     (case take 5 (sort_desc (confidence_score input)
             (by_sent_desc (filter (correlation_candidate c input) (messages d)))) of
        [] \<Rightarrow> None
      | best # rest \<Rightarrow>
          if confidence_score input best < 4 then None
          else
            (case rest of
               [] \<Rightarrow> Some best
             | runner_up # _ \<Rightarrow>
                 if confidence_score input runner_up = confidence_score input best then None
                 else Some best))"

definition correlate_message_for_dlr :: "ctx \<Rightarrow> dlr_lookup \<Rightarrow> db \<Rightarrow> message_row option" where
  "correlate_message_for_dlr c input d =
     (let direct =
            (if truthy_str (lk_provider_message_id input) then correlate_direct input d else None)
      in case direct of
           Some row \<Rightarrow> Some row
         | None \<Rightarrow>
             if \<not> truthy_str (lk_phone_number input) then None else correlate_fallback c input d)"

lemma mset_by_sent_desc [simp]: "mset (by_sent_desc rows) = mset rows"
  by (simp add: by_sent_desc_def)

lemma set_by_sent_desc [simp]: "set (by_sent_desc rows) = set rows"
  by (metis mset_by_sent_desc set_mset_mset)

lemma correlate_direct_in: "correlate_direct input d = Some m \<Longrightarrow> m \<in> set (messages d)"
  by (cases "by_sent_desc (filter (\<lambda>r. m_provider_id r = Some (lk_provider_id input) \<and>
        sql_filter (lk_tenant_id input) (\<lambda>t. m_tenant_id r = t) \<and>
        sql_eq (m_provider_message_id r) (lk_provider_message_id input)) (messages d))")
    (auto simp: correlate_direct_def dest!: arg_cong [where f = set])

lemma unique_best_of_sorted:
  assumes "distinct xs" and "sort_desc score xs = best # rest"
  shows "(rest = [] \<or> score (hd rest) \<noteq> score best) \<longleftrightarrow>
    (\<forall>x \<in> set xs. x \<noteq> best \<longrightarrow> score x < score best)"
proof -
  have d: "distinct (best # rest)" and s: "set xs = set (best # rest)"
    using assms by (metis distinct_sort sort_desc_def, metis set_sort_desc)
  show ?thesis
  proof (cases rest)
    case Nil
    with s show ?thesis by auto
  next
    case (Cons r rs)
    have le: "score x \<le> score r" if "x \<in> set rest" for x
      using sort_desc_tail [of score xs best r rs x] assms(2) Cons that by simp
    have "score r \<le> score best"
      using sort_desc_head [of score xs best rest r] assms(2) Cons by simp
    then show ?thesis
      using s d Cons le by force
  qed
qed

lemma correlate_fallback_iff:
  assumes "distinct (messages d)"
  shows "correlate_fallback c input d = Some m \<longleftrightarrow>
    m \<in> set (messages d) \<and> correlation_candidate c input m \<and> 4 \<le> confidence_score input m \<and>
    (\<forall>x \<in> set (messages d). correlation_candidate c input x \<and> x \<noteq> m \<longrightarrow>
       confidence_score input x < confidence_score input m)"
proof -
  define xs where "xs = by_sent_desc (filter (correlation_candidate c input) (messages d))"
  have sx: "set xs = {r \<in> set (messages d). correlation_candidate c input r}"
    by (simp add: xs_def)
  have dx: "distinct xs"
    using assms mset_by_sent_desc mset_eq_imp_distinct_iff distinct_filter unfolding xs_def by blast
  show ?thesis
  proof (cases "sort_desc (confidence_score input) xs")
    case Nil
    then have "xs = []" by (metis length_0_conv length_sort_desc)
    moreover have "correlate_fallback c input d = None"
      using Nil by (simp add: correlate_fallback_def flip: xs_def)
    ultimately show ?thesis using sx by auto
  next
    case (Cons best rest)
    have u: "(rest = [] \<or> confidence_score input (hd rest) \<noteq> confidence_score input best) \<longleftrightarrow>
      (\<forall>x \<in> set xs. x \<noteq> best \<longrightarrow> confidence_score input x < confidence_score input best)"
      by (rule unique_best_of_sorted [OF dx Cons])
    have "correlate_fallback c input d =
      (if 4 \<le> confidence_score input best \<and>
          (rest = [] \<or> confidence_score input (hd rest) \<noteq> confidence_score input best)
       then Some best else None)"
      using Cons by (cases rest) (auto simp: correlate_fallback_def simp flip: xs_def)
    moreover have "best \<in> set xs" by (metis Cons list.set_intros(1) set_sort_desc)
    moreover have "confidence_score input x \<le> confidence_score input best" if "x \<in> set xs" for x
      using sort_desc_head [OF Cons, of x] Cons that by (metis set_sort_desc)
    ultimately have "correlate_fallback c input d = Some m \<longleftrightarrow>
      m \<in> set xs \<and> 4 \<le> confidence_score input m \<and>
      (\<forall>x \<in> set xs. x \<noteq> m \<longrightarrow> confidence_score input x < confidence_score input m)"
      using u by (cases "m = best") (simp_all, fastforce)
    then show ?thesis using sx by auto
  qed
qed

text \<open>Without a direct hit on the provider's message id, a receipt is attributed to a message
  exactly when the message is in the time window of the receipt's destination, scores at least
  four, and scores strictly more than every other message in the window: a tie or a weak match
  is never guessed.\<close>

theorem correlation_is_unambiguous:
  assumes "distinct (messages d)" and "lk_phone_number input = Some phone" and "phone \<noteq> []"
    and "truthy_str (lk_provider_message_id input) \<longrightarrow> correlate_direct input d = None"
  shows "correlate_message_for_dlr c input d = Some m \<longleftrightarrow>
    m \<in> set (messages d) \<and> correlation_candidate c input m \<and> 4 \<le> confidence_score input m \<and>
    (\<forall>x \<in> set (messages d). correlation_candidate c input x \<and> x \<noteq> m \<longrightarrow>
       confidence_score input x < confidence_score input m)"
  using assms by (simp add: correlate_message_for_dlr_def Let_def correlate_fallback_iff)

definition ex_sent :: message_row where
  "ex_sent = ex_message\<lparr>m_status := ProviderAccepted, m_sent_at := Some 1763499999000,
     m_campaign_id := Some 9\<rparr>"

definition ex_lookup :: dlr_lookup where
  "ex_lookup = \<lparr>lk_tenant_id = None, lk_provider_id = 3, lk_provider_message_id = None,
     lk_phone_number = Some ''+251911234567'', lk_sender_id = Some ''MYAPP'', lk_event_at = None,
     lk_body_hash = None, lk_campaign_id = Some 9, lk_route_rule_id = None\<rparr>"

theorem correlation_is_unambiguous_witness:
  "correlate_message_for_dlr ex_ctx ex_lookup (empty_db\<lparr>messages := [ex_sent]\<rparr>) = Some ex_sent"
proof -
  have "correlation_candidate ex_ctx ex_lookup ex_sent" "confidence_score ex_lookup ex_sent = 7"
    by (simp_all add: correlation_candidate_def confidence_score_def time_score_def ex_lookup_def
        ex_sent_def ex_message_def ex_ctx_def hours_def)
  then show ?thesis
    using correlation_is_unambiguous [of "empty_db\<lparr>messages := [ex_sent]\<rparr>" ex_lookup
        "''+251911234567''" ex_ctx ex_sent]
    by (simp add: ex_lookup_def)
qed

lemma correlate_in:
  assumes "distinct (messages d)" and "correlate_message_for_dlr c input d = Some m"
  shows "m \<in> set (messages d)"
  using assms correlate_fallback_iff [OF assms(1), of c input m]
  by (auto simp: correlate_message_for_dlr_def Let_def dest: correlate_direct_in
      split: option.splits if_splits)

subsection \<open>The wallet's queries\<close>

definition ledger_sum :: "ctx \<Rightarrow> tenant \<Rightarrow> billing_operation \<Rightarrow> db \<Rightarrow> int" where
  "ledger_sum c tenant kind d =
     sum_list (map tr_amount_minor
       (filter (\<lambda>t. tr_tenant_id t = tenant \<and> c_now c - hours 24 \<le> tr_created_at t \<and> tr_kind t = kind)
         (transactions d)))"

record wallet_summary =
  ws_id :: int
  ws_currency :: string
  ws_available :: int
  ws_reserved :: int
  ws_credit_limit :: int
  ws_low_balance_threshold :: int
  ws_updated_at :: time
  ws_reserved_today :: int
  ws_debited_today :: int
  ws_released_today :: int

definition get_wallet_summary ::
  "ctx \<Rightarrow> jwt_claims \<Rightarrow> tenant option \<Rightarrow> db \<Rightarrow> wallet_summary result" where
  "get_wallet_summary c user requested d =
     and_then (resolve_tenant_scope user requested) (\<lambda>tenant.
       case first_row (filter (\<lambda>w. wl_tenant_id w = tenant) (wallets d)) of
         None \<Rightarrow> Inl (NotFoundException ''Wallet not found'')
       | Some w \<Rightarrow>
           Inr \<lparr>ws_id = wl_id w, ws_currency = wl_currency w,
                ws_available = wl_available_balance_minor w,
                ws_reserved = wl_reserved_balance_minor w,
                ws_credit_limit = wl_credit_limit_minor w,
                ws_low_balance_threshold = wl_low_balance_threshold_minor w,
                ws_updated_at = wl_updated_at w,
                ws_reserved_today = ledger_sum c tenant Reserve d,
                ws_debited_today = ledger_sum c tenant Debit d,
                ws_released_today = ledger_sum c tenant Release d\<rparr>)"







end
