(* ===== verification/Services.thy ===== *)
theory Services
  imports Tables
begin

text \<open>
  What the message pipeline asks of the other services: the types of a routing decision, a
  retry policy, a provider's profile, a dispatch result and a fraud evaluation, and the record
  of the operations the pipeline calls. An operation runs on a state \<open>'e\<close> of its own (the
  Redis store, the configuration tables, the connections) and throws or returns; the pipeline
  is a function of this record, and the components that provide its fields instantiate it.
\<close>

subsection \<open>Operations with a state\<close>

type_synonym ('e, 'a) io = "'e \<Rightarrow> 'a result \<times> 'e"

definition io_return :: "'a \<Rightarrow> ('e, 'a) io" where
  "io_return x e = (Inr x, e)"

definition io_throw :: "exn \<Rightarrow> ('e, 'a) io" where
  "io_throw ex e = (Inl ex, e)"

definition io_bind :: "('e, 'a) io \<Rightarrow> ('a \<Rightarrow> ('e, 'b) io) \<Rightarrow> ('e, 'b) io" where
  "io_bind m f e = (case m e of (Inl ex, e') \<Rightarrow> (Inl ex, e') | (Inr x, e') \<Rightarrow> f x e')"

lemma io_simps [simp]:
  "io_bind (io_return x) f = f x"
  "io_bind (io_throw ex) f = io_throw ex"
  "io_return x e = (Inr x, e)"
  "io_throw ex e = (Inl ex, e)"
  by (simp_all add: io_bind_def io_return_def io_throw_def fun_eq_iff)

fun exn_message :: "exn \<Rightarrow> string" where
  "exn_message (BadRequestException s) = s"
| "exn_message (UnauthorizedException s) = s"
| "exn_message (ForbiddenException s) = s"
| "exn_message (NotFoundException s) = s"
| "exn_message (ConflictException s) = s"
| "exn_message (TooManyRequests s) = s"
| "exn_message (InternalServerErrorException s) = s"
| "exn_message (ServiceUnavailableException s) = s"
| "exn_message (PlainError s) = s"
| "exn_message (DatabaseError s) = s"

subsection \<open>Routing\<close>

record route_decision =
  rd_routing_rule_id :: int
  rd_provider_id :: int
  rd_smpp_config_id :: "int option"
  rd_protocol :: protocol
  rd_estimated_unit_cost_minor :: int
  rd_score :: rat

record retry_policy =
  rp_max_attempts :: int
  rp_retry_intervals :: "int list"
  rp_retry_on_errors :: "string list"

record route_options =
  ro_excluded_provider_ids :: "int list"
  ro_excluded_rule_ids :: "int list"
  ro_prefer_protocol :: "protocol option"
  ro_allow_open_circuit_probe :: bool

definition no_route_options :: route_options where
  "no_route_options =
     \<lparr>ro_excluded_provider_ids = [], ro_excluded_rule_ids = [], ro_prefer_protocol = None,
      ro_allow_open_circuit_probe = False\<rparr>"

fun protocol_str :: "protocol \<Rightarrow> string" where
  "protocol_str Http = ''http''"
| "protocol_str Smpp = ''smpp''"

definition route_json :: "route_decision \<Rightarrow> json" where
  "route_json r =
     jobj [(''routingRuleId'', Some (jint (rd_routing_rule_id r))),
           (''providerId'', Some (jint (rd_provider_id r))),
           (''smppConfigId'', Some (jnullable jint (rd_smpp_config_id r))),
           (''protocol'', Some (JStr (protocol_str (rd_protocol r)))),
           (''estimatedUnitCostMinor'', Some (jint (rd_estimated_unit_cost_minor r))),
           (''score'', Some (JNum (rd_score r)))]"

subsection \<open>Providers and connectors\<close>

record provider_profile =
  pp_id :: int
  pp_code :: string
  pp_name :: string
  pp_default_protocol :: protocol
  pp_http_base_url :: "string option"
  pp_max_global_tps :: int
  pp_health_status :: string

record smpp_config_profile =
  sc_id :: int
  sc_provider_id :: int
  sc_host :: string
  sc_port :: int
  sc_system_id :: string
  sc_secret_ref :: string
  sc_bind_mode :: string
  sc_max_sessions :: int
  sc_session_tps :: int

record http_dispatch_request =
  hq_url :: string
  hq_to :: string
  hq_from :: string
  hq_text :: string
  hq_client_ref :: string

record smpp_dispatch_request =
  sq_provider_id :: int
  sq_host :: string
  sq_port :: int
  sq_system_id :: string
  sq_password_ref :: string
  sq_max_sessions :: int
  sq_session_tps :: int
  sq_source_addr :: string
  sq_destination_addr :: string
  sq_short_message :: string

record dispatch_result =
  dr_accepted :: bool
  dr_provider_message_id :: "string option"
  dr_error_code :: "string option"
  dr_error_message :: "string option"
  dr_latency_ms :: "int option"
  dr_retryable :: "bool option"
  dr_uncertain :: "bool option"

record dispatch_record =
  dp_provider_id :: int
  dp_protocol :: protocol
  dp_accepted :: bool
  dp_latency_ms :: int
  dp_error_code :: "string option"
  dp_smpp_config_id :: "int option"

subsection \<open>Fraud\<close>

record fraud_input =
  fi_tenant_id :: tenant
  fi_phone_number :: string
  fi_body :: string
  fi_sender_id :: string
  fi_traffic_type :: string

record fraud_evaluation =
  fe_action :: string
  fe_reasons :: "string list"
  fe_score :: rat

subsection \<open>The operations the pipeline calls\<close>

record 'e services =
  sv_select_route :: "tenant \<Rightarrow> string \<Rightarrow> string \<Rightarrow> route_options \<Rightarrow> ('e, route_decision) io"
  sv_get_retry_policy :: "tenant \<Rightarrow> int \<Rightarrow> string \<Rightarrow> ('e, retry_policy) io"
  sv_evaluate :: "fraud_input \<Rightarrow> ('e, fraud_evaluation) io"
  sv_get_provider :: "int \<Rightarrow> ('e, provider_profile) io"
  sv_assert_dispatch_allowed :: "int \<Rightarrow> int \<Rightarrow> ('e, unit) io"
  sv_get_smpp_config :: "int \<Rightarrow> ('e, smpp_config_profile) io"
  sv_http_submit :: "http_dispatch_request \<Rightarrow> ('e, dispatch_result) io"
  sv_smpp_submit :: "smpp_dispatch_request \<Rightarrow> ('e, dispatch_result) io"
  sv_record_dispatch_result :: "dispatch_record \<Rightarrow> ('e, unit) io"

end
