(* ===== verification/Workflow.thy ===== *)
theory Workflow
  imports Queries Services
begin

text \<open>
  The message pipeline of \<open>message-workflow.service.ts\<close>: the five Kafka consumers that route an
  accepted message, dispatch it through a provider, record the provider's answer, retry and
  settle the bill.

  Each consumer reads the message, decides with the help of the other services, and commits
  one or two transactions. The transactions are definitions of their own (\<open>..._tx\<close>), over the
  snapshot the consumer read; the consumers \<open>handle_...\<close> compose them as the code does.
  \<open>c\<close> is the clock of the first transaction, \<open>c'\<close> of the one after the dispatch.
\<close>

subsection \<open>Helpers\<close>

definition to_composite :: "message_event \<Rightarrow> composite_id" where
  "to_composite payload =
     \<lparr>c_submit_date = ev_submit_date payload, c_tenant_id = ev_tenant_id payload,
      c_id = ev_message_id payload\<rparr>"

definition dispatch_topic_for :: "string \<Rightarrow> string" where
  "dispatch_topic_for traffic_type =
     topic_name (if traffic_type = ''marketing'' then SmsDispatchBulk else SmsDispatchRealtime)"

definition should_exclude_current_provider :: "string option \<Rightarrow> bool" where
  "should_exclude_current_provider error_code \<longleftrightarrow>
     truthy_str error_code \<and>
     the error_code \<in> set [''circuit_open'', ''provider_throttled'', ''throttle'', ''smpp_throttle'',
       ''http_provider_error'', ''provider_dispatch_exception'', ''provider_dispatch_rejected'',
       ''missing_http_base_url'', ''missing_smpp_config'']"

definition message_dedupe_key :: "composite_id \<Rightarrow> string \<Rightarrow> int \<Rightarrow> string" where
  "message_dedupe_key composite step version =
     ''message:'' @ build_aggregate_id composite @ '':'' @ step @ '':'' @ int_str version"

definition message_event_input ::
  "composite_id \<Rightarrow> tenant \<Rightarrow> string \<Rightarrow> string \<Rightarrow> string \<Rightarrow> event_payload \<Rightarrow> time option \<Rightarrow> outbox_input"
where
  "message_event_input composite tenant event_type topic dedupe_key payload next_attempt_at =
     \<lparr>oi_tenant_id = Some tenant,
      oi_aggregate_type = ''message'',
      oi_aggregate_id = build_aggregate_id composite,
      oi_event_type = event_type,
      oi_topic_name = topic,
      oi_partition_key = tenant,
      oi_dedupe_key = dedupe_key,
      oi_payload = payload,
      oi_next_attempt_at = next_attempt_at\<rparr>"

definition enqueue_reconciliation ::
  "ctx \<Rightarrow> composite_id \<Rightarrow> message_event \<Rightarrow> string \<Rightarrow> string \<Rightarrow> db \<Rightarrow> unit result \<times> db" where
  "enqueue_reconciliation c composite payload kind reason d =
     with_transaction (\<lambda>d1.
       Inr ((), enqueue c
         (message_event_input composite (c_tenant_id composite) ''message.reconcile''
            (topic_name SmsReconcile)
            (message_dedupe_key composite (''reconcile:'' @ kind) (ev_version payload))
            (MessageReconcile (c_tenant_id composite) (ev_provider_id payload)
               (c_submit_date composite) (c_id composite) kind reason payload) None) d1)) d"

subsection \<open>Routing an accepted message\<close>

definition accepted_tx ::
  "ctx \<Rightarrow> message_event \<Rightarrow> message_row \<Rightarrow> route_decision \<Rightarrow> (db, unit) tx" where
  "accepted_tx c payload message route d =
     (let composite = to_composite payload in
      and_then (transition_message c message Routed
          [ProviderId (Some (rd_provider_id route)),
           SmppConfigId (rd_smpp_config_id route),
           RouteRuleId (Some (rd_routing_rule_id route)),
           CostMinor (rd_estimated_unit_cost_minor route * m_message_parts message),
           LastErrorCode None,
           LastErrorMessage None] False d) (\<lambda>(updated, d1).
      let d2 = log_event c composite ''routed'' (Some Accepted) (Some Routed)
                 (jobj [(''route'', Some (route_json route))])
                 (Some (rd_provider_id route)) None (m_attempt_count updated) d1;
          d3 = enqueue c
                 (message_event_input composite (m_tenant_id message) ''message.dispatch''
                    (dispatch_topic_for (m_traffic_type message))
                    (message_dedupe_key composite ''dispatch'' (m_version updated))
                    (MessageEvent (payload
                       \<lparr>ev_version := m_version updated,
                        ev_provider_id := Some (rd_provider_id route),
                        ev_smpp_config_id := rd_smpp_config_id route,
                        ev_route_rule_id := Some (rd_routing_rule_id route),
                        ev_protocol := Some (rd_protocol route)\<rparr>)) None) d2
      in Inr ((), d3)))"

definition prefer_for :: "string \<Rightarrow> route_options" where
  "prefer_for traffic_type =
     no_route_options\<lparr>ro_prefer_protocol := (if traffic_type = ''otp'' then Some Smpp else None)\<rparr>"

definition handle_accepted ::
  "'e services \<Rightarrow> ctx \<Rightarrow> message_event \<Rightarrow> (db \<times> 'e, unit) io" where
  "handle_accepted sv c payload = (\<lambda>(d, e).
     case get_message_row (to_composite payload) d of
       Inl ex \<Rightarrow> (Inl ex, d, e)
     | Inr message \<Rightarrow>
         if m_status message \<noteq> Accepted then (Inr (), d, e)
         else
           (case sv_select_route sv (m_tenant_id message) (m_phone_number message)
                   (m_traffic_type message) (prefer_for (m_traffic_type message)) e of
              (Inl ex, e1) \<Rightarrow> (Inl ex, d, e1)
            | (Inr route, e1) \<Rightarrow>
                (let (r, d1) = with_transaction (accepted_tx c payload message route) d
                 in (r, d1, e1))))"

subsection \<open>Retrying\<close>

definition retry_dispatch_tx :: "ctx \<Rightarrow> message_event \<Rightarrow> message_row \<Rightarrow> (db, unit) tx" where
  "retry_dispatch_tx c payload message d =
     (let composite = to_composite payload in
      Inr ((), enqueue c
        (message_event_input composite (m_tenant_id message) ''message.dispatch.retry''
           (dispatch_topic_for (m_traffic_type message))
           (message_dedupe_key composite ''retry-dispatch'' (m_version message))
           (MessageEvent (payload
              \<lparr>ev_version := m_version message,
               ev_provider_id := m_provider_id message,
               ev_smpp_config_id := m_smpp_config_id message\<rparr>)) None) d))"

definition handle_retry :: "ctx \<Rightarrow> message_event \<Rightarrow> db \<Rightarrow> unit result \<times> db" where
  "handle_retry c payload d =
     (case get_message_row (to_composite payload) d of
        Inl ex \<Rightarrow> (Inl ex, d)
      | Inr message \<Rightarrow>
          if m_status message \<noteq> Submitting then (Inr (), d)
          else with_transaction (retry_dispatch_tx c payload message) d)"

subsection \<open>Dispatching\<close>

record dispatch_execution =
  de_protocol :: protocol
  de_result :: dispatch_result

definition dispatch_error :: "string \<Rightarrow> string \<Rightarrow> dispatch_result" where
  "dispatch_error code msg =
     \<lparr>dr_accepted = False, dr_provider_message_id = None, dr_error_code = Some code,
      dr_error_message = Some msg, dr_latency_ms = None, dr_retryable = None, dr_uncertain = None\<rparr>"

definition http_request_for :: "string \<Rightarrow> message_event \<Rightarrow> http_dispatch_request" where
  "http_request_for base_url payload =
     \<lparr>hq_url = base_url @ ''/messages'',
      hq_to = ev_phone_number payload,
      hq_from = ev_sender_id payload,
      hq_text = ev_body payload,
      hq_client_ref = ev_submit_date payload @ '':'' @ int_str (ev_message_id payload)\<rparr>"

definition smpp_request_for ::
  "provider_profile \<Rightarrow> smpp_config_profile \<Rightarrow> message_event \<Rightarrow> smpp_dispatch_request" where
  "smpp_request_for provider config payload =
     \<lparr>sq_provider_id = pp_id provider,
      sq_host = sc_host config,
      sq_port = sc_port config,
      sq_system_id = sc_system_id config,
      sq_password_ref = sc_secret_ref config,
      sq_max_sessions = sc_max_sessions config,
      sq_session_tps = sc_session_tps config,
      sq_source_addr = ev_sender_id payload,
      sq_destination_addr = ev_phone_number payload,
      sq_short_message = ev_body payload\<rparr>"

definition dispatch_through_provider ::
  "'e services \<Rightarrow> message_event \<Rightarrow> db \<Rightarrow> ('e, dispatch_execution) io" where
  "dispatch_through_provider sv payload d =
     (if \<not> truthy_int (ev_provider_id payload)
      then io_return
        \<lparr>de_protocol = coalesce (ev_protocol payload) Http,
         de_result = dispatch_error ''missing_provider'' ''No provider selected''\<rparr>
      else
        io_bind (sv_get_provider sv (the (ev_provider_id payload))) (\<lambda>provider.
        io_bind (sv_assert_dispatch_allowed sv (pp_id provider) (pp_max_global_tps provider)) (\<lambda>_.
          case get_message_row (to_composite payload) d of
            Inl ex \<Rightarrow> io_throw ex
          | Inr message \<Rightarrow>
              (let protocol =
                     coalesce (ev_protocol payload)
                       (if truthy_int (m_smpp_config_id message) then Smpp
                        else pp_default_protocol provider)
               in if protocol = Http then
                    (if \<not> truthy_str (pp_http_base_url provider)
                     then io_return
                       \<lparr>de_protocol = protocol,
                        de_result = dispatch_error ''missing_http_base_url''
                          ''Provider HTTP base URL is missing''\<rparr>
                     else
                       io_bind (sv_http_submit sv
                           (http_request_for (the (pp_http_base_url provider)) payload)) (\<lambda>result.
                         io_return \<lparr>de_protocol = protocol, de_result = result\<rparr>))
                  else if \<not> truthy_int (m_smpp_config_id message)
                  then io_return
                    \<lparr>de_protocol = protocol,
                     de_result = dispatch_error ''missing_smpp_config''
                       ''SMPP config missing for routed message''\<rparr>
                  else
                    io_bind (sv_get_smpp_config sv (the (m_smpp_config_id message))) (\<lambda>config.
                    io_bind (sv_smpp_submit sv (smpp_request_for provider config payload)) (\<lambda>result.
                      io_return \<lparr>de_protocol = protocol, de_result = result\<rparr>))))))"

text \<open>The \<open>catch\<close> block: an exception becomes a retryable failure.\<close>

definition dispatch_exception :: "message_event \<Rightarrow> exn \<Rightarrow> dispatch_execution" where
  "dispatch_exception payload ex =
     \<lparr>de_protocol = coalesce (ev_protocol payload) Http,
      de_result =
        \<lparr>dr_accepted = False, dr_provider_message_id = None,
         dr_error_code =
           Some (if exn_message ex = ''Provider circuit is open'' then ''circuit_open''
                 else ''provider_dispatch_exception''),
         dr_error_message = Some (exn_message ex),
         dr_latency_ms = Some 0,
         dr_retryable = Some True,
         dr_uncertain = Some False\<rparr>\<rparr>"

definition fraud_input_for :: "message_event \<Rightarrow> message_row \<Rightarrow> fraud_input" where
  "fraud_input_for payload message =
     \<lparr>fi_tenant_id = m_tenant_id message,
      fi_phone_number = m_phone_number message,
      fi_body = m_body message,
      fi_sender_id = coalesce (m_source_addr message) (ev_sender_id payload),
      fi_traffic_type = m_traffic_type message\<rparr>"

definition reasons_json :: "fraud_evaluation \<Rightarrow> json" where
  "reasons_json evaluation = JArr (map JStr (fe_reasons evaluation))"

text \<open>The transaction of a blocked message: two updates of the same row.\<close>

definition fraud_block_tx ::
  "ctx \<Rightarrow> message_event \<Rightarrow> message_row \<Rightarrow> fraud_evaluation \<Rightarrow> (db, unit) tx" where
  "fraud_block_tx c payload message evaluation d =
     (let composite = to_composite payload in
      and_then (if m_status message = Routed
                then transition_message c message Submitting [] True d
                else patch_message c message [] d) (\<lambda>(submitting, d1).
      and_then (transition_message c submitting Failed
          [LastErrorCode (Some ''fraud_blocked''),
           LastErrorMessage (Some (join_with '', '' (fe_reasons evaluation))),
           BillingState ''released''] False d1) (\<lambda>(updated, d2).
      and_then (release_reserved_wallet c (m_tenant_id message) (m_price_minor message)
          (''release:'' @ c_submit_date composite @ '':'' @ c_tenant_id composite @ '':'' @
           int_str (c_id composite) @ '':fraud'') composite d2) (\<lambda>(_, d3).
        Inr ((), log_event c composite ''failed'' (Some (m_status submitting)) (Some Failed)
               (jobj [(''reason'', Some (reasons_json evaluation))])
               (m_provider_id message) None (m_attempt_count updated) d3)))))"

definition fraud_throttle_tx ::
  "ctx \<Rightarrow> message_event \<Rightarrow> message_row \<Rightarrow> fraud_evaluation \<Rightarrow> (db, unit) tx" where
  "fraud_throttle_tx c payload message evaluation d =
     (let composite = to_composite payload in
      and_then (patch_message c message
          [LastErrorCode (Some ''fraud_throttled''),
           LastErrorMessage (Some (join_with '', '' (fe_reasons evaluation)))] d) (\<lambda>(updated, d1).
      let d2 = log_event c composite ''submit_throttled'' (Some Routed) (Some Routed)
                 (jobj [(''reason'', Some (reasons_json evaluation)),
                        (''score'', Some (JNum (fe_score evaluation)))])
                 (m_provider_id message) None (m_attempt_count updated) d1;
          d3 = enqueue c
                 (message_event_input composite (m_tenant_id message) ''message.retry''
                    (topic_name SmsRetry)
                    (message_dedupe_key composite ''fraud-throttle'' (m_version updated))
                    (MessageEvent (payload\<lparr>ev_version := m_version updated\<rparr>))
                    (Some (c_now c + 30000))) d2
      in Inr ((), d3)))"

text \<open>The transaction that claims the message for a dispatch; it returns the new version.\<close>

definition submitting_tx :: "ctx \<Rightarrow> message_event \<Rightarrow> message_row \<Rightarrow> (db, int) tx" where
  "submitting_tx c payload message d =
     (let composite = to_composite payload in
      and_then (if m_status message = Routed
                then transition_message c message Submitting [] True d
                else patch_message c message [AttemptCount (m_attempt_count message + 1)] d)
        (\<lambda>(updated, d1).
           Inr (m_version updated,
                log_event c composite ''submit_attempt'' (Some (m_status message)) (Some Submitting)
                  (jobj [(''version'', Some (jint (m_version updated)))])
                  (m_provider_id updated) (m_provider_message_id updated)
                  (m_attempt_count updated) d1)))"

definition dispatch_record_for ::
  "message_event \<Rightarrow> message_row \<Rightarrow> dispatch_execution \<Rightarrow> dispatch_record" where
  "dispatch_record_for payload message execution =
     \<lparr>dp_provider_id = the (ev_provider_id payload),
      dp_protocol = de_protocol execution,
      dp_accepted = dr_accepted (de_result execution),
      dp_latency_ms = coalesce (dr_latency_ms (de_result execution)) 0,
      dp_error_code = dr_error_code (de_result execution),
      dp_smpp_config_id = or_else (ev_smpp_config_id payload) (m_smpp_config_id message)\<rparr>"

definition dispatch_result_tx ::
  "ctx \<Rightarrow> message_event \<Rightarrow> message_row \<Rightarrow> int \<Rightarrow> dispatch_execution \<Rightarrow> (db, unit) tx" where
  "dispatch_result_tx c payload message submitting_version execution d =
     (let composite = to_composite payload; result = de_result execution in
      Inr ((), enqueue c
        (message_event_input composite (m_tenant_id message) ''message.dispatch.result''
           (topic_name SmsDispatchResults)
           (message_dedupe_key composite ''dispatch-result'' submitting_version)
           (MessageEvent (payload
              \<lparr>ev_version := submitting_version,
               ev_accepted := Some (dr_accepted result),
               ev_provider_message_id := dr_provider_message_id result,
               ev_error_code := dr_error_code result,
               ev_error_message := dr_error_message result,
               ev_latency_ms := dr_latency_ms result,
               ev_retryable := dr_retryable result,
               ev_uncertain := dr_uncertain result,
               ev_protocol := Some (de_protocol execution)\<rparr>)) None) d))"

definition handle_dispatch_send ::
  "'e services \<Rightarrow> ctx \<Rightarrow> ctx \<Rightarrow> message_event \<Rightarrow> message_row \<Rightarrow> (db \<times> 'e, unit) io" where
  "handle_dispatch_send sv c c' payload message = (\<lambda>(d, e).
     case with_transaction (submitting_tx c payload message) d of
       (Inl ex, d1) \<Rightarrow> (Inl ex, d1, e)
     | (Inr version, d1) \<Rightarrow>
         (let (r, e1) = dispatch_through_provider sv payload d1 e;
              execution = (case r of Inl ex \<Rightarrow> dispatch_exception payload ex | Inr x \<Rightarrow> x)
          in case (if truthy_int (ev_provider_id payload)
                   then sv_record_dispatch_result sv (dispatch_record_for payload message execution) e1
                   else (Inr (), e1)) of
               (Inl ex, e2) \<Rightarrow> (Inl ex, d1, e2)
             | (Inr _, e2) \<Rightarrow>
                 (let (r2, d2) =
                        with_transaction (dispatch_result_tx c' payload message version execution) d1
                  in (r2, d2, e2))))"

definition handle_dispatch ::
  "'e services \<Rightarrow> ctx \<Rightarrow> ctx \<Rightarrow> message_event \<Rightarrow> (db \<times> 'e, unit) io" where
  "handle_dispatch sv c c' payload = (\<lambda>(d, e).
     case get_message_row (to_composite payload) d of
       Inl ex \<Rightarrow> (Inl ex, d, e)
     | Inr message \<Rightarrow>
         if m_status message \<notin> {Routed, Submitting} then (Inr (), d, e)
         else
           (case sv_evaluate sv (fraud_input_for payload message) e of
              (Inl ex, e1) \<Rightarrow> (Inl ex, d, e1)
            | (Inr evaluation, e1) \<Rightarrow>
                if fe_action evaluation = ''block''
                then (let (r, d1) = with_transaction (fraud_block_tx c payload message evaluation) d
                      in (r, d1, e1))
                else if fe_action evaluation = ''throttle''
                then (let (r, d1) = with_transaction (fraud_throttle_tx c payload message evaluation) d
                      in (r, d1, e1))
                else handle_dispatch_send sv c c' payload message (d, e1)))"

subsection \<open>The provider's answer\<close>

text \<open>The provider accepted: the message is sent and the reservation is debited.\<close>

definition ack_tx :: "ctx \<Rightarrow> message_event \<Rightarrow> message_row \<Rightarrow> (db, unit) tx" where
  "ack_tx c payload message d =
     (let composite = to_composite payload in
      and_then (transition_message c message ProviderAccepted
          [ProviderMessageId (ev_provider_message_id payload),
           LastErrorCode None,
           LastErrorMessage None] False d) (\<lambda>(updated, d1).
      and_then (debit_reserved_wallet c (m_tenant_id message) (m_price_minor message)
          (''debit:'' @ c_submit_date composite @ '':'' @ c_tenant_id composite @ '':'' @
           int_str (c_id composite)) composite d1) (\<lambda>(_, d2).
        Inr ((), log_event c composite ''submit_ack'' (Some Submitting) (Some ProviderAccepted)
               (jobj [(''providerMessageId'', map_option JStr (ev_provider_message_id payload))])
               (m_provider_id updated) (ev_provider_message_id payload)
               (m_attempt_count updated) d2))))"

text \<open>The outcome is unknown: the message stays, reserved, and goes to reconciliation.\<close>

definition uncertain_tx :: "ctx \<Rightarrow> int \<Rightarrow> message_event \<Rightarrow> message_row \<Rightarrow> (db, unit) tx" where
  "uncertain_tx c unknown_outcome_timeout_ms payload message d =
     (let composite = to_composite payload in
      and_then (patch_message c message
          [LastErrorCode (Some (coalesce (ev_error_code payload) ''unknown_submit_outcome'')),
           LastErrorMessage (Some (coalesce (ev_error_message payload)
             ''Dispatch outcome is uncertain''))] d) (\<lambda>(updated, d1).
      let d2 = log_event c composite ''submit_unknown'' (Some Submitting) (Some Submitting)
                 (jobj [(''errorCode'', map_option JStr (ev_error_code payload)),
                        (''errorMessage'', map_option JStr (ev_error_message payload)),
                        (''timeoutMs'', Some (jint unknown_outcome_timeout_ms))])
                 (m_provider_id updated) (ev_provider_message_id payload)
                 (m_attempt_count updated) d1;
          d3 = enqueue c
                 (message_event_input composite (m_tenant_id message) ''message.reconcile''
                    (topic_name SmsReconcile)
                    (message_dedupe_key composite ''dispatch-uncertain'' (m_version updated))
                    (MessageReconcile (m_tenant_id message) (m_provider_id message)
                       (c_submit_date composite) (c_id composite) ''unknown_submit_outcome''
                       (coalesce (ev_error_code payload) ''unknown_submit_outcome'') payload)
                    None) d2
      in Inr ((), d3)))"

definition should_retry :: "message_event \<Rightarrow> message_row \<Rightarrow> retry_policy \<Rightarrow> bool" where
  "should_retry payload message policy \<longleftrightarrow>
     truthy_str (ev_error_code payload) \<and>
     the (ev_error_code payload) \<in> set (rp_retry_on_errors policy) \<and>
     m_attempt_count message < rp_max_attempts policy"

definition retry_delay_seconds :: "message_row \<Rightarrow> retry_policy \<Rightarrow> int" where
  "retry_delay_seconds message policy =
     (let intervals = rp_retry_intervals policy;
          i = min (max (m_attempt_count message - 1) 0) (int (length intervals) - 1)
      in if 0 \<le> i then intervals ! nat i else 30)"

definition retry_options :: "message_event \<Rightarrow> message_row \<Rightarrow> route_options" where
  "retry_options payload message =
     \<lparr>ro_excluded_provider_ids =
        (if should_exclude_current_provider (ev_error_code payload) \<and> truthy_int (m_provider_id message)
         then [the (m_provider_id message)] else []),
      ro_excluded_rule_ids =
        (if truthy_int (m_route_rule_id message) then [the (m_route_rule_id message)] else []),
      ro_prefer_protocol = (if m_traffic_type message = ''otp'' then Some Smpp else None),
      ro_allow_open_circuit_probe = False\<rparr>"

definition retry_tx ::
  "ctx \<Rightarrow> message_event \<Rightarrow> message_row \<Rightarrow> int \<Rightarrow> route_decision option \<Rightarrow> (db, unit) tx" where
  "retry_tx c payload message delay next_route d =
     (let composite = to_composite payload in
      and_then (patch_message c message
          ([ProviderId (or_else (map_option rd_provider_id next_route) (m_provider_id message)),
            SmppConfigId (or_else (Option.bind next_route rd_smpp_config_id) (m_smpp_config_id message)),
            RouteRuleId (or_else (map_option rd_routing_rule_id next_route) (m_route_rule_id message))] @
           (case next_route of None \<Rightarrow> []
            | Some r \<Rightarrow> [CostMinor (rd_estimated_unit_cost_minor r * m_message_parts message)]) @
           [LastErrorCode (ev_error_code payload),
            LastErrorMessage (ev_error_message payload)]) d) (\<lambda>(updated, d1).
      let d2 = log_event c composite ''submit_retry_scheduled'' (Some Submitting) (Some Submitting)
                 (jobj [(''retryAfterSeconds'', Some (jint delay)),
                        (''errorCode'', map_option JStr (ev_error_code payload)),
                        (''errorMessage'', map_option JStr (ev_error_message payload)),
                        (''reroutedProviderId'',
                           Some (jnullable jint
                             (or_else (map_option rd_provider_id next_route) (m_provider_id message))))])
                 (m_provider_id updated) (ev_provider_message_id payload)
                 (m_attempt_count updated) d1;
          d3 = enqueue c
                 (message_event_input composite (m_tenant_id message) ''message.retry''
                    (topic_name SmsRetry)
                    (message_dedupe_key composite ''retry'' (m_version updated))
                    (MessageEvent (payload
                       \<lparr>ev_version := m_version updated,
                        ev_accepted := Some False,
                        ev_provider_id := m_provider_id updated,
                        ev_smpp_config_id := m_smpp_config_id updated,
                        ev_route_rule_id := m_route_rule_id updated,
                        ev_protocol := or_else (map_option rd_protocol next_route) (ev_protocol payload)\<rparr>))
                    (Some (c_now c + delay * 1000))) d2
      in Inr ((), d3)))"

text \<open>No retry is left: the message fails and the reservation is released.\<close>

definition fail_tx :: "ctx \<Rightarrow> message_event \<Rightarrow> message_row \<Rightarrow> (db, unit) tx" where
  "fail_tx c payload message d =
     (let composite = to_composite payload in
      and_then (transition_message c message Failed
          [LastErrorCode (Some (coalesce (ev_error_code payload) ''dispatch_failed'')),
           LastErrorMessage (Some (coalesce (ev_error_message payload) ''Dispatch failed'')),
           BillingState ''released''] False d) (\<lambda>(updated, d1).
      and_then (release_reserved_wallet c (m_tenant_id message) (m_price_minor message)
          (''release:'' @ c_submit_date composite @ '':'' @ c_tenant_id composite @ '':'' @
           int_str (c_id composite) @ '':final'') composite d1) (\<lambda>(_, d2).
        Inr ((), log_event c composite ''failed'' (Some Submitting) (Some Failed)
               (jobj [(''errorCode'', map_option JStr (ev_error_code payload)),
                      (''errorMessage'', map_option JStr (ev_error_message payload))])
               (m_provider_id updated) (ev_provider_message_id payload)
               (m_attempt_count updated) d2))))"

definition handle_dispatch_result ::
  "'e services \<Rightarrow> ctx \<Rightarrow> int \<Rightarrow> message_event \<Rightarrow> (db \<times> 'e, unit) io" where
  "handle_dispatch_result sv c unknown_outcome_timeout_ms payload = (\<lambda>(d, e).
     case get_message_row (to_composite payload) d of
       Inl ex \<Rightarrow> (Inl ex, d, e)
     | Inr message \<Rightarrow>
         if m_status message \<noteq> Submitting then (Inr (), d, e)
         else if ev_accepted payload = Some True
         then (let (r, d1) = with_transaction (ack_tx c payload message) d in (r, d1, e))
         else if ev_uncertain payload = Some True
         then (let (r, d1) =
                     with_transaction (uncertain_tx c unknown_outcome_timeout_ms payload message) d
               in (r, d1, e))
         else
           (case sv_get_retry_policy sv (m_tenant_id message) (coalesce (m_provider_id message) 0)
                   (m_traffic_type message) e of
              (Inl ex, e1) \<Rightarrow> (Inl ex, d, e1)
            | (Inr policy, e1) \<Rightarrow>
                if should_retry payload message policy then
                  (let (route, e2) =
                         sv_select_route sv (m_tenant_id message) (m_phone_number message)
                           (m_traffic_type message) (retry_options payload message) e1;
                       next_route = (case route of Inl _ \<Rightarrow> None | Inr r \<Rightarrow> Some r);
                       (r, d1) = with_transaction
                         (retry_tx c payload message (retry_delay_seconds message policy) next_route) d
                   in (r, d1, e2))
                else
                  (let (r, d1) = with_transaction (fail_tx c payload message) d in (r, d1, e1))))"

end
