(* ===== verification/Templates.thy ===== *)
theory Templates
  imports Tables "HOL-Library.Char_ord" "HOL-Library.List_Lexorder"
begin

text \<open>
  Message templates (\<open>templates.service.ts\<close>): the scanner for the merge fields of a body, the
  rendering of a body with merge data, and the versioned table of templates.

  The regular expression \<open>{{\s*([a-zA-Z0-9_.-]+)\s*}}\<close> is a scanner: no two of its parts can
  match the same character, so a match at a position is unique. A body is the list of its
  tokens, each a character or a field with the text it was written as.
\<close>

subsection \<open>Merge fields\<close>

definition field_char :: "char \<Rightarrow> bool" where
  "field_char c \<longleftrightarrow>
     (let n = (of_char c :: nat)
      in 97 \<le> n \<and> n \<le> 122 \<or> 65 \<le> n \<and> n \<le> 90 \<or> 48 \<le> n \<and> n \<le> 57 \<or> c \<in> {CHR ''_'', CHR ''.'', CHR ''-''})"

definition match_field :: "string \<Rightarrow> (string \<times> string) option" where
  "match_field s =
     (if \<not> starts_with s ''{{'' then None
      else
        (let s1 = dropWhile is_space (drop 2 s);
             field = takeWhile field_char s1;
             s2 = dropWhile is_space (dropWhile field_char s1)
         in if field \<noteq> [] \<and> starts_with s2 ''}}'' then Some (field, drop 2 s2) else None))"

datatype token = Text char | Field string string \<comment> \<open>as written, name\<close>

lemma match_field_length:
  assumes "match_field s = Some (f, r)"
  shows "length r < length s"
proof -
  have le: "length (dropWhile P xs) \<le> length xs" for P and xs :: string
    by (rule length_dropWhile_le)
  have "length (dropWhile is_space (dropWhile field_char (dropWhile is_space (drop 2 s)))) \<le> length (drop 2 s)"
    using le le_trans by blast
  then show ?thesis
    using assms by (auto simp: match_field_def Let_def split: if_splits list.splits)
qed

function tokens :: "string \<Rightarrow> token list" where
  "tokens [] = []"
| "tokens (c # s) =
     (case match_field (c # s) of
        Some (f, r) \<Rightarrow> Field (take (length (c # s) - length r) (c # s)) f # tokens r
      | None \<Rightarrow> Text c # tokens s)"
  by pat_completeness auto

termination
  by (relation "measure length") (auto dest: match_field_length)

fun token_text :: "token \<Rightarrow> string" where
  "token_text (Text c) = [c]"
| "token_text (Field raw f) = raw"

fun token_field :: "token \<Rightarrow> string option" where
  "token_field (Text c) = None"
| "token_field (Field raw f) = Some f"

text \<open>\<open>[...new Set(xs)]\<close> keeps the first occurrence of every element.\<close>

definition js_unique :: "'a list \<Rightarrow> 'a list" where
  "js_unique xs = rev (remdups (rev xs))"

lemma set_js_unique [simp]: "set (js_unique xs) = set xs"
  by (simp add: js_unique_def)

lemma distinct_js_unique [simp]: "distinct (js_unique xs)"
  by (simp add: js_unique_def)

definition extract_merge_fields :: "string \<Rightarrow> string list" where
  "extract_merge_fields body = js_unique (List.map_filter token_field (tokens body))"

subsection \<open>Rendering\<close>

datatype merge_value = MergeString string | MergeNumber int

fun merge_string :: "merge_value \<Rightarrow> string" where
  "merge_string (MergeString s) = s"
| "merge_string (MergeNumber i) = int_str i"

type_synonym merge_data = "(string \<times> merge_value) list"

definition validate_merge_data :: "string \<Rightarrow> merge_data \<Rightarrow> unit result" where
  "validate_merge_data body merge_data =
     (let missing = filter (\<lambda>f. map_of merge_data f = None) (extract_merge_fields body)
      in if missing \<noteq> []
         then Inl (BadRequestException (''Missing merge fields: '' @ join_with '', '' missing))
         else Inr ())"

fun render_token :: "merge_data \<Rightarrow> token \<Rightarrow> string" where
  "render_token merge_data (Text c) = [c]"
| "render_token merge_data (Field raw f) =
     (case map_of merge_data f of None \<Rightarrow> '''' | Some v \<Rightarrow> merge_string v)"

definition render :: "string \<Rightarrow> merge_data \<Rightarrow> string result" where
  "render body merge_data =
     and_then (validate_merge_data body merge_data) (\<lambda>_.
       Inr (concat (map (render_token merge_data) (tokens body))))"

subsection \<open>The table of templates\<close>

record template_row =
  tp_id :: int
  tp_template_key :: string
  tp_tenant_id :: tenant
  tp_name :: string
  tp_body :: string
  tp_version :: int
  tp_merge_fields :: "string list"
  tp_is_active :: bool
  tp_created_at :: time

record templates_db =
  tp_rows :: "template_row list"
  tp_next_id :: int

record create_template_dto =
  ct_name :: string
  ct_body :: string
  ct_is_active :: "bool option"

record update_template_dto =
  ut_name :: "string option"
  ut_body :: "string option"
  ut_is_active :: "bool option"

definition deactivate :: "(template_row \<Rightarrow> bool) \<Rightarrow> templates_db \<Rightarrow> templates_db" where
  "deactivate cond d = d\<lparr>tp_rows := sql_update cond (\<lambda>r. r\<lparr>tp_is_active := False\<rparr>) (tp_rows d)\<rparr>"

definition insert_template ::
  "ctx \<Rightarrow> tenant \<Rightarrow> string \<Rightarrow> string \<Rightarrow> string \<Rightarrow> int \<Rightarrow> bool \<Rightarrow> templates_db \<Rightarrow> template_row \<times> templates_db"
where
  "insert_template c tenant key name body version active d =
     (let row = \<lparr>tp_id = tp_next_id d, tp_template_key = key, tp_tenant_id = tenant, tp_name = name,
                 tp_body = body, tp_version = version,
                 tp_merge_fields = extract_merge_fields body, tp_is_active = active,
                 tp_created_at = c_now c\<rparr>
      in (row, d\<lparr>tp_rows := tp_rows d @ [row], tp_next_id := tp_next_id d + 1\<rparr>))"

text \<open>\<open>GROUP BY template_key\<close> with \<open>MAX(version) + 1\<close>, the first group.\<close>

definition current_version :: "tenant \<Rightarrow> string \<Rightarrow> templates_db \<Rightarrow> (string \<times> int) option" where
  "current_version tenant name d =
     (let rows = filter (\<lambda>r. tp_tenant_id r = tenant \<and> tp_name r = name) (tp_rows d)
      in case rows of
           [] \<Rightarrow> None
         | r # _ \<Rightarrow>
             Some (tp_template_key r,
                   Max (set (map tp_version
                     (filter (\<lambda>x. tp_template_key x = tp_template_key r) rows))) + 1))"

definition create_template ::
  "ctx \<Rightarrow> string \<Rightarrow> tenant \<Rightarrow> create_template_dto \<Rightarrow> templates_db \<Rightarrow> template_row \<times> templates_db" where
  "create_template c uuid tenant dto d =
     (let current = current_version tenant (ct_name dto) d;
          template_key = map_option fst current;
          next_version = coalesce (map_option snd current) 1;
          d1 = (if ct_is_active dto = Some True
                then deactivate (\<lambda>r. tp_tenant_id r = tenant \<and> tp_name r = ct_name dto) d else d)
      in insert_template c tenant (coalesce template_key uuid) (ct_name dto) (ct_body dto)
           next_version (coalesce (ct_is_active dto) True) d1)"

definition update_template ::
  "ctx \<Rightarrow> tenant \<Rightarrow> int \<Rightarrow> update_template_dto \<Rightarrow> (templates_db, template_row) tx" where
  "update_template c tenant i dto d =
     (case first_row (filter (\<lambda>r. tp_id r = i \<and> tp_tenant_id r = tenant) (tp_rows d)) of
        None \<Rightarrow> Inl (NotFoundException ''Template not found'')
      | Some existing \<Rightarrow>
          (let body = coalesce (ut_body dto) (tp_body existing);
               name = coalesce (ut_name dto) (tp_name existing);
               active = coalesce (ut_is_active dto) True;
               d1 = (if active
                     then deactivate (\<lambda>r. tp_tenant_id r = tenant \<and>
                            tp_template_key r = tp_template_key existing) d
                     else d)
           in Inr (insert_template c tenant (tp_template_key existing) name body
                     (tp_version existing + 1) active d1)))"

definition delete_template :: "tenant \<Rightarrow> int \<Rightarrow> (templates_db, unit) tx" where
  "delete_template tenant i d =
     (if filter (\<lambda>r. tp_id r = i \<and> tp_tenant_id r = tenant) (tp_rows d) = []
      then Inl (NotFoundException ''Template not found'')
      else Inr ((), d\<lparr>tp_rows := filter (\<lambda>r. \<not> (tp_id r = i \<and> tp_tenant_id r = tenant)) (tp_rows d)\<rparr>))"

text \<open>\<open>DISTINCT ON (template_key)\<close>: of every key the row with the highest version.\<close>

definition list_templates :: "tenant \<Rightarrow> templates_db \<Rightarrow> template_row list" where
  "list_templates tenant d =
     (let rows = sort_desc tp_version (filter (\<lambda>r. tp_tenant_id r = tenant) (tp_rows d))
      in List.map_filter (\<lambda>k. find (\<lambda>r. tp_template_key r = k) rows)
           (sort (js_unique (map tp_template_key rows))))"

definition template_version :: "string \<Rightarrow> rat option" where
  "template_version ref =
     (case split_char (CHR ''@'') ref of
        _ # v # _ \<Rightarrow> if v = [] then None
                     else (case js_number v of Some q \<Rightarrow> if q = 0 then None else Some q | None \<Rightarrow> None)
      | _ \<Rightarrow> None)"

definition resolve_template :: "tenant \<Rightarrow> string \<Rightarrow> templates_db \<Rightarrow> template_row result" where
  "resolve_template tenant template_ref d =
     (let name = hd (split_char (CHR ''@'') template_ref);
          rows = filter (\<lambda>r. tp_tenant_id r = tenant \<and> tp_name r = name) (tp_rows d)
      in and_then
           (case template_version template_ref of
              Some q \<Rightarrow>
                if of_int \<lfloor>q\<rfloor> = q then Inr (first_row (filter (\<lambda>r. tp_version r = \<lfloor>q\<rfloor>) rows))
                else Inl (DatabaseError ''invalid input syntax for type integer'')
            | None \<Rightarrow> Inr (first_row (sort_desc tp_version (filter tp_is_active rows))))
           (\<lambda>found. case found of
              None \<Rightarrow> Inl (NotFoundException ''Template not found'')
            | Some template \<Rightarrow> Inr template))"

subsection \<open>Properties\<close>

declare tokens.simps(2) [simp del]

lemma match_field_suffix:
  assumes "match_field s = Some (f, r)"
  shows "suffix r s"
proof -
  define s1 where "s1 = dropWhile is_space (drop 2 s)"
  define s2 where "s2 = dropWhile is_space (dropWhile field_char s1)"
  have r: "r = drop 2 s2"
    using assms by (auto simp: match_field_def Let_def s1_def s2_def split: if_splits)
  have "suffix s1 s"
    using suffix_order.trans [OF suffix_dropWhile suffix_drop] by (simp add: s1_def)
  moreover have "suffix s2 s1"
    using suffix_order.trans [OF suffix_dropWhile suffix_dropWhile] by (simp add: s2_def)
  moreover have "suffix r s2" by (simp add: r suffix_drop)
  ultimately show ?thesis by (meson suffix_order.trans)
qed

text \<open>Scanning a body loses nothing: its tokens, as written, concatenate to the body.\<close>

theorem tokens_roundtrip: "concat (map token_text (tokens body)) = body"
proof (induction body rule: tokens.induct)
  case 1
  then show ?case by simp
next
  case (2 c s)
  show ?case
  proof (cases "match_field (c # s)")
    case None
    with "2.IH"(1) show ?thesis by (simp add: tokens.simps(2))
  next
    case (Some p)
    obtain f r where p: "p = (f, r)" by (cases p)
    obtain pre where pre: "c # s = pre @ r"
      using match_field_suffix [of "c # s" f r] Some p by (auto simp: suffix_def)
    then have "take (length (c # s) - length r) (c # s) = pre" by simp
    then have "tokens (c # s) = Field pre f # tokens r"
      using Some p by (simp add: tokens.simps(2))
    with "2.IH"(2) [OF Some p [symmetric]] p pre show ?thesis by simp
  qed
qed

lemma merge_fields_set: "f \<in> set (extract_merge_fields body) \<longleftrightarrow> (\<exists>raw. Field raw f \<in> set (tokens body))"
proof -
  have "f \<in> set (extract_merge_fields body) \<longleftrightarrow> (\<exists>t \<in> set (tokens body). token_field t = Some f)"
    by (force simp: extract_merge_fields_def map_filter_def)
  also have "\<dots> \<longleftrightarrow> (\<exists>raw. Field raw f \<in> set (tokens body))"
    by (metis token_field.elims token_field.simps(2) option.distinct(1) option.inject)
  finally show ?thesis .
qed

text \<open>Rendering throws exactly when a field of the body has no value, naming each missing field
  once; otherwise every field is replaced by its value and every other character is kept.\<close>

theorem render_spec:
  "render body data =
    (if \<exists>f. f \<in> set (extract_merge_fields body) \<and> map_of data f = None
     then Inl (BadRequestException (''Missing merge fields: '' @
       join_with '', '' (filter (\<lambda>f. map_of data f = None) (extract_merge_fields body))))
     else Inr (concat (map (\<lambda>t. case t of Text ch \<Rightarrow> [ch]
       | Field raw f \<Rightarrow> merge_string (the (map_of data f))) (tokens body)))) \<and>
   distinct (extract_merge_fields body)"
proof (cases "\<exists>f. f \<in> set (extract_merge_fields body) \<and> map_of data f = None")
  case True
  then have "filter (\<lambda>f. map_of data f = None) (extract_merge_fields body) \<noteq> []"
    by (auto simp: filter_empty_conv)
  with True show ?thesis
    by (auto simp: render_def validate_merge_data_def Let_def extract_merge_fields_def)
next
  case False
  then have "filter (\<lambda>f. map_of data f = None) (extract_merge_fields body) = []"
    by (auto simp: filter_empty_conv)
  moreover have "render_token data t = (case t of Text ch \<Rightarrow> [ch]
       | Field raw f \<Rightarrow> merge_string (the (map_of data f)))" if "t \<in> set (tokens body)" for t
    using False that merge_fields_set [of _ body] by (cases t) (auto split: option.splits)
  ultimately show ?thesis
    using False
    by (simp add: render_def validate_merge_data_def Let_def extract_merge_fields_def cong: map_cong)
qed

theorem render_spec_witness:
  "render ''Hi {{ name }}: {{code}}'' [(''name'', MergeString ''Abebe''), (''code'', MergeNumber 42)] =
     Inr ''Hi Abebe: 42'' \<and>
   render ''Hi {{ name }}'' [] = Inl (BadRequestException ''Missing merge fields: name'')"
proof -
  have "tokens ''Hi {{ name }}: {{code}}'' =
    [Text CHR ''H'', Text CHR ''i'', Text CHR '' '', Field ''{{ name }}'' ''name'', Text CHR '':'',
     Text CHR '' '', Field ''{{code}}'' ''code'']"
    "int_str 42 = ''42''"
    "extract_merge_fields ''Hi {{ name }}'' = [''name'']"
    "extract_merge_fields ''Hi {{ name }}: {{code}}'' = [''name'', ''code'']"
    by code_simp+
  then show ?thesis
    using render_spec [of "''Hi {{ name }}: {{code}}''" "[(''name'', MergeString ''Abebe''), (''code'', MergeNumber 42)]"]
      render_spec [of "''Hi {{ name }}''" "[]"]
    by simp
qed

end
