(* ===== verification/Submission.thy ===== *)
theory Submission
  imports Workflow Templates
begin

text \<open>
  The submission of a message (\<open>messages.service.ts\<close>): \<open>consumeSubmissionQuotas\<close>,
  \<open>submitMessageWithContext\<close> and its two callers. The checks run in the order of the code, then
  one transaction looks for an earlier submission under the same key, inserts the message,
  reserves its price and announces it in the outbox.
\<close>

subsection \<open>What the submission asks of the other services\<close>

record 'e submission_services = "'e services" +
  ss_get_tenant_policy :: "tenant \<Rightarrow> ('e, int \<times> int) io" \<comment> \<open>api rate, submit rate\<close>
  ss_enforce_limit :: "string \<Rightarrow> int \<Rightarrow> int \<Rightarrow> ('e, rat) io"
  ss_enforce_daily_quota :: "string \<Rightarrow> int \<Rightarrow> ('e, rat) io"
  ss_assert_not_opted_out :: "tenant \<Rightarrow> string \<Rightarrow> ('e, unit) io"
  ss_resolve_template_body :: "tenant \<Rightarrow> string \<Rightarrow> ('e, string) io"
  ss_ensure_approved :: "tenant \<Rightarrow> string \<Rightarrow> int \<Rightarrow> ('e, unit) io"
  ss_enforce_submission :: "fraud_input \<Rightarrow> ('e, unit) io"
  ss_pricing_rules :: "'e \<Rightarrow> pricing_rule list"

record submit_dto =
  sm_phone_number :: string
  sm_sender_id :: string
  sm_body :: "string option"
  sm_template_ref :: "string option"
  sm_merge_data :: merge_data
  sm_traffic_type :: "string option"
  sm_client_message_id :: "string option"

record submission_context =
  su_tenant_id :: tenant
  su_api_key_id :: "string option"
  su_scopes :: "string list"
  su_rate_limit_rps :: "int option"
  su_daily_quota :: "int option"
  su_request_id :: "string option"
  su_idempotency_key :: "string option"

definition consume_submission_quotas ::
  "'e submission_services \<Rightarrow> ctx \<Rightarrow> tenant \<Rightarrow> string \<Rightarrow> int option \<Rightarrow> int option \<Rightarrow> int \<times> int \<Rightarrow>
   ('e, unit) io" where
  "consume_submission_quotas sv c tenant api_key_id rate_limit_rps daily_quota policy =
     io_bind (ss_enforce_limit sv (''rl:tenant:'' @ tenant @ '':api'') (fst policy) 1) (\<lambda>_.
     io_bind (ss_enforce_limit sv (''rl:tenant:'' @ tenant @ '':submit'') (snd policy) 1) (\<lambda>_.
     io_bind (if truthy_int rate_limit_rps
              then ss_enforce_limit sv (''rl:key:'' @ api_key_id @ '':api'') (the rate_limit_rps) 1
              else io_return 0) (\<lambda>_.
     io_bind (if truthy_int daily_quota
              then ss_enforce_daily_quota sv
                     (''quota:key:'' @ api_key_id @ '':'' @ c_today c) (the daily_quota)
              else io_return 0) (\<lambda>_. io_return ()))))"

subsection \<open>The transaction\<close>

text \<open>The values the checks computed.\<close>

record submission =
  sb_phone_number :: string
  sb_body :: string
  sb_traffic_type :: string
  sb_route :: route_decision
  sb_message_parts :: int
  sb_sell_price :: int
  sb_provider_cost :: int
  sb_body_hash :: string

definition same_submission :: "ctx \<Rightarrow> submission_context \<Rightarrow> submit_dto \<Rightarrow> message_row \<Rightarrow> bool" where
  "same_submission c context dto r \<longleftrightarrow>
     m_submit_date r = c_today c \<and> m_tenant_id r = su_tenant_id context \<and>
     (sql_eq (m_api_idempotency_key r) (su_idempotency_key context) \<or>
      sql_eq (m_client_message_id r) (sm_client_message_id dto))"

definition new_message ::
  "ctx \<Rightarrow> submission_context \<Rightarrow> submit_dto \<Rightarrow> submission \<Rightarrow> int \<Rightarrow> message_row" where
  "new_message c context dto s i =
     \<lparr>m_id = i, m_submit_date = c_today c, m_tenant_id = su_tenant_id context,
      m_campaign_id = None, m_api_key_id = su_api_key_id context,
      m_client_message_id = sm_client_message_id dto,
      m_api_idempotency_key = su_idempotency_key context,
      m_source_addr = Some (sm_sender_id dto), m_phone_number = sb_phone_number s,
      m_body = sb_body s, m_traffic_type = sb_traffic_type s, m_status = Accepted,
      m_version = 0, m_attempt_count = 0,
      m_provider_id = Some (rd_provider_id (sb_route s)),
      m_smpp_config_id = rd_smpp_config_id (sb_route s),
      m_route_rule_id = Some (rd_routing_rule_id (sb_route s)),
      m_provider_message_id = None, m_price_minor = sb_sell_price s,
      m_cost_minor = sb_provider_cost s, m_billing_state = ''reserved'',
      m_message_parts = sb_message_parts s, m_accepted_at = c_now c, m_sent_at = None,
      m_delivered_at = None, m_failed_at = None, m_last_error_code = None,
      m_last_error_message = None, m_body_hash = Some (sb_body_hash s),
      m_state_changed_at = c_now c\<rparr>"

text \<open>The insert, with the unique index on date, tenant and idempotency key.\<close>

definition insert_message :: "message_row \<Rightarrow> (db, message_row) tx" where
  "insert_message m d =
     (if \<exists>r \<in> set (messages d). m_submit_date r = m_submit_date m \<and> m_tenant_id r = m_tenant_id m \<and>
           sql_eq (m_api_idempotency_key r) (m_api_idempotency_key m)
      then Inl (DatabaseError ''duplicate key value violates unique constraint'')
      else Inr (m, d\<lparr>messages := messages d @ [m], next_message_id := next_message_id d + 1\<rparr>))"

definition accepted_event :: "submit_dto \<Rightarrow> message_row \<Rightarrow> route_decision \<Rightarrow> message_event" where
  "accepted_event dto m route =
     \<lparr>ev_submit_date = to_date_string (m_submit_date m), ev_tenant_id = m_tenant_id m,
      ev_message_id = m_id m, ev_version = m_version m, ev_phone_number = m_phone_number m,
      ev_body = m_body m, ev_sender_id = sm_sender_id dto, ev_traffic_type = m_traffic_type m,
      ev_provider_id = Some (rd_provider_id route), ev_smpp_config_id = rd_smpp_config_id route,
      ev_route_rule_id = None, ev_protocol = None, ev_provider_message_id = None,
      ev_accepted = None, ev_error_code = None, ev_error_message = None, ev_latency_ms = None,
      ev_retryable = None, ev_uncertain = None\<rparr>"

definition route_preview_json :: "submission \<Rightarrow> json" where
  "route_preview_json s =
     (let route = sb_route s in
      jobj [(''routingRuleId'', Some (jint (rd_routing_rule_id route))),
            (''providerId'', Some (jint (rd_provider_id route))),
            (''smppConfigId'', Some (jnullable jint (rd_smpp_config_id route))),
            (''protocol'', Some (JStr (protocol_str (rd_protocol route)))),
            (''estimatedUnitCostMinor'', Some (jint (sb_provider_cost s))),
            (''score'', Some (JNum (rd_score route))),
            (''totalSellPriceMinor'', Some (jint (sb_sell_price s)))])"

definition submit_tx ::
  "ctx \<Rightarrow> submission_context \<Rightarrow> submit_dto \<Rightarrow> submission \<Rightarrow> (db, json) tx" where
  "submit_tx c context dto s d =
     (let existing =
            (if truthy_str (su_idempotency_key context) \<or> truthy_str (sm_client_message_id dto)
             then first_row (filter (same_submission c context dto) (messages d)) else None)
      in case existing of
           Some row \<Rightarrow> Inr (build_message_response row (Some (route_json (sb_route s))), d)
         | None \<Rightarrow>
             and_then (insert_message (new_message c context dto s (next_message_id d)) d)
               (\<lambda>(message, d1).
                let composite = row_composite message in
                and_then (reserve_wallet c (su_tenant_id context) (sb_sell_price s)
                    (''reserve:'' @ build_aggregate_id composite) composite d1) (\<lambda>(_, d2).
                let d3 = log_event c composite ''api_accepted'' None (Some Accepted)
                           (jobj [(''requestId'', Some (jnullable JStr (su_request_id context))),
                                  (''routePreview'', Some (route_json (sb_route s))),
                                  (''messageParts'', Some (jint (sb_message_parts s)))])
                           (Some (rd_provider_id (sb_route s))) None 0 d2;
                    d4 = enqueue c
                           (message_event_input composite (m_tenant_id message)
                              ''message.accepted'' (topic_name SmsAccepted)
                              (''message:'' @ build_aggregate_id composite @ '':accepted'')
                              (MessageEvent (accepted_event dto message (sb_route s))) None) d3
                in Inr (build_message_response message (Some (route_preview_json s)), d4))))"

subsection \<open>The submission\<close>

definition submission_body ::
  "'e submission_services \<Rightarrow> submission_context \<Rightarrow> submit_dto \<Rightarrow> ('e, string) io" where
  "submission_body sv context dto =
     (if coalesce (sm_body dto) '''' = '''' \<and> \<not> truthy_str (sm_template_ref dto)
      then io_throw (BadRequestException ''Either body or templateRef is required'')
      else
        io_bind
          (if truthy_str (sm_template_ref dto)
           then io_bind (ss_resolve_template_body sv (su_tenant_id context) (the (sm_template_ref dto)))
                  (\<lambda>template. (\<lambda>e. (render template (sm_merge_data dto), e)))
           else io_return (coalesce (sm_body dto) ''''))
          (\<lambda>body. if body = [] then io_throw (BadRequestException ''Message body must not be empty'')
                  else io_return body))"

text \<open>Everything before the transaction, in the order of the code.\<close>

definition prepare_submission ::
  "'e submission_services \<Rightarrow> (string \<Rightarrow> string) \<Rightarrow> ctx \<Rightarrow> submission_context \<Rightarrow> submit_dto \<Rightarrow>
   ('e, submission) io" where
  "prepare_submission sv sha256 c context dto =
     (if ''sms:send'' \<notin> set (su_scopes context)
      then io_throw (ForbiddenException ''Sender does not have sms:send scope'')
      else
        io_bind (ss_get_tenant_policy sv (su_tenant_id context)) (\<lambda>policy.
        io_bind (consume_submission_quotas sv c (su_tenant_id context)
            (coalesce (su_api_key_id context) ''control-plane'')
            (su_rate_limit_rps context) (su_daily_quota context) policy) (\<lambda>_.
        io_bind (\<lambda>e. (normalize_phone_number (sm_phone_number dto), e)) (\<lambda>phone_number.
        io_bind (ss_assert_not_opted_out sv (su_tenant_id context) phone_number) (\<lambda>_.
        let traffic_type = coalesce (sm_traffic_type dto) ''transactional'' in
        io_bind (submission_body sv context dto) (\<lambda>body.
        io_bind (sv_select_route sv (su_tenant_id context) phone_number traffic_type no_route_options)
          (\<lambda>route.
        io_bind (ss_ensure_approved sv (su_tenant_id context) (sm_sender_id dto) (rd_provider_id route))
          (\<lambda>_.
        io_bind (ss_enforce_submission sv
            \<lparr>fi_tenant_id = su_tenant_id context, fi_phone_number = phone_number, fi_body = body,
             fi_sender_id = sm_sender_id dto, fi_traffic_type = traffic_type\<rparr>) (\<lambda>_.
        (\<lambda>e.
          let parts = compute_message_parts body;
              unit_price = get_sell_unit_price_minor c (ss_pricing_rules sv e) (su_tenant_id context)
                             (country_code_for phone_number) traffic_type parts
          in (Inr \<lparr>sb_phone_number = phone_number, sb_body = body, sb_traffic_type = traffic_type,
                   sb_route = route, sb_message_parts = parts,
                   sb_sell_price = unit_price * parts,
                   sb_provider_cost = rd_estimated_unit_cost_minor route * parts,
                   sb_body_hash = sha256 body\<rparr>, e)))))))))))"

definition submit_message_with_context ::
  "'e submission_services \<Rightarrow> (string \<Rightarrow> string) \<Rightarrow> ctx \<Rightarrow> submission_context \<Rightarrow> submit_dto \<Rightarrow>
   (db \<times> 'e, json) io" where
  "submit_message_with_context sv sha256 c context dto = (\<lambda>(d, e).
     case prepare_submission sv sha256 c context dto e of
       (Inl ex, e1) \<Rightarrow> (Inl ex, d, e1)
     | (Inr s, e1) \<Rightarrow>
         (let (r, d1) = with_transaction (submit_tx c context dto s) d in (r, d1, e1)))"

definition submit_message ::
  "'e submission_services \<Rightarrow> (string \<Rightarrow> string) \<Rightarrow> ctx \<Rightarrow> request \<Rightarrow> submit_dto \<Rightarrow>
   (db \<times> 'e, json) io" where
  "submit_message sv sha256 c rq dto =
     (case rq_api_principal rq of
        None \<Rightarrow> io_throw (UnauthorizedException ''API principal is missing'')
      | Some caller \<Rightarrow>
          submit_message_with_context sv sha256 c
            \<lparr>su_tenant_id = ap_tenant_id caller,
             su_api_key_id = Some (ap_api_key_id caller),
             su_scopes = ap_scopes caller,
             su_rate_limit_rps = ap_rate_limit_rps caller,
             su_daily_quota = ap_daily_quota caller,
             su_request_id = rq_request_id rq,
             su_idempotency_key = rq_idempotency_key rq\<rparr> dto)"

definition submit_control_plane_message ::
  "'e submission_services \<Rightarrow> (string \<Rightarrow> string) \<Rightarrow> ctx \<Rightarrow> jwt_claims \<Rightarrow> submit_dto \<Rightarrow>
   string option \<Rightarrow> string option \<Rightarrow> (db \<times> 'e, json) io" where
  "submit_control_plane_message sv sha256 c user dto request_id idempotency_key =
     submit_message_with_context sv sha256 c
       \<lparr>su_tenant_id = jc_tenant_id user, su_api_key_id = None, su_scopes = [''sms:send''],
        su_rate_limit_rps = None, su_daily_quota = None, su_request_id = request_id,
        su_idempotency_key = idempotency_key\<rparr> dto"

end
