(* ===== verification/Dlr.thy ===== *)
theory Dlr
  imports Workflow
begin

text \<open>
  Delivery receipts: \<open>dlr.service.ts\<close> stores the callback of a provider and announces it in
  the outbox, \<open>dlr.processor.service.ts\<close> consumes the announcement, finds the message and
  settles it; \<open>reconciliation.service.ts\<close> files what could not be settled.

  \<open>sha256\<close> (the hash of \<open>node:crypto\<close>) and \<open>parse_timestamp\<close> (PostgreSQL's cast to
  \<open>timestamptz\<close>, \<open>None\<close> when it raises) are parameters.
\<close>

subsection \<open>Reading a payload\<close>

fun extract_first_string :: "json \<Rightarrow> string list \<Rightarrow> string option" where
  "extract_first_string payload [] = None"
| "extract_first_string payload (k # ks) =
     (case json_field payload k of
        Some (JStr v) \<Rightarrow> if v \<noteq> [] then Some v else extract_first_string payload ks
      | _ \<Rightarrow> extract_first_string payload ks)"

fun extract_first_number :: "json \<Rightarrow> string list \<Rightarrow> rat option" where
  "extract_first_number payload [] = None"
| "extract_first_number payload (k # ks) =
     (case json_field payload k of
        Some (JNum n) \<Rightarrow> Some n
      | Some (JStr v) \<Rightarrow>
          (if v \<noteq> [] then
             (case js_number v of Some n \<Rightarrow> Some n | None \<Rightarrow> extract_first_number payload ks)
           else extract_first_number payload ks)
      | _ \<Rightarrow> extract_first_number payload ks)"

definition json_string :: "json option \<Rightarrow> string option" where
  "json_string v = (case v of Some (JStr s) \<Rightarrow> Some s | _ \<Rightarrow> None)"

definition normalize_status :: "json \<Rightarrow> string" where
  "normalize_status payload =
     (let candidates = map to_lower (List.map_filter (\<lambda>k. json_string (json_field payload k))
            [''status'', ''deliveryStatus'', ''delivery_status'', ''message_status'', ''state''])
      in if \<exists>v \<in> set candidates. v \<in> {''delivered'', ''deliverd'', ''success'', ''successdelivrd''}
         then ''delivered''
         else if \<exists>v \<in> set candidates. v \<in> {''failed'', ''undelivered'', ''rejected'', ''expired'', ''deleted''}
         then ''failed''
         else ''unknown'')"

subsection \<open>Storing a callback\<close>

definition same_callback :: "ctx \<Rightarrow> int \<Rightarrow> string option \<Rightarrow> webhook_row \<Rightarrow> bool" where
  "same_callback c provider_id callback_id w \<longleftrightarrow>
     callback_id \<noteq> None \<and> wh_received_date w = c_today c \<and> wh_provider_id w = provider_id \<and>
     wh_callback_id w = callback_id"

definition new_webhook ::
  "ctx \<Rightarrow> int \<Rightarrow> tenant option \<Rightarrow> string option \<Rightarrow> string option \<Rightarrow> json \<Rightarrow> json \<Rightarrow> int \<Rightarrow> webhook_row" where
  "new_webhook c provider_id tenant_id provider_message_id callback_id headers payload i =
     \<lparr>wh_id = i, wh_received_date = c_today c, wh_provider_id = provider_id,
      wh_tenant_id = tenant_id, wh_provider_message_id = provider_message_id,
      wh_callback_id = callback_id, wh_headers = headers, wh_payload = payload,
      wh_normalized_status = Some (normalize_status payload), wh_processed = False,
      wh_processing_error = None, wh_received_at = c_now c, wh_processed_at = None\<rparr>"

text \<open>The insert, or on a conflict the update of the row with the same callback.\<close>

definition upsert_webhook ::
  "ctx \<Rightarrow> int \<Rightarrow> tenant option \<Rightarrow> string option \<Rightarrow> string option \<Rightarrow> json \<Rightarrow> json \<Rightarrow> db \<Rightarrow> webhook_row \<times> db"
where
  "upsert_webhook c provider_id tenant_id provider_message_id callback_id headers payload d =
     (let f = (\<lambda>w. w\<lparr>wh_tenant_id := or_else (wh_tenant_id w) tenant_id,
                     wh_provider_message_id := or_else provider_message_id (wh_provider_message_id w),
                     wh_headers := headers, wh_payload := payload,
                     wh_normalized_status := Some (normalize_status payload)\<rparr>)
      in case first_row (sql_returning (same_callback c provider_id callback_id) f (dlr_webhooks d)) of
           Some w \<Rightarrow>
             (w, d\<lparr>dlr_webhooks :=
                    sql_update (same_callback c provider_id callback_id) f (dlr_webhooks d)\<rparr>)
         | None \<Rightarrow>
             (let w = new_webhook c provider_id tenant_id provider_message_id callback_id headers
                        payload (next_webhook_id d)
              in (w, d\<lparr>dlr_webhooks := dlr_webhooks d @ [w],
                       next_webhook_id := next_webhook_id d + 1\<rparr>)))"

definition webhook_ref :: "webhook_row \<Rightarrow> string" where
  "webhook_ref w = wh_received_date w @ '':'' @ int_str (wh_id w)"

definition accept_webhook_tx ::
  "ctx \<Rightarrow> int \<Rightarrow> tenant option \<Rightarrow> string option \<Rightarrow> string option \<Rightarrow> json \<Rightarrow> json \<Rightarrow> (db, unit) tx" where
  "accept_webhook_tx c provider_id tenant_id provider_message_id callback_id headers payload d =
     (let (row, d1) = upsert_webhook c provider_id tenant_id provider_message_id callback_id
                        headers payload d
      in Inr ((), enqueue c
           \<lparr>oi_tenant_id = tenant_id,
            oi_aggregate_type = ''dlr_webhook'',
            oi_aggregate_id = webhook_ref row,
            oi_event_type = ''dlr.received'',
            oi_topic_name = topic_name SmsDlr,
            oi_partition_key = int_str provider_id,
            oi_dedupe_key = ''dlr:'' @ webhook_ref row,
            oi_payload = DlrReceived (wh_received_date row) (wh_id row) provider_id,
            oi_next_attempt_at = None\<rparr> d1))"

text \<open>\<open>providers\<close> is the table of providers, as pairs of code and identifier.\<close>

definition accept_webhook ::
  "ctx \<Rightarrow> (string \<times> int) list \<Rightarrow> string \<Rightarrow> json \<Rightarrow> json \<Rightarrow> db \<Rightarrow> unit result \<times> db" where
  "accept_webhook c providers provider_code payload headers d =
     (case map_of providers provider_code of
        None \<Rightarrow> (Inl (NotFoundException ''Provider not found''), d)
      | Some provider_id \<Rightarrow>
          (let provider_message_id = extract_first_string payload
                 [''providerMessageId'', ''provider_message_id'', ''messageId'', ''message_id''];
               callback_id = or_else
                 (extract_first_string payload
                    [''callbackId'', ''callback_id'', ''eventId'', ''event_id''])
                 (json_string (json_field headers ''x-request-id''));
               tenant_id = extract_first_string payload [''tenantId'', ''tenant_id'']
           in with_transaction
                (accept_webhook_tx c provider_id tenant_id provider_message_id callback_id
                   headers payload) d))"

subsection \<open>Processing a callback\<close>

definition is_webhook :: "string \<Rightarrow> int \<Rightarrow> webhook_row \<Rightarrow> bool" where
  "is_webhook received_date webhook_id w \<longleftrightarrow>
     wh_received_date w = received_date \<and> wh_id w = webhook_id"

definition mark_processed :: "ctx \<Rightarrow> string \<Rightarrow> int \<Rightarrow> string option \<Rightarrow> db \<Rightarrow> db" where
  "mark_processed c received_date webhook_id processing_error d =
     d\<lparr>dlr_webhooks :=
        sql_update (is_webhook received_date webhook_id)
          (\<lambda>w. w\<lparr>wh_processed := True, wh_processing_error := processing_error,
                 wh_processed_at := Some (c_now c)\<rparr>) (dlr_webhooks d)\<rparr>"

text \<open>The update at the end of the two settling transactions.\<close>

definition settle_webhook :: "ctx \<Rightarrow> string \<Rightarrow> int \<Rightarrow> tenant \<Rightarrow> db \<Rightarrow> db" where
  "settle_webhook c received_date webhook_id tenant d =
     d\<lparr>dlr_webhooks :=
        sql_update (is_webhook received_date webhook_id)
          (\<lambda>w. w\<lparr>wh_processed := True, wh_processed_at := Some (c_now c),
                 wh_tenant_id := or_else (wh_tenant_id w) (Some tenant)\<rparr>) (dlr_webhooks d)\<rparr>"

definition dlr_reconcile_tx ::
  "ctx \<Rightarrow> webhook_row \<Rightarrow> string \<Rightarrow> (string \<times> json option) list \<Rightarrow> (db, unit) tx" where
  "dlr_reconcile_tx c webhook reason extra d =
     Inr ((), mark_processed c (wh_received_date webhook) (wh_id webhook) (Some reason)
       (enqueue c
         \<lparr>oi_tenant_id = wh_tenant_id webhook,
          oi_aggregate_type = ''dlr_webhook'',
          oi_aggregate_id = webhook_ref webhook,
          oi_event_type = ''dlr.reconcile'',
          oi_topic_name = topic_name SmsReconcile,
          oi_partition_key = coalesce (wh_tenant_id webhook) (int_str (wh_provider_id webhook)),
          oi_dedupe_key = ''dlr:'' @ webhook_ref webhook @ '':reconcile:'' @ reason,
          oi_payload =
            DlrReconcile (wh_tenant_id webhook) (wh_provider_id webhook) ''dlr_unmatched'' reason
              (jobj ([(''receivedDate'', Some (JStr (wh_received_date webhook))),
                      (''webhookId'', Some (jint (wh_id webhook))),
                      (''providerMessageId'', Some (jnullable JStr (wh_provider_message_id webhook))),
                      (''normalizedStatus'', Some (jnullable JStr (wh_normalized_status webhook)))] @
                     extra @
                     [(''raw'', Some (wh_payload webhook))])),
          oi_next_attempt_at = None\<rparr> d))"

definition message_ref_of :: "message_row \<Rightarrow> composite_id" where
  "message_ref_of message =
     \<lparr>c_submit_date = m_submit_date message, c_tenant_id = m_tenant_id message, c_id = m_id message\<rparr>"

definition dlr_delivered_tx ::
  "ctx \<Rightarrow> string \<Rightarrow> int \<Rightarrow> webhook_row \<Rightarrow> message_row \<Rightarrow> (db, unit) tx" where
  "dlr_delivered_tx c received_date webhook_id webhook message d =
     and_then (transition_message c message Delivered [] False d) (\<lambda>(updated, d1).
       Inr ((), settle_webhook c received_date webhook_id (m_tenant_id message)
         (log_event c (message_ref_of message) ''delivered'' (Some ProviderAccepted) (Some Delivered)
            (wh_payload webhook) (m_provider_id updated) (m_provider_message_id updated)
            (m_attempt_count updated) d1)))"

definition dlr_failed_tx ::
  "ctx \<Rightarrow> string \<Rightarrow> int \<Rightarrow> webhook_row \<Rightarrow> message_row \<Rightarrow> (db, unit) tx" where
  "dlr_failed_tx c received_date webhook_id webhook message d =
     and_then (transition_message c message Failed
         [LastErrorCode (Some ''dlr_failed''),
          LastErrorMessage (Some ''Provider DLR marked message as failed''),
          BillingState (if m_billing_state message = ''reserved'' then ''released''
                        else m_billing_state message)] False d) (\<lambda>(updated, d1).
     and_then (if m_billing_state message = ''reserved''
               then release_reserved_wallet c (m_tenant_id message) (m_price_minor message)
                 (''release:'' @ m_submit_date message @ '':'' @ m_tenant_id message @ '':'' @
                  int_str (m_id message) @ '':dlr'') (message_ref_of message) d1
               else Inr (False, d1)) (\<lambda>(_, d2).
       Inr ((), settle_webhook c received_date webhook_id (m_tenant_id message)
         (log_event c (message_ref_of message) ''failed'' (Some (m_status message)) (Some Failed)
            (wh_payload webhook) (m_provider_id updated) (m_provider_message_id updated)
            (m_attempt_count updated) d2))))"

text \<open>
  The lookup a stored callback asks for. The casts of the campaign and rule identifiers to
  \<open>bigint\<close> and of the event time to \<open>timestamptz\<close> happen inside the second query, so
  they raise only when that query runs.
\<close>

definition lookup_for ::
  "(string \<Rightarrow> string) \<Rightarrow> int \<Rightarrow> webhook_row \<Rightarrow> dlr_lookup" where
  "lookup_for sha256 provider_id webhook =
     (let payload = wh_payload webhook;
          body_text = extract_first_string payload [''body'', ''text'', ''message'', ''shortMessage'']
      in \<lparr>lk_tenant_id = wh_tenant_id webhook,
          lk_provider_id = provider_id,
          lk_provider_message_id = wh_provider_message_id webhook,
          lk_phone_number =
            extract_first_string payload [''phoneNumber'', ''phone_number'', ''to'', ''destination''],
          lk_sender_id =
            extract_first_string payload [''senderId'', ''sender_id'', ''from'', ''source''],
          lk_event_at = None,
          lk_body_hash =
            or_else (extract_first_string payload [''bodyHash'', ''body_hash''])
              (map_option sha256 body_text),
          lk_campaign_id = None,
          lk_route_rule_id = None\<rparr>)"

definition event_at_of :: "webhook_row \<Rightarrow> string option" where
  "event_at_of webhook =
     extract_first_string (wh_payload webhook)
       [''eventAt'', ''event_at'', ''deliveredAt'', ''submitDate'', ''sentAt'']"

definition campaign_of :: "webhook_row \<Rightarrow> rat option" where
  "campaign_of webhook = extract_first_number (wh_payload webhook) [''campaignId'', ''campaign_id'']"

definition route_rule_of :: "webhook_row \<Rightarrow> rat option" where
  "route_rule_of webhook =
     extract_first_number (wh_payload webhook) [''routeRuleId'', ''route_rule_id'']"

definition cast_bigint :: "rat option \<Rightarrow> int option result" where
  "cast_bigint x =
     (case x of
        None \<Rightarrow> Inr None
      | Some q \<Rightarrow> if of_int \<lfloor>q\<rfloor> = q then Inr (Some \<lfloor>q\<rfloor>)
                  else Inl (DatabaseError ''invalid input syntax for type bigint''))"

definition cast_timestamp :: "(string \<Rightarrow> time option) \<Rightarrow> string option \<Rightarrow> time option result" where
  "cast_timestamp parse_timestamp x =
     (case x of
        None \<Rightarrow> Inr None
      | Some s \<Rightarrow> (case parse_timestamp s of
            Some t \<Rightarrow> Inr (Some t)
          | None \<Rightarrow> Inl (DatabaseError ''invalid input syntax for type timestamp with time zone'')))"

definition correlate_webhook ::
  "ctx \<Rightarrow> (string \<Rightarrow> time option) \<Rightarrow> (string \<Rightarrow> string) \<Rightarrow> int \<Rightarrow> webhook_row \<Rightarrow> db \<Rightarrow>
   message_row option result" where
  "correlate_webhook c parse_timestamp sha256 provider_id webhook d =
     (let input = lookup_for sha256 provider_id webhook;
          direct = (if truthy_str (lk_provider_message_id input) then correlate_direct input d else None)
      in if direct \<noteq> None \<or> \<not> truthy_str (lk_phone_number input)
         then Inr (correlate_message_for_dlr c input d)
         else
           and_then (cast_timestamp parse_timestamp (event_at_of webhook)) (\<lambda>event_at.
           and_then (cast_bigint (campaign_of webhook)) (\<lambda>campaign.
           and_then (cast_bigint (route_rule_of webhook)) (\<lambda>rule.
             Inr (correlate_message_for_dlr c
               (input\<lparr>lk_event_at := event_at, lk_campaign_id := campaign, lk_route_rule_id := rule\<rparr>)
               d)))))"

definition unmatched_extra ::
  "(string \<Rightarrow> string) \<Rightarrow> int \<Rightarrow> webhook_row \<Rightarrow> (string \<times> json option) list" where
  "unmatched_extra sha256 provider_id webhook =
     (let input = lookup_for sha256 provider_id webhook
      in [(''phoneNumber'', map_option JStr (lk_phone_number input)),
          (''senderId'', map_option JStr (lk_sender_id input)),
          (''eventAt'', map_option JStr (event_at_of webhook)),
          (''bodyHash'', map_option JStr (lk_body_hash input)),
          (''campaignId'', map_option JNum (campaign_of webhook)),
          (''routeRuleId'', map_option JNum (route_rule_of webhook))])"

definition status_extra :: "message_row \<Rightarrow> (string \<times> json option) list" where
  "status_extra message =
     [(''correlatedMessageId'', Some (jint (m_id message))),
      (''currentStatus'', Some (JStr (status_str (m_status message))))]"

text \<open>What the processor does with a callback and the message it was attributed to.\<close>

definition settle_receipt ::
  "ctx \<Rightarrow> string \<Rightarrow> int \<Rightarrow> webhook_row \<Rightarrow> message_row \<Rightarrow> db \<Rightarrow> unit result \<times> db" where
  "settle_receipt c received_date webhook_id webhook message d =
     (if wh_normalized_status webhook = Some ''unknown'' \<or> \<not> truthy_str (wh_normalized_status webhook)
      then with_transaction (dlr_reconcile_tx c webhook ''unknown_status''
             [(''correlatedMessageId'', Some (jint (m_id message)))]) d
      else if wh_normalized_status webhook = Some ''delivered'' then
        (if m_status message = Delivered
         then (Inr (), mark_processed c received_date webhook_id (Some ''duplicate_delivered'') d)
         else if m_status message \<noteq> ProviderAccepted
         then with_transaction (dlr_reconcile_tx c webhook ''invalid_delivered_transition''
                (status_extra message)) d
         else with_transaction (dlr_delivered_tx c received_date webhook_id webhook message) d)
      else if m_status message = Failed
      then (Inr (), mark_processed c received_date webhook_id (Some ''duplicate_failed'') d)
      else if m_status message \<notin> {ProviderAccepted, Submitting}
      then with_transaction (dlr_reconcile_tx c webhook ''invalid_failed_transition''
             (status_extra message)) d
      else with_transaction (dlr_failed_tx c received_date webhook_id webhook message) d)"

definition process_webhook ::
  "ctx \<Rightarrow> (string \<Rightarrow> time option) \<Rightarrow> (string \<Rightarrow> string) \<Rightarrow> string \<Rightarrow> int \<Rightarrow> int \<Rightarrow> db \<Rightarrow>
   unit result \<times> db" where
  "process_webhook c parse_timestamp sha256 received_date webhook_id provider_id d =
     (case first_row (filter (\<lambda>w. is_webhook received_date webhook_id w \<and>
              wh_provider_id w = provider_id) (dlr_webhooks d)) of
        None \<Rightarrow> (Inr (), d)
      | Some webhook \<Rightarrow>
          if wh_processed webhook then (Inr (), d)
          else
            (case correlate_webhook c parse_timestamp sha256 provider_id webhook d of
               Inl ex \<Rightarrow> (Inl ex, d)
             | Inr None \<Rightarrow>
                 with_transaction (dlr_reconcile_tx c webhook ''message_not_found''
                   (unmatched_extra sha256 provider_id webhook)) d
             | Inr (Some message) \<Rightarrow>
                 settle_receipt c received_date webhook_id webhook message d))"

subsection \<open>Reconciliation\<close>

fun reconciliation_for :: "ctx \<Rightarrow> event_payload \<Rightarrow> reconciliation_row option" where
  "reconciliation_for c (MessageReconcile tenant provider date i kind reason payload) =
     Some \<lparr>rc_event_date = c_today c, rc_tenant_id = Some tenant, rc_provider_id = provider,
       rc_message_submit_date = Some date, rc_message_id = Some i, rc_kind = kind,
       rc_reason = reason, rc_payload = FromMessage payload, rc_status = ''pending''\<rparr>"
| "reconciliation_for c (DlrReconcile tenant provider kind reason payload) =
     Some \<lparr>rc_event_date = c_today c, rc_tenant_id = tenant, rc_provider_id = Some provider,
       rc_message_submit_date = None, rc_message_id = None, rc_kind = kind,
       rc_reason = reason, rc_payload = FromReceipt payload,
       rc_status = ''pending''\<rparr>"
| "reconciliation_for c _ = None"

definition consume_reconciliation :: "ctx \<Rightarrow> event_payload \<Rightarrow> db \<Rightarrow> db" where
  "consume_reconciliation c event d =
     (case reconciliation_for c event of
        None \<Rightarrow> d
      | Some row \<Rightarrow> d\<lparr>reconciliation_events := reconciliation_events d @ [row]\<rparr>)"

end
