(* ===== verification/Billing.thy ===== *)
theory Billing
  imports Submission Dlr
begin

text \<open>
  What ties the wallet to the messages. The invariant \<open>pipeline_inv\<close>: what a tenant has
  reserved is the sum of the prices of its messages in flight, the ledger holds one
  reservation per message and at most one debit or release, and the balances are the opening
  balance moved by the ledger. A transaction changes one row and perhaps posts to the ledger
  (\<open>changed\<close>, \<open>settles\<close>), or inserts a row and reserves its price (\<open>inserted\<close>); each of the
  three keeps the invariant, and a posting that settles a message in flight is never refused.
  The theory \<open>Pipeline\<close> shows that every transaction of the code is one of these.
\<close>

subsection \<open>Ledger keys of a message\<close>

definition message_ref :: "message_row \<Rightarrow> string" where
  "message_ref m = m_submit_date m @ '':'' @ m_tenant_id m @ '':'' @ int_str (m_id m)"

definition reserve_key :: "message_row \<Rightarrow> string" where
  "reserve_key m = ''reserve:'' @ message_ref m"

definition debit_key :: "message_row \<Rightarrow> string" where
  "debit_key m = ''debit:'' @ message_ref m"

definition release_key :: "string \<Rightarrow> message_row \<Rightarrow> string" where
  "release_key x m = ''release:'' @ message_ref m @ '':'' @ x"

lemma int_str_suffix_eq:
  assumes "int_str i @ s = int_str j @ t" and "s = [] \<or> (\<exists>s'. s = CHR '':'' # s')"
    and "t = [] \<or> (\<exists>t'. t = CHR '':'' # t')"
  shows "i = j \<and> s = t"
proof -
  have tw: "takeWhile (\<lambda>x. x \<noteq> CHR '':'') (int_str i @ s) = int_str i"
    if "s = [] \<or> (\<exists>s'. s = CHR '':'' # s')" for i s
  proof -
    have all: "x \<noteq> CHR '':''" if "x \<in> set (int_str i)" for x
      using that int_str_no_colon [of i] by metis
    then have "takeWhile (\<lambda>x. x \<noteq> CHR '':'') (int_str i) = int_str i"
      by (simp add: takeWhile_eq_all_conv)
    with that all show ?thesis by (auto simp: takeWhile_append2)
  qed
  have "int_str i = int_str j"
    using tw [OF assms(2), of i] tw [OF assms(3), of j] assms(1) by metis
  with assms(1) show ?thesis by simp
qed

text \<open>Among the messages of one tenant, a reference followed by nothing or a colon names the
  message.\<close>

lemma message_ref_inject:
  assumes "message_ref m @ s = message_ref m' @ t" and "m_tenant_id m = m_tenant_id m'"
    and "length (m_submit_date m) = 10" and "length (m_submit_date m') = 10"
    and "s = [] \<or> (\<exists>s'. s = CHR '':'' # s')" and "t = [] \<or> (\<exists>t'. t = CHR '':'' # t')"
  shows "message_key m = message_key m' \<and> s = t"
proof -
  have "m_submit_date m = m_submit_date m'"
    "int_str (m_id m) @ s = int_str (m_id m') @ t"
    using assms(1-4) by (auto simp: message_ref_def)
  with int_str_suffix_eq [OF this(2) assms(5,6)] assms(2) show ?thesis
    by (simp add: message_key_def)
qed

lemma ledger_keys_distinct [simp]:
  "reserve_key m \<noteq> debit_key m'" "reserve_key m \<noteq> release_key x m'" "debit_key m \<noteq> release_key x m'"
  "debit_key m \<noteq> reserve_key m'" "release_key x m \<noteq> reserve_key m'" "release_key x m \<noteq> debit_key m'"
  by (simp_all add: reserve_key_def debit_key_def release_key_def)

lemma ledger_keys_inject:
  assumes "m_tenant_id m = m_tenant_id m'"
    and "length (m_submit_date m) = 10" and "length (m_submit_date m') = 10"
  shows "reserve_key m = reserve_key m' \<Longrightarrow> message_key m = message_key m'"
    and "debit_key m = debit_key m' \<Longrightarrow> message_key m = message_key m'"
    and "release_key x m = release_key y m' \<Longrightarrow> message_key m = message_key m'"
  using message_ref_inject [OF _ assms, of "[]" "[]"]
    message_ref_inject [OF _ assms, of "CHR '':'' # x" "CHR '':'' # y"]
  by (auto simp: reserve_key_def debit_key_def release_key_def)

lemma ledger_keys_cong:
  assumes "message_key m = message_key m'"
  shows "reserve_key m = reserve_key m'" "debit_key m = debit_key m'" "release_key x m = release_key x m'"
  using assms by (simp_all add: reserve_key_def debit_key_def release_key_def message_ref_def message_key_def)

subsection \<open>The invariant\<close>

text \<open>The bill follows the status.\<close>

fun billing_ok :: "message_status \<Rightarrow> string \<Rightarrow> bool" where
  "billing_ok ProviderAccepted b \<longleftrightarrow> b = ''debited''"
| "billing_ok Delivered b \<longleftrightarrow> b = ''debited''"
| "billing_ok Failed b \<longleftrightarrow> b = ''debited'' \<or> b = ''released''"
| "billing_ok _ b \<longleftrightarrow> b = ''reserved''"

definition price :: "message_row \<Rightarrow> int" where
  "price m = max 0 (m_price_minor m)"

definition reserved_for :: "tenant \<Rightarrow> message_row \<Rightarrow> int" where
  "reserved_for t m = (if m_tenant_id m = t \<and> m_billing_state m = ''reserved'' then price m else 0)"

text \<open>What the ledger holds for one message.\<close>

definition message_total :: "message_row \<Rightarrow> billing_operation \<Rightarrow> db \<Rightarrow> int" where
  "message_total m k d =
     sum_list (map tr_amount_minor
       (filter (\<lambda>t. tr_tenant_id t = m_tenant_id m \<and> tr_message_submit_date t = Some (m_submit_date m) \<and>
          tr_message_id t = Some (m_id m) \<and> tr_kind t = k) (transactions d)))"

definition charged :: "message_row \<Rightarrow> billing_operation \<Rightarrow> int" where
  "charged m k =
     (case k of Reserve \<Rightarrow> price m
      | Debit \<Rightarrow> if m_billing_state m = ''debited'' then price m else 0
      | Release \<Rightarrow> if m_billing_state m = ''released'' then price m else 0)"

definition key_of :: "message_row \<Rightarrow> string \<Rightarrow> bool" where
  "key_of m k \<longleftrightarrow>
     k = reserve_key m \<or>
     k = debit_key m \<and> m_billing_state m = ''debited'' \<or>
     (\<exists>x. k = release_key x m \<and> m_billing_state m = ''released'')"

definition ledger_origin :: "transaction_row \<Rightarrow> message_row \<Rightarrow> bool" where
  "ledger_origin t m \<longleftrightarrow>
     tr_tenant_id t = m_tenant_id m \<and> tr_message_submit_date t = Some (m_submit_date m) \<and>
     tr_message_id t = Some (m_id m)"

definition ids_ok :: "db \<Rightarrow> bool" where
  "ids_ok d \<longleftrightarrow> messages_wf d \<and> (\<forall>m \<in> set (messages d). m_id m < next_message_id d)"

definition bills_ok :: "db \<Rightarrow> bool" where
  "bills_ok d \<longleftrightarrow> (\<forall>m \<in> set (messages d). billing_ok (m_status m) (m_billing_state m))"

definition keys_ok :: "db \<Rightarrow> bool" where
  "keys_ok d \<longleftrightarrow>
     (\<forall>t \<in> set (transactions d). \<exists>m \<in> set (messages d).
        ledger_origin t m \<and> key_of m (tr_idempotency_key t))"

definition charges_ok :: "db \<Rightarrow> bool" where
  "charges_ok d \<longleftrightarrow> (\<forall>m \<in> set (messages d). \<forall>k. message_total m k d = charged m k)"

text \<open>\<open>opening\<close> is the balance of a tenant's wallet before its first message.\<close>

definition money_ok :: "(tenant \<Rightarrow> int \<times> int) \<Rightarrow> db \<Rightarrow> bool" where
  "money_ok opening d \<longleftrightarrow>
     distinct (map wl_tenant_id (wallets d)) \<and>
     (\<forall>t. 0 \<le> snd (opening t) \<and>
          (has_wallet t d \<longrightarrow>
             wallet.solvent t d \<and> wallet.explained t (opening t) d \<and>
             snd (wallet_balances t d) = snd (opening t) + sum_list (map (reserved_for t) (messages d))) \<and>
          (\<not> has_wallet t d \<longrightarrow> (\<forall>m \<in> set (messages d). m_tenant_id m = t \<longrightarrow> m_price_minor m \<le> 0)))"

definition pipeline_inv :: "(tenant \<Rightarrow> int \<times> int) \<Rightarrow> db \<Rightarrow> bool" where
  "pipeline_inv opening d \<longleftrightarrow>
     ids_ok d \<and> bills_ok d \<and> keys_ok d \<and> charges_ok d \<and> money_ok opening d"

subsection \<open>What the invariant depends on\<close>

lemma wallet_cong:
  assumes "wallets d' = wallets d"
  shows "wallet_of t d' = wallet_of t d" "has_wallet t d' \<longleftrightarrow> has_wallet t d"
    "wallet_balances t d' = wallet_balances t d" "wallet_credit t d' = wallet_credit t d"
    "wallet.solvent t d' \<longleftrightarrow> wallet.solvent t d"
  using assms
  by (simp_all add: wallet_of_def has_wallet_def wallet_balances_def wallet_credit_def wallet.solvent_def)

lemma ledger_cong:
  assumes "transactions d' = transactions d"
  shows "posted_keys t d' = posted_keys t d" "ledger_total t k d' = ledger_total t k d"
    "message_total m k d' = message_total m k d"
  using assms by (simp_all add: posted_keys_def ledger_total_def message_total_def)

lemma explained_cong:
  assumes "wallets d' = wallets d" and "transactions d' = transactions d"
  shows "wallet.explained t b d' \<longleftrightarrow> wallet.explained t b d"
  by (simp add: wallet.explained_def wallet_cong [OF assms(1)] ledger_cong [OF assms(2)])

lemma pipeline_inv_frame:
  assumes "messages d' = messages d" "wallets d' = wallets d" "transactions d' = transactions d"
    "next_message_id d' = next_message_id d"
  shows "pipeline_inv opening d' \<longleftrightarrow> pipeline_inv opening d"
proof -
  have "ids_ok d' \<longleftrightarrow> ids_ok d" by (simp add: ids_ok_def messages_wf_def assms(1,4))
  moreover have "bills_ok d' \<longleftrightarrow> bills_ok d" by (simp add: bills_ok_def assms(1))
  moreover have "keys_ok d' \<longleftrightarrow> keys_ok d" by (simp add: keys_ok_def assms(1,3))
  moreover have "charges_ok d' \<longleftrightarrow> charges_ok d"
    by (simp only: charges_ok_def assms(1) ledger_cong [OF assms(3)])
  moreover have "money_ok opening d' \<longleftrightarrow> money_ok opening d"
    by (simp only: money_ok_def assms(1,2) wallet_cong [OF assms(2)] explained_cong [OF assms(2,3)])
  ultimately show ?thesis by (simp add: pipeline_inv_def)
qed

lemma price_nonneg [simp]: "0 \<le> price m"
  by (simp add: price_def)

lemma reserved_for_nonneg [simp]: "0 \<le> reserved_for t m"
  by (simp add: reserved_for_def)

lemma reserved_for_le_sum:
  "m \<in> set ms \<Longrightarrow> reserved_for t m \<le> sum_list (map (reserved_for t) ms)"
  by (rule member_le_sum_list) auto

definition with_message ::
  "message_row \<Rightarrow> (message_row \<Rightarrow> message_row) \<Rightarrow> db \<Rightarrow> message_row list" where
  "with_message m f d = sql_update (\<lambda>x. message_key x = message_key m) f (messages d)"

lemma with_message_rows:
  assumes "messages_wf d" and "m \<in> set (messages d)"
  shows "x \<in> set (with_message m f d) \<longleftrightarrow> x = f m \<or> x \<in> set (messages d) \<and> x \<noteq> m"
proof -
  have same: "message_key y = message_key m \<longleftrightarrow> y = m" if "y \<in> set (messages d)" for y
    using mtable.row_of_key [OF assms(1) that assms(2)] by auto
  have "with_message m f d = map (\<lambda>y. if y = m then f y else y) (messages d)"
    unfolding with_message_def sql_update_def by (rule map_cong) (simp_all add: same)
  then have "set (with_message m f d) = (\<lambda>y. if y = m then f y else y) ` set (messages d)"
    by simp
  also have "\<dots> = insert (f m) (set (messages d) - {m})"
    using assms(2) by (auto simp: image_iff)
  finally show ?thesis by simp
qed

lemma with_message_sum:
  fixes g :: "message_row \<Rightarrow> int"
  assumes "messages_wf d" and "m \<in> set (messages d)"
  shows "sum_list (map g (with_message m f d)) = sum_list (map g (messages d)) - g m + g (f m)"
  using distinct_key_filter [of message_key "messages d" m] assms
  by (simp add: sum_sql_update messages_wf_def with_message_def)

text \<open>A clause that keeps what the bill depends on.\<close>

definition billing_clause :: "(message_row \<Rightarrow> message_row) \<Rightarrow> bool" where
  "billing_clause f \<longleftrightarrow> update_clause f \<and> (\<forall>r. m_price_minor (f r) = m_price_minor r)"

lemma message_keyD:
  "message_key r = message_key m \<Longrightarrow> m_tenant_id r = m_tenant_id m"
  "message_key r = message_key m \<Longrightarrow> m_submit_date r = m_submit_date m"
  "message_key r = message_key m \<Longrightarrow> m_id r = m_id m"
  by (simp_all add: message_key_def)

lemma ledger_of_key:
  assumes "message_key r = message_key m"
  shows "message_total r k d = message_total m k d" "ledger_origin t r \<longleftrightarrow> ledger_origin t m"
  using message_keyD [OF assms] by (simp_all add: message_total_def ledger_origin_def)

lemma billing_clause_facts:
  assumes "billing_clause f"
  shows "update_clause f" "message_key (f r) = message_key r" "price (f r) = price r"
    "m_price_minor (f r) = m_price_minor r"
  using assms by (simp_all add: billing_clause_def update_clause_def price_def)

lemma billing_clauses [simp, intro]:
  "billing_clause (patch_clause c as)" "billing_clause (transition_clause c st as inc)"
  by (simp_all add: billing_clause_def)

subsection \<open>One row changes\<close>

text \<open>
  \<open>changed m f d d'\<close>: the row \<open>m\<close> has been replaced by \<open>f m\<close>; the ledger may have moved.
\<close>

definition changed :: "message_row \<Rightarrow> (message_row \<Rightarrow> message_row) \<Rightarrow> db \<Rightarrow> db \<Rightarrow> bool" where
  "changed m f d d' \<longleftrightarrow>
     m \<in> set (messages d) \<and> billing_clause f \<and> messages d' = with_message m f d \<and>
     next_message_id d' = next_message_id d"

lemma changed_rows:
  assumes "ids_ok d" and "changed m f d d'"
  shows "x \<in> set (messages d') \<longleftrightarrow> x = f m \<or> x \<in> set (messages d) \<and> x \<noteq> m"
    and "f m \<in> set (messages d')" and "m \<in> set (messages d)"
  using assms with_message_rows [of d m] by (auto simp: changed_def ids_ok_def)

lemma changed_keys:
  assumes "changed m f d d'"
  shows "message_key (f m) = message_key m" "price (f m) = price m"
    "m_price_minor (f m) = m_price_minor m" "m_tenant_id (f m) = m_tenant_id m"
    "m_submit_date (f m) = m_submit_date m" "m_id (f m) = m_id m"
proof -
  have b: "billing_clause f" using assms by (simp add: changed_def)
  show k: "message_key (f m) = message_key m" "price (f m) = price m"
    "m_price_minor (f m) = m_price_minor m"
    by (simp_all add: billing_clause_facts [OF b])
  show "m_tenant_id (f m) = m_tenant_id m" "m_submit_date (f m) = m_submit_date m" "m_id (f m) = m_id m"
    using message_keyD [OF k(1)] by simp_all
qed

lemma ids_ok_changed:
  assumes "ids_ok d" and "changed m f d d'"
  shows "ids_ok d'"
proof -
  have "messages_wf (d\<lparr>messages := with_message m f d\<rparr>)"
    using assms
    by (simp add: ids_ok_def with_message_def messages_wf_update billing_clause_facts changed_def)
  then have wf: "messages_wf d'" using assms(2) by (simp add: messages_wf_def changed_def)
  have "m_id x < next_message_id d'" if "x \<in> set (messages d')" for x
    using that assms changed_rows [OF assms] changed_keys [OF assms(2)]
    by (auto simp: ids_ok_def changed_def)
  with wf show ?thesis by (simp add: ids_ok_def)
qed

lemma bills_ok_changed:
  assumes "ids_ok d" and "changed m f d d'" and "bills_ok d"
    and "billing_ok (m_status (f m)) (m_billing_state (f m))"
  shows "bills_ok d'"
  using assms(3,4) changed_rows(1) [OF assms(1,2)] by (auto simp: bills_ok_def)

text \<open>A key of the old row is a key of the new one: the bill stays, or leaves \<open>reserved\<close>.\<close>

definition bill_follows :: "message_row \<Rightarrow> message_row \<Rightarrow> bool" where
  "bill_follows m u \<longleftrightarrow>
     message_key u = message_key m \<and>
     (m_billing_state u = m_billing_state m \<or> m_billing_state m = ''reserved'')"

lemma key_of_follows:
  "bill_follows m u \<Longrightarrow> key_of m k \<Longrightarrow> key_of u k"
  using ledger_keys_cong [of u m] by (auto simp: key_of_def bill_follows_def)

lemma keys_ok_changed:
  assumes "ids_ok d" and "changed m f d d'" and "keys_ok d" and "bill_follows m (f m)"
    and "t \<in> set (transactions d)"
  shows "\<exists>x \<in> set (messages d'). ledger_origin t x \<and> key_of x (tr_idempotency_key t)"
proof -
  obtain x where x: "x \<in> set (messages d)" "ledger_origin t x" "key_of x (tr_idempotency_key t)"
    using assms(3,5) by (auto simp: keys_ok_def)
  show ?thesis
  proof (cases "x = m")
    case True
    have "ledger_origin t (f m) \<and> key_of (f m) (tr_idempotency_key t)"
      using True x(2,3) key_of_follows [OF assms(4)] ledger_of_key(2) [OF changed_keys(1) [OF assms(2)]]
      by blast
    with changed_rows(2) [OF assms(1,2)] show ?thesis by blast
  next
    case False
    with x changed_rows(1) [OF assms(1,2)] show ?thesis by blast
  qed
qed

lemma charged_same:
  "m_billing_state u = m_billing_state m \<Longrightarrow> price u = price m \<Longrightarrow> charged u k = charged m k"
  by (cases k) (simp_all add: charged_def)

lemma charged_free: "price m = 0 \<Longrightarrow> charged m k = 0"
  by (cases k) (simp_all add: charged_def)

text \<open>The bill stays as it is, or the message is free.\<close>

definition bill_kept :: "message_row \<Rightarrow> message_row \<Rightarrow> bool" where
  "bill_kept m u \<longleftrightarrow>
     m_billing_state u = m_billing_state m \<or> price m = 0 \<and> m_billing_state m = ''reserved''"

lemma bill_keptD:
  assumes "bill_kept m u" and "price u = price m" and "message_key u = message_key m"
  shows "charged u k = charged m k" "reserved_for t u = reserved_for t m" "bill_follows m u"
  using assms message_keyD [OF assms(3)]
  by (auto simp: bill_kept_def charged_same [of u m] charged_free reserved_for_def bill_follows_def)

lemma pipeline_inv_keep:
  assumes "pipeline_inv opening d" and ch: "changed m f d d'" and "bill_kept m (f m)"
    and "billing_ok (m_status (f m)) (m_billing_state (f m))"
    and tr: "transactions d' = transactions d" and wl: "wallets d' = wallets d"
  shows "pipeline_inv opening d'"
proof -
  have inv: "ids_ok d" "bills_ok d" "keys_ok d" "charges_ok d" "money_ok opening d"
    using assms(1) by (simp_all add: pipeline_inv_def)
  note rows = changed_rows [OF inv(1) ch] and key = changed_keys [OF ch]
  note kept = bill_keptD [OF assms(3) key(2,1)]
  have "charges_ok d'"
    using inv(4) rows(3)
    by (auto simp: charges_ok_def rows(1) ledger_cong [OF tr] kept(1) ledger_of_key(1) [OF key(1)])
  moreover have "keys_ok d'"
    using keys_ok_changed [OF inv(1) ch inv(3) kept(3)] by (simp add: keys_ok_def tr)
  moreover have "sum_list (map (reserved_for t) (messages d')) =
      sum_list (map (reserved_for t) (messages d))" for t
    using inv(1) ch by (simp add: changed_def ids_ok_def with_message_sum kept(2))
  moreover have "(\<forall>x \<in> set (messages d'). m_tenant_id x = t \<longrightarrow> m_price_minor x \<le> 0) \<longleftrightarrow>
      (\<forall>x \<in> set (messages d). m_tenant_id x = t \<longrightarrow> m_price_minor x \<le> 0)" for t
  proof -
    show ?thesis
      using rows(3) key(3,4) by (metis rows(1))
  qed
  ultimately show ?thesis
    using ids_ok_changed [OF inv(1) ch] bills_ok_changed [OF inv(1) ch inv(2) assms(4)] inv(5)
    by (simp add: pipeline_inv_def money_ok_def wl wallet_cong [OF wl] explained_cong [OF wl tr])
qed

subsection \<open>Settling the bill\<close>

lemma has_wallet_ids:
  "map wl_tenant_id (wallets d') = map wl_tenant_id (wallets d) \<Longrightarrow> has_wallet t d' \<longleftrightarrow> has_wallet t d"
proof -
  have "length (filter (\<lambda>w. wl_tenant_id w = t) ws) = length (filter (\<lambda>x. x = t) (map wl_tenant_id ws))"
    for ws by (induction ws) auto
  then show "map wl_tenant_id (wallets d') = map wl_tenant_id (wallets d) \<Longrightarrow>
      has_wallet t d' \<longleftrightarrow> has_wallet t d"
    unfolding has_wallet_def by metis
qed

lemma message_total_append:
  "transactions d' = transactions d @ [e] \<Longrightarrow>
   message_total m k d' = message_total m k d +
     (if ledger_origin e m \<and> tr_kind e = k then tr_amount_minor e else 0)"
  by (simp add: message_total_def ledger_origin_def)

fun settled_state :: "billing_operation \<Rightarrow> string" where
  "settled_state Reserve = ''reserved''"
| "settled_state Debit = ''debited''"
| "settled_state Release = ''released''"

definition settling_key :: "billing_operation \<Rightarrow> message_row \<Rightarrow> string \<Rightarrow> bool" where
  "settling_key op m key \<longleftrightarrow>
     (op = Debit \<and> key = debit_key m) \<or> (op = Release \<and> (\<exists>x. key = release_key x m))"

text \<open>The key of a message that is still reserved has not been posted.\<close>

lemma settling_key_fresh:
  assumes "ids_ok d" and "keys_ok d" and "m \<in> set (messages d)"
    and "m_billing_state m = ''reserved''" and "settling_key op m key"
  shows "key \<notin> posted_keys (m_tenant_id m) d"
proof
  assume "key \<in> posted_keys (m_tenant_id m) d"
  then obtain t where t: "t \<in> set (transactions d)" "tr_tenant_id t = m_tenant_id m"
    "tr_idempotency_key t = key" by (auto simp: posted_keys_def)
  then obtain x where x: "x \<in> set (messages d)" "ledger_origin t x" "key_of x key"
    using assms(2) by (auto simp: keys_ok_def)
  have "m_tenant_id x = m_tenant_id m" "length (m_submit_date x) = 10" "length (m_submit_date m) = 10"
    using x(1,2) t(2) assms(1,3) by (auto simp: ledger_origin_def ids_ok_def messages_wf_def)
  then have "key_of x key \<Longrightarrow> message_key x = message_key m \<and> m_billing_state x \<noteq> ''reserved''"
    using ledger_keys_inject(1,2) [of x m] ledger_keys_inject(3) [of x m _ "_ :: string"] assms(5)
    by (auto simp: key_of_def settling_key_def dest: sym)
  with x mtable.row_of_key [of d x m] assms(1,3,4) show False
    by (auto simp: ids_ok_def)
qed

lemma reserved_balance_covers:
  assumes "money_ok opening d" and "m \<in> set (messages d)" and "m_billing_state m = ''reserved''"
    and "0 < m_price_minor m"
  shows "has_wallet (m_tenant_id m) d" "price m \<le> snd (wallet_balances (m_tenant_id m) d)"
proof -
  show w: "has_wallet (m_tenant_id m) d"
    using assms(1,2,4) by (force simp: money_ok_def)
  have "reserved_for (m_tenant_id m) m = price m"
    using assms(3) by (simp add: reserved_for_def)
  then have "price m \<le> sum_list (map (reserved_for (m_tenant_id m)) (messages d))"
    using reserved_for_le_sum [OF assms(2), of "m_tenant_id m"] by simp
  moreover have "0 \<le> snd (opening (m_tenant_id m))"
    "snd (wallet_balances (m_tenant_id m) d) = snd (opening (m_tenant_id m)) +
       sum_list (map (reserved_for (m_tenant_id m)) (messages d))"
    using assms(1) w by (auto simp: money_ok_def)
  ultimately show "price m \<le> snd (wallet_balances (m_tenant_id m) d)" by simp
qed

text \<open>
  \<open>settles op key m f d d'\<close>: in one transaction the row changes and the ledger is posted
  for it.
\<close>

definition settles ::
  "ctx \<Rightarrow> billing_operation \<Rightarrow> string \<Rightarrow> message_row \<Rightarrow> (message_row \<Rightarrow> message_row) \<Rightarrow> db \<Rightarrow> db \<Rightarrow>
   bool \<times> db \<Rightarrow> bool" where
  "settles c op key m f d d1 posted \<longleftrightarrow>
     changed m f d d1 \<and> transactions d1 = transactions d \<and> wallets d1 = wallets d \<and>
     m_billing_state m = ''reserved'' \<and> m_billing_state (f m) = settled_state op \<and>
     billing_ok (m_status (f m)) (m_billing_state (f m)) \<and> settling_key op m key \<and>
     (\<exists>ref. composite_key ref = message_key m \<and>
        apply_wallet_ledger c (m_tenant_id m) (m_price_minor m) op key ref d1 = Inr posted)"

lemma settlesD:
  assumes "settles c op key m f d d1 posted"
  shows "changed m f d d1" "transactions d1 = transactions d" "wallets d1 = wallets d"
    "m_billing_state m = ''reserved''" "m_billing_state (f m) = settled_state op"
    "billing_ok (m_status (f m)) (m_billing_state (f m))" "settling_key op m key"
  using assms unfolding settles_def by blast+

lemma settle_account:
  assumes "pipeline_inv opening d" and "m \<in> set (messages d)" and "m_billing_state m = ''reserved''"
    and "settling_key op m key" and "0 < m_price_minor m"
    and tr: "transactions d1 = transactions d" and wl: "wallets d1 = wallets d"
  shows "has_wallet (m_tenant_id m) d1" "key \<notin> posted_keys (m_tenant_id m) d1"
    "\<not> account_refuses op (wallet_credit (m_tenant_id m) d1) (m_price_minor m)
        (wallet_balances (m_tenant_id m) d1)"
proof -
  have inv: "ids_ok d" "keys_ok d" "money_ok opening d"
    using assms(1) by (simp_all add: pipeline_inv_def)
  note bal = reserved_balance_covers [OF inv(3) assms(2,3,5)]
  show "has_wallet (m_tenant_id m) d1" using bal(1) by (simp add: wallet_cong [OF wl])
  show "key \<notin> posted_keys (m_tenant_id m) d1"
    using settling_key_fresh [OF inv(1,2) assms(2-4)] by (simp add: ledger_cong [OF tr])
  obtain av rs where b: "wallet_balances (m_tenant_id m) d = (av, rs)" by fastforce
  with bal(2) assms(5) have "m_price_minor m \<le> rs" by (simp add: price_def)
  with assms(4) b show "\<not> account_refuses op (wallet_credit (m_tenant_id m) d1) (m_price_minor m)
        (wallet_balances (m_tenant_id m) d1)"
    by (auto simp: settling_key_def wallet_cong [OF wl])
qed

text \<open>The ledger never refuses to settle a message in flight.\<close>

lemma settle_never_refused:
  assumes "pipeline_inv opening d" and "m \<in> set (messages d)" and "m_billing_state m = ''reserved''"
    and "settling_key op m key" and "transactions d1 = transactions d" and "wallets d1 = wallets d"
  shows "\<exists>b d'. apply_wallet_ledger c (m_tenant_id m) (m_price_minor m) op key ref d1 = Inr (b, d')"
proof (cases "0 < m_price_minor m")
  case True
  note acc = settle_account [OF assms(1-4) True assms(5,6)]
  show ?thesis using apply_wallet_ledger_applied [OF acc(1) True acc(2,3)] by blast
qed (auto simp: apply_wallet_ledger_void)

lemma reserved_sum_changed:
  assumes "ids_ok d" and "changed m f d d'"
  shows "sum_list (map (reserved_for t) (messages d')) =
    sum_list (map (reserved_for t) (messages d)) - reserved_for t m + reserved_for t (f m)"
  using assms by (simp add: changed_def ids_ok_def with_message_sum)

lemma changed_trans:
  "changed m f d d1 \<Longrightarrow> messages d' = messages d1 \<Longrightarrow> next_message_id d' = next_message_id d1 \<Longrightarrow>
   changed m f d d'"
  by (simp add: changed_def)

lemma settle_charges:
  assumes "ids_ok d" and "charges_ok d" and ch: "changed m f d d'"
    and "m_billing_state m = ''reserved''" and "m_billing_state (f m) = settled_state op"
    and "op \<noteq> Reserve" and "0 < m_price_minor m"
    and "transactions d' = transactions d @ [e]" and "ledger_origin e m" and "tr_kind e = op"
    and "tr_amount_minor e = m_price_minor m"
  shows "charges_ok d'"
proof -
  have "message_total x k d' = charged x k" if "x \<in> set (messages d')" for x k
  proof (cases "x = f m")
    case True
    have "message_total m k d = charged m k"
      using assms(1,2) changed_rows(3) [OF assms(1) ch] by (simp add: charges_ok_def)
    then have "message_total m k d' = charged (f m) k"
      using assms(4-7,9-11) changed_keys(2) [OF ch]
      by (cases op; cases k) (auto simp: message_total_append [OF assms(8)] charged_def price_def)
    with True show ?thesis by (simp add: ledger_of_key(1) [OF changed_keys(1) [OF ch]])
  next
    case False
    then have x: "x \<in> set (messages d)" "x \<noteq> m"
      using that changed_rows(1) [OF assms(1) ch] by auto
    have "ledger_origin e x \<Longrightarrow> message_key x = message_key m"
      using assms(9) by (simp add: ledger_origin_def message_key_def)
    then have "\<not> ledger_origin e x"
      using mtable.row_of_key [of d x m] x changed_rows(3) [OF assms(1) ch] assms(1)
      by (auto simp: ids_ok_def)
    with x(1) assms(2) show ?thesis
      by (simp add: message_total_append [OF assms(8)] charges_ok_def)
  qed
  then show ?thesis by (simp add: charges_ok_def)
qed

lemma settle_keys:
  assumes "ids_ok d" and "keys_ok d" and ch: "changed m f d d'"
    and "m_billing_state m = ''reserved''" and "m_billing_state (f m) = settled_state op"
    and "settling_key op m key"
    and "transactions d' = transactions d @ [e]" and "ledger_origin e m"
    and "tr_idempotency_key e = key"
  shows "keys_ok d'"
proof -
  have bf: "bill_follows m (f m)"
    using assms(4) changed_keys(1) [OF ch] by (simp add: bill_follows_def)
  have "ledger_origin e (f m)"
    using assms(8) ledger_of_key(2) [OF changed_keys(1) [OF ch]] by simp
  moreover have "key_of (f m) key"
    using assms(5,6) ledger_keys_cong [OF changed_keys(1) [OF ch]]
    by (auto simp: key_of_def settling_key_def)
  ultimately have "\<exists>x \<in> set (messages d'). ledger_origin e x \<and> key_of x (tr_idempotency_key e)"
    using changed_rows(2) [OF assms(1) ch] assms(9) by blast
  then show ?thesis
    using keys_ok_changed [OF assms(1) ch assms(2) bf] by (auto simp: keys_ok_def assms(7))
qed

text \<open>What a posting does to the wallets, when the messages in flight follow it.\<close>

definition reserve_change :: "billing_operation \<Rightarrow> int \<Rightarrow> int" where
  "reserve_change op amount = (if op = Reserve then amount else - amount)"

lemma posting_money:
  assumes mo: "money_ok opening d" and pos: "0 < amount"
    and tr: "transactions d1 = transactions d" and wl: "wallets d1 = wallets d"
    and acc: "has_wallet T d1" "key \<notin> posted_keys T d1"
      "\<not> account_refuses op (wallet_credit T d1) amount (wallet_balances T d1)"
    and post: "apply_wallet_ledger c T amount op key ref d1 = Inr (b, d')"
    and sum: "\<And>t. sum_list (map (reserved_for t) (messages d')) =
      sum_list (map (reserved_for t) (messages d)) + (if t = T then reserve_change op amount else 0)"
    and free: "\<And>t. \<not> has_wallet t d \<Longrightarrow>
      \<forall>x \<in> set (messages d'). m_tenant_id x = t \<longrightarrow> m_price_minor x \<le> 0"
  shows "money_ok opening d'"
proof -
  have ids: "map wl_tenant_id (wallets d') = map wl_tenant_id (wallets d)"
    using apply_wallet_ledger_frame(9) [OF post] wl by simp
  have w: "has_wallet T d" using acc(1) by (simp add: wallet_cong [OF wl])
  have good: "wallet.solvent t d" "wallet.explained t (opening t) d"
    "snd (wallet_balances t d) = snd (opening t) + sum_list (map (reserved_for t) (messages d))"
    if "has_wallet t d" for t
    using mo that unfolding money_ok_def by blast+
  have "wallet.solvent t d' \<and> wallet.explained t (opening t) d' \<and>
      snd (wallet_balances t d') = snd (opening t) + sum_list (map (reserved_for t) (messages d'))"
    if "has_wallet t d" for t
  proof (cases "t = T")
    case True
    have after: "wallet.after_post c T ref op amount key d1 = d'"
      using post by (simp add: wallet.after_post_def)
    have "wallet_balances T d' = account_effect op amount (wallet_balances T d1)"
      using apply_wallet_ledger_applied [OF acc(1) pos acc(2,3), of c ref] post by auto
    then have "snd (wallet_balances T d') = snd (wallet_balances T d) + reserve_change op amount"
      by (cases op; cases "wallet_balances T d1") (simp_all add: reserve_change_def wallet_cong [OF wl])
    moreover have "wallet.solvent T d1" "wallet.explained T (opening T) d1"
      using good(1,2) [OF w] by (simp_all add: wallet_cong [OF wl] explained_cong [OF wl tr])
    ultimately show ?thesis
      using wallet.solvent_after [OF acc(1) , of c ref op amount key]
        wallet.explained_after [OF acc(1), of _ c ref op amount key]
        good(3) [OF w] after sum [of T] True by simp
  next
    case False
    then have "wallet_of t d' = wallet_of t d" "ledger_total t k d' = ledger_total t k d" for k
      using apply_wallet_ledger_other [OF post] wallet_cong(1) [OF wl] ledger_cong(2) [OF tr]
      by simp_all
    then have "wallet_balances t d' = wallet_balances t d"
      "wallet.solvent t d' \<longleftrightarrow> wallet.solvent t d"
      "wallet.explained t (opening t) d' \<longleftrightarrow> wallet.explained t (opening t) d"
      by (simp_all add: wallet.solvent_def wallet.explained_def wallet_balances_def wallet_credit_def)
    with good [OF that] False sum [of t] show ?thesis by simp
  qed
  then show ?thesis
    using mo free ids has_wallet_ids [OF ids] unfolding money_ok_def by metis
qed

lemma settle_money:
  assumes "pipeline_inv opening d" and ch: "changed m f d d'"
    and "m_billing_state m = ''reserved''" and "m_billing_state (f m) = settled_state op"
    and "op \<noteq> Reserve" and "0 < m_price_minor m"
    and tr: "transactions d1 = transactions d" and wl: "wallets d1 = wallets d"
    and acc: "has_wallet (m_tenant_id m) d1" "key \<notin> posted_keys (m_tenant_id m) d1"
      "\<not> account_refuses op (wallet_credit (m_tenant_id m) d1) (m_price_minor m)
        (wallet_balances (m_tenant_id m) d1)"
    and post: "apply_wallet_ledger c (m_tenant_id m) (m_price_minor m) op key ref d1 = Inr (b, d')"
  shows "money_ok opening d'"
proof (rule posting_money [OF _ assms(6) tr wl acc post])
  have ids: "ids_ok d" and mo: "money_ok opening d" using assms(1) by (simp_all add: pipeline_inv_def)
  show "money_ok opening d" by (rule mo)
  show "sum_list (map (reserved_for t) (messages d')) = sum_list (map (reserved_for t) (messages d)) +
      (if t = m_tenant_id m then reserve_change op (m_price_minor m) else 0)" for t
    using reserved_sum_changed [OF ids ch, of t] assms(3-6) changed_keys(2,4) [OF ch]
    by (cases op) (auto simp: reserved_for_def price_def reserve_change_def)
  show "\<forall>x \<in> set (messages d'). m_tenant_id x = t \<longrightarrow> m_price_minor x \<le> 0"
    if "\<not> has_wallet t d" for t
    using that mo changed_rows [OF ids ch] changed_keys(3,4) [OF ch]
    unfolding money_ok_def by metis
qed

lemma pipeline_inv_settle:
  assumes inv: "pipeline_inv opening d" and st: "settles c op key m f d d1 (b, d')"
  shows "pipeline_inv opening d'"
proof -
  note s = settlesD [OF st]
  obtain ref where ref: "composite_key ref = message_key m"
    and post: "apply_wallet_ledger c (m_tenant_id m) (m_price_minor m) op key ref d1 = Inr (b, d')"
    using st by (auto simp: settles_def)
  have parts: "ids_ok d" "bills_ok d" "keys_ok d" "charges_ok d"
    using inv by (simp_all add: pipeline_inv_def)
  have m: "m \<in> set (messages d)" using s(1) by (simp add: changed_def)
  have op: "op \<noteq> Reserve" using s(7) by (auto simp: settling_key_def)
  have ch: "changed m f d d'"
    using changed_trans [OF s(1)] apply_wallet_ledger_frame(1,6) [OF post] by simp
  show ?thesis
  proof (cases "0 < m_price_minor m")
    case False
    then have "d' = d1" using post by (simp add: apply_wallet_ledger_void)
    with False s op show ?thesis
      by (intro pipeline_inv_keep [OF inv ch]) (simp_all add: bill_kept_def price_def)
  next
    case True
    note acc = settle_account [OF inv m s(4,7) True s(2,3)]
    obtain d2 e where e: "apply_wallet_ledger c (m_tenant_id m) (m_price_minor m) op key ref d1 = Inr (True, d2)"
      "transactions d2 = transactions d1 @ [e]" "tr_tenant_id e = m_tenant_id m" "tr_kind e = op"
      "tr_amount_minor e = m_price_minor m" "tr_idempotency_key e = key"
      "tr_message_submit_date e = Some (c_submit_date ref)" "tr_message_id e = Some (c_id ref)"
      by (rule apply_wallet_ledger_entry [OF acc(1) True acc(2,3), of c ref]) (rule that)
    have d2: "d2 = d'" using e(1) post by simp
    have app: "transactions d' = transactions d @ [e]" using e(2) s(2) d2 by simp
    have origin: "ledger_origin e m"
      using e(3,7,8) ref by (simp add: ledger_origin_def composite_key_def message_key_def)
    show ?thesis
      using ids_ok_changed [OF parts(1) ch] bills_ok_changed [OF parts(1) ch parts(2) s(6)]
        settle_keys [OF parts(1,3) ch s(4,5,7) app origin e(6)]
        settle_charges [OF parts(1,4) ch s(4,5) op True app origin e(4,5)]
        settle_money [OF inv ch s(4,5) op True s(2,3) acc post]
      by (simp add: pipeline_inv_def)
  qed
qed

subsection \<open>A message is inserted\<close>

text \<open>
  \<open>inserted m d d1\<close>: a fresh row, reserved under its own key by the posting that follows.
\<close>

definition inserted :: "message_row \<Rightarrow> db \<Rightarrow> db \<Rightarrow> bool" where
  "inserted m d d1 \<longleftrightarrow>
     m_id m = next_message_id d \<and> length (m_submit_date m) = 10 \<and> m_status m = Accepted \<and>
     m_billing_state m = ''reserved'' \<and> messages d1 = messages d @ [m] \<and>
     next_message_id d1 = next_message_id d + 1 \<and> wallets d1 = wallets d \<and>
     transactions d1 = transactions d"

lemma inserted_fresh:
  assumes "pipeline_inv opening d" and "inserted m d d1"
  shows "message_key m \<notin> message_key ` set (messages d)"
    and "t \<in> set (transactions d) \<Longrightarrow> \<not> ledger_origin t m"
    and "reserve_key m \<notin> posted_keys (m_tenant_id m) d"
    and "x \<in> set (messages d) \<Longrightarrow> ledger_origin e m \<Longrightarrow> \<not> ledger_origin e x"
proof -
  have ids: "ids_ok d" and keys: "keys_ok d" using assms(1) by (simp_all add: pipeline_inv_def)
  have new: "message_key x \<noteq> message_key m" if "x \<in> set (messages d)" for x
    using that ids assms(2) by (auto simp: ids_ok_def inserted_def message_key_def)
  then show "message_key m \<notin> message_key ` set (messages d)" by (metis imageE)
  show tr: "\<not> ledger_origin t m" if t: "t \<in> set (transactions d)" for t
  proof
    obtain x where x: "x \<in> set (messages d)" "ledger_origin t x"
      using t keys by (auto simp: keys_ok_def)
    assume "ledger_origin t m"
    with x(2) have "message_key x = message_key m" by (simp add: ledger_origin_def message_key_def)
    with new [OF x(1)] show False by simp
  qed
  show "\<not> ledger_origin e x" if "x \<in> set (messages d)" "ledger_origin e m"
    using new [OF that(1)] that(2) by (auto simp: ledger_origin_def message_key_def)
  show "reserve_key m \<notin> posted_keys (m_tenant_id m) d"
  proof
    assume "reserve_key m \<in> posted_keys (m_tenant_id m) d"
    then obtain t where t: "t \<in> set (transactions d)" "tr_tenant_id t = m_tenant_id m"
      "tr_idempotency_key t = reserve_key m" by (auto simp: posted_keys_def)
    then obtain x where x: "x \<in> set (messages d)" "ledger_origin t x" "key_of x (reserve_key m)"
      using keys by (auto simp: keys_ok_def)
    have "m_tenant_id x = m_tenant_id m" "length (m_submit_date x) = 10"
      using x(1,2) t(2) ids by (auto simp: ledger_origin_def ids_ok_def messages_wf_def)
    moreover have "reserve_key x = reserve_key m"
      using x(3) by (auto simp: key_of_def)
    ultimately have "message_key x = message_key m"
      using ledger_keys_inject(1) [of x m] assms(2) by (simp add: inserted_def)
    with new [OF x(1)] show False by simp
  qed
qed

lemma message_total_zero:
  assumes "\<And>t. t \<in> set (transactions d) \<Longrightarrow> \<not> ledger_origin t m"
  shows "message_total m k d = 0"
proof -
  have "filter (\<lambda>t. tr_tenant_id t = m_tenant_id m \<and> tr_message_submit_date t = Some (m_submit_date m) \<and>
      tr_message_id t = Some (m_id m) \<and> tr_kind t = k) (transactions d) = []"
    using assms unfolding filter_empty_conv ledger_origin_def by blast
  then show ?thesis by (simp only: message_total_def list.map sum_list.Nil)
qed

lemma ids_ok_inserted:
  assumes "pipeline_inv opening d" and "inserted m d d1" and "messages d' = messages d1"
    and "next_message_id d' = next_message_id d1"
  shows "ids_ok d'"
proof -
  have "ids_ok d" using assms(1) by (simp add: pipeline_inv_def)
  then show ?thesis
    using inserted_fresh(1) [OF assms(1,2)] assms(2-4)
    by (auto simp: ids_ok_def messages_wf_def inserted_def)
qed

lemma pipeline_inv_insert_free:
  assumes inv: "pipeline_inv opening d" and ins: "inserted m d d1" and "m_price_minor m \<le> 0"
  shows "pipeline_inv opening d1"
proof -
  have wl: "wallets d1 = wallets d" and tr: "transactions d1 = transactions d"
    and ms: "messages d1 = messages d @ [m]" and bill: "m_status m = Accepted" "m_billing_state m = ''reserved''"
    using ins by (simp_all add: inserted_def)
  have free: "price m = 0" "reserved_for t m = 0" for t
    using assms(3) by (simp_all add: price_def reserved_for_def)
  have "message_total m k d = 0" for k
    using inserted_fresh(2) [OF inv ins] by (rule message_total_zero)
  then have "charges_ok d1"
    using inv free by (auto simp: charges_ok_def pipeline_inv_def ms ledger_cong [OF tr] charged_free)
  moreover have "keys_ok d1"
    using inv by (auto simp: keys_ok_def pipeline_inv_def ms tr)
  moreover have "bills_ok d1" using inv bill by (simp add: bills_ok_def pipeline_inv_def ms)
  moreover have "money_ok opening d1"
    using inv assms(3) free
    by (auto simp: money_ok_def pipeline_inv_def ms wl wallet_cong [OF wl] explained_cong [OF wl tr])
  ultimately show ?thesis
    using ids_ok_inserted [OF inv ins] by (simp add: pipeline_inv_def)
qed

lemma wallet_found:
  assumes "distinct (map wl_tenant_id (wallets d))" and "wallet_of t d = Some w"
  shows "has_wallet t d"
proof -
  have "w \<in> set (wallets d) \<and> wl_tenant_id w = t"
    using assms(2) unfolding wallet_of_def by (rule first_row_filter_Some)
  with distinct_key_filter [OF assms(1), of w] show ?thesis by (simp add: has_wallet_def)
qed

lemma insert_account:
  assumes inv: "pipeline_inv opening d" and ins: "inserted m d d1" and "0 < m_price_minor m"
    and post: "apply_wallet_ledger c (m_tenant_id m) (m_price_minor m) Reserve (reserve_key m) ref d1 =
      Inr (b, d')"
  shows "has_wallet (m_tenant_id m) d1" "reserve_key m \<notin> posted_keys (m_tenant_id m) d1"
    "\<not> account_refuses Reserve (wallet_credit (m_tenant_id m) d1) (m_price_minor m)
        (wallet_balances (m_tenant_id m) d1)"
proof -
  have wl: "wallets d1 = wallets d" and tr: "transactions d1 = transactions d"
    using ins by (simp_all add: inserted_def)
  show fresh: "reserve_key m \<notin> posted_keys (m_tenant_id m) d1"
    using inserted_fresh(3) [OF inv ins] by (simp add: ledger_cong [OF tr])
  have dist: "distinct (map wl_tenant_id (wallets d1))"
    using inv by (simp add: pipeline_inv_def money_ok_def wl)
  have "wallet_of (m_tenant_id m) d1 \<noteq> None"
    using post assms(3) fresh
    by (auto simp: apply_wallet_ledger_def ledger_exists_posted wallet_of_def split: option.splits)
  then show hw: "has_wallet (m_tenant_id m) d1"
    using wallet_found [OF dist] by blast
  show "\<not> account_refuses Reserve (wallet_credit (m_tenant_id m) d1) (m_price_minor m)
        (wallet_balances (m_tenant_id m) d1)"
    using apply_wallet_ledger_refused [OF hw assms(3) fresh, of Reserve c ref] post by auto
qed

lemma insert_charges:
  assumes inv: "pipeline_inv opening d" and ins: "inserted m d d1" and "0 < m_price_minor m"
    and ms: "messages d' = messages d @ [m]" and tr: "transactions d' = transactions d @ [e]"
    and e: "ledger_origin e m" "tr_kind e = Reserve" "tr_amount_minor e = m_price_minor m"
      "tr_idempotency_key e = reserve_key m"
  shows "charges_ok d'" "keys_ok d'" "bills_ok d'"
proof -
  note fresh = inserted_fresh [OF inv ins]
  have parts: "bills_ok d" "keys_ok d" "charges_ok d" using inv by (simp_all add: pipeline_inv_def)
  have bill: "m_status m = Accepted" "m_billing_state m = ''reserved''"
    using ins by (simp_all add: inserted_def)
  have "message_total x k d' = charged x k" if "x \<in> set (messages d)" for x k
    using parts(3) that fresh(4) [OF that e(1)] by (simp add: message_total_append [OF tr] charges_ok_def)
  moreover have "message_total m k d = 0" for k
    using fresh(2) by (rule message_total_zero)
  then have "message_total m k d' = charged m k" for k
    using assms(3) bill e by (cases k) (simp_all add: message_total_append [OF tr] charged_def price_def)
  ultimately show "charges_ok d'" by (simp add: charges_ok_def ms)
  show "keys_ok d'" using parts(2) e by (auto simp: keys_ok_def ms tr key_of_def)
  show "bills_ok d'" using parts(1) bill by (simp add: bills_ok_def ms)
qed

lemma insert_money:
  assumes inv: "pipeline_inv opening d" and ins: "inserted m d d1" and pos: "0 < m_price_minor m"
    and post: "apply_wallet_ledger c (m_tenant_id m) (m_price_minor m) Reserve (reserve_key m) ref d1 =
      Inr (b, d')"
  shows "money_ok opening d'"
proof -
  have mo: "money_ok opening d" using inv by (simp add: pipeline_inv_def)
  have wl: "wallets d1 = wallets d" and tr: "transactions d1 = transactions d"
    and bill: "m_billing_state m = ''reserved''" and ms: "messages d' = messages d @ [m]"
    using ins apply_wallet_ledger_frame(1) [OF post] by (simp_all add: inserted_def)
  note acc = insert_account [OF inv ins pos post]
  show ?thesis
  proof (rule posting_money [OF mo pos tr wl acc post])
    show "sum_list (map (reserved_for t) (messages d')) = sum_list (map (reserved_for t) (messages d)) +
        (if t = m_tenant_id m then reserve_change Reserve (m_price_minor m) else 0)" for t
      using pos bill by (auto simp: ms reserved_for_def price_def reserve_change_def)
    show "\<forall>x \<in> set (messages d'). m_tenant_id x = t \<longrightarrow> m_price_minor x \<le> 0"
      if "\<not> has_wallet t d" for t
      using that mo acc(1) by (auto simp: money_ok_def ms wallet_cong [OF wl])
  qed
qed

lemma pipeline_inv_insert:
  assumes inv: "pipeline_inv opening d" and ins: "inserted m d d1"
    and post: "apply_wallet_ledger c (m_tenant_id m) (m_price_minor m) Reserve (reserve_key m) ref d1 =
      Inr (b, d')"
    and ref: "composite_key ref = message_key m"
  shows "pipeline_inv opening d'"
proof (cases "0 < m_price_minor m")
  case False
  with post have "d' = d1" by (simp add: apply_wallet_ledger_void)
  with False show ?thesis using pipeline_inv_insert_free [OF inv ins] by simp
next
  case True
  note acc = insert_account [OF inv ins True post]
  obtain d2 e where e: "apply_wallet_ledger c (m_tenant_id m) (m_price_minor m) Reserve (reserve_key m) ref d1 = Inr (True, d2)"
    "transactions d2 = transactions d1 @ [e]" "tr_tenant_id e = m_tenant_id m" "tr_kind e = Reserve"
    "tr_amount_minor e = m_price_minor m" "tr_idempotency_key e = reserve_key m"
    "tr_message_submit_date e = Some (c_submit_date ref)" "tr_message_id e = Some (c_id ref)"
    by (rule apply_wallet_ledger_entry [OF acc(1) True acc(2,3), of c ref]) (rule that)
  have d2: "d2 = d'" using e(1) post by simp
  have tr: "transactions d' = transactions d @ [e]"
    and ms: "messages d' = messages d @ [m]" and ids: "ids_ok d'"
    using e(2) d2 ins apply_wallet_ledger_frame(1,6) [OF post] ids_ok_inserted [OF inv ins, of d']
    by (simp_all add: inserted_def)
  have origin: "ledger_origin e m"
    using e(3,7,8) ref by (simp add: ledger_origin_def composite_key_def message_key_def)
  show ?thesis
    using ids insert_charges [OF inv ins True ms tr origin e(4,5,6)] insert_money [OF inv ins True post]
    by (simp add: pipeline_inv_def)
qed

end
