(* ===== verification/Pipeline.thy ===== *)
theory Pipeline
  imports Billing
begin

text \<open>
  The pipeline as a state machine. A state is the database together with the snapshots of
  messages that handlers hold; a step reads a snapshot, commits a submission, or commits one
  transaction of \<open>message-workflow.service.ts\<close> or \<open>dlr.processor.service.ts\<close> over a snapshot
  that may have been read long before, in any interleaving. The consumers are sequences of
  such steps, the invariant of \<open>Billing\<close> holds in every reachable state, and no message leaves
  the status machine.
\<close>

subsection \<open>The transactions on a snapshot\<close>

text \<open>
  \<open>handler_step m d d'\<close>: some consumer commits a transaction over its snapshot \<open>m\<close>. The
  guards are the ones the consumer checks on the snapshot before it opens the transaction.
\<close>

definition about_message :: "message_event \<Rightarrow> message_row \<Rightarrow> bool" where
  "about_message payload m \<longleftrightarrow> composite_key (to_composite payload) = message_key m"

inductive handler_step :: "message_row \<Rightarrow> db \<Rightarrow> db \<Rightarrow> bool" where
  route: "m_status m = Accepted \<Longrightarrow> about_message p m \<Longrightarrow>
    accepted_tx c p m r d = Inr (u, d') \<Longrightarrow> handler_step m d d'"
| retry_dispatch: "m_status m = Submitting \<Longrightarrow> about_message p m \<Longrightarrow>
    retry_dispatch_tx c p m d = Inr (u, d') \<Longrightarrow> handler_step m d d'"
| block: "m_status m \<in> {Routed, Submitting} \<Longrightarrow> about_message p m \<Longrightarrow>
    fraud_block_tx c p m evaluation d = Inr (u, d') \<Longrightarrow> handler_step m d d'"
| throttle: "m_status m \<in> {Routed, Submitting} \<Longrightarrow> about_message p m \<Longrightarrow>
    fraud_throttle_tx c p m evaluation d = Inr (u, d') \<Longrightarrow> handler_step m d d'"
| claim: "m_status m \<in> {Routed, Submitting} \<Longrightarrow> about_message p m \<Longrightarrow>
    submitting_tx c p m d = Inr (v, d') \<Longrightarrow> handler_step m d d'"
| dispatched: "m_status m \<in> {Routed, Submitting} \<Longrightarrow> about_message p m \<Longrightarrow>
    dispatch_result_tx c p m v execution d = Inr (u, d') \<Longrightarrow> handler_step m d d'"
| ack: "m_status m = Submitting \<Longrightarrow> about_message p m \<Longrightarrow>
    ack_tx c p m d = Inr (u, d') \<Longrightarrow> handler_step m d d'"
| uncertain: "m_status m = Submitting \<Longrightarrow> about_message p m \<Longrightarrow>
    uncertain_tx c t p m d = Inr (u, d') \<Longrightarrow> handler_step m d d'"
| retry: "m_status m = Submitting \<Longrightarrow> about_message p m \<Longrightarrow>
    retry_tx c p m delay next_route d = Inr (u, d') \<Longrightarrow> handler_step m d d'"
| give_up: "m_status m = Submitting \<Longrightarrow> about_message p m \<Longrightarrow>
    fail_tx c p m d = Inr (u, d') \<Longrightarrow> handler_step m d d'"
| receipt_delivered: "m_status m = ProviderAccepted \<Longrightarrow>
    dlr_delivered_tx c date i webhook m d = Inr (u, d') \<Longrightarrow> handler_step m d d'"
| receipt_failed: "m_status m \<in> {ProviderAccepted, Submitting} \<Longrightarrow>
    dlr_failed_tx c date i webhook m d = Inr (u, d') \<Longrightarrow> handler_step m d d'"

inductive_cases handler_stepE: "handler_step m d d'"

text \<open>Which tables the helpers leave alone.\<close>

lemma log_event_frame [simp, frame]:
  "messages (log_event c ref ty sf st js p pm n d) = messages d"
  "wallets (log_event c ref ty sf st js p pm n d) = wallets d"
  "transactions (log_event c ref ty sf st js p pm n d) = transactions d"
  "next_message_id (log_event c ref ty sf st js p pm n d) = next_message_id d"
  "outbox_events (log_event c ref ty sf st js p pm n d) = outbox_events d"
  by (simp_all add: log_event_def)

lemma settle_webhook_frame [simp, frame]:
  "messages (settle_webhook c date i t d) = messages d"
  "wallets (settle_webhook c date i t d) = wallets d"
  "transactions (settle_webhook c date i t d) = transactions d"
  "next_message_id (settle_webhook c date i t d) = next_message_id d"
  by (simp_all add: settle_webhook_def)

lemma mark_processed_frame [simp, frame]:
  "messages (mark_processed c date i e d) = messages d"
  "wallets (mark_processed c date i e d) = wallets d"
  "transactions (mark_processed c date i e d) = transactions d"
  "next_message_id (mark_processed c date i e d) = next_message_id d"
  by (simp_all add: mark_processed_def)

subsection \<open>What a transaction does to the row and the ledger\<close>

definition same_money :: "db \<Rightarrow> db \<Rightarrow> bool" where
  "same_money d d' \<longleftrightarrow>
     messages d' = messages d \<and> wallets d' = wallets d \<and> transactions d' = transactions d \<and>
     next_message_id d' = next_message_id d"

definition moves :: "message_row \<Rightarrow> message_row \<Rightarrow> bool" where
  "moves m u \<longleftrightarrow>
     (m_status u = m_status m \<or> m_status u \<in> set (allowed_transitions (m_status m))) \<and>
     m_state_changed_at m < m_state_changed_at u"

text \<open>Nothing, one new version of the row, or one new version with the settlement of its bill.\<close>

inductive effect :: "message_row \<Rightarrow> db \<Rightarrow> db \<Rightarrow> bool" where
  idle: "same_money d d' \<Longrightarrow> effect m d d'"
| kept: "changed m f d d' \<Longrightarrow> bill_kept m (f m) \<Longrightarrow>
    billing_ok (m_status (f m)) (m_billing_state (f m)) \<Longrightarrow> moves m (f m) \<Longrightarrow>
    transactions d' = transactions d \<Longrightarrow> wallets d' = wallets d \<Longrightarrow> effect m d d'"
| settled: "settles c op key m f d d1 (b, d2) \<Longrightarrow> moves m (f m) \<Longrightarrow> same_money d2 d' \<Longrightarrow>
    effect m d d'"

lemma effect_inv:
  assumes "effect m d d'" and "pipeline_inv opening d"
  shows "pipeline_inv opening d'"
  using assms
proof cases
  case idle
  then show ?thesis
    using assms(2) pipeline_inv_frame [of d' d] by (simp add: same_money_def)
next
  case (kept f)
  then show ?thesis using pipeline_inv_keep [OF assms(2)] by blast
next
  case (settled c op key f d1 b d2)
  then have "pipeline_inv opening d2" using pipeline_inv_settle [OF assms(2)] by blast
  with settled(3) show ?thesis
    using pipeline_inv_frame [of d' d2] by (simp add: same_money_def)
qed

lemma effect_rows:
  assumes "effect m d d'"
  shows "messages d' = messages d \<or>
    (\<exists>f. changed m f d d' \<and> moves m (f m))"
  using assms
proof cases
  case (settled c op key f d1 b d2)
  then show ?thesis
    using changed_trans [of m f d d1 d'] apply_wallet_ledger_frame(1,6)
    by (auto simp: settles_def same_money_def)
qed (auto simp: same_money_def)

definition keeps_bill :: "assignment list \<Rightarrow> bool" where
  "keeps_bill cols \<longleftrightarrow> (\<forall>b. BillingState b \<notin> set cols)"

lemma fold_assign_bill:
  "keeps_bill cols \<Longrightarrow> m_billing_state (fold assign cols r) = m_billing_state r"
proof (induction cols arbitrary: r)
  case (Cons a cols)
  then show ?case by (cases a) (auto simp: keeps_bill_def)
qed simp

lemma patch_bill: "keeps_bill cols \<Longrightarrow> m_billing_state (patch_clause c cols r) = m_billing_state r"
  by (simp add: patch_clause_def fold_assign_bill)

lemma transition_bill:
  "keeps_bill cols \<Longrightarrow>
   m_billing_state (transition_clause c st cols inc r) =
     (if st = ProviderAccepted then ''debited'' else m_billing_state r)"
  "m_billing_state (transition_clause c Failed (LastErrorCode x # LastErrorMessage y # [BillingState b]) inc r) = b"
  by (simp_all add: transition_clause_def Let_def fold_assign_bill)

lemma patch_kept:
  assumes "pipeline_inv opening d" and "mtable.seen m d"
    and "patch_message c m cols d = Inr (u, d1)" and "keeps_bill cols" and "same_money d1 d'"
  shows "effect m d d'"
proof -
  have ids: "messages_wf d" "bills_ok d"
    using assms(1) by (simp_all add: pipeline_inv_def ids_ok_def)
  note p = patch_message_seen [OF ids(1) assms(2,3)]
  show ?thesis
  proof (rule effect.kept [where f = "patch_clause c cols"])
    show "changed m (patch_clause c cols) d d'"
      using p assms(5) by (simp add: changed_def with_message_def same_money_def)
    show "billing_ok (m_status (patch_clause c cols m)) (m_billing_state (patch_clause c cols m))"
      using ids(2) p(1) by (simp add: bills_ok_def patch_bill assms(4))
  qed (use p assms(5) in \<open>simp_all add: bill_kept_def patch_bill assms(4) moves_def same_money_def\<close>)
qed

lemma transition_kept:
  assumes "pipeline_inv opening d" and "mtable.seen m d"
    and "transition_message c m st cols inc d = Inr (u, d1)" and "same_money d1 d'"
    and "m_billing_state (transition_clause c st cols inc m) = m_billing_state m"
    and "billing_ok (m_status m) (m_billing_state m) \<Longrightarrow> billing_ok st (m_billing_state m)"
  shows "effect m d d'"
proof -
  have ids: "messages_wf d" "bills_ok d"
    using assms(1) by (simp_all add: pipeline_inv_def ids_ok_def)
  note p = transition_message_seen [OF ids(1) assms(2,3)]
  show ?thesis
  proof (rule effect.kept [where f = "transition_clause c st cols inc"])
    show "changed m (transition_clause c st cols inc) d d'"
      using p assms(4) by (simp add: changed_def with_message_def same_money_def)
    show "billing_ok (m_status (transition_clause c st cols inc m))
        (m_billing_state (transition_clause c st cols inc m))"
      using ids(2) p(1) assms(5,6) by (simp add: bills_ok_def)
  qed (use p assms(4,5) in \<open>simp_all add: bill_kept_def moves_def same_money_def\<close>)
qed

lemma transition_settled:
  assumes "pipeline_inv opening d" and "mtable.seen m d" and "m_status m = Submitting"
    and "transition_message c m st cols inc d = Inr (u, d1)"
    and "m_billing_state (transition_clause c st cols inc m) = settled_state op"
    and "billing_ok st (settled_state op)" and "settling_key op m key"
    and "composite_key ref = message_key m"
    and "apply_wallet_ledger c (m_tenant_id m) (m_price_minor m) op key ref d1 = Inr (b, d2)"
    and "same_money d2 d'"
  shows "effect m d d'"
proof -
  have ids: "messages_wf d" "bills_ok d"
    using assms(1) by (simp_all add: pipeline_inv_def ids_ok_def)
  note p = transition_message_seen [OF ids(1) assms(2,4)]
  have "billing_ok (m_status m) (m_billing_state m)" using ids(2) p(1) by (simp add: bills_ok_def)
  then have res: "m_billing_state m = ''reserved''" using assms(3) by simp
  have "settles c op key m (transition_clause c st cols inc) d d1 (b, d2)"
    unfolding settles_def
    using p assms(5-9) res by (auto simp: changed_def with_message_def)
  then show ?thesis
    by (rule effect.settled [OF _ _ assms(10)]) (use p(3,5) in \<open>simp add: moves_def\<close>)
qed

subsection \<open>Every transaction of the consumers\<close>

lemma about_keys:
  assumes "about_message p m"
  shows "''debit:'' @ c_submit_date (to_composite p) @ '':'' @ c_tenant_id (to_composite p) @ '':'' @
      int_str (c_id (to_composite p)) = debit_key m"
    "''release:'' @ c_submit_date (to_composite p) @ '':'' @ c_tenant_id (to_composite p) @ '':'' @
      int_str (c_id (to_composite p)) @ '':'' @ x = release_key x m"
  using assms
  by (simp_all add: about_message_def composite_key_def message_key_def debit_key_def release_key_def
      message_ref_def)

text \<open>Blocking a message never commits: its second update meets the trigger's clock check.\<close>

lemma transition_twice:
  assumes "messages_wf d1" and "u \<in> set (messages d1)" and "c_now c \<le> m_state_changed_at u"
  shows "\<exists>e. transition_message c u st cols inc d1 = Inl e"
  using update_message_current [OF assms(1,2)] assms(3)
  by (auto simp: transition_message_def enforce_message_state_transition_def)

lemma update_then_current:
  assumes "messages_wf d" and "update_message m f d = Inr (u, d1)" and "update_clause f"
  shows "messages_wf d1" "u \<in> set (messages d1)"
proof -
  obtain r where r: "r \<in> set (messages d)" "u = f r"
    "d1 = d\<lparr>messages := sql_update (\<lambda>x. message_key x = message_key r) f (messages d)\<rparr>"
    using update_messageE [OF assms(1,2)] by blast
  then show "messages_wf d1" "u \<in> set (messages d1)"
    using messages_wf_update [OF assms(1,3)] by (auto simp: set_sql_update)
qed

lemma transition_then_current:
  assumes "messages_wf d" and "transition_message c m st cols inc d = Inr (u, d1)"
  shows "messages_wf d1" "u \<in> set (messages d1)" "m_state_changed_at u = c_now c"
proof -
  obtain d0 where up: "update_message m (transition_clause c st cols inc) d = Inr (u, d0)"
    and d1: "messages d1 = messages d0"
    using assms(2) by (auto simp: transition_message_def and_then_eq_Inr split: if_splits)
  then show "messages_wf d1" "u \<in> set (messages d1)"
    using update_then_current [OF assms(1) up] by (simp_all add: messages_wf_def)
  show "m_state_changed_at u = c_now c"
    using update_messageE [OF assms(1) up] by (metis transition_clause_frame(8))
qed

lemma patch_then_current:
  assumes "messages_wf d" and "patch_message c m cols d = Inr (u, d1)"
  shows "messages_wf d1" "u \<in> set (messages d1)" "m_state_changed_at u = c_now c"
proof -
  have up: "update_message m (patch_clause c cols) d = Inr (u, d1)"
    using assms(2) by (simp add: patch_message_def)
  then show "messages_wf d1" "u \<in> set (messages d1)"
    using update_then_current [OF assms(1) up] by simp_all
  show "m_state_changed_at u = c_now c"
    using update_messageE [OF assms(1) up] by (metis patch_clause_frame(8))
qed

lemma fraud_block_throws:
  assumes "messages_wf d"
  shows "\<exists>ex. fraud_block_tx c p m evaluation d = Inl ex"
proof (rule ccontr)
  assume "\<nexists>ex. fraud_block_tx c p m evaluation d = Inl ex"
  then obtain x where "fraud_block_tx c p m evaluation d = Inr x"
    by (cases "fraud_block_tx c p m evaluation d") auto
  then obtain u d1 v where first: "(if m_status m = Routed then transition_message c m Submitting [] True d
      else patch_message c m [] d) = Inr (u, d1)"
    and snd: "transition_message c u Failed
      [LastErrorCode (Some ''fraud_blocked''),
       LastErrorMessage (Some (join_with '', '' (fe_reasons evaluation))),
       BillingState ''released''] False d1 = Inr v"
    by (auto simp: fraud_block_tx_def Let_def and_then_eq_Inr)
  have "messages_wf d1 \<and> u \<in> set (messages d1) \<and> m_state_changed_at u = c_now c"
    using first transition_then_current [OF assms, of c m] patch_then_current [OF assms, of c m]
    by (auto split: if_splits)
  then have "\<exists>e. transition_message c u Failed cols False d1 = Inl e" for cols
    by (intro transition_twice) simp_all
  with snd show False by (metis sum.distinct(1))
qed

lemma dlr_keys:
  "''release:'' @ m_submit_date m @ '':'' @ m_tenant_id m @ '':'' @ int_str (m_id m) @ '':'' @ x =
     release_key x m"
  "composite_key (message_ref_of m) = message_key m"
  by (simp_all add: release_key_def message_ref_def message_ref_of_def composite_key_def message_key_def)

lemma same_money_refl [simp]: "same_money d d"
  by (simp add: same_money_def)

text \<open>Each transaction over a snapshot has one of the three effects.\<close>

lemma accepted_tx_effect:
  assumes "pipeline_inv opening d" and "mtable.seen m d" and "m_status m = Accepted"
    and "accepted_tx c p m r d = Inr (u, d')"
  shows "effect m d d'"
proof -
  obtain w d1 where "transition_message c m Routed
      [ProviderId (Some (rd_provider_id r)), SmppConfigId (rd_smpp_config_id r),
       RouteRuleId (Some (rd_routing_rule_id r)),
       CostMinor (rd_estimated_unit_cost_minor r * m_message_parts m),
       LastErrorCode None, LastErrorMessage None] False d = Inr (w, d1)" "same_money d1 d'"
    using assms(4) by (auto simp: accepted_tx_def Let_def and_then_eq_Inr same_money_def)
  then show ?thesis
    by (rule transition_kept [OF assms(1,2)])
      (use assms(3) in \<open>auto simp: transition_bill keeps_bill_def\<close>)
qed

lemma patch_tx_effects:
  assumes inv: "pipeline_inv opening d" and seen: "mtable.seen m d"
  shows "fraud_throttle_tx c p m evaluation d = Inr (u, d') \<Longrightarrow> effect m d d'"
    and "uncertain_tx c t p m d = Inr (u, d') \<Longrightarrow> effect m d d'"
    and "retry_tx c p m delay next_route d = Inr (u, d') \<Longrightarrow> effect m d d'"
  by (auto simp: fraud_throttle_tx_def uncertain_tx_def retry_tx_def Let_def and_then_eq_Inr
      intro!: patch_kept [OF inv seen] simp: keeps_bill_def same_money_def split: option.splits)

lemma idle_tx_effects:
  "retry_dispatch_tx c p m d = Inr (u, d') \<Longrightarrow> effect m d d'"
  "dispatch_result_tx c p m v execution d = Inr (u, d') \<Longrightarrow> effect m d d'"
  "dlr_reconcile_tx c webhook reason extra d = Inr (u, d') \<Longrightarrow> effect m d d'"
  by (auto simp: retry_dispatch_tx_def dispatch_result_tx_def dlr_reconcile_tx_def Let_def same_money_def
      intro!: effect.idle)

lemma submitting_tx_effect:
  assumes inv: "pipeline_inv opening d" and seen: "mtable.seen m d"
    and tx: "submitting_tx c p m d = Inr (v, d')"
  shows "effect m d d'"
proof (cases "m_status m = Routed")
  case True
  with tx obtain w d1 where "transition_message c m Submitting [] True d = Inr (w, d1)"
    "same_money d1 d'"
    by (auto simp: submitting_tx_def Let_def and_then_eq_Inr same_money_def)
  then show ?thesis
    by (rule transition_kept [OF inv seen]) (use True in \<open>auto simp: transition_bill keeps_bill_def\<close>)
next
  case False
  with tx obtain w d1 where "patch_message c m [AttemptCount (m_attempt_count m + 1)] d = Inr (w, d1)"
    "same_money d1 d'"
    by (auto simp: submitting_tx_def Let_def and_then_eq_Inr same_money_def)
  then show ?thesis
    using patch_kept [OF inv seen, of c "[AttemptCount (m_attempt_count m + 1)]"]
    by (simp add: keeps_bill_def)
qed

lemma ack_tx_effect:
  assumes inv: "pipeline_inv opening d" and seen: "mtable.seen m d" and "m_status m = Submitting"
    and about: "about_message p m" and tx: "ack_tx c p m d = Inr (u, d')"
  shows "effect m d d'"
proof -
  obtain w d1 b d2 where tr: "transition_message c m ProviderAccepted
      [ProviderMessageId (ev_provider_message_id p), LastErrorCode None, LastErrorMessage None] False d =
        Inr (w, d1)"
    and post: "apply_wallet_ledger c (m_tenant_id m) (m_price_minor m) Debit (debit_key m) (to_composite p) d1 =
        Inr (b, d2)" and sm: "same_money d2 d'"
    using tx about_keys [OF about]
    by (auto simp: ack_tx_def Let_def and_then_eq_Inr same_money_def wallet_ops_defs)
  show ?thesis
    by (rule transition_settled [OF inv seen assms(3) tr _ _ _ _ post sm])
      (use about in \<open>simp_all add: transition_bill keeps_bill_def settling_key_def about_message_def\<close>)
qed

lemma fail_tx_effect:
  assumes inv: "pipeline_inv opening d" and seen: "mtable.seen m d" and "m_status m = Submitting"
    and about: "about_message p m" and tx: "fail_tx c p m d = Inr (u, d')"
  shows "effect m d d'"
proof -
  obtain w d1 b d2 where tr: "transition_message c m Failed
      [LastErrorCode (Some (coalesce (ev_error_code p) ''dispatch_failed'')),
       LastErrorMessage (Some (coalesce (ev_error_message p) ''Dispatch failed'')),
       BillingState ''released''] False d = Inr (w, d1)"
    and post: "apply_wallet_ledger c (m_tenant_id m) (m_price_minor m) Release (release_key ''final'' m)
      (to_composite p) d1 = Inr (b, d2)" and sm: "same_money d2 d'"
    using tx about_keys(2) [OF about, of "''final''"]
    by (auto simp: fail_tx_def Let_def and_then_eq_Inr same_money_def wallet_ops_defs)
  show ?thesis
    by (rule transition_settled [OF inv seen assms(3) tr _ _ _ _ post sm])
      (use about in \<open>auto simp: transition_bill settling_key_def about_message_def\<close>)
qed

lemma dlr_delivered_tx_effect:
  assumes inv: "pipeline_inv opening d" and seen: "mtable.seen m d" and "m_status m = ProviderAccepted"
    and tx: "dlr_delivered_tx c date i webhook m d = Inr (u, d')"
  shows "effect m d d'"
proof -
  obtain w d1 where "transition_message c m Delivered [] False d = Inr (w, d1)" "same_money d1 d'"
    using tx by (auto simp: dlr_delivered_tx_def Let_def and_then_eq_Inr same_money_def)
  then show ?thesis
    by (rule transition_kept [OF inv seen])
      (use assms(3) in \<open>auto simp: transition_bill keeps_bill_def\<close>)
qed

lemma dlr_failed_tx_effect:
  assumes inv: "pipeline_inv opening d" and seen: "mtable.seen m d"
    and st: "m_status m \<in> {ProviderAccepted, Submitting}"
    and tx: "dlr_failed_tx c date i webhook m d = Inr (u, d')"
  shows "effect m d d'"
proof -
  define b where "b = (if m_billing_state m = ''reserved'' then ''released'' else m_billing_state m)"
  obtain w d1 q d2 where tr: "transition_message c m Failed
      [LastErrorCode (Some ''dlr_failed''),
       LastErrorMessage (Some ''Provider DLR marked message as failed''), BillingState b] False d =
        Inr (w, d1)"
    and post: "(if m_billing_state m = ''reserved''
       then apply_wallet_ledger c (m_tenant_id m) (m_price_minor m) Release (release_key ''dlr'' m)
         (message_ref_of m) d1
       else Inr (False, d1)) = Inr (q, d2)"
    and sm: "same_money d2 d'"
    using tx dlr_keys(1) [of m "''dlr''"]
    by (auto simp: dlr_failed_tx_def b_def Let_def and_then_eq_Inr same_money_def wallet_ops_defs
        cong: if_cong)
  have m: "m \<in> set (messages d)" and ids: "messages_wf d"
    using transition_message_seen(1) [OF _ seen tr] inv by (simp_all add: pipeline_inv_def ids_ok_def)
  have bill: "billing_ok (m_status m) (m_billing_state m)"
    using inv m by (simp add: pipeline_inv_def bills_ok_def)
  show ?thesis
  proof (cases "m_billing_state m = ''reserved''")
    case True
    have status: "m_status m = Submitting" using st bill True by auto
    show ?thesis
      by (rule transition_settled [OF inv seen status tr, where op = Release and key = "release_key ''dlr'' m"
            and ref = "message_ref_of m" and b = q, OF _ _ _ dlr_keys(2) _ sm])
        (use True post in \<open>auto simp: transition_bill settling_key_def b_def\<close>)
  next
    case False
    have "m_status m = ProviderAccepted" using st bill False by auto
    with bill False show ?thesis
      by (intro transition_kept [OF inv seen tr]) (use post sm in \<open>auto simp: transition_bill b_def\<close>)
  qed
qed

lemmas handler_tx_effects =
  accepted_tx_effect patch_tx_effects submitting_tx_effect ack_tx_effect
  fail_tx_effect dlr_delivered_tx_effect dlr_failed_tx_effect

lemma handler_step_effect:
  assumes "handler_step m d d'" and inv: "pipeline_inv opening d" and seen: "mtable.seen m d"
  shows "effect m d d'"
  using assms(1)
proof cases
  case (block p c evaluation u)
  then show ?thesis
    using fraud_block_throws [of d c p m evaluation] inv by (auto simp: pipeline_inv_def ids_ok_def)
qed (blast intro: handler_tx_effects [OF inv seen] idle_tx_effects)+

text \<open>A submission inserts a message and reserves its price, or finds the earlier one.\<close>

lemma submit_tx_inv:
  assumes "submit_tx c context dto s d = Inr (r, d')" and inv: "pipeline_inv opening d"
    and today: "length (c_today c) = 10"
  shows "pipeline_inv opening d'"
    and "same_money d d' \<or>
      (\<exists>m. inserted m d (d\<lparr>messages := messages d @ [m], next_message_id := next_message_id d + 1\<rparr>) \<and>
           messages d' = messages d @ [m])"
proof -
  define m where "m = new_message c context dto s (next_message_id d)"
  define d1 where "d1 = d\<lparr>messages := messages d @ [m], next_message_id := next_message_id d + 1\<rparr>"
  have ins: "inserted m d d1"
    using today by (simp add: inserted_def m_def d1_def new_message_def)
  have ref: "composite_key (row_composite m) = message_key m"
    "''reserve:'' @ build_aggregate_id (row_composite m) = reserve_key m"
    using today
    by (simp_all add: row_composite_def composite_key_def message_key_def to_date_string_def m_def
        new_message_def build_aggregate_id_def reserve_key_def message_ref_def)
  have cases: "d' = d \<or> (\<exists>b d2. apply_wallet_ledger c (m_tenant_id m) (m_price_minor m) Reserve
      (reserve_key m) (row_composite m) d1 = Inr (b, d2) \<and> same_money d2 d')"
  proof (cases "if truthy_str (su_idempotency_key context) \<or> truthy_str (sm_client_message_id dto)
      then first_row (filter (same_submission c context dto) (messages d)) else None")
    case None
    have at: "m_tenant_id m = su_tenant_id context" "m_price_minor m = sb_sell_price s"
      by (simp_all add: m_def new_message_def)
    from assms(1) None ref(2) show ?thesis
      unfolding at
      by (auto simp: submit_tx_def Let_def and_then_eq_Inr insert_message_def reserve_wallet_def
          same_money_def d1_def simp flip: m_def split: if_splits)
  next
    case (Some row)
    with assms(1) show ?thesis by (auto simp: submit_tx_def Let_def)
  qed
  then show "pipeline_inv opening d'"
    using inv pipeline_inv_insert [OF inv ins _ ref(1), of c] pipeline_inv_frame [of d']
    unfolding same_money_def by metis
  show "same_money d d' \<or>
      (\<exists>m. inserted m d (d\<lparr>messages := messages d @ [m], next_message_id := next_message_id d + 1\<rparr>) \<and>
           messages d' = messages d @ [m])"
    using cases ins apply_wallet_ledger_frame(1) by (fastforce simp: same_money_def d1_def)
qed

subsection \<open>The state machine\<close>

type_synonym pipeline_state = "db \<times> message_row list"

inductive step :: "pipeline_state \<Rightarrow> pipeline_state \<Rightarrow> bool" where
  read: "m \<in> set (messages d) \<Longrightarrow> step (d, ms) (d, m # ms)"
| submit: "length (c_today c) = 10 \<Longrightarrow> submit_tx c context dto s d = Inr (r, d') \<Longrightarrow>
    step (d, ms) (d', ms)"
| handle: "m \<in> set ms \<Longrightarrow> handler_step m d d' \<Longrightarrow> step (d, ms) (d', ms)"
| relay: "step (d, ms) (flush_batch c c' n l publish d, ms)"
| callback: "accept_webhook_tx c provider tenant pm cb headers payload d = Inr (u, d') \<Longrightarrow>
    step (d, ms) (d', ms)"
| unsettled: "dlr_reconcile_tx c webhook reason extra d = Inr (u, d') \<Longrightarrow> step (d, ms) (d', ms)"
| duplicate: "step (d, ms) (mark_processed c date i e d, ms)"
| reconcile: "step (d, ms) (consume_reconciliation c event d, ms)"
| exhausted: "step (d, ms) (snd (enqueue_reconciliation c composite payload kind reason d), ms)"

inductive_cases stepE: "step (d, ms) (d', ms')"
inductive_simps step_same_db: "step (d, ms) (d, m # ms)"

text \<open>
  \<open>opening t\<close> is the balance of tenant \<open>t\<close> in the initial state, whose database may hold
  messages in any state of the invariant.
\<close>

inductive reachable :: "(tenant \<Rightarrow> int \<times> int) \<Rightarrow> pipeline_state \<Rightarrow> bool"
  for opening_balance :: "tenant \<Rightarrow> int \<times> int" where
  init: "pipeline_inv opening_balance d \<Longrightarrow> reachable opening_balance (d, [])"
| step: "reachable opening_balance s \<Longrightarrow> step s s' \<Longrightarrow> reachable opening_balance s'"

lemma flush_batch_money: "same_money d (flush_batch c c' n l publish d)"
proof -
  have "same_money d (fold (settle_event c' publish) xs d')" if "same_money d d'" for xs d'
    using that by (induction xs arbitrary: d') (simp_all add: settle_event_def same_money_def)
  moreover have "same_money d (snd (claim_batch c n l d))"
    by (simp add: claim_batch_def same_money_def Let_def)
  ultimately show ?thesis by (cases "claim_batch c n l d") (simp add: flush_batch_def)
qed

lemma upsert_webhook_money:
  "upsert_webhook c provider tenant pm cb headers payload d = (w, d') \<Longrightarrow> same_money d d'"
  by (auto simp: upsert_webhook_def Let_def same_money_def split: option.splits)

lemma accept_webhook_money:
  "accept_webhook_tx c provider tenant pm cb headers payload d = Inr (u, d') \<Longrightarrow> same_money d d'"
  using upsert_webhook_money [of c provider tenant pm cb headers payload d]
  by (auto simp: accept_webhook_tx_def same_money_def split: prod.splits)

lemma consume_reconciliation_money: "same_money d (consume_reconciliation c event d)"
  by (simp add: consume_reconciliation_def same_money_def split: option.splits)

lemma enqueue_reconciliation_money:
  "same_money d (snd (enqueue_reconciliation c composite payload kind reason d))"
  by (simp add: enqueue_reconciliation_def same_money_def with_transaction_def)

lemma receipt_filed_money:
  "dlr_reconcile_tx c webhook reason extra d = Inr (u, d') \<Longrightarrow> same_money d d'"
  "same_money d (mark_processed c date i e d)"
  by (auto simp: dlr_reconcile_tx_def same_money_def)

lemmas idle_steps = flush_batch_money accept_webhook_money consume_reconciliation_money
  enqueue_reconciliation_money receipt_filed_money

text \<open>A step is idle, inserts a message, or has the effect of a consumer's transaction.\<close>

lemma step_cases:
  assumes "step (d, ms) (d', ms')" and inv: "pipeline_inv opening_balance d"
    and seen: "\<forall>m \<in> set ms. mtable.seen m d"
  obtains (idle) "same_money d d'" "set ms' \<subseteq> set ms \<union> set (messages d)"
  | (inserted) m d1 where "ms' = ms" "pipeline_inv opening_balance d'" "inserted m d d1"
      "messages d' = messages d @ [m]"
  | (effect) m where "ms' = ms" "m \<in> set ms" "effect m d d'"
proof -
  consider "same_money d d' \<and> set ms' \<subseteq> set ms \<union> set (messages d)"
    | c su dto s r where "ms' = ms" "length (c_today c) = 10"
        "submit_tx c su dto s d = Inr (r, d')"
    | m where "ms' = ms" "m \<in> set ms" "handler_step m d d'"
    using assms(1)
    by (cases rule: stepE) (auto intro: idle_steps)
  then show thesis
  proof cases
    case 1
    then show thesis using idle by blast
  next
    case (2 c su dto s r)
    from submit_tx_inv [OF 2(3) inv 2(2)] 2(1) show thesis
      using idle inserted by blast
  next
    case (3 m)
    then show thesis using effect handler_step_effect [OF 3(3) inv] seen by blast
  qed
qed


text \<open>The invariant of every reachable state: the money adds up and no snapshot is from the future.\<close>

lemma effect_seen:
  assumes "effect m d d'" and "pipeline_inv opening_balance d" and "mtable.seen x d"
  shows "mtable.seen x d'"
  using effect_rows [OF assms(1)]
proof
  assume "messages d' = messages d"
  with assms(3) show ?thesis by (simp add: mtable.seen_def)
next
  assume "\<exists>f. changed m f d d' \<and> moves m (f m)"
  then obtain f where ch: "changed m f d d'" by blast
  have ids: "ids_ok d" using assms(2) by (simp add: pipeline_inv_def)
  note rows = changed_rows [OF ids ch]
  have v: "message_key (f m) = message_key m" "m_version (f m) = m_version m + 1"
    using ch by (simp_all add: changed_def billing_clause_def update_clause_def)
  obtain y where y: "y \<in> set (messages d)" "message_key y = message_key x" "m_version x \<le> m_version y"
    "m_version y = m_version x \<longrightarrow> y = x"
    using assms(3) by (auto simp: mtable.seen_def)
  show ?thesis
  proof (cases "y = m")
    case True
    with y v rows(2) show ?thesis
      unfolding mtable.seen_def by (intro bexI [of _ "f m"]) auto
  next
    case False
    with y rows(1) have "y \<in> set (messages d')" by blast
    with y show ?thesis unfolding mtable.seen_def by blast
  qed
qed

lemma seen_mono: "set (messages d) \<subseteq> set (messages d') \<Longrightarrow> mtable.seen x d \<Longrightarrow> mtable.seen x d'"
  unfolding mtable.seen_def by blast

lemma step_inv:
  assumes "step (d, ms) (d', ms')" and inv: "pipeline_inv opening_balance d"
    and seen: "\<forall>m \<in> set ms. mtable.seen m d"
  shows "pipeline_inv opening_balance d' \<and> (\<forall>m \<in> set ms'. mtable.seen m d')"
  using assms
proof (cases rule: step_cases)
  case idle
  then have "messages d' = messages d" by (simp add: same_money_def)
  with idle seen mtable.seen_row [of _ d] have "\<forall>m \<in> set ms'. mtable.seen m d'"
    by (auto simp: mtable.seen_def)
  with inv effect_inv [OF effect.idle [OF idle(1)]] show ?thesis by blast
next
  case (inserted m d1)
  then show ?thesis using seen seen_mono [of d d'] by auto
next
  case (effect m)
  then show ?thesis using seen inv effect_seen [OF effect(3) inv] effect_inv [OF effect(3) inv] by blast
qed

lemma reachable_inv:
  assumes "reachable opening_balance s"
  shows "pipeline_inv opening_balance (fst s) \<and> (\<forall>m \<in> set (snd s). mtable.seen m (fst s))"
  using assms
proof induction
  case (step s s')
  then show ?case
    by (cases s; cases s') (use step_inv in \<open>force\<close>)
qed simp

end
