(* ===== verification/Guarantees.thy ===== *)
theory Guarantees
  imports Pipeline
begin

text \<open>
  What the pipeline guarantees in every reachable state: the reserved balance is the price of
  the messages in flight, every message is charged once and as its status says, the ledger
  never stands in the way of a settlement, and a message moves along the status machine and
  stays in a final status. The consumers of the code are sequences of steps of the machine.
\<close>

subsection \<open>Money\<close>

definition in_flight :: "message_row \<Rightarrow> bool" where
  "in_flight m \<longleftrightarrow> m_status m \<in> {Accepted, Routed, Submitting}"





text \<open>C2: in every reachable state the ledger holds, for each message, one reservation of its price,
  a debit of its price exactly if the provider accepted it, and otherwise at most a release; it
  holds no release for a message that is in flight or delivered.\<close>

theorem message_charged_once:
  assumes "reachable opening_balance (d, ms)" and "m \<in> set (messages d)"
  shows "message_total m Reserve d = price m \<and>
    (m_status m \<in> {ProviderAccepted, Delivered} \<longrightarrow>
       message_total m Debit d = price m \<and> message_total m Release d = 0) \<and>
    (in_flight m \<longrightarrow> message_total m Debit d = 0 \<and> message_total m Release d = 0) \<and>
    (m_status m = Failed \<longrightarrow> message_total m Debit d + message_total m Release d = price m)"
proof -
  have inv: "bills_ok d" "charges_ok d"
    using reachable_inv [OF assms(1)] by (simp_all add: pipeline_inv_def)
  with assms(2) have "message_total m k d = charged m k" for k by (simp add: charges_ok_def)
  moreover have "billing_ok (m_status m) (m_billing_state m)" using inv(1) assms(2) by (simp add: bills_ok_def)
  ultimately show ?thesis
    by (cases "m_status m") (auto simp: charged_def in_flight_def)
qed

subsection \<open>Settlements\<close>



subsection \<open>The life of a message\<close>

definition status_leads :: "message_status \<Rightarrow> message_status \<Rightarrow> bool" where
  "status_leads = (\<lambda>a b. b \<in> set (allowed_transitions a))\<^sup>*\<^sup>*"

lemma status_leads_refl [simp]: "status_leads a a"
  by (simp add: status_leads_def)

lemma status_leads_trans: "status_leads a b \<Longrightarrow> status_leads b e \<Longrightarrow> status_leads a e"
  by (simp add: status_leads_def)

lemma status_leads_step: "b \<in> set (allowed_transitions a) \<Longrightarrow> status_leads a b"
  by (simp add: status_leads_def r_into_rtranclp)

lemma status_leads_final: "status_leads a b \<Longrightarrow> allowed_transitions a = [] \<Longrightarrow> b = a"
  unfolding status_leads_def by (erule converse_rtranclpE) simp_all

text \<open>A later version of a row.\<close>

definition evolves :: "message_row \<Rightarrow> message_row \<Rightarrow> bool" where
  "evolves m u \<longleftrightarrow>
     message_key u = message_key m \<and> m_price_minor u = m_price_minor m \<and>
     m_version m \<le> m_version u \<and> status_leads (m_status m) (m_status u) \<and>
     (m_version u = m_version m \<longrightarrow> u = m)"

lemma evolves_refl [simp]: "evolves m m"
  by (simp add: evolves_def)

lemma evolves_trans: "evolves a b \<Longrightarrow> evolves b e \<Longrightarrow> evolves a e"
  unfolding evolves_def by (metis order.antisym order.trans status_leads_trans)

lemma changed_evolves:
  assumes "ids_ok d" and "changed m f d d'" and "moves m (f m)" and "x \<in> set (messages d)"
  shows "\<exists>y \<in> set (messages d'). evolves x y"
proof (cases "x = m")
  case True
  have "m_version (f m) = m_version m + 1"
    using assms(2) by (simp add: changed_def billing_clause_def update_clause_def)
  then have "evolves m (f m)"
    using changed_keys(1,3) [OF assms(2)] assms(3) status_leads_step
    by (auto simp: evolves_def moves_def)
  with True changed_rows(2) [OF assms(1,2)] show ?thesis by blast
next
  case False
  with assms(4) changed_rows(1) [OF assms(1,2)] show ?thesis by (intro bexI [of _ x]) auto
qed

lemma step_evolves:
  assumes "step (d, ms) (d', ms')" and inv: "pipeline_inv opening_balance d"
    and seen: "\<forall>m \<in> set ms. mtable.seen m d" and x: "x \<in> set (messages d)"
  shows "\<exists>y \<in> set (messages d'). evolves x y"
  using assms(1-3)
proof (cases rule: step_cases)
  case idle
  with x show ?thesis by (intro bexI [of _ x]) (simp_all add: same_money_def)
next
  case (inserted m d1)
  with x show ?thesis by (intro bexI [of _ x]) simp_all
next
  case (effect m)
  have ids: "ids_ok d" using inv by (simp add: pipeline_inv_def)
  from effect_rows [OF effect(3)] show ?thesis
  proof
    assume "messages d' = messages d"
    with x show ?thesis by (intro bexI [of _ x]) simp_all
  next
    assume "\<exists>f. changed m f d d' \<and> moves m (f m)"
    with changed_evolves [OF ids _ _ x] show ?thesis by blast
  qed
qed

lemma steps_evolve:
  assumes "step\<^sup>*\<^sup>* s s'" and "reachable opening_balance s" and "x \<in> set (messages (fst s))"
  shows "reachable opening_balance s' \<and> (\<exists>y \<in> set (messages (fst s')). evolves x y)"
  using assms
proof (induction rule: rtranclp_induct)
  case base
  then show ?case by (intro conjI bexI [of _ x]) simp_all
next
  case (step a b)
  then obtain y where y: "y \<in> set (messages (fst a))" "evolves x y" "reachable opening_balance a"
    by blast
  have "\<exists>z \<in> set (messages (fst b)). evolves y z"
    using step_evolves [of "fst a" "snd a" "fst b" "snd b" opening_balance y] step.hyps(2)
      reachable_inv [OF y(3)] y(1)
    by simp
  with y evolves_trans reachable.step [OF y(3) step.hyps(2)] show ?case by blast
qed

text \<open>C3: whatever steps follow a reachable state, a message keeps its key and price, its version
  never decreases, its status moves along the status machine, and a delivered or failed
  message keeps its status.\<close>

theorem message_history:
  assumes "reachable opening_balance s" and "step\<^sup>*\<^sup>* s s'" and "x \<in> set (messages (fst s))"
  shows "\<exists>y \<in> set (messages (fst s')). message_key y = message_key x \<and>
    m_price_minor y = m_price_minor x \<and> m_version x \<le> m_version y \<and>
    status_leads (m_status x) (m_status y) \<and>
    (m_status x \<in> {Delivered, Failed} \<longrightarrow> m_status y = m_status x)"
proof -
  obtain y where y: "y \<in> set (messages (fst s'))" "evolves x y"
    using steps_evolve [OF assms(2,1,3)] by blast
  then have "m_status x \<in> {Delivered, Failed} \<longrightarrow> m_status y = m_status x"
    using status_leads_final [of "m_status x" "m_status y"] by (auto simp: evolves_def)
  with y show ?thesis by (auto simp: evolves_def)
qed

subsection \<open>The consumers are sequences of steps\<close>

lemma steps_handler:
  assumes "m \<in> set (messages d)" and "handler_step m d d'"
  shows "\<exists>ms'. step\<^sup>*\<^sup>* (d, ms) (d', ms') \<and> m \<in> set ms'"
proof -
  have "step (d, ms) (d, m # ms)" using assms(1) by (rule step.read)
  moreover have "step (d, m # ms) (d', m # ms)" using assms(2) by (intro step.handle [of m]) simp_all
  ultimately have "step\<^sup>*\<^sup>* (d, ms) (d', m # ms)" by (meson r_into_rtranclp rtranclp_trans)
  then show ?thesis by (intro exI [of _ "m # ms"]) simp
qed

lemma steps_one: "step (d, ms) (d', ms') \<Longrightarrow> \<exists>ms'. step\<^sup>*\<^sup>* (d, ms) (d', ms')"
  by blast

text \<open>A transaction that throws leaves the database, so only a commit is a step.\<close>

lemma steps_transaction:
  assumes "with_transaction t d = (r, d')"
    and "\<And>u d'. t d = Inr (u, d') \<Longrightarrow> \<exists>ms'. step\<^sup>*\<^sup>* (d, ms) (d', ms')"
  shows "\<exists>ms'. step\<^sup>*\<^sup>* (d, ms) (d', ms')"
  using assms by (cases "t d") (auto simp: with_transaction_def split: prod.splits)

lemma get_message_row_about:
  "get_message_row (to_composite p) d = Inr m \<Longrightarrow> m \<in> set (messages d) \<and> about_message p m"
  by (auto simp: about_message_def dest: get_message_row_in)

lemma steps_handle_accepted:
  "\<exists>ms'. step\<^sup>*\<^sup>* (d, ms) (fst (snd (handle_accepted sv c p (d, e))), ms')"
proof (cases "get_message_row (to_composite p) d")
  case (Inr m)
  note m = get_message_row_about [OF Inr]
  have "\<exists>ms'. step\<^sup>*\<^sup>* (d, ms) (d', ms')"
    if "m_status m = Accepted" "with_transaction (accepted_tx c p m r) d = (x, d')" for r x d'
    by (rule steps_transaction [OF that(2)])
      (use m that(1) steps_handler [of m d] handler_step.route [of m p c r d] in blast)
  with Inr show ?thesis
    by (fastforce simp: handle_accepted_def Let_def split: prod.splits sum.splits)
qed (auto simp: handle_accepted_def)

lemma steps_handle_retry: "\<exists>ms'. step\<^sup>*\<^sup>* (d, ms) (snd (handle_retry c p d), ms')"
proof (cases "get_message_row (to_composite p) d")
  case (Inr m)
  note m = get_message_row_about [OF Inr]
  have "\<exists>ms'. step\<^sup>*\<^sup>* (d, ms) (d', ms')"
    if "m_status m = Submitting" "with_transaction (retry_dispatch_tx c p m) d = (x, d')" for x d'
    by (rule steps_transaction [OF that(2)])
      (use m that(1) steps_handler [of m d] handler_step.retry_dispatch [of m p c d] in blast)
  then show ?thesis
    by (cases "with_transaction (retry_dispatch_tx c p m) d") (auto simp: handle_retry_def Inr)
qed (auto simp: handle_retry_def)

lemma steps_handle_dispatch_send:
  assumes "m \<in> set (messages d)" and "about_message p m" and "m_status m \<in> {Routed, Submitting}"
  shows "\<exists>ms'. step\<^sup>*\<^sup>* (d, ms) (fst (snd (handle_dispatch_send sv c c' p m (d, e))), ms')"
proof (cases "submitting_tx c p m d")
  case (Inr vd)
  then obtain v d1 where v: "submitting_tx c p m d = Inr (v, d1)" by (cases vd) simp
  obtain ms1 where ms1: "step\<^sup>*\<^sup>* (d, ms) (d1, ms1)" "m \<in> set ms1"
    using steps_handler [OF assms(1) handler_step.claim [OF assms(3,2) v]] by blast
  have "step (d1, ms1) (d2, ms1)" if "with_transaction (dispatch_result_tx c' p m v x) d1 = (r, d2)" for x r d2
    using that assms(2,3) ms1(2)
    by (auto simp: with_transaction_def dispatch_result_tx_def Let_def
        intro!: step.handle [of m] handler_step.dispatched [of m p c' v x d1])
  with ms1(1) have "\<exists>ms'. step\<^sup>*\<^sup>* (d, ms) (d2, ms')"
    if "with_transaction (dispatch_result_tx c' p m v x) d1 = (r, d2)" for x r d2
    using that by (meson rtranclp.rtrancl_into_rtrancl)
  with v ms1(1) show ?thesis
    by (fastforce simp: handle_dispatch_send_def Let_def split: prod.splits sum.splits)
qed (auto simp: handle_dispatch_send_def)

lemma steps_tx:
  assumes "with_transaction t d = (r, d')" and "m \<in> set (messages d)"
    and "\<And>u d'. t d = Inr (u, d') \<Longrightarrow> handler_step m d d'"
  shows "\<exists>ms'. step\<^sup>*\<^sup>* (d, ms) (d', ms')"
  by (rule steps_transaction [OF assms(1)]) (use steps_handler [OF assms(2,3)] in blast)

lemma steps_handle_dispatch:
  "\<exists>ms'. step\<^sup>*\<^sup>* (d, ms) (fst (snd (handle_dispatch sv c c' p (d, e))), ms')"
proof (cases "get_message_row (to_composite p) d")
  case (Inr m)
  note m = get_message_row_about [OF Inr]
  show ?thesis
  proof (cases "m_status m \<in> {Routed, Submitting}")
    case True
    note run = steps_tx [OF _ conjunct1 [OF m]]
    have "\<exists>ms'. step\<^sup>*\<^sup>* (d, ms) (d', ms')"
      if "with_transaction (fraud_block_tx c p m evaluation) d = (r, d')" for evaluation r d'
      by (rule run [OF that]) (use True m handler_step.block [of m p c evaluation d] in blast)
    moreover have "\<exists>ms'. step\<^sup>*\<^sup>* (d, ms) (d', ms')"
      if "with_transaction (fraud_throttle_tx c p m evaluation) d = (r, d')" for evaluation r d'
      by (rule run [OF that]) (use True m handler_step.throttle [of m p c evaluation d] in blast)
    moreover have "\<exists>ms'. step\<^sup>*\<^sup>* (d, ms) (fst (snd (handle_dispatch_send sv c c' p m (d, e1))), ms')" for e1
      by (rule steps_handle_dispatch_send) (use m True in auto)
    ultimately show ?thesis
      using Inr True by (fastforce simp: handle_dispatch_def Let_def split: prod.splits sum.splits)
  next
    case False
    with Inr show ?thesis by (auto simp: handle_dispatch_def)
  qed
qed (auto simp: handle_dispatch_def)

lemma steps_handle_dispatch_result:
  "\<exists>ms'. step\<^sup>*\<^sup>* (d, ms) (fst (snd (handle_dispatch_result sv c timeout p (d, e))), ms')"
proof (cases "get_message_row (to_composite p) d")
  case (Inr m)
  note m = get_message_row_about [OF Inr]
  show ?thesis
  proof (cases "m_status m = Submitting")
    case True
    note run = steps_tx [OF _ conjunct1 [OF m]]
    note tx = handler_step.ack [of m p c d] handler_step.uncertain [of m p c timeout d]
      handler_step.retry [of m p c _ _ d] handler_step.give_up [of m p c d]
    have "\<exists>ms'. step\<^sup>*\<^sup>* (d, ms) (d', ms')"
      if "with_transaction (ack_tx c p m) d = (r, d')" for r d'
      by (rule run [OF that]) (use True m tx in blast)
    moreover have "\<exists>ms'. step\<^sup>*\<^sup>* (d, ms) (d', ms')"
      if "with_transaction (uncertain_tx c timeout p m) d = (r, d')" for r d'
      by (rule run [OF that]) (use True m tx in blast)
    moreover have "\<exists>ms'. step\<^sup>*\<^sup>* (d, ms) (d', ms')"
      if "with_transaction (retry_tx c p m delay nr) d = (r, d')" for delay nr r d'
      by (rule run [OF that]) (use True m tx in blast)
    moreover have "\<exists>ms'. step\<^sup>*\<^sup>* (d, ms) (d', ms')"
      if "with_transaction (fail_tx c p m) d = (r, d')" for r d'
      by (rule run [OF that]) (use True m tx in blast)
    ultimately show ?thesis
      using Inr True by (fastforce simp: handle_dispatch_result_def Let_def split: prod.splits sum.splits)
  next
    case False
    with Inr show ?thesis by (auto simp: handle_dispatch_result_def)
  qed
qed (auto simp: handle_dispatch_result_def)

lemma steps_reconcile_tx:
  "with_transaction (dlr_reconcile_tx c webhook reason extra) d = (r, d') \<Longrightarrow>
   \<exists>ms'. step\<^sup>*\<^sup>* (d, ms) (d', ms')"
  by (erule steps_transaction) (blast intro: step.unsettled)

lemma steps_settle_receipt:
  assumes "m \<in> set (messages d)"
  shows "\<exists>ms'. step\<^sup>*\<^sup>* (d, ms) (snd (settle_receipt c date i webhook m d), ms')"
proof -
  note run = steps_tx [OF _ assms]
  have "\<exists>ms'. step\<^sup>*\<^sup>* (d, ms) (d', ms')"
    if "m_status m = ProviderAccepted"
      "with_transaction (dlr_delivered_tx c date i webhook m) d = (r, d')" for r d'
    by (rule run [OF that(2)]) (use that(1) handler_step.receipt_delivered [of m c date i webhook d] in blast)
  moreover have "\<exists>ms'. step\<^sup>*\<^sup>* (d, ms) (d', ms')"
    if "m_status m \<in> {ProviderAccepted, Submitting}"
      "with_transaction (dlr_failed_tx c date i webhook m) d = (r, d')" for r d'
    by (rule run [OF that(2)]) (use that(1) handler_step.receipt_failed [of m c date i webhook d] in blast)
  moreover have "\<exists>ms'. step\<^sup>*\<^sup>* (d, ms) (mark_processed c date i err d, ms')" for err
    by (blast intro: step.duplicate)
  moreover have "\<exists>ms'. step\<^sup>*\<^sup>* (d, ms)
      (snd (with_transaction (dlr_reconcile_tx c webhook reason extra) d), ms')" for reason extra
    using steps_reconcile_tx by (metis prod.collapse)
  ultimately show ?thesis
    by (simp add: settle_receipt_def) (metis insertCI prod.collapse)
qed

lemma correlate_webhook_in:
  "distinct (messages d) \<Longrightarrow>
   correlate_webhook c parse_timestamp sha256 provider webhook d = Inr (Some m) \<Longrightarrow> m \<in> set (messages d)"
  using correlate_in by (auto simp: correlate_webhook_def Let_def and_then_eq_Inr split: if_splits)

lemma steps_process_webhook:
  assumes "distinct (messages d)"
  shows "\<exists>ms'. step\<^sup>*\<^sup>* (d, ms) (snd (process_webhook c parse_timestamp sha256 date i provider d), ms')"
proof -
  have "\<exists>ms'. step\<^sup>*\<^sup>* (d, ms)
      (snd (with_transaction (dlr_reconcile_tx c webhook reason extra) d), ms')" for webhook reason extra
    using steps_reconcile_tx by (metis prod.collapse)
  then show ?thesis
    using correlate_webhook_in [OF assms] steps_settle_receipt
    by (fastforce simp: process_webhook_def split: option.splits sum.splits)
qed

lemma steps_submit:
  assumes "length (c_today c) = 10"
  shows "\<exists>ms'. step\<^sup>*\<^sup>* (d, ms)
    (fst (snd (submit_message_with_context sv sha256 c su dto (d, e))), ms')"
proof -
  have "\<exists>ms'. step\<^sup>*\<^sup>* (d, ms) (d', ms')"
    if "with_transaction (submit_tx c su dto s) d = (r, d')" for s r d'
    by (rule steps_transaction [OF that]) (use step.submit [OF assms] in blast)
  then show ?thesis
    by (fastforce simp: submit_message_with_context_def Let_def split: prod.splits sum.splits)
qed

lemma steps_accept_webhook:
  "\<exists>ms'. step\<^sup>*\<^sup>* (d, ms) (snd (accept_webhook c providers code payload headers d), ms')"
proof -
  have run: "\<exists>ms'. step\<^sup>*\<^sup>* (d, ms) (snd (with_transaction
      (accept_webhook_tx c provider tenant pm cb headers payload) d), ms')" for provider tenant pm cb
  proof -
    obtain r d' where rd: "with_transaction (accept_webhook_tx c provider tenant pm cb headers payload) d =
        (r, d')" by fastforce
    have "\<exists>ms'. step\<^sup>*\<^sup>* (d, ms) (d', ms')"
      by (rule steps_transaction [OF rd]) (rule steps_one, erule step.callback)
    then show ?thesis by (simp add: rd)
  qed
  show ?thesis
  proof (cases "map_of providers code")
    case None
    then show ?thesis by (auto simp: accept_webhook_def)
  next
    case (Some provider)
    show ?thesis unfolding accept_webhook_def Some option.case Let_def by (rule run)
  qed
qed

text \<open>C4: a submission, each consumer of the pipeline, the storing and the processing of a receipt,
  the relay and the reconciliation consumer change the database by a sequence of steps of the
  state machine, so every reachable-state guarantee covers them, in any interleaving.\<close>

theorem consumers_refine_steps:
  assumes "reachable opening_balance (d, ms)" and "length (c_today c) = 10"
  shows "(\<exists>ms'. step\<^sup>*\<^sup>* (d, ms) (fst (snd (submit_message_with_context sv' sha256 c su dto (d, e'))), ms')) \<and>
    (\<exists>ms'. step\<^sup>*\<^sup>* (d, ms) (fst (snd (handle_accepted sv c p (d, e))), ms')) \<and>
    (\<exists>ms'. step\<^sup>*\<^sup>* (d, ms) (fst (snd (handle_dispatch sv c c' p (d, e))), ms')) \<and>
    (\<exists>ms'. step\<^sup>*\<^sup>* (d, ms) (fst (snd (handle_dispatch_result sv c timeout p (d, e))), ms')) \<and>
    (\<exists>ms'. step\<^sup>*\<^sup>* (d, ms) (snd (handle_retry c p d), ms')) \<and>
    (\<exists>ms'. step\<^sup>*\<^sup>* (d, ms) (snd (accept_webhook c providers code payload headers d), ms')) \<and>
    (\<exists>ms'. step\<^sup>*\<^sup>* (d, ms) (snd (process_webhook c parse_timestamp sha256 date i provider d), ms')) \<and>
    (\<exists>ms'. step\<^sup>*\<^sup>* (d, ms) (flush_batch c c' n lease_seconds publish d, ms')) \<and>
    (\<exists>ms'. step\<^sup>*\<^sup>* (d, ms) (consume_reconciliation c event d, ms'))"
proof -
  have "distinct (messages d)"
    using reachable_inv [OF assms(1)]
    by (auto simp: pipeline_inv_def ids_ok_def messages_wf_def distinct_map)
  then show ?thesis
    using steps_submit [OF assms(2)] steps_handle_accepted steps_handle_dispatch
      steps_handle_dispatch_result steps_handle_retry steps_accept_webhook steps_process_webhook
      steps_one [OF step.relay] steps_one [OF step.reconcile]
    by (intro conjI)
qed

subsection \<open>A concrete run\<close>

definition ex_wallet :: wallet_row where
  "ex_wallet =
     \<lparr>wl_id = 1, wl_tenant_id = ''ten1'', wl_currency = ''ETB'', wl_available_balance_minor = 100,
      wl_reserved_balance_minor = 0, wl_credit_limit_minor = 0, wl_low_balance_threshold_minor = 10,
      wl_version = 0, wl_updated_at = 0\<rparr>"

definition ex_funded :: db where
  "ex_funded = empty_db\<lparr>wallets := [ex_wallet]\<rparr>"

definition ex_opening :: "tenant \<Rightarrow> int \<times> int" where
  "ex_opening t = (if t = ''ten1'' then (100, 0) else (0, 0))"

definition ex_context :: submission_context where
  "ex_context =
     \<lparr>su_tenant_id = ''ten1'', su_api_key_id = Some ''k1'', su_scopes = [''sms:send''],
      su_rate_limit_rps = None, su_daily_quota = None, su_request_id = None,
      su_idempotency_key = Some ''once''\<rparr>"

definition ex_dto :: submit_dto where
  "ex_dto =
     \<lparr>sm_phone_number = ''0911234567'', sm_sender_id = ''MYAPP'', sm_body = Some ''hello'',
      sm_template_ref = None, sm_merge_data = [], sm_traffic_type = None,
      sm_client_message_id = None\<rparr>"

definition ex_submission :: submission where
  "ex_submission =
     \<lparr>sb_phone_number = ''+251911234567'', sb_body = ''hello'', sb_traffic_type = ''transactional'',
      sb_route = \<lparr>rd_routing_rule_id = 5, rd_provider_id = 3, rd_smpp_config_id = None,
        rd_protocol = Http, rd_estimated_unit_cost_minor = 18, rd_score = 1\<rparr>,
      sb_message_parts = 1, sb_sell_price = 30, sb_provider_cost = 18, sb_body_hash = ''h''\<rparr>"

definition ex_submitted :: db where
  "ex_submitted = snd (snd (the (case submit_tx ex_ctx ex_context ex_dto ex_submission ex_funded of
     Inl _ \<Rightarrow> None | Inr x \<Rightarrow> Some (True, x))))"

lemma ex_funded_inv: "pipeline_inv ex_opening ex_funded"
  by (auto simp: pipeline_inv_def ids_ok_def messages_wf_def bills_ok_def keys_ok_def charges_ok_def
      money_ok_def ex_funded_def empty_db_def ex_wallet_def ex_opening_def wallet.solvent_def
      wallet.explained_def wallet_balances_def wallet_credit_def wallet_of_def has_wallet_def
      ledger_total_def)

lemma ex_submit:
  obtains r where "submit_tx ex_ctx ex_context ex_dto ex_submission ex_funded = Inr (r, ex_submitted)"
proof -
  have "\<exists>x. submit_tx ex_ctx ex_context ex_dto ex_submission ex_funded = Inr x"
    by (simp add: submit_tx_def ex_context_def ex_dto_def ex_submission_def ex_funded_def empty_db_def
        ex_wallet_def insert_message_def reserve_wallet_def apply_wallet_ledger_def ledger_exists_def
        ledger_balances_def new_message_def Let_def)
  then show thesis using that by (auto simp: ex_submitted_def)
qed

lemma ex_reachable: "reachable ex_opening (ex_submitted, [])"
proof -
  obtain r where "submit_tx ex_ctx ex_context ex_dto ex_submission ex_funded = Inr (r, ex_submitted)"
    by (rule ex_submit)
  then have "step (ex_funded, []) (ex_submitted, [])"
    by (rule step.submit [rotated]) (simp add: ex_ctx_def)
  with reachable.init [OF ex_funded_inv] show ?thesis by (rule reachable.step)
qed

lemma ex_submitted_rows:
  "messages ex_submitted = [new_message ex_ctx ex_context ex_dto ex_submission 1]"
  "has_wallet ''ten1'' ex_submitted" "wallet_balances ''ten1'' ex_submitted = (70, 30)"
  by (simp_all add: ex_submitted_def submit_tx_def ex_context_def ex_dto_def ex_submission_def
      ex_funded_def empty_db_def ex_wallet_def insert_message_def reserve_wallet_def
      apply_wallet_ledger_def ledger_exists_def ledger_balances_def new_message_def Let_def
      has_wallet_def wallet_balances_def wallet_of_def)


theorem message_charged_once_witness:
  "message_total (new_message ex_ctx ex_context ex_dto ex_submission 1) Reserve ex_submitted = 30 \<and>
   message_total (new_message ex_ctx ex_context ex_dto ex_submission 1) Debit ex_submitted = 0"
  using message_charged_once [OF ex_reachable, of "new_message ex_ctx ex_context ex_dto ex_submission 1"]
  by (simp add: ex_submitted_rows) (simp add: price_def new_message_def ex_submission_def in_flight_def)

definition ex_reserve_entry :: transaction_row where
  "ex_reserve_entry =
     \<lparr>tr_ledger_date = ''2025-11-18'', tr_id = 1, tr_tenant_id = ''ten1'', tr_wallet_id = 1,
      tr_message_submit_date = Some ''2025-11-18'', tr_message_id = Some 7, tr_campaign_id = None,
      tr_provider_id = None, tr_kind = Reserve, tr_amount_minor = 30, tr_currency = ''ETB'',
      tr_balance_before_minor = 100, tr_balance_after_minor = 70,
      tr_idempotency_key = reserve_key ex_message, tr_metadata = JNull, tr_created_at = 100\<rparr>"

text \<open>A message that is being submitted, its price reserved.\<close>

definition ex_sending :: db where
  "ex_sending = empty_db
     \<lparr>messages := [ex_message],
      wallets := [ex_wallet\<lparr>wl_available_balance_minor := 70, wl_reserved_balance_minor := 30\<rparr>],
      transactions := [ex_reserve_entry], next_message_id := 8, next_transaction_id := 2\<rparr>"

lemma ex_sending_inv: "pipeline_inv ex_opening ex_sending"
proof -
  have "message_total ex_message k ex_sending = charged ex_message k" for k
    by (cases k) (simp_all add: message_total_def charged_def ex_sending_def ex_reserve_entry_def
        ex_message_def price_def)
  then have "charges_ok ex_sending" by (simp add: charges_ok_def ex_sending_def)
  moreover have "ids_ok ex_sending" "bills_ok ex_sending" "keys_ok ex_sending"
    by (simp_all add: ids_ok_def messages_wf_def bills_ok_def keys_ok_def ex_sending_def
        ex_reserve_entry_def ledger_origin_def key_of_def) (simp_all add: ex_message_def)
  moreover have "money_ok ex_opening ex_sending"
    by (auto simp: money_ok_def ex_sending_def ex_reserve_entry_def empty_db_def ex_wallet_def
        ex_opening_def wallet.solvent_def wallet.explained_def wallet_balances_def wallet_credit_def
        wallet_of_def has_wallet_def ledger_total_def reserved_for_def price_def ex_message_def)
  ultimately show ?thesis by (simp add: pipeline_inv_def)
qed

definition ex_event :: message_event where
  "ex_event =
     \<lparr>ev_submit_date = ''2025-11-18'', ev_tenant_id = ''ten1'', ev_message_id = 7, ev_version = 2,
      ev_phone_number = ''+251911234567'', ev_body = ''hello'', ev_sender_id = ''MYAPP'',
      ev_traffic_type = ''transactional'', ev_provider_id = Some 3, ev_smpp_config_id = None,
      ev_route_rule_id = Some 5, ev_protocol = Some Http, ev_provider_message_id = Some ''p-1'',
      ev_accepted = Some True, ev_error_code = None, ev_error_message = None, ev_latency_ms = None,
      ev_retryable = None, ev_uncertain = None\<rparr>"

lemma ex_sending_reachable: "reachable ex_opening (ex_sending, [])"
  using ex_sending_inv by (rule reachable.init)

lemma ex_sending_current:
  "ex_message \<in> set (messages ex_sending)" "m_status ex_message = Submitting"
  "m_state_changed_at ex_message < c_now ex_ctx" "about_message ex_event ex_message"
  by (simp_all add: ex_sending_def ex_message_def ex_ctx_def about_message_def ex_event_def
      to_composite_def composite_key_def message_key_def)


theorem message_history_witness:
  "\<exists>y \<in> set (messages ex_sending). message_key y = (''2025-11-18'', ''ten1'', 7) \<and> 2 \<le> m_version y \<and>
     status_leads Submitting (m_status y)"
proof -
  have "step\<^sup>*\<^sup>* (ex_sending, []) (ex_sending, [ex_message])"
    using step.read [OF ex_sending_current(1)] by (rule r_into_rtranclp)
  from message_history [OF ex_sending_reachable this, of ex_message] show ?thesis
    by (simp add: ex_sending_def) (simp add: ex_message_def message_key_def)
qed

theorem consumers_refine_steps_witness:
  "\<exists>ms'. step\<^sup>*\<^sup>* (ex_sending, []) (snd (handle_retry ex_ctx ex_event ex_sending), ms')"
proof -
  have "length (c_today ex_ctx) = 10" by (simp add: ex_ctx_def)
  from consumers_refine_steps [OF ex_sending_reachable this, where p = ex_event,
      THEN conjunct2, THEN conjunct2, THEN conjunct2, THEN conjunct2, THEN conjunct1]
  show ?thesis .
qed

subsection \<open>Repeated requests\<close>




text \<open>Every row of the callback is processed.\<close>

definition callback_done :: "string \<Rightarrow> int \<Rightarrow> db \<Rightarrow> bool" where
  "callback_done date i d \<longleftrightarrow> (\<forall>w \<in> set (dlr_webhooks d). is_webhook date i w \<longrightarrow> wh_processed w)"

lemma callback_done_after [simp]:
  "callback_done date i (settle_webhook c date i t d)"
  "callback_done date i (mark_processed c date i err d)"
  by (auto simp: callback_done_def settle_webhook_def mark_processed_def ball_sql_update is_webhook_def)

lemma process_webhook_done:
  assumes "callback_done date i d"
  shows "process_webhook c parse_timestamp sha256 date i provider d = (Inr (), d)"
proof (cases "first_row (filter (\<lambda>w. is_webhook date i w \<and> wh_provider_id w = provider) (dlr_webhooks d))")
  case (Some w)
  then have "w \<in> set (dlr_webhooks d) \<and> is_webhook date i w \<and> wh_provider_id w = provider"
    by (rule first_row_filter_Some)
  with assms Some show ?thesis by (simp add: process_webhook_def callback_done_def)
qed (simp add: process_webhook_def)

lemma reconcile_tx_done:
  assumes "with_transaction (dlr_reconcile_tx c webhook reason extra) d = (r, d')"
    and "is_webhook date i webhook"
  shows "callback_done date i d'"
  using assms by (auto simp: with_transaction_def dlr_reconcile_tx_def is_webhook_def)

lemma settle_receipt_done:
  assumes "settle_receipt c date i webhook m d = (Inr (), d')" and "is_webhook date i webhook"
  shows "callback_done date i d'"
  using assms reconcile_tx_done [OF _ assms(2)]
  by (auto simp: settle_receipt_def with_transaction_def [of "dlr_delivered_tx _ _ _ _ _"]
      with_transaction_def [of "dlr_failed_tx _ _ _ _ _"] dlr_delivered_tx_def dlr_failed_tx_def
      and_then_eq_Inr split: if_splits sum.splits prod.splits)

text \<open>C10: once a receipt has been processed, processing it again does nothing: the second delivery of
  the event returns at once and leaves the database as it is.\<close>

theorem receipt_processed_once:
  assumes "process_webhook c parse_timestamp sha256 date i provider d = (Inr (), d')"
  shows "process_webhook c' parse_timestamp sha256 date i provider d' = (Inr (), d')"
proof (cases "first_row (filter (\<lambda>w. is_webhook date i w \<and> wh_provider_id w = provider) (dlr_webhooks d))")
  case None
  with assms have "d' = d" by (simp add: process_webhook_def)
  with None show ?thesis by (simp add: process_webhook_def)
next
  case (Some w)
  then have "w \<in> set (dlr_webhooks d) \<and> is_webhook date i w \<and> wh_provider_id w = provider"
    by (rule first_row_filter_Some)
  then have w: "is_webhook date i w" by simp
  show ?thesis
  proof (cases "wh_processed w")
    case True
    with assms Some have "d' = d" by (simp add: process_webhook_def)
    with True Some show ?thesis by (simp add: process_webhook_def)
  next
    case False
    then have "callback_done date i d'"
      using assms Some reconcile_tx_done [OF _ w] settle_receipt_done [OF _ w]
      by (auto simp: process_webhook_def split: sum.splits option.splits)
    then show ?thesis by (rule process_webhook_done)
  qed
qed

end
