(* ===== verification/Handlers.thy ===== *)
theory Handlers
  imports Guarantees
begin

text \<open>
  What the single consumers decide: the outcome of a fraud evaluation, the retry policy, the
  treatment of a receipt, and the errors that stop a submission. Two of the results are about
  behaviour the surrounding code does not expect: a message the fraud rules block is never
  marked as failed, and a routed message they throttle is never dispatched again.
\<close>

subsection \<open>Receipts\<close>

definition ex_webhook :: webhook_row where
  "ex_webhook =
     \<lparr>wh_id = 4, wh_received_date = ''2025-11-18'', wh_provider_id = 3, wh_tenant_id = None,
      wh_provider_message_id = None, wh_callback_id = None, wh_headers = JObj [],
      wh_payload = JObj [(''status'', JStr ''DELIVERED'')], wh_normalized_status = Some ''delivered'',
      wh_processed = False, wh_processing_error = None, wh_received_at = 5, wh_processed_at = None\<rparr>"

definition ex_callbacks :: db where
  "ex_callbacks = ex_messages\<lparr>dlr_webhooks := [ex_webhook]\<rparr>"

lemma ex_correlation:
  "correlate_webhook ex_ctx (\<lambda>_. None) id 3 ex_webhook ex_callbacks = Inr None"
  by (simp add: correlate_webhook_def lookup_for_def ex_webhook_def correlate_message_for_dlr_def Let_def)

theorem receipt_processed_once_witness:
  "\<exists>d'. process_webhook ex_ctx (\<lambda>_. None) id ''2025-11-18'' 4 3 ex_callbacks = (Inr (), d') \<and>
     process_webhook ex_later (\<lambda>_. None) id ''2025-11-18'' 4 3 d' = (Inr (), d')"
proof -
  have "dlr_webhooks ex_callbacks = [ex_webhook]" "is_webhook ''2025-11-18'' 4 ex_webhook"
    "wh_provider_id ex_webhook = 3" "\<not> wh_processed ex_webhook"
    by (simp_all add: ex_callbacks_def ex_webhook_def is_webhook_def)
  then obtain d' where "process_webhook ex_ctx (\<lambda>_. None) id ''2025-11-18'' 4 3 ex_callbacks = (Inr (), d')"
    by (simp add: process_webhook_def ex_correlation dlr_reconcile_tx_def with_transaction_def)
  with receipt_processed_once [OF this] show ?thesis by blast
qed

text \<open>A receipt that says delivered settles only a message the provider had accepted: the message
  becomes delivered, and neither a wallet nor the ledger moves; for any other status of the message
  no message changes and the receipt is filed or dropped as a duplicate.\<close>

theorem delivered_receipt_settles:
  assumes "messages_wf d" and "m \<in> set (messages d)" and "m_state_changed_at m < c_now c"
    and "wh_normalized_status webhook = Some ''delivered''"
  shows "\<exists>d'. settle_receipt c date i webhook m d = (Inr (), d') \<and>
    wallets d' = wallets d \<and> transactions d' = transactions d \<and>
    messages d' =
      (if m_status m = ProviderAccepted
       then sql_update (\<lambda>x. message_key x = message_key m) (transition_clause c Delivered [] False) (messages d)
       else messages d)"
proof (cases "m_status m = ProviderAccepted")
  case True
  then have "transition_message c m Delivered [] False d =
      Inr (transition_clause c Delivered [] False m,
        audit_write c (transition_audit m Delivered (transition_clause c Delivered [] False m))
          (d\<lparr>messages := sql_update (\<lambda>x. message_key x = message_key m)
             (transition_clause c Delivered [] False) (messages d)\<rparr>))"
    using assms(3) trigger_transition [of Delivered m c "[]" False]
    by (simp add: transition_message_def update_message_current [OF assms(1,2)])
  with True assms(4) show ?thesis
    by (simp add: settle_receipt_def with_transaction_def dlr_delivered_tx_def)
next
  case False
  with assms(4) show ?thesis
    by (simp add: settle_receipt_def with_transaction_def dlr_reconcile_tx_def)
qed

definition ex_accepted :: message_row where
  "ex_accepted = ex_message\<lparr>m_status := ProviderAccepted, m_billing_state := ''debited''\<rparr>"

theorem delivered_receipt_settles_witness:
  "\<exists>d'. settle_receipt ex_ctx ''2025-11-18'' 4 ex_webhook ex_accepted (empty_db\<lparr>messages := [ex_accepted]\<rparr>) =
     (Inr (), d') \<and> map m_status (messages d') = [Delivered]"
proof -
  have "messages_wf (empty_db\<lparr>messages := [ex_accepted]\<rparr>)"
    by (simp add: messages_wf_def ex_accepted_def ex_message_def)
  from delivered_receipt_settles [OF this, of ex_accepted ex_ctx ex_webhook "''2025-11-18''" 4]
  show ?thesis
    by (auto simp: ex_webhook_def ex_accepted_def ex_ctx_def ex_message_def)
qed

subsection \<open>Fraud\<close>

lemma get_message_row_status:
  "get_message_row (to_composite p) d = Inr m \<Longrightarrow> m \<in> set (messages d) \<and> about_message p m"
  by (rule get_message_row_about)

text \<open>C11: when the fraud rules block a message that is to be dispatched, the consumer always throws and
  its transaction is rolled back: the message keeps its status and its reservation.\<close>

theorem blocked_message_stays:
  assumes "messages_wf d" and "get_message_row (to_composite p) d = Inr m"
    and "m_status m \<in> {Routed, Submitting}"
    and "sv_evaluate sv (fraud_input_for p m) e = (Inr evaluation, e1)"
    and "fe_action evaluation = ''block''"
  shows "\<exists>ex. handle_dispatch sv c c' p (d, e) = (Inl ex, d, e1)"
  using assms(2-5) fraud_block_throws [OF assms(1), of c p m evaluation]
  by (auto simp: handle_dispatch_def)

definition ex_services :: "unit services" where
  "ex_services =
     \<lparr>sv_select_route = (\<lambda>_ _ _ _. io_throw (PlainError ''No route available'')),
      sv_get_retry_policy = (\<lambda>_ _ _. io_return
        \<lparr>rp_max_attempts = 3, rp_retry_intervals = [30, 120, 600], rp_retry_on_errors = [''timeout'']\<rparr>),
      sv_evaluate = (\<lambda>_. io_return \<lparr>fe_action = ''block'', fe_reasons = [''spam''], fe_score = 100\<rparr>),
      sv_get_provider = (\<lambda>_. io_throw (NotFoundException ''Provider not found'')),
      sv_assert_dispatch_allowed = (\<lambda>_ _. io_return ()),
      sv_get_smpp_config = (\<lambda>_. io_throw (NotFoundException ''SMPP config not found'')),
      sv_http_submit = (\<lambda>_. io_throw (PlainError ''offline'')),
      sv_smpp_submit = (\<lambda>_. io_throw (PlainError ''offline'')),
      sv_record_dispatch_result = (\<lambda>_. io_return ())\<rparr>"

lemma ex_row: "get_message_row (to_composite ex_event) ex_messages = Inr ex_message"
  by (simp add: get_message_row_def ex_messages_def ex_event_def to_composite_def composite_key_def
      message_key_def ex_message_def)

theorem blocked_message_stays_witness:
  "\<exists>ex. handle_dispatch ex_services ex_ctx ex_later ex_event (ex_messages, ()) = (Inl ex, ex_messages, ())"
proof -
  have "sv_evaluate ex_services (fraud_input_for ex_event ex_message) () =
      (Inr \<lparr>fe_action = ''block'', fe_reasons = [''spam''], fe_score = 100\<rparr>, ())"
    by (simp add: ex_services_def)
  from blocked_message_stays [OF ex_messages_wf(1) ex_row _ this] show ?thesis
    by (simp add: ex_message_def)
qed

lemma patch_message_outbox: "patch_message c m cols d = Inr (u, d1) \<Longrightarrow> outbox_events d1 = outbox_events d"
  by (auto simp: patch_message_def update_message_def split: option.splits)

lemma enqueue_topics:
  "set (map ob_topic_name (outbox_events (enqueue c event d))) \<subseteq>
     set (map ob_topic_name (outbox_events d)) \<union> {oi_topic_name event}"
  by (auto simp: enqueue_def new_outbox_row_def)

text \<open>C12: when the fraud rules throttle a message that is routed but not yet submitting, the message
  stays routed and its reservation stays; the one event announced for later is a retry, and the
  consumer of retries drops every event about a routed message.\<close>

theorem throttled_message_is_stuck:
  assumes "messages_wf d" and "mtable.seen m d" and "m_status m = Routed"
    and "about_message p m" and "fraud_throttle_tx c p m evaluation d = Inr ((), d')"
  shows "(\<exists>u \<in> set (messages d'). message_key u = message_key m \<and> m_status u = Routed) \<and>
    set (map ob_topic_name (outbox_events d')) \<subseteq>
      set (map ob_topic_name (outbox_events d)) \<union> {topic_name SmsRetry} \<and>
    (\<forall>p'. about_message p' m \<longrightarrow> handle_retry c' p' d' = (Inr (), d'))"
proof -
  obtain u d1 ref topic_event where patch: "patch_message c m
      [LastErrorCode (Some ''fraud_throttled''),
       LastErrorMessage (Some (join_with '', '' (fe_reasons evaluation)))] d = Inr (u, d1)"
    and d': "d' = enqueue c topic_event (log_event c ref ''submit_throttled'' (Some Routed) (Some Routed)
      (jobj [(''reason'', Some (reasons_json evaluation)), (''score'', Some (JNum (fe_score evaluation)))])
      (m_provider_id m) None (m_attempt_count u) d1)"
    and topic: "oi_topic_name topic_event = topic_name SmsRetry"
    using assms(5)
    by (auto simp: fraud_throttle_tx_def Let_def and_then_eq_Inr message_event_input_def)
  have ms: "messages d' = messages d1" using d' by simp
  have ob: "set (map ob_topic_name (outbox_events d')) \<subseteq>
      set (map ob_topic_name (outbox_events d)) \<union> {topic_name SmsRetry}"
    using enqueue_topics [of c topic_event] patch_message_outbox [OF patch] topic d'
    by (metis log_event_frame(5))
  note seen = patch_message_seen [OF assms(1,2) patch]
  note now = patch_then_current [OF assms(1) patch]
  have u: "message_key u = message_key m" "m_status u = Routed" "u \<in> set (messages d')"
    using seen(2) assms(3) now(2) ms by simp_all
  have wf: "messages_wf d'" using now(1) ms by (simp add: messages_wf_def)
  have "handle_retry c' p' d' = (Inr (), d')" if "about_message p' m" for p'
    using get_message_row_current [OF wf u(3)] that u(1,2)
    by (simp add: handle_retry_def about_message_def)
  with u ob show ?thesis by blast
qed

definition ex_routed :: message_row where
  "ex_routed = ex_message\<lparr>m_status := Routed\<rparr>"

definition ex_evaluation :: fraud_evaluation where
  "ex_evaluation = \<lparr>fe_action = ''throttle'', fe_reasons = [''velocity''], fe_score = 40\<rparr>"

theorem throttled_message_is_stuck_witness:
  "\<exists>d'. fraud_throttle_tx ex_ctx ex_event ex_routed ex_evaluation (empty_db\<lparr>messages := [ex_routed]\<rparr>) =
     Inr ((), d') \<and> handle_retry ex_later ex_event d' = (Inr (), d')"
proof -
  define d where "d = empty_db\<lparr>messages := [ex_routed]\<rparr>"
  have wf: "messages_wf d" "mtable.seen ex_routed d" "m_status ex_routed = Routed"
    "about_message ex_event ex_routed" "ex_routed \<in> set (messages d)" "m_state_changed_at ex_routed < c_now ex_ctx"
    by (simp_all add: messages_wf_def d_def ex_routed_def ex_message_def mtable.seen_def
        about_message_def ex_event_def to_composite_def composite_key_def message_key_def ex_ctx_def)
  have "enforce_message_state_transition ex_routed (patch_clause ex_ctx cols ex_routed) = None" for cols
    using trigger_patch wf(6) by simp
  then obtain d' where "fraud_throttle_tx ex_ctx ex_event ex_routed ex_evaluation d = Inr ((), d')"
    by (simp add: fraud_throttle_tx_def patch_message_def update_message_current [OF wf(1,5)] Let_def)
  with throttled_message_is_stuck [OF wf(1-4) this, of ex_later] wf(4) show ?thesis
    unfolding d_def by blast
qed

end
