(* ===== verification/Compliance.thy ===== *)
theory Compliance
  imports Messages
begin

text \<open>
  Opt-outs and suppressions (\<open>compliance.service.ts\<close>). Both tables hold one row per tenant and
  normalised number; a second registration of the same number updates the row. Nothing in the
  service deactivates a row. The locale \<open>block_list\<close> is what the submission relies on: a
  number that was registered stays refused whatever is registered later.
\<close>

record block_row =
  bl_id :: int
  bl_tenant_id :: tenant
  bl_phone_number :: string
  bl_reason :: "string option"
  bl_is_active :: bool
  bl_created_at :: time
  bl_updated_at :: time

record compliance_db =
  opt_outs :: "block_row list"
  suppressions :: "block_row list"
  next_block_id :: int

definition compliance_normalize :: "string \<Rightarrow> string" where
  "compliance_normalize phone_number =
     (let trimmed = filter (\<lambda>c. is_digit c \<or> c = CHR ''+'') phone_number in
      if starts_with trimmed ''+'' then trimmed
      else if starts_with trimmed ''251'' then ''+'' @ trimmed
      else if starts_with trimmed ''0'' then ''+251'' @ drop 1 trimmed
      else trimmed)"

definition blocks :: "tenant \<Rightarrow> string \<Rightarrow> block_row \<Rightarrow> bool" where
  "blocks tenant number r \<longleftrightarrow>
     bl_tenant_id r = tenant \<and> bl_phone_number r = number \<and> bl_is_active r"

definition assert_not_opted_out :: "tenant \<Rightarrow> string \<Rightarrow> compliance_db \<Rightarrow> unit result" where
  "assert_not_opted_out tenant phone_number d =
     (let normalized = compliance_normalize phone_number
      in if first_row (filter (blocks tenant normalized) (opt_outs d) @
                       filter (blocks tenant normalized) (suppressions d)) \<noteq> None
         then Inl (ForbiddenException ''Destination is blocked by opt-out or suppression policy'')
         else Inr ())"

text \<open>\<open>INSERT ... ON CONFLICT (tenant_id, phone_number) DO UPDATE\<close> on one of the tables.\<close>

definition upsert_block ::
  "ctx \<Rightarrow> tenant \<Rightarrow> string \<Rightarrow> string option \<Rightarrow> int \<Rightarrow> block_row list \<Rightarrow> block_row list" where
  "upsert_block c tenant number reason i rows =
     (if \<exists>r \<in> set rows. bl_tenant_id r = tenant \<and> bl_phone_number r = number
      then sql_update (\<lambda>r. bl_tenant_id r = tenant \<and> bl_phone_number r = number)
             (\<lambda>r. r\<lparr>bl_reason := reason, bl_is_active := True, bl_updated_at := c_now c\<rparr>) rows
      else rows @
        [\<lparr>bl_id = i, bl_tenant_id = tenant, bl_phone_number = number, bl_reason = reason,
          bl_is_active = True, bl_created_at = c_now c, bl_updated_at = c_now c\<rparr>])"

definition create_opt_out ::
  "ctx \<Rightarrow> tenant \<Rightarrow> string \<Rightarrow> string option \<Rightarrow> compliance_db \<Rightarrow> compliance_db" where
  "create_opt_out c tenant phone_number reason d =
     d\<lparr>opt_outs := upsert_block c tenant (compliance_normalize phone_number) reason
          (next_block_id d) (opt_outs d),
       next_block_id := next_block_id d + 1\<rparr>"

definition create_suppression ::
  "ctx \<Rightarrow> tenant \<Rightarrow> string \<Rightarrow> string option \<Rightarrow> compliance_db \<Rightarrow> compliance_db" where
  "create_suppression c tenant phone_number reason d =
     d\<lparr>suppressions := upsert_block c tenant (compliance_normalize phone_number) reason
          (next_block_id d) (suppressions d),
       next_block_id := next_block_id d + 1\<rparr>"

definition block_json :: "block_row \<Rightarrow> json" where
  "block_json row =
     jobj [(''id'', Some (jint (bl_id row))),
           (''phoneNumber'', Some (JStr (bl_phone_number row))),
           (''reason'', Some (jnullable JStr (bl_reason row))),
           (''createdAt'', Some (jint (bl_created_at row)))]"

definition list_opt_outs :: "tenant \<Rightarrow> compliance_db \<Rightarrow> json list" where
  "list_opt_outs tenant d =
     map block_json (sort_desc bl_created_at
       (filter (\<lambda>r. bl_tenant_id r = tenant \<and> bl_is_active r) (opt_outs d)))"

definition list_suppressions :: "tenant \<Rightarrow> compliance_db \<Rightarrow> json list" where
  "list_suppressions tenant d =
     map block_json (sort_desc bl_created_at
       (filter (\<lambda>r. bl_tenant_id r = tenant \<and> bl_is_active r) (suppressions d)))"

subsection \<open>A registered number stays refused\<close>

locale block_list =
  fixes register :: "'o \<Rightarrow> 's \<Rightarrow> 's"
    and entry :: "'o \<Rightarrow> 'k"
    and blocked :: "'k \<Rightarrow> 's \<Rightarrow> bool"
  assumes register_blocked: "blocked k (register op s) \<longleftrightarrow> k = entry op \<or> blocked k s"
begin

lemma blocked_fold: "blocked k (fold register ops s) \<longleftrightarrow> k \<in> entry ` set ops \<or> blocked k s"
  by (induction ops arbitrary: s) (auto simp: register_blocked)

lemma stays_blocked: "op \<in> set ops \<Longrightarrow> blocked (entry op) (fold register ops s)"
  by (auto simp: blocked_fold)

end

datatype registration = OptOut ctx tenant string "string option" | Suppression ctx tenant string "string option"

fun register_number :: "registration \<Rightarrow> compliance_db \<Rightarrow> compliance_db" where
  "register_number (OptOut c t p reason) d = create_opt_out c t p reason d"
| "register_number (Suppression c t p reason) d = create_suppression c t p reason d"

fun registered_entry :: "registration \<Rightarrow> tenant \<times> string" where
  "registered_entry (OptOut c t p reason) = (t, compliance_normalize p)"
| "registered_entry (Suppression c t p reason) = (t, compliance_normalize p)"

definition number_blocked :: "tenant \<times> string \<Rightarrow> compliance_db \<Rightarrow> bool" where
  "number_blocked k d \<longleftrightarrow>
     (\<exists>r \<in> set (opt_outs d) \<union> set (suppressions d). blocks (fst k) (snd k) r)"

lemma blocks_upsert:
  "(\<exists>r \<in> set (upsert_block c tenant number reason i rows). blocks t n r) \<longleftrightarrow>
   (t, n) = (tenant, number) \<or> (\<exists>r \<in> set rows. blocks t n r)"
  unfolding upsert_block_def blocks_def
  by (cases "(t, n) = (tenant, number)") (auto simp: bex_sql_update)

interpretation blocklist: block_list register_number registered_entry number_blocked
proof
  show "number_blocked k (register_number op s) \<longleftrightarrow> k = registered_entry op \<or> number_blocked k s"
    for k op s
    using blocks_upsert [of _ _ _ _ _ _ "fst k" "snd k"]
    by (cases k; cases op)
      (simp_all add: number_blocked_def create_opt_out_def create_suppression_def bex_Un, blast+)
qed

lemma assert_not_opted_out_iff:
  "assert_not_opted_out tenant p d = Inr () \<longleftrightarrow> \<not> number_blocked (tenant, compliance_normalize p) d"
  by (auto simp: assert_not_opted_out_def number_blocked_def Let_def filter_empty_conv)

lemma normalizations_agree: "normalize_phone_number p = Inr q \<Longrightarrow> compliance_normalize p = q"
  by (auto simp: normalize_phone_number_def compliance_normalize_def Let_def split: if_splits)

lemma compliance_normalize_normal:
  "normalize_phone_number p = Inr q \<Longrightarrow> compliance_normalize q = q"
proof -
  assume "normalize_phone_number p = Inr q"
  then have "starts_with q ''+''" "filter (\<lambda>c. is_digit c \<or> c = CHR ''+'') q = q"
    using digits_kept [of p q] by simp_all
  then show ?thesis by (simp add: compliance_normalize_def Let_def)
qed

text \<open>Once a number is registered as an opt-out or a suppression of a tenant, a submission to
  any spelling of it that the submission can normalise is refused for that tenant, whatever is
  registered before or after.\<close>

theorem registered_number_is_refused:
  assumes "op \<in> set ops" and "registered_entry op = (tenant, compliance_normalize p)"
    and "normalize_phone_number p = Inr q"
  shows "assert_not_opted_out tenant q (fold register_number ops d) =
    Inl (ForbiddenException ''Destination is blocked by opt-out or suppression policy'')"
proof -
  have "number_blocked (tenant, compliance_normalize q) (fold register_number ops d)"
    using blocklist.stays_blocked [OF assms(1)] assms(2,3)
    by (simp add: compliance_normalize_normal normalizations_agree)
  then have "assert_not_opted_out tenant q (fold register_number ops d) \<noteq> Inr ()"
    by (simp add: assert_not_opted_out_iff)
  then show ?thesis by (simp add: assert_not_opted_out_def Let_def split: if_splits)
qed

definition no_blocks :: compliance_db where
  "no_blocks = \<lparr>opt_outs = [], suppressions = [], next_block_id = 1\<rparr>"

theorem registered_number_is_refused_witness:
  "assert_not_opted_out ''ten1'' ''+251911234567''
     (fold register_number [OptOut ex_ctx ''ten1'' ''0911 234 567'' None, Suppression ex_ctx ''ten2'' ''+1'' None] no_blocks) =
   Inl (ForbiddenException ''Destination is blocked by opt-out or suppression policy'')"
  by (rule registered_number_is_refused [where op = "OptOut ex_ctx ''ten1'' ''0911 234 567'' None"
        and p = "''0911 234 567''"])
    (simp_all add: normalize_phone_number_def is_digit_def)

text \<open>An opt-out given without the plus sign of a foreign number is stored as it is, so it does
  not stop a message to that number: the two services normalise it differently.\<close>

theorem foreign_opt_out_without_plus_is_ignored:
  "assert_not_opted_out tenant ''+447700900123''
     (create_opt_out c tenant ''447700900123'' reason no_blocks) = Inr ()"
  by (simp add: assert_not_opted_out_iff number_blocked_def blocks_def create_opt_out_def
      upsert_block_def no_blocks_def compliance_normalize_def is_digit_def)

end
