(* ===== verification/SenderIds.thy ===== *)
theory SenderIds
  imports Tables
begin

text \<open>
  Sender names (\<open>sender-ids.service.ts\<close>): a tenant registers a name at a provider, an operator
  approves or rejects it, a submission asks whether it is approved. The table has at most one
  row per tenant, provider and name; the insert of a second one raises.
\<close>

record sender_row =
  sd_id :: int
  sd_tenant_id :: tenant
  sd_provider_id :: int
  sd_sender_name :: string
  sd_status :: string
  sd_rejection_reason :: "string option"
  sd_approved_at :: "time option"
  sd_created_at :: time
  sd_updated_at :: time

record sender_db =
  sender_rows :: "sender_row list"
  next_sender_id :: int

definition sender_key :: "sender_row \<Rightarrow> tenant \<times> int \<times> string" where
  "sender_key r = (sd_tenant_id r, sd_provider_id r, sd_sender_name r)"

definition create_sender :: "ctx \<Rightarrow> tenant \<Rightarrow> int \<Rightarrow> string \<Rightarrow> (sender_db, sender_row) tx" where
  "create_sender c tenant provider_id sender_name d =
     (if (tenant, provider_id, sender_name) \<in> set (map sender_key (sender_rows d))
      then Inl (DatabaseError ''duplicate key value violates unique constraint'')
      else
        (let row = \<lparr>sd_id = next_sender_id d, sd_tenant_id = tenant, sd_provider_id = provider_id,
                    sd_sender_name = sender_name, sd_status = ''pending'',
                    sd_rejection_reason = None, sd_approved_at = None,
                    sd_created_at = c_now c, sd_updated_at = c_now c\<rparr>
         in Inr (row, d\<lparr>sender_rows := sender_rows d @ [row],
                        next_sender_id := next_sender_id d + 1\<rparr>)))"

definition list_senders :: "tenant \<Rightarrow> sender_db \<Rightarrow> sender_row list" where
  "list_senders tenant d =
     sort_desc sd_created_at (filter (\<lambda>r. sd_tenant_id r = tenant) (sender_rows d))"

definition ensure_approved :: "tenant \<Rightarrow> string \<Rightarrow> int option \<Rightarrow> sender_db \<Rightarrow> unit result" where
  "ensure_approved tenant sender_name provider_id d =
     (case first_row (sort_desc sd_created_at
             (filter (\<lambda>r. sd_tenant_id r = tenant \<and> sd_sender_name r = sender_name \<and>
                sql_filter provider_id (\<lambda>p. sd_provider_id r = p)) (sender_rows d))) of
        None \<Rightarrow> Inl (NotFoundException ''Sender ID not registered'')
      | Some row \<Rightarrow>
          if sd_status row \<noteq> ''approved''
          then Inl (ForbiddenException (''Sender ID is not approved: '' @ sd_status row))
          else Inr ())"

definition review_sender ::
  "int \<Rightarrow> (sender_row \<Rightarrow> sender_row) \<Rightarrow> (sender_db, sender_row) tx" where
  "review_sender i f d =
     (case first_row (sql_returning (\<lambda>r. sd_id r = i) f (sender_rows d)) of
        None \<Rightarrow> Inl (NotFoundException ''Sender ID not found'')
      | Some row \<Rightarrow>
          Inr (row, d\<lparr>sender_rows := sql_update (\<lambda>r. sd_id r = i) f (sender_rows d)\<rparr>))"

definition approve_sender :: "ctx \<Rightarrow> int \<Rightarrow> (sender_db, sender_row) tx" where
  "approve_sender c i =
     review_sender i (\<lambda>r. r\<lparr>sd_status := ''approved'', sd_rejection_reason := None,
                            sd_approved_at := Some (c_now c), sd_updated_at := c_now c\<rparr>)"

definition reject_sender :: "ctx \<Rightarrow> int \<Rightarrow> string option \<Rightarrow> (sender_db, sender_row) tx" where
  "reject_sender c i reason =
     review_sender i (\<lambda>r. r\<lparr>sd_status := ''rejected'',
                            sd_rejection_reason := Some (coalesce reason ''Rejected during review''),
                            sd_approved_at := None, sd_updated_at := c_now c\<rparr>)"

definition sender_json :: "sender_row \<Rightarrow> json" where
  "sender_json row =
     jobj [(''id'', Some (jint (sd_id row))),
           (''tenantId'', Some (JStr (sd_tenant_id row))),
           (''providerId'', Some (jint (sd_provider_id row))),
           (''senderName'', Some (JStr (sd_sender_name row))),
           (''status'', Some (JStr (sd_status row))),
           (''rejectionReason'', Some (jnullable JStr (sd_rejection_reason row))),
           (''approvedAt'', Some (jnullable jint (sd_approved_at row))),
           (''createdAt'', Some (jint (sd_created_at row)))]"

subsection \<open>Only an approved name may send\<close>

definition senders_wf :: "sender_db \<Rightarrow> bool" where
  "senders_wf d \<longleftrightarrow>
     distinct (map sender_key (sender_rows d)) \<and> distinct (map sd_id (sender_rows d)) \<and>
     (\<forall>r \<in> set (sender_rows d). sd_id r < next_sender_id d \<and>
        sd_status r \<in> {''pending'', ''approved'', ''rejected''} \<and>
        (sd_status r = ''approved'' \<longleftrightarrow> sd_approved_at r \<noteq> None))"

lemma create_sender_wf:
  assumes "senders_wf d" and "create_sender c t p n d = Inr (row, d')"
  shows "senders_wf d'"
proof -
  have d': "sender_rows d' = sender_rows d @ [row]" "next_sender_id d' = next_sender_id d + 1"
    "sender_key row \<notin> set (map sender_key (sender_rows d))" "sd_id row = next_sender_id d"
    "sd_status row = ''pending''" "sd_approved_at row = None"
    using assms(2) by (auto simp: create_sender_def Let_def sender_key_def split: if_splits)
  have "sd_id row \<notin> set (map sd_id (sender_rows d))"
    using assms(1) d'(4) by (auto simp: senders_wf_def)
  with assms(1) d' show ?thesis by (auto simp: senders_wf_def)
qed

text \<open>A review is an update of one row that keeps its key and its identifier.\<close>

lemma review_senderE:
  assumes "senders_wf d" and "review_sender i f d = Inr (row, d')"
    and "\<And>r. sender_key (f r) = sender_key r \<and> sd_id (f r) = sd_id r \<and>
      sd_status (f r) \<in> {''approved'', ''rejected''} \<and>
      (sd_status (f r) = ''approved'' \<longleftrightarrow> sd_approved_at (f r) \<noteq> None)"
  obtains r where "r \<in> set (sender_rows d)" "sd_id r = i" "row = f r" "senders_wf d'"
    "row \<in> set (sender_rows d')"
proof -
  have d': "d' = d\<lparr>sender_rows := sql_update (\<lambda>r. sd_id r = i) f (sender_rows d)\<rparr>"
    and fr: "first_row (sql_returning (\<lambda>r. sd_id r = i) f (sender_rows d)) = Some row"
    using assms(2) by (auto simp: review_sender_def split: option.splits)
  from fr obtain r where r: "r \<in> set (sender_rows d)" "sd_id r = i" "row = f r"
    by (rule sql_returning_first)
  have "map sender_key (sender_rows d') = map sender_key (sender_rows d)"
    "map sd_id (sender_rows d') = map sd_id (sender_rows d)"
    unfolding d' using assms(3) by (simp_all add: map_sql_update)
  then have "senders_wf d'"
    using assms(1) assms(3) by (auto simp: senders_wf_def d' ball_sql_update)
  moreover have "row \<in> set (sender_rows d')"
    using r by (auto simp: d' set_sql_update)
  ultimately show thesis using that r by blast
qed

lemma ensure_approved_row:
  assumes "senders_wf d" and "row \<in> set (sender_rows d)"
  shows "ensure_approved (sd_tenant_id row) (sd_sender_name row) (Some (sd_provider_id row)) d =
    (if sd_status row = ''approved'' then Inr ()
     else Inl (ForbiddenException (''Sender ID is not approved: '' @ sd_status row)))"
proof -
  have "filter (\<lambda>r. sd_tenant_id r = sd_tenant_id row \<and> sd_sender_name r = sd_sender_name row \<and>
      sql_filter (Some (sd_provider_id row)) (\<lambda>p. sd_provider_id r = p)) (sender_rows d) =
    filter (\<lambda>r. sender_key r = sender_key row) (sender_rows d)"
    by (auto simp: sender_key_def intro: filter_cong)
  also have "\<dots> = [row]"
    using assms by (auto simp: senders_wf_def intro: distinct_key_filter)
  finally show ?thesis by (simp add: ensure_approved_def sort_desc_def)
qed

text \<open>The last review decides: after an approval a submission with the name at that provider
  passes, after a rejection it is refused, and a name that was only created is refused.\<close>

theorem review_decides:
  assumes "senders_wf d"
  shows "(approve_sender c i d = Inr (row, d1) \<longrightarrow>
      ensure_approved (sd_tenant_id row) (sd_sender_name row) (Some (sd_provider_id row)) d1 = Inr ()) \<and>
    (reject_sender c i reason d = Inr (row, d1) \<longrightarrow>
      (\<exists>e. ensure_approved (sd_tenant_id row) (sd_sender_name row) (Some (sd_provider_id row)) d1 = Inl e)) \<and>
    (create_sender c t p n d = Inr (row, d1) \<longrightarrow> (\<exists>e. ensure_approved t n (Some p) d1 = Inl e))"
proof (intro conjI impI)
  assume *: "approve_sender c i d = Inr (row, d1)"
  show "ensure_approved (sd_tenant_id row) (sd_sender_name row) (Some (sd_provider_id row)) d1 = Inr ()"
  proof (rule review_senderE [OF assms * [unfolded approve_sender_def]])
    fix r
    assume "senders_wf d1" "row \<in> set (sender_rows d1)"
      "row = r\<lparr>sd_status := ''approved'', sd_rejection_reason := None,
         sd_approved_at := Some (c_now c), sd_updated_at := c_now c\<rparr>"
    then show ?thesis using ensure_approved_row [of d1 row] by simp
  qed (simp_all add: sender_key_def)
next
  assume *: "reject_sender c i reason d = Inr (row, d1)"
  show "\<exists>e. ensure_approved (sd_tenant_id row) (sd_sender_name row) (Some (sd_provider_id row)) d1 = Inl e"
  proof (rule review_senderE [OF assms * [unfolded reject_sender_def]])
    fix r
    assume "senders_wf d1" "row \<in> set (sender_rows d1)"
      "row = r\<lparr>sd_status := ''rejected'',
         sd_rejection_reason := Some (coalesce reason ''Rejected during review''),
         sd_approved_at := None, sd_updated_at := c_now c\<rparr>"
    then show ?thesis using ensure_approved_row [of d1 row] by simp
  qed (simp_all add: sender_key_def)
next
  assume *: "create_sender c t p n d = Inr (row, d1)"
  then have "row \<in> set (sender_rows d1)" "sd_status row = ''pending''" "sd_tenant_id row = t"
    "sd_sender_name row = n" "sd_provider_id row = p"
    by (auto simp: create_sender_def Let_def split: if_splits)
  then show "\<exists>e. ensure_approved t n (Some p) d1 = Inl e"
    using ensure_approved_row [OF create_sender_wf [OF assms *], of row] by auto
qed

definition ex_senders :: sender_db where
  "ex_senders = \<lparr>sender_rows =
     [\<lparr>sd_id = 1, sd_tenant_id = ''ten1'', sd_provider_id = 3, sd_sender_name = ''MYAPP'',
       sd_status = ''pending'', sd_rejection_reason = None, sd_approved_at = None,
       sd_created_at = 5, sd_updated_at = 5\<rparr>], next_sender_id = 2\<rparr>"

theorem review_decides_witness:
  "ensure_approved ''ten1'' ''MYAPP'' (Some 3)
     (snd (projr (approve_sender \<lparr>c_now = 9, c_today = ''2025-11-18''\<rparr> 1 ex_senders))) = Inr ()"
proof -
  define r where "r = approve_sender \<lparr>c_now = 9, c_today = ''2025-11-18''\<rparr> 1 ex_senders"
  have r: "r = Inr (fst (projr r), snd (projr r))"
    "sd_tenant_id (fst (projr r)) = ''ten1''" "sd_sender_name (fst (projr r)) = ''MYAPP''"
    "sd_provider_id (fst (projr r)) = 3"
    by (simp_all add: r_def approve_sender_def review_sender_def ex_senders_def sql_returning_def)
  have "senders_wf ex_senders" by (simp add: senders_wf_def ex_senders_def)
  from review_decides [OF this, where c = "\<lparr>c_now = 9, c_today = ''2025-11-18''\<rparr>" and i = 1
      and row = "fst (projr r)" and ?d1.0 = "snd (projr r)"]
  show ?thesis using r by (simp flip: r_def)
qed

end
