(* ===== verification/Redis.thy ===== *)
theory Redis
  imports Services
begin

text \<open>
  The Redis store behind \<open>redis.service.ts\<close>: keys with values and an optional point of expiry,
  and the commands the services send (\<open>GET\<close>, \<open>SET\<close> with \<open>EX\<close> and \<open>NX\<close>, \<open>DEL\<close>, \<open>INCR\<close>,
  \<open>EXPIRE\<close>, and the reads and writes of the token-bucket script). A key whose expiry lies
  before the current time is absent, as Redis documents it. Times are milliseconds.

  The locale \<open>expiring_store\<close> is the contract the services use the store under; a key that is
  set \<open>NX\<close> with a lifetime is granted once per lifetime, and a cached value is what was cached.
  It is interpreted on the store of this theory. Numbers are exact rationals where Redis and
  Lua hold doubles.
\<close>

subsection \<open>The values the services store\<close>

datatype circuit_state = Closed | Open | HalfOpen

fun circuit_state_str :: "circuit_state \<Rightarrow> string" where
  "circuit_state_str Closed = ''closed''"
| "circuit_state_str Open = ''open''"
| "circuit_state_str HalfOpen = ''half_open''"

record circuit_snapshot =
  cs_state :: circuit_state
  cs_failure_count :: int
  cs_success_count :: int
  cs_last_changed_at :: time
  cs_next_probe_at :: "time option"
  cs_last_reason :: "string option"

record routing_rule =
  ru_id :: int
  ru_tenant_id :: "tenant option"
  ru_name :: string
  ru_country_code :: string
  ru_traffic_type :: string
  ru_provider_id :: int
  ru_smpp_config_id :: "int option"
  ru_preferred_protocol :: "protocol option"
  ru_priority :: int
  ru_weight :: int
  ru_max_tps :: "int option"
  ru_cost_rank :: int
  ru_failover_order :: int
  ru_is_active :: bool
  ru_updated_at :: time

record fraud_rule =
  fr_id :: int
  fr_tenant_id :: "tenant option"
  fr_name :: string
  fr_rule_type :: string
  fr_action :: string
  fr_values :: "string list"
  fr_is_active :: bool

datatype redis_value =
    SnapshotValue circuit_snapshot
  | BucketValue rat time \<comment> \<open>the hash fields \<open>tokens\<close> and \<open>updated_at\<close>\<close>
  | FlagValue string
  | CounterValue int
  | TierValue int
  | RoutingRulesValue "routing_rule list"
  | FraudRulesValue "fraud_rule list"
  | TenantPolicyValue int int

subsection \<open>Commands\<close>

type_synonym 'v store = "string \<Rightarrow> ('v \<times> time option) option"

definition alive :: "time \<Rightarrow> time option \<Rightarrow> bool" where
  "alive now expiry \<longleftrightarrow> (case expiry of None \<Rightarrow> True | Some e \<Rightarrow> now \<le> e)"

definition redis_get :: "time \<Rightarrow> string \<Rightarrow> 'v store \<Rightarrow> 'v option" where
  "redis_get now key s =
     (case s key of None \<Rightarrow> None | Some (v, expiry) \<Rightarrow> if alive now expiry then Some v else None)"

definition redis_set_ex :: "time \<Rightarrow> string \<Rightarrow> 'v \<Rightarrow> int \<Rightarrow> 'v store \<Rightarrow> 'v store" where
  "redis_set_ex now key v ttl_seconds s = s(key \<mapsto> (v, Some (now + ttl_seconds * 1000)))"

definition redis_del :: "string \<Rightarrow> 'v store \<Rightarrow> 'v store" where
  "redis_del key s = s(key := None)"

definition set_json :: "time \<Rightarrow> string \<Rightarrow> 'v \<Rightarrow> int option \<Rightarrow> 'v store \<Rightarrow> 'v store" where
  "set_json now key v ttl_seconds s =
     (if truthy_int ttl_seconds then redis_set_ex now key v (the ttl_seconds) s
      else s(key \<mapsto> (v, None)))"

text \<open>\<open>SET key value EX ttl NX\<close>: whether the key was set.\<close>

definition redis_set_nx :: "time \<Rightarrow> string \<Rightarrow> 'v \<Rightarrow> int \<Rightarrow> 'v store \<Rightarrow> bool \<times> 'v store" where
  "redis_set_nx now key v ttl_seconds s =
     (case redis_get now key s of
        None \<Rightarrow> (True, redis_set_ex now key v ttl_seconds s)
      | Some _ \<Rightarrow> (False, s))"

text \<open>\<open>INCR\<close>, and \<open>EXPIRE\<close> on the counter it created; \<open>INCR\<close> keeps the expiry of the key.\<close>

definition redis_expiry :: "time \<Rightarrow> string \<Rightarrow> 'v store \<Rightarrow> time option" where
  "redis_expiry now key s =
     (case s key of None \<Rightarrow> None | Some (v, expiry) \<Rightarrow> if alive now expiry then expiry else None)"

definition redis_incr :: "time \<Rightarrow> string \<Rightarrow> redis_value store \<Rightarrow> int \<times> redis_value store" where
  "redis_incr now key s =
     (let n = (case redis_get now key s of Some (CounterValue i) \<Rightarrow> i + 1 | _ \<Rightarrow> 1)
      in (n, s(key \<mapsto> (CounterValue n, redis_expiry now key s))))"

definition redis_expire :: "time \<Rightarrow> string \<Rightarrow> int \<Rightarrow> 'v store \<Rightarrow> 'v store" where
  "redis_expire now key ttl_seconds s =
     (case redis_get now key s of
        None \<Rightarrow> s
      | Some v \<Rightarrow> s(key \<mapsto> (v, Some (now + ttl_seconds * 1000))))"

text \<open>The counter of one minute: \<open>incr\<close>, and \<open>expire\<close> when it is new.\<close>

definition count_in_window :: "time \<Rightarrow> string \<Rightarrow> int \<Rightarrow> redis_value store \<Rightarrow> int \<times> redis_value store" where
  "count_in_window now key ttl_seconds s =
     (let (n, s1) = redis_incr now key s
      in if n = 1 then (n, redis_expire now key ttl_seconds s1) else (n, s1))"

subsection \<open>The contract of the store\<close>

locale expiring_store =
  fixes get :: "time \<Rightarrow> string \<Rightarrow> 's \<Rightarrow> 'v option"
    and set_ex :: "time \<Rightarrow> string \<Rightarrow> 'v \<Rightarrow> int \<Rightarrow> 's \<Rightarrow> 's"
    and del :: "string \<Rightarrow> 's \<Rightarrow> 's"
  assumes get_set_same:
      "get later key (set_ex now key v ttl s) = (if later \<le> now + ttl * 1000 then Some v else None)"
    and get_set_other: "k \<noteq> key \<Longrightarrow> get later k (set_ex now key v ttl s) = get later k s"
    and get_del_same: "get later key (del key s) = None"
    and get_del_other: "k \<noteq> key \<Longrightarrow> get later k (del key s) = get later k s"
    and get_expires: "get now key s = None \<Longrightarrow> now \<le> later \<Longrightarrow> get later key s = None"
begin

text \<open>A key that is set only when it is absent.\<close>

definition claim :: "time \<Rightarrow> string \<Rightarrow> 'v \<Rightarrow> int \<Rightarrow> 's \<Rightarrow> bool \<times> 's" where
  "claim now key v ttl s =
     (case get now key s of None \<Rightarrow> (True, set_ex now key v ttl s) | Some _ \<Rightarrow> (False, s))"

lemma claim_once:
  assumes "claim now key v ttl s = (True, s')" and "later \<le> now + ttl * 1000"
  shows "claim later key v' ttl' s' = (False, s')"
  using assms by (auto simp: claim_def get_set_same split: option.splits)

lemma claim_again:
  assumes "claim now key v ttl s = (True, s')" and "now + ttl * 1000 < later"
  shows "fst (claim later key v' ttl' s')"
  using assms by (auto simp: claim_def get_set_same split: option.splits)

text \<open>A read-through cache of a source.\<close>

definition read_through :: "time \<Rightarrow> string \<Rightarrow> int \<Rightarrow> 'v \<Rightarrow> 's \<Rightarrow> 'v \<times> 's" where
  "read_through now key ttl source s =
     (case get now key s of Some v \<Rightarrow> (v, s) | None \<Rightarrow> (source, set_ex now key source ttl s))"

lemma read_through_miss: "get now key s = None \<Longrightarrow> fst (read_through now key ttl source s) = source"
  by (simp add: read_through_def)

lemma read_through_deleted: "fst (read_through now key ttl source (del key s)) = source"
  by (simp add: read_through_def get_del_same)

text \<open>What a cache answers is the source, as it was read at most the lifetime ago.\<close>

lemma read_through_stale:
  assumes "get now key s = None" and "read_through now key ttl source s = (v, s')"
  shows "fst (read_through later key ttl source' s') =
    (if later \<le> now + ttl * 1000 then source else source')"
  using assms by (auto simp: read_through_def get_set_same)

end

lemma redis_get_set_ex:
  "redis_get later k (redis_set_ex now key v ttl s) =
     (if k = key then if later \<le> now + ttl * 1000 then Some v else None else redis_get later k s)"
  by (simp add: redis_get_def redis_set_ex_def alive_def)

lemma redis_get_del: "redis_get later k (redis_del key s) = (if k = key then None else redis_get later k s)"
  by (simp add: redis_get_def redis_del_def)

lemma redis_get_expires: "redis_get now key s = None \<Longrightarrow> now \<le> later \<Longrightarrow> redis_get later key s = None"
  by (auto simp: redis_get_def alive_def split: option.splits prod.splits if_splits)

interpretation redis: expiring_store redis_get redis_set_ex redis_del
  by unfold_locales (simp_all add: redis_get_set_ex redis_get_del redis_get_expires)

lemma redis_set_nx_claim: "redis_set_nx = redis.claim"
  by (simp add: fun_eq_iff redis_set_nx_def redis.claim_def)

lemma set_json_get:
  "0 < ttl \<Longrightarrow> redis_get later k (set_json now key v (Some ttl) s) =
     (if k = key then if later \<le> now + ttl * 1000 then Some v else None else redis_get later k s)"
  by (simp add: set_json_def redis_get_set_ex)

lemma set_json_other: "k \<noteq> key \<Longrightarrow> redis_get later k (set_json now key v ttl s) = redis_get later k s"
  by (simp add: set_json_def redis_get_set_ex) (simp add: redis_get_def)

lemma redis_get_empty [simp]: "redis_get now k (\<lambda>_. None) = None"
  by (simp add: redis_get_def)

end
