(* ===== verification/RateLimit.thy ===== *)
theory RateLimit
  imports Redis
begin

text \<open>
  The rate limiter of \<open>rate-limit.service.ts\<close>: the token-bucket script \<open>TOKEN_BUCKET_LUA\<close>,
  \<open>consumeTokens\<close>, \<open>enforceLimit\<close>, \<open>enforceDailyQuota\<close> and \<open>classifyScope\<close>.

  A bucket refills continuously, so over any interval it grants at most its capacity plus what
  the interval refills. The lifetime the service gives the key is long enough: a bucket that
  expired would have been full again.
\<close>

subsection \<open>The script\<close>

record bucket_config =
  bk_capacity :: int
  bk_refill_tokens :: int
  bk_refill_period_ms :: int

definition refill_rate :: "bucket_config \<Rightarrow> rat" where
  "refill_rate k = of_int (bk_refill_tokens k) / of_int (bk_refill_period_ms k)"

text \<open>The tokens when the script starts to decide.\<close>

definition refilled :: "bucket_config \<Rightarrow> time \<Rightarrow> (rat \<times> time) option \<Rightarrow> rat" where
  "refilled k now bucket =
     (case bucket of
        None \<Rightarrow> of_int (bk_capacity k)
      | Some (tokens, updated_at) \<Rightarrow>
          if updated_at < now
          then min (of_int (bk_capacity k))
                 (tokens + of_int (now - updated_at) / of_int (bk_refill_period_ms k)
                    * of_int (bk_refill_tokens k))
          else tokens)"

record bucket_result =
  br_allowed :: bool
  br_remaining_tokens :: rat
  br_retry_after_ms :: int

definition token_bucket ::
  "bucket_config \<Rightarrow> int \<Rightarrow> time \<Rightarrow> (rat \<times> time) option \<Rightarrow> bucket_result" where
  "token_bucket k requested now bucket =
     (let tokens = refilled k now bucket
      in if of_int requested \<le> tokens
         then \<lparr>br_allowed = True, br_remaining_tokens = tokens - of_int requested, br_retry_after_ms = 0\<rparr>
         else \<lparr>br_allowed = False, br_remaining_tokens = tokens,
               br_retry_after_ms =
                 \<lceil>((of_int requested - tokens) / of_int (bk_refill_tokens k)) * of_int (bk_refill_period_ms k)\<rceil>\<rparr>)"

subsection \<open>The service\<close>

definition bucket_ttl_ms :: "bucket_config \<Rightarrow> int" where
  "bucket_ttl_ms k =
     max (bk_refill_period_ms k)
       \<lceil>((of_int (bk_capacity k) :: rat) / of_int (bk_refill_tokens k)) * of_int (bk_refill_period_ms k)\<rceil>"

definition stored_bucket :: "time \<Rightarrow> string \<Rightarrow> redis_value store \<Rightarrow> (rat \<times> time) option" where
  "stored_bucket now key s =
     (case redis_get now key s of Some (BucketValue tokens updated_at) \<Rightarrow> Some (tokens, updated_at) | _ \<Rightarrow> None)"

definition consume_tokens ::
  "time \<Rightarrow> string \<Rightarrow> bucket_config \<Rightarrow> int \<Rightarrow> (redis_value store, bucket_result) io" where
  "consume_tokens now key k amount s =
     (if bk_capacity k \<le> 0 \<or> bk_refill_tokens k \<le> 0 \<or> bk_refill_period_ms k \<le> 0
      then (Inl (InternalServerErrorException (''Invalid token bucket configuration for '' @ key)), s)
      else
        (let result = token_bucket k amount now (stored_bucket now key s)
         in (Inr result,
             s(key \<mapsto> (BucketValue (br_remaining_tokens result) now, Some (now + bucket_ttl_ms k))))))"

definition too_many_requests :: "string \<Rightarrow> bucket_result \<Rightarrow> exn" where
  "too_many_requests key result =
     TooManyRequests (''Rate limit exceeded for '' @ key @ ''. Retry after '' @
       int_str (max 1 \<lceil>(of_int (br_retry_after_ms result) :: rat) / 1000\<rceil>) @ '' seconds'')"

definition enforce_bucket ::
  "time \<Rightarrow> string \<Rightarrow> bucket_config \<Rightarrow> int \<Rightarrow> (redis_value store, rat) io" where
  "enforce_bucket now key k amount =
     io_bind (consume_tokens now key k amount) (\<lambda>result.
       if br_allowed result then io_return (br_remaining_tokens result)
       else io_throw (too_many_requests key result))"

definition enforce_limit :: "time \<Rightarrow> string \<Rightarrow> int \<Rightarrow> int \<Rightarrow> int \<Rightarrow> (redis_value store, rat) io" where
  "enforce_limit now key limit ttl_seconds amount =
     enforce_bucket now key
       \<lparr>bk_capacity = limit, bk_refill_tokens = limit, bk_refill_period_ms = ttl_seconds * 1000\<rparr> amount"

definition enforce_daily_quota :: "time \<Rightarrow> string \<Rightarrow> int \<Rightarrow> (redis_value store, rat) io" where
  "enforce_daily_quota now key limit =
     enforce_bucket now key
       \<lparr>bk_capacity = limit, bk_refill_tokens = limit, bk_refill_period_ms = 24 * 60 * 60 * 1000\<rparr> 1"

definition classify_scope :: "string \<Rightarrow> string" where
  "classify_scope key =
     (if starts_with key ''rl:tenant:'' \<and> js_includes key '':api:'' then ''tenant_api''
      else if starts_with key ''rl:key:'' then ''api_key_api''
      else if starts_with key ''rl:tenant:'' \<and> js_includes key '':submit:'' then ''tenant_submit''
      else if starts_with key ''rl:provider:'' \<and> js_includes key '':session:'' then ''provider_session''
      else if starts_with key ''rl:provider:'' \<and> js_includes key '':global'' then ''provider_global''
      else ''generic'')"

subsection \<open>The bucket as a counter\<close>

definition config_ok :: "bucket_config \<Rightarrow> bool" where
  "config_ok k \<longleftrightarrow> 0 < bk_capacity k \<and> 0 < bk_refill_tokens k \<and> 0 < bk_refill_period_ms k"

definition bucket_ok :: "bucket_config \<Rightarrow> (rat \<times> time) option \<Rightarrow> bool" where
  "bucket_ok k bucket \<longleftrightarrow>
     (case bucket of None \<Rightarrow> True
      | Some (tokens, _) \<Rightarrow> 0 \<le> tokens \<and> tokens \<le> of_int (bk_capacity k))"

lemma refill_rate_pos: "config_ok k \<Longrightarrow> 0 < refill_rate k"
  by (simp add: config_ok_def refill_rate_def)

lemma refilled_Some:
  "refilled k now (Some (tokens, updated_at)) =
     (if updated_at < now
      then min (of_int (bk_capacity k)) (tokens + of_int (now - updated_at) * refill_rate k)
      else tokens)"
  by (simp add: refilled_def refill_rate_def)

lemma refilled_None: "refilled k now None = of_int (bk_capacity k)"
  by (simp add: refilled_def)

lemma refilled_bounds:
  assumes "config_ok k" and "bucket_ok k bucket"
  shows "0 \<le> refilled k now bucket" "refilled k now bucket \<le> of_int (bk_capacity k)"
proof -
  have "0 \<le> of_int (now - u) * refill_rate k" if "u < now" for u
    using that refill_rate_pos [OF assms(1)] by simp
  then show "0 \<le> refilled k now bucket" "refilled k now bucket \<le> of_int (bk_capacity k)"
    using assms
    by (cases bucket; force simp: refilled_Some refilled_def bucket_ok_def config_ok_def min_def)+
qed

lemma token_bucket_ok:
  assumes "config_ok k" and "bucket_ok k bucket" and "0 \<le> amount"
  shows "bucket_ok k (Some (br_remaining_tokens (token_bucket k amount now bucket), now))"
proof -
  have "(0 :: rat) \<le> of_int amount" using assms(3) by simp
  then show ?thesis
    using refilled_bounds [OF assms(1,2), of now]
    by (auto simp: token_bucket_def Let_def bucket_ok_def)
qed

text \<open>A request sequence against one bucket: the granted amount and the last bucket.\<close>

fun grants ::
  "bucket_config \<Rightarrow> (time \<times> int) list \<Rightarrow> (rat \<times> time) option \<Rightarrow> int \<times> (rat \<times> time) option" where
  "grants k [] bucket = (0, bucket)"
| "grants k ((now, amount) # requests) bucket =
     (let result = token_bucket k amount now bucket;
          (granted, last_bucket) = grants k requests (Some (br_remaining_tokens result, now))
      in ((if br_allowed result then amount else 0) + granted, last_bucket))"

fun last_time :: "time \<Rightarrow> (time \<times> int) list \<Rightarrow> time" where
  "last_time t [] = t"
| "last_time t ((now, _) # requests) = last_time now requests"

lemma grants_bound_from:
  assumes "config_ok k" and "0 \<le> tokens" and "tokens \<le> of_int (bk_capacity k)"
    and "\<forall>r \<in> set requests. 0 \<le> snd r" and "sorted (map fst requests)"
    and "\<forall>r \<in> set requests. t \<le> fst r"
  shows "of_int (fst (grants k requests (Some (tokens, t)))) \<le>
    tokens + refill_rate k * of_int (last_time t requests - t)"
  using assms(2-6)
proof (induction requests arbitrary: tokens t)
  case Nil
  then show ?case by simp
next
  case (Cons r requests)
  obtain now amount where r: "r = (now, amount)" by fastforce
  define result where "result = token_bucket k amount now (Some (tokens, t))"
  define rest where "rest = fst (grants k requests (Some (br_remaining_tokens result, now)))"
  have ok: "bucket_ok k (Some (tokens, t))" using Cons.prems by (simp add: bucket_ok_def)
  have "bucket_ok k (Some (br_remaining_tokens result, now))"
    unfolding result_def using Cons.prems(3) r by (intro token_bucket_ok assms(1) ok) simp
  then have rest: "of_int rest \<le> br_remaining_tokens result + refill_rate k * of_int (last_time now requests - now)"
    unfolding rest_def using Cons.prems r by (intro Cons.IH) (auto simp: bucket_ok_def)
  have "t \<le> now" using Cons.prems(5) r by simp
  then have "refilled k now (Some (tokens, t)) \<le> tokens + refill_rate k * of_int (now - t)"
    by (auto simp: refilled_Some min_def mult.commute)
  then have spent: "br_remaining_tokens result + of_int (if br_allowed result then amount else 0) \<le>
      tokens + refill_rate k * of_int (now - t)"
    by (simp add: result_def token_bucket_def Let_def)
  have "fst (grants k (r # requests) (Some (tokens, t))) = (if br_allowed result then amount else 0) + rest"
    by (simp add: r result_def rest_def Let_def split: prod.split)
  moreover have "last_time t (r # requests) = last_time now requests" by (simp add: r)
  moreover have "refill_rate k * of_int (last_time now requests - t) =
      refill_rate k * of_int (now - t) + refill_rate k * of_int (last_time now requests - now)"
    by (simp add: algebra_simps)
  ultimately show ?case using rest spent by simp
qed

text \<open>C24: over any sequence of requests at non-decreasing times a bucket grants at most its capacity
  plus what it refills between the first and the last of them.\<close>

theorem granted_tokens_bounded:
  assumes "config_ok k" and "bucket_ok k bucket"
    and "sorted (map fst ((t, amount) # requests))" and "\<forall>r \<in> set ((t, amount) # requests). 0 \<le> snd r"
  shows "of_int (fst (grants k ((t, amount) # requests) bucket)) \<le>
      of_int (bk_capacity k) + refill_rate k * of_int (last_time t requests - t)"
proof -
  define result where "result = token_bucket k amount t bucket"
  have level: "bucket_ok k (Some (br_remaining_tokens result, t))"
    unfolding result_def using assms by (intro token_bucket_ok) simp_all
  have "of_int (fst (grants k requests (Some (br_remaining_tokens result, t)))) \<le>
      br_remaining_tokens result + refill_rate k * of_int (last_time t requests - t)"
    using level assms by (intro grants_bound_from) (auto simp: bucket_ok_def)
  moreover have "br_remaining_tokens result + of_int (if br_allowed result then amount else 0) \<le>
      of_int (bk_capacity k)"
    using refilled_bounds [OF assms(1,2), of t] by (simp add: result_def token_bucket_def Let_def)
  moreover have "fst (grants k ((t, amount) # requests) bucket) =
      (if br_allowed result then amount else 0) + fst (grants k requests (Some (br_remaining_tokens result, t)))"
    by (simp add: result_def Let_def split: prod.split)
  ultimately show ?thesis by simp
qed

definition ex_bucket :: bucket_config where
  "ex_bucket = \<lparr>bk_capacity = 10, bk_refill_tokens = 10, bk_refill_period_ms = 1000\<rparr>"

theorem granted_tokens_bounded_witness:
  "(of_int (fst (grants ex_bucket [(0, 1), (500, 4)] None)) :: rat) \<le> 15"
  using granted_tokens_bounded [of ex_bucket None 0 1 "[(500, 4)]"]
  by (simp add: ex_bucket_def config_ok_def bucket_ok_def refill_rate_def)

subsection \<open>Expiry\<close>

lemma bucket_ttl_full:
  assumes "config_ok k" and "bucket_ttl_ms k < now - t" and "0 \<le> tokens"
  shows "of_int (bk_capacity k) \<le> tokens + of_int (now - t) * refill_rate k"
proof -
  have pos: "(0 :: rat) < of_int (bk_refill_tokens k)" "(0 :: rat) < of_int (bk_refill_period_ms k)"
    using assms(1) by (simp_all add: config_ok_def)
  define x where "x = (of_int (bk_capacity k) :: rat) / of_int (bk_refill_tokens k) * of_int (bk_refill_period_ms k)"
  have "x \<le> of_int \<lceil>x\<rceil>" by (rule le_of_int_ceiling)
  also have "(of_int \<lceil>x\<rceil> :: rat) \<le> of_int (now - t)"
    using assms(2) by (simp add: bucket_ttl_ms_def x_def)
  finally have "x * refill_rate k \<le> of_int (now - t) * refill_rate k"
    using refill_rate_pos [OF assms(1)] by (intro mult_right_mono) simp_all
  moreover have "x * refill_rate k = of_int (bk_capacity k)"
    using pos by (simp add: x_def refill_rate_def field_simps)
  ultimately show ?thesis using assms(3) by simp
qed

text \<open>The lifetime of the key is invisible: at every later time a bucket that may have expired in
  the meantime offers exactly the tokens it would offer if keys never expired.\<close>

theorem bucket_expiry_is_invisible:
  assumes "config_ok k" and "bucket_ok k (stored_bucket t key s)" and "0 \<le> amount"
    and "consume_tokens t key k amount s = (Inr result, s')" and "t \<le> now"
  shows "refilled k now (stored_bucket now key s') = refilled k now (Some (br_remaining_tokens result, t))"
proof -
  have result: "result = token_bucket k amount t (stored_bucket t key s)"
    and s': "s' = s(key \<mapsto> (BucketValue (br_remaining_tokens result) t, Some (t + bucket_ttl_ms k)))"
    using assms(1,4) by (auto simp: consume_tokens_def config_ok_def Let_def)
  have level: "0 \<le> br_remaining_tokens result"
    using token_bucket_ok [OF assms(1-3), of t] by (simp add: result bucket_ok_def)
  show ?thesis
  proof (cases "now \<le> t + bucket_ttl_ms k")
    case True
    then show ?thesis by (simp add: s' stored_bucket_def redis_get_def alive_def)
  next
    case False
    then have "of_int (bk_capacity k) \<le> br_remaining_tokens result + of_int (now - t) * refill_rate k"
      using bucket_ttl_full [OF assms(1) _ level] by simp
    moreover have "t < now"
    proof -
      have "0 < bucket_ttl_ms k" using assms(1) by (simp add: bucket_ttl_ms_def config_ok_def less_max_iff_disj)
      with False show ?thesis by simp
    qed
    moreover have "stored_bucket now key s' = None"
      using False by (simp add: s' stored_bucket_def redis_get_def alive_def)
    ultimately show ?thesis by (simp add: refilled_Some refilled_None)
  qed
qed

theorem bucket_expiry_is_invisible_witness:
  "\<exists>result s'. consume_tokens 0 ''rl'' ex_bucket 4 Map.empty = (Inr result, s') \<and>
     refilled ex_bucket 5000 (stored_bucket 5000 ''rl'' s') =
       refilled ex_bucket 5000 (Some (br_remaining_tokens result, 0))"
proof -
  have "\<exists>result s'. consume_tokens 0 ''rl'' ex_bucket 4 Map.empty = (Inr result, s')"
    by (simp add: consume_tokens_def ex_bucket_def Let_def)
  then obtain result s' where c: "consume_tokens 0 ''rl'' ex_bucket 4 Map.empty = (Inr result, s')"
    by blast
  have k: "config_ok ex_bucket" by (simp add: config_ok_def ex_bucket_def)
  show ?thesis
    using bucket_expiry_is_invisible [OF k _ _ c, of 5000] c
    by (auto simp: stored_bucket_def redis_get_def bucket_ok_def)
qed

subsection \<open>The daily quota\<close>

definition day_ms :: int where
  "day_ms = 24 * 60 * 60 * 1000"

text \<open>The daily quota is not a daily count: a key whose quota is used up is granted another request
  as soon as its share of the day has passed, so within the same day up to twice the limit
  passes.\<close>

theorem quota_refills_within_day:
  assumes "stored_bucket now key s = Some (0, t)" and "0 < limit" and "t < now"
  shows "(\<exists>left s'. enforce_daily_quota now key limit s = (Inr left, s')) \<longleftrightarrow> day_ms \<le> limit * (now - t)"
proof -
  define k where "k = \<lparr>bk_capacity = limit, bk_refill_tokens = limit, bk_refill_period_ms = 24 * 60 * 60 * 1000\<rparr>"
  have level: "refilled k now (Some (0, t)) = min (of_int limit) (of_int (limit * (now - t)) / of_int day_ms)"
    using assms(3) by (simp add: refilled_def k_def day_ms_def mult.commute)
  have "(1 :: rat) \<le> of_int limit" using assms(2) by simp
  then have "1 \<le> refilled k now (Some (0, t)) \<longleftrightarrow> 1 \<le> (of_int (limit * (now - t)) :: rat) / of_int day_ms"
    by (simp add: level)
  also have "\<dots> \<longleftrightarrow> day_ms \<le> limit * (now - t)"
    by (simp add: day_ms_def le_divide_eq del: of_int_mult of_int_diff)
  finally show ?thesis
    using assms(1,2)
    by (auto simp: enforce_daily_quota_def enforce_bucket_def consume_tokens_def io_bind_def k_def [symmetric]
        token_bucket_def Let_def io_return_def io_throw_def) (simp_all add: k_def)
qed

theorem quota_refills_within_day_witness:
  "\<exists>left s'. enforce_daily_quota 43200000 ''quota'' 2
     (Map.empty(''quota'' \<mapsto> (BucketValue 0 0, Some 86400000))) = (Inr left, s')"
  using quota_refills_within_day [of 43200000 "''quota''"
      "Map.empty(''quota'' \<mapsto> (BucketValue 0 0, Some 86400000))" 0 2]
  by (simp add: stored_bucket_def redis_get_def alive_def day_ms_def)

end
