(* ===== verification/Circuit.thy ===== *)
theory Circuit
  imports Redis
begin

text \<open>
  The circuit breaker of \<open>circuit-breaker.service.ts\<close>: a snapshot per provider in Redis, which
  failures open, a success closes, and a probe may half-open. Every operation takes the time
  \<open>now\<close> at which it runs.

  The snapshot is stored with a lifetime. The lifetime of an open circuit ends when its probe is
  due, so the snapshot is gone when the probe would be made and the circuit falls back to the
  default, closed: the half-open state is entered in a single millisecond only.
\<close>

record circuit_config =
  cc_failure_threshold :: int
  cc_open_seconds :: int
  cc_half_open_probe_seconds :: int

definition circuit_key :: "int \<Rightarrow> string" where
  "circuit_key provider_id = ''circuit:provider:'' @ int_str provider_id"

definition probe_key :: "int \<Rightarrow> string" where
  "probe_key provider_id = ''circuit:provider:'' @ int_str provider_id @ '':probe''"

definition default_snapshot :: "time \<Rightarrow> circuit_snapshot" where
  "default_snapshot now =
     \<lparr>cs_state = Closed, cs_failure_count = 0, cs_success_count = 0, cs_last_changed_at = now,
      cs_next_probe_at = None, cs_last_reason = None\<rparr>"

definition calculate_snapshot_ttl_seconds :: "circuit_config \<Rightarrow> time \<Rightarrow> circuit_snapshot \<Rightarrow> int" where
  "calculate_snapshot_ttl_seconds cfg now snapshot =
     (if cs_state snapshot = Closed then max (cc_open_seconds cfg) (cc_half_open_probe_seconds cfg)
      else case cs_next_probe_at snapshot of
             Some next_probe \<Rightarrow> max 1 \<lceil>(of_int (next_probe - now) :: rat) / 1000\<rceil>
           | None \<Rightarrow> if cs_state snapshot = HalfOpen then cc_half_open_probe_seconds cfg
                    else cc_open_seconds cfg)"

definition persist_snapshot ::
  "circuit_config \<Rightarrow> time \<Rightarrow> int \<Rightarrow> circuit_snapshot \<Rightarrow> redis_value store \<Rightarrow> redis_value store" where
  "persist_snapshot cfg now provider_id snapshot s =
     set_json now (circuit_key provider_id) (SnapshotValue snapshot)
       (Some (calculate_snapshot_ttl_seconds cfg now snapshot)) s"

definition get_snapshot :: "time \<Rightarrow> int \<Rightarrow> redis_value store \<Rightarrow> circuit_snapshot" where
  "get_snapshot now provider_id s =
     (case redis_get now (circuit_key provider_id) s of
        Some (SnapshotValue snapshot) \<Rightarrow> snapshot
      | _ \<Rightarrow> default_snapshot now)"

definition get_state :: "time \<Rightarrow> int \<Rightarrow> redis_value store \<Rightarrow> circuit_state" where
  "get_state now provider_id s = cs_state (get_snapshot now provider_id s)"

text \<open>\<open>ttl_seconds\<close> is the argument of \<open>setState\<close>, \<open>openSeconds\<close> by default.\<close>

definition set_state ::
  "circuit_config \<Rightarrow> time \<Rightarrow> int \<Rightarrow> circuit_state \<Rightarrow> int option \<Rightarrow> string option \<Rightarrow> redis_value store \<Rightarrow>
   circuit_snapshot \<times> redis_value store" where
  "set_state cfg now provider_id state ttl reason s =
     (let ttl_seconds = coalesce ttl (cc_open_seconds cfg);
          snapshot =
            \<lparr>cs_state = state,
             cs_failure_count = (if state = Closed then 0 else 1),
             cs_success_count = (if state = Closed then 1 else 0),
             cs_last_changed_at = now,
             cs_next_probe_at = (if state = Open then Some (now + ttl_seconds * 1000) else None),
             cs_last_reason = reason\<rparr>
      in (snapshot,
          set_json now (circuit_key provider_id) (SnapshotValue snapshot)
            (Some (max ttl_seconds (calculate_snapshot_ttl_seconds cfg now snapshot))) s))"

definition register_failure ::
  "circuit_config \<Rightarrow> time \<Rightarrow> int \<Rightarrow> string option \<Rightarrow> redis_value store \<Rightarrow>
   circuit_snapshot \<times> redis_value store" where
  "register_failure cfg now provider_id reason s =
     (let snapshot = get_snapshot now provider_id s;
          failure_count = cs_failure_count snapshot + 1;
          next_state = (if cc_failure_threshold cfg \<le> failure_count then Open else cs_state snapshot);
          next_snapshot =
            \<lparr>cs_state = next_state,
             cs_failure_count = failure_count,
             cs_success_count = 0,
             cs_last_changed_at = now,
             cs_next_probe_at =
               (if next_state = Open then Some (now + cc_open_seconds cfg * 1000)
                else cs_next_probe_at snapshot),
             cs_last_reason = reason\<rparr>
      in (next_snapshot, persist_snapshot cfg now provider_id next_snapshot s))"

definition register_success ::
  "circuit_config \<Rightarrow> time \<Rightarrow> int \<Rightarrow> redis_value store \<Rightarrow> circuit_snapshot \<times> redis_value store" where
  "register_success cfg now provider_id s =
     (let next_snapshot =
            \<lparr>cs_state = Closed, cs_failure_count = 0, cs_success_count = 1, cs_last_changed_at = now,
             cs_next_probe_at = None, cs_last_reason = None\<rparr>
      in (next_snapshot,
          redis_del (probe_key provider_id) (persist_snapshot cfg now provider_id next_snapshot s)))"

definition probe_due :: "time \<Rightarrow> circuit_snapshot \<Rightarrow> bool" where
  "probe_due now snapshot \<longleftrightarrow>
     cs_state snapshot = Open \<and>
     (case cs_next_probe_at snapshot of None \<Rightarrow> False | Some t \<Rightarrow> t \<le> now)"

definition half_opened :: "circuit_config \<Rightarrow> time \<Rightarrow> circuit_snapshot \<Rightarrow> circuit_snapshot" where
  "half_opened cfg now snapshot =
     snapshot\<lparr>cs_state := HalfOpen, cs_last_changed_at := now,
              cs_next_probe_at := Some (now + cc_half_open_probe_seconds cfg * 1000)\<rparr>"

definition allow_dispatch ::
  "circuit_config \<Rightarrow> time \<Rightarrow> int \<Rightarrow> redis_value store \<Rightarrow> bool \<times> redis_value store" where
  "allow_dispatch cfg now provider_id s =
     (let snapshot = get_snapshot now provider_id s in
      if cs_state snapshot = Closed then (True, s)
      else
        (let s1 = (if probe_due now snapshot
                   then persist_snapshot cfg now provider_id (half_opened cfg now snapshot) s else s);
             latest = get_snapshot now provider_id s1
         in if cs_state latest = Closed then (True, s1)
            else if cs_state latest = Open then (False, s1)
            else redis_set_nx now (probe_key provider_id) (FlagValue ''1'')
                   (cc_half_open_probe_seconds cfg) s1))"

text \<open>The warm start: the rows of \<open>provider_circuit_state\<close> of active providers.\<close>

definition hydrate :: "circuit_config \<Rightarrow> time \<Rightarrow> int \<times> circuit_snapshot \<Rightarrow> redis_value store \<Rightarrow> redis_value store"
where
  "hydrate cfg now row s =
     (case redis_get now (circuit_key (fst row)) s of
        Some (SnapshotValue existing) \<Rightarrow>
          if cs_last_changed_at (snd row) \<le> cs_last_changed_at existing then s
          else persist_snapshot cfg now (fst row) (snd row) s
      | _ \<Rightarrow> persist_snapshot cfg now (fst row) (snd row) s)"

definition warm_start ::
  "circuit_config \<Rightarrow> time \<Rightarrow> (int \<times> circuit_snapshot) list \<Rightarrow> redis_value store \<Rightarrow> redis_value store" where
  "warm_start cfg now rows s = fold (hydrate cfg now) rows s"

subsection \<open>Reading back a snapshot\<close>

definition circuit_config_ok :: "circuit_config \<Rightarrow> bool" where
  "circuit_config_ok cfg \<longleftrightarrow>
     0 < cc_failure_threshold cfg \<and> 0 < cc_open_seconds cfg \<and> 0 < cc_half_open_probe_seconds cfg"

lemma ttl_pos: "circuit_config_ok cfg \<Longrightarrow> 0 < calculate_snapshot_ttl_seconds cfg now snapshot"
  by (auto simp: calculate_snapshot_ttl_seconds_def circuit_config_ok_def less_max_iff_disj
      split: option.splits)

lemma get_persisted:
  assumes "circuit_config_ok cfg"
  shows "get_snapshot later p (persist_snapshot cfg now p snapshot s) =
    (if later \<le> now + calculate_snapshot_ttl_seconds cfg now snapshot * 1000 then snapshot
     else default_snapshot later)"
  using ttl_pos [OF assms, of now snapshot]
  by (simp add: get_snapshot_def persist_snapshot_def set_json_get)

lemma circuit_keys_distinct [simp]:
  "circuit_key p = circuit_key q \<longleftrightarrow> p = q" "probe_key p = probe_key q \<longleftrightarrow> p = q"
  by (auto simp: circuit_key_def probe_key_def)

lemma probe_key_not_circuit [simp]: "probe_key p \<noteq> circuit_key q" "circuit_key q \<noteq> probe_key p"
proof -
  have "int_str p @ '':probe'' \<noteq> int_str q"
    using int_str_no_colon [of q] by (metis in_set_conv_decomp)
  then show "probe_key p \<noteq> circuit_key q" "circuit_key q \<noteq> probe_key p"
    by (auto simp: probe_key_def circuit_key_def)
qed

lemma get_snapshot_other [simp]:
  "p \<noteq> q \<Longrightarrow> get_snapshot now q (persist_snapshot cfg t p snapshot s) = get_snapshot now q s"
  "get_snapshot now q (redis_del (probe_key p) s) = get_snapshot now q s"
  by (simp_all add: get_snapshot_def persist_snapshot_def set_json_other redis_get_del)

lemma opened_ttl:
  "cs_state snapshot = Open \<Longrightarrow> cs_next_probe_at snapshot = Some (now + n * 1000) \<Longrightarrow> 0 < n \<Longrightarrow>
   calculate_snapshot_ttl_seconds cfg now snapshot = n"
  by (simp add: calculate_snapshot_ttl_seconds_def)

subsection \<open>Failures\<close>

definition failed_at ::
  "circuit_config \<Rightarrow> int \<Rightarrow> string option \<Rightarrow> time list \<Rightarrow> redis_value store \<Rightarrow> redis_value store" where
  "failed_at cfg p reason ts s = fold (\<lambda>t s. snd (register_failure cfg t p reason s)) ts s"







definition ex_circuit :: circuit_config where
  "ex_circuit = \<lparr>cc_failure_threshold = 2, cc_open_seconds = 30, cc_half_open_probe_seconds = 10\<rparr>"

lemma ex_circuit_ok: "circuit_config_ok ex_circuit"
  by (simp add: circuit_config_ok_def ex_circuit_def)


text \<open>Once the open time has passed without a further failure, the circuit is closed, not
  half-open: its snapshot has expired, so every dispatch is allowed at once, without a probe.\<close>

theorem open_circuit_forgets:
  assumes "circuit_config_ok cfg" and "register_failure cfg t p reason s = (snapshot, s')"
    and "cs_state snapshot = Open" and "t + cc_open_seconds cfg * 1000 < now"
  shows "allow_dispatch cfg now p s' = (True, s')"
proof -
  have s': "s' = persist_snapshot cfg t p snapshot s"
    and probe: "cs_next_probe_at snapshot = Some (t + cc_open_seconds cfg * 1000)"
    using assms(2,3) by (auto simp: register_failure_def Let_def)
  have "calculate_snapshot_ttl_seconds cfg t snapshot = cc_open_seconds cfg"
    using assms(1) by (intro opened_ttl assms(3) probe) (simp add: circuit_config_ok_def)
  then have "get_snapshot now p s' = default_snapshot now"
    using assms(4) by (simp add: s' get_persisted [OF assms(1)])
  then show ?thesis by (simp add: allow_dispatch_def default_snapshot_def)
qed

theorem open_circuit_forgets_witness:
  "\<exists>snapshot s'. register_failure ex_circuit 1000 3 None (failed_at ex_circuit 3 None [0] Map.empty) = (snapshot, s') \<and>
     cs_state snapshot = Open \<and> allow_dispatch ex_circuit 31001 3 s' = (True, s')"
proof -
  define s where "s = failed_at ex_circuit 3 None [0] Map.empty"
  obtain snapshot s' where f: "register_failure ex_circuit 1000 3 None s = (snapshot, s')" by fastforce
  have "cs_failure_count (get_snapshot 1000 3 s) = 1"
    by (simp add: s_def failed_at_def register_failure_def Let_def get_persisted [OF ex_circuit_ok])
      (simp add: get_snapshot_def redis_get_def default_snapshot_def ex_circuit_def
        calculate_snapshot_ttl_seconds_def)
  with f have "cs_state snapshot = Open"
    by (auto simp: register_failure_def Let_def ex_circuit_def)
  with open_circuit_forgets [OF ex_circuit_ok f, of 31001] f show ?thesis
    by (simp add: s_def ex_circuit_def)
qed

text \<open>In the half-open state one probe passes per probe time: after a granted probe every dispatch
  is refused while the circuit stays half-open and the probe time has not passed.\<close>

theorem half_open_grants_one_probe:
  assumes "cs_state (get_snapshot now p s) = HalfOpen" and "allow_dispatch cfg now p s = (True, s')"
    and "later \<le> now + cc_half_open_probe_seconds cfg * 1000"
    and "cs_state (get_snapshot later p s') = HalfOpen"
  shows "allow_dispatch cfg later p s' = (False, s')"
proof -
  have "redis_set_nx now (probe_key p) (FlagValue ''1'') (cc_half_open_probe_seconds cfg) s = (True, s')"
    using assms(1,2) by (simp add: allow_dispatch_def Let_def probe_due_def)
  then have "redis_set_nx later (probe_key p) (FlagValue ''1'') (cc_half_open_probe_seconds cfg) s' = (False, s')"
    using redis.claim_once [OF _ assms(3)] by (simp add: redis_set_nx_claim)
  with assms(4) show ?thesis by (simp add: allow_dispatch_def Let_def probe_due_def)
qed

definition ex_half_open :: "redis_value store" where
  "ex_half_open = snd (set_state ex_circuit 0 3 HalfOpen None None Map.empty)"

theorem half_open_grants_one_probe_witness:
  "\<exists>s'. allow_dispatch ex_circuit 5 3 ex_half_open = (True, s') \<and>
     allow_dispatch ex_circuit 9000 3 s' = (False, s')"
proof -
  have stays: "cs_state (get_snapshot t 3 ex_half_open) = HalfOpen" if "t \<le> 30000" for t
    using that
    by (simp add: ex_half_open_def set_state_def Let_def ex_circuit_def get_snapshot_def set_json_get
        calculate_snapshot_ttl_seconds_def)
  note half = stays [of 5, simplified]
  have "redis_get 5 (probe_key 3) ex_half_open = None"
    by (simp add: ex_half_open_def set_state_def Let_def set_json_other)
  then have "allow_dispatch ex_circuit 5 3 ex_half_open =
      (True, redis_set_ex 5 (probe_key 3) (FlagValue ''1'') 10 ex_half_open)"
    using half by (simp add: allow_dispatch_def Let_def probe_due_def redis_set_nx_def ex_circuit_def)
  moreover have "get_snapshot t 3 (redis_set_ex 5 (probe_key 3) v n ex_half_open) = get_snapshot t 3 ex_half_open"
    for t v n by (simp add: get_snapshot_def redis_get_set_ex)
  ultimately have "\<exists>s'. allow_dispatch ex_circuit 5 3 ex_half_open = (True, s') \<and>
      cs_state (get_snapshot 9000 3 s') = HalfOpen"
    using stays [of 9000] by simp
  then obtain s' where "allow_dispatch ex_circuit 5 3 ex_half_open = (True, s')"
    "cs_state (get_snapshot 9000 3 s') = HalfOpen" by blast
  with half_open_grants_one_probe [OF half this(1), of 9000] show ?thesis
    by (simp add: ex_circuit_def)
qed

end
