(* ===== verification/Environment.thy ===== *)
theory Environment
  imports RateLimit Circuit
begin

text \<open>
  The state the operational services share beside the message database: the clock, the Redis
  store and the configuration tables (providers, SMPP configurations, routing rules, prices,
  retry policies, fraud rules, tenants), and the rows the providers service writes. An
  operation of such a service is an \<open>io\<close> over this record; \<open>with_redis\<close> runs a Redis operation
  in it.
\<close>

record provider_row = provider_profile +
  pv_priority :: int
  pv_is_active :: bool
  pv_created_at :: time
  pv_updated_at :: time

record smpp_config_row = smpp_config_profile +
  sg_name :: string
  sg_is_active :: bool

record health_log =
  hl_recorded_date :: string
  hl_provider_id :: int
  hl_smpp_config_id :: "int option"
  hl_protocol :: protocol
  hl_status :: string
  hl_latency_ms :: "int option"
  hl_error_rate :: "rat option"
  hl_success_tps :: "int option"
  hl_throttle_count :: int
  hl_sample_window_sec :: int
  hl_recorded_at :: time

record retry_policy_row =
  ry_id :: int
  ry_tenant_id :: "tenant option"
  ry_provider_id :: "int option"
  ry_traffic_type :: "string option"
  ry_max_attempts :: int
  ry_retry_intervals :: "int list"
  ry_retry_on_errors :: "string list"
  ry_is_active :: bool
  ry_updated_at :: time

record tenant_row =
  tn_id :: tenant
  tn_priority_tier :: int
  tn_api_rate_limit_rps :: int
  tn_submit_tps :: int

record env =
  en_now :: time
  en_today :: string
  en_redis :: "redis_value store"
  en_providers :: "provider_row list"
  en_smpp_configs :: "smpp_config_row list"
  en_health_logs :: "health_log list"
  en_circuit_rows :: "(int \<times> circuit_snapshot) list"
  en_routing_rules :: "routing_rule list"
  en_pricing_rules :: "pricing_rule list"
  en_retry_policies :: "retry_policy_row list"
  en_fraud_rules :: "fraud_rule list"
  en_tenants :: "tenant_row list"
  en_next_rule_id :: int
  en_next_routing_id :: int
  en_next_pricing_id :: int
  en_next_policy_id :: int

definition with_redis :: "(time \<Rightarrow> (redis_value store, 'a) io) \<Rightarrow> ('m env_scheme, 'a) io" where
  "with_redis operation e =
     (let (r, s) = operation (en_now e) (en_redis e) in (r, e\<lparr>en_redis := s\<rparr>))"

definition env_ctx :: "'m env_scheme \<Rightarrow> ctx" where
  "env_ctx e = \<lparr>c_now = en_now e, c_today = en_today e\<rparr>"

text \<open>A query that a Redis key caches for a number of seconds.\<close>

definition cached_query ::
  "string \<Rightarrow> (redis_value \<Rightarrow> 'a option) \<Rightarrow> ('a \<Rightarrow> redis_value) \<Rightarrow> int \<Rightarrow> ('m env_scheme \<Rightarrow> 'a) \<Rightarrow>
   'm env_scheme \<Rightarrow> 'a \<times> 'm env_scheme" where
  "cached_query key decode encode ttl query e =
     (case Option.bind (redis_get (en_now e) key (en_redis e)) decode of
        Some v \<Rightarrow> (v, e)
      | None \<Rightarrow> (query e, e\<lparr>en_redis := redis_set_ex (en_now e) key (encode (query e)) ttl (en_redis e)\<rparr>))"

lemma cached_query_miss:
  "redis_get (en_now e) key (en_redis e) = None \<Longrightarrow>
   fst (cached_query key decode encode ttl query e) = query e"
  by (simp add: cached_query_def)

lemma cached_query_fresh:
  assumes "redis_get (en_now e) key (en_redis e) = None" and "\<And>v. decode (encode v) = Some v"
    and "cached_query key decode encode ttl query e = (v, e1)" and "en_redis e2 = en_redis e1"
  shows "fst (cached_query key decode encode ttl query e2) =
    (if en_now e2 \<le> en_now e + ttl * 1000 then v else query e2)"
  using assms by (auto simp: cached_query_def redis_get_set_ex)

end
