(* ===== verification/Fraud.thy ===== *)
theory Fraud
  imports Environment
begin

text \<open>
  The fraud rules of \<open>fraud.service.ts\<close>: the rules of a tenant (cached for a minute), the score,
  the velocity counters per minute, and \<open>evaluate\<close>, which merges the actions of everything that
  hit by priority. A rule's action is the string of its column; an action that is none of
  \<open>block\<close>, \<open>throttle\<close> and \<open>alert\<close> has the lowest priority.
\<close>

definition action_priority :: "string \<Rightarrow> int" where
  "action_priority action =
     (if action = ''block'' then 4 else if action = ''throttle'' then 3
      else if action = ''alert'' then 2 else 1)"

definition merge_action :: "string \<Rightarrow> string \<Rightarrow> string" where
  "merge_action current next_action =
     (if action_priority current < action_priority next_action then next_action else current)"

definition decode_tier :: "redis_value \<Rightarrow> int option" where
  "decode_tier v = (case v of TierValue t \<Rightarrow> if t \<noteq> 0 then Some t else None | _ \<Rightarrow> None)"

definition get_tenant_priority_tier :: "tenant \<Rightarrow> 'm env_scheme \<Rightarrow> int \<times> 'm env_scheme" where
  "get_tenant_priority_tier tenant e =
     cached_query (''fraud-tenant-tier:'' @ tenant) decode_tier TierValue 60
       (\<lambda>e. case first_row (filter (\<lambda>t. tn_id t = tenant) (en_tenants e)) of
              None \<Rightarrow> 1 | Some t \<Rightarrow> tn_priority_tier t) e"

definition decode_fraud_rules :: "redis_value \<Rightarrow> fraud_rule list option" where
  "decode_fraud_rules v = (case v of FraudRulesValue rs \<Rightarrow> Some rs | _ \<Rightarrow> None)"

definition active_fraud_rules :: "tenant \<Rightarrow> 'm env_scheme \<Rightarrow> fraud_rule list" where
  "active_fraud_rules tenant e =
     filter (\<lambda>r. (fr_tenant_id r = Some tenant \<or> fr_tenant_id r = None) \<and> fr_is_active r) (en_fraud_rules e)"

definition get_fraud_rules :: "tenant \<Rightarrow> 'm env_scheme \<Rightarrow> fraud_rule list \<times> 'm env_scheme" where
  "get_fraud_rules tenant e =
     cached_query (''fraud-rules:'' @ tenant) decode_fraud_rules FraudRulesValue 60
       (active_fraud_rules tenant) e"

record create_fraud_rule_dto =
  cf_name :: string
  cf_rule_type :: string
  cf_action :: string
  cf_values :: "string list option"
  cf_is_active :: "bool option"

definition create_rule :: "tenant \<Rightarrow> create_fraud_rule_dto \<Rightarrow> 'm env_scheme \<Rightarrow> fraud_rule \<times> 'm env_scheme" where
  "create_rule tenant dto e =
     (let rule =
            \<lparr>fr_id = en_next_rule_id e, fr_tenant_id = Some tenant, fr_name = cf_name dto,
             fr_rule_type = cf_rule_type dto, fr_action = cf_action dto,
             fr_values = coalesce (cf_values dto) [], fr_is_active = coalesce (cf_is_active dto) True\<rparr>
      in (rule,
          e\<lparr>en_fraud_rules := en_fraud_rules e @ [rule],
            en_next_rule_id := en_next_rule_id e + 1,
            en_redis := redis_del (''fraud-rules:'' @ tenant) (en_redis e)\<rparr>))"

definition list_rules :: "tenant \<Rightarrow> 'm env_scheme \<Rightarrow> fraud_rule list" where
  "list_rules tenant e = sort_desc fr_id (filter (\<lambda>r. fr_tenant_id r = Some tenant) (en_fraud_rules e))"

definition has_url :: "string \<Rightarrow> bool" where
  "has_url body \<longleftrightarrow>
     js_includes (to_lower body) ''http://'' \<or> js_includes (to_lower body) ''https://''"

definition ml_score :: "fraud_input \<Rightarrow> rat" where
  "ml_score input =
     (if fi_traffic_type input = ''marketing'' then 15 / 100 else 0) +
     (if 300 < length (fi_body input) then 1 / 10 else 0) +
     (if has_url (fi_body input) then 2 / 10 else 0)"

text \<open>The value a rule hits with: \<open>find\<close>, whose result counts only when it is truthy.\<close>

definition value_hits :: "fraud_input \<Rightarrow> string \<Rightarrow> string \<Rightarrow> bool" where
  "value_hits input rule_type v \<longleftrightarrow>
     (rule_type = ''keyword_block'' \<and> js_includes (to_lower (fi_body input)) (to_lower v)) \<or>
     (rule_type = ''prefix_block'' \<and> starts_with (fi_phone_number input) v) \<or>
     (rule_type = ''sender_block'' \<and> to_lower (fi_sender_id input) = to_lower v)"

definition rule_label :: "string \<Rightarrow> string" where
  "rule_label rule_type =
     (if rule_type = ''keyword_block'' then ''keyword:''
      else if rule_type = ''prefix_block'' then ''prefix:'' else ''sender:'')"

definition rule_hit :: "fraud_input \<Rightarrow> fraud_rule \<Rightarrow> string option" where
  "rule_hit input r =
     (case find (value_hits input (fr_rule_type r)) (fr_values r) of
        Some v \<Rightarrow> if v \<noteq> [] then Some v else None | None \<Rightarrow> None)"

record verdict =
  vd_action :: string
  vd_reasons :: "string list"
  vd_score :: rat

definition add_reason :: "string \<Rightarrow> string \<Rightarrow> rat \<Rightarrow> verdict \<Rightarrow> verdict" where
  "add_reason reason action extra v =
     \<lparr>vd_action = merge_action (vd_action v) action, vd_reasons = vd_reasons v @ [reason],
      vd_score = vd_score v + extra\<rparr>"

definition apply_rule :: "fraud_input \<Rightarrow> fraud_rule \<Rightarrow> verdict \<Rightarrow> verdict" where
  "apply_rule input r v =
     (case rule_hit input r of
        None \<Rightarrow> v
      | Some hit \<Rightarrow> add_reason (rule_label (fr_rule_type r) @ hit) (fr_action r) 0 v)"

definition minute_of :: "time \<Rightarrow> int" where
  "minute_of now = now div 60000"

definition velocity_key :: "fraud_input \<Rightarrow> time \<Rightarrow> string" where
  "velocity_key input now =
     ''fraud:velocity:'' @ fi_tenant_id input @ '':'' @ fi_sender_id input @ '':'' @ int_str (minute_of now)"

definition prefix_key :: "fraud_input \<Rightarrow> time \<Rightarrow> string" where
  "prefix_key input now =
     ''fraud:prefix:'' @ fi_tenant_id input @ '':'' @ take 7 (fi_phone_number input) @ '':'' @
     int_str (minute_of now)"

definition low_trust_url :: "fraud_input \<Rightarrow> int \<Rightarrow> bool" where
  "low_trust_url input tier \<longleftrightarrow>
     tier \<le> 1 \<and> fi_traffic_type input = ''marketing'' \<and> has_url (fi_body input)"

definition judge :: "fraud_input \<Rightarrow> fraud_rule list \<Rightarrow> int \<Rightarrow> int \<Rightarrow> int \<Rightarrow> verdict" where
  "judge input rules tier velocity prefix_hits =
     (let v0 = \<lparr>vd_action = ''allow'', vd_reasons = [], vd_score = ml_score input\<rparr>;
          v1 = fold (apply_rule input) rules v0;
          v2 = (if 5000 < velocity then add_reason ''velocity_threshold'' ''throttle'' (3 / 10) v1 else v1);
          v3 = (if 7500 < prefix_hits
                then add_reason ''prefix_velocity_threshold'' ''throttle'' (2 / 10) v2 else v2)
      in if low_trust_url input tier
         then add_reason ''low_trust_marketing_url'' ''block'' (35 / 100) v3 else v3)"

definition evaluate :: "fraud_input \<Rightarrow> ('m env_scheme, fraud_evaluation) io" where
  "evaluate input e =
     (let (rules, e1) = get_fraud_rules (fi_tenant_id input) e;
          (tier, e2) = get_tenant_priority_tier (fi_tenant_id input) e1;
          (velocity, s1) = count_in_window (en_now e2) (velocity_key input (en_now e2)) 60 (en_redis e2);
          (prefix_hits, s2) = count_in_window (en_now e2) (prefix_key input (en_now e2)) 60 s1;
          v = judge input rules tier velocity prefix_hits
      in (Inr \<lparr>fe_action = vd_action v, fe_reasons = vd_reasons v, fe_score = vd_score v\<rparr>,
          e2\<lparr>en_redis := s2\<rparr>))"

definition enforce_submission :: "fraud_input \<Rightarrow> ('m env_scheme, unit) io" where
  "enforce_submission input =
     io_bind (evaluate input) (\<lambda>evaluation.
       if fe_action evaluation = ''block''
       then io_throw (BadRequestException
              (''Message blocked by fraud policy: '' @ join_with '', '' (fe_reasons evaluation)))
       else if fe_action evaluation = ''throttle''
       then io_throw (TooManyRequests
              (''Message throttled by fraud policy: '' @ join_with '', '' (fe_reasons evaluation)))
       else io_return ())"

subsection \<open>The merged action\<close>

text \<open>Everything that hit, in the order of the code, with its action.\<close>

definition hit_actions :: "fraud_input \<Rightarrow> fraud_rule list \<Rightarrow> int \<Rightarrow> int \<Rightarrow> int \<Rightarrow> string list" where
  "hit_actions input rules tier velocity prefix_hits =
     map fr_action (filter (\<lambda>r. rule_hit input r \<noteq> None) rules) @
     (if 5000 < velocity then [''throttle''] else []) @
     (if 7500 < prefix_hits then [''throttle''] else []) @
     (if low_trust_url input tier then [''block''] else [])"

lemma merge_fold_priority:
  "action_priority (fold (\<lambda>a c. merge_action c a) as c) =
     Max (insert (action_priority c) (action_priority ` set as))"
proof (induction as arbitrary: c)
  case (Cons a as)
  have "action_priority (merge_action c a) = max (action_priority c) (action_priority a)"
    by (simp add: merge_action_def)
  with Cons show ?case by (cases "as = []") (simp_all add: max.assoc)
qed simp

lemma merge_fold_mem: "fold (\<lambda>a c. merge_action c a) as c \<in> insert c (set as)"
  by (induction as arbitrary: c) (auto simp: merge_action_def)

lemma apply_rules_action:
  "vd_action (fold (apply_rule input) rules v) =
     fold (\<lambda>a c. merge_action c a) (map fr_action (filter (\<lambda>r. rule_hit input r \<noteq> None) rules)) (vd_action v)"
  by (induction rules arbitrary: v) (auto simp: apply_rule_def add_reason_def split: option.splits)

lemma apply_rules_reasons:
  "length (vd_reasons (fold (apply_rule input) rules v)) =
     length (vd_reasons v) + length (filter (\<lambda>r. rule_hit input r \<noteq> None) rules)"
  by (induction rules arbitrary: v) (auto simp: apply_rule_def add_reason_def split: option.splits)

lemma judge_action:
  "vd_action (judge input rules tier velocity prefix_hits) =
     fold (\<lambda>a c. merge_action c a) (hit_actions input rules tier velocity prefix_hits) ''allow''"
  by (simp add: judge_def hit_actions_def Let_def add_reason_def apply_rules_action)

lemma judge_reasons:
  "length (vd_reasons (judge input rules tier velocity prefix_hits)) =
     length (hit_actions input rules tier velocity prefix_hits)"
  by (simp add: judge_def hit_actions_def Let_def add_reason_def apply_rules_reasons)

text \<open>The action of a judgement is one of the actions that hit, or \<open>allow\<close>, and no action that hit
  has a higher priority; there is one reason per hit, and reordering the rules does not change
  the priority.\<close>

theorem judge_takes_highest:
  "vd_action (judge input rules tier velocity prefix_hits)
     \<in> insert ''allow'' (set (hit_actions input rules tier velocity prefix_hits)) \<and>
   (\<forall>a \<in> set (hit_actions input rules tier velocity prefix_hits).
      action_priority a \<le> action_priority (vd_action (judge input rules tier velocity prefix_hits))) \<and>
   length (vd_reasons (judge input rules tier velocity prefix_hits)) =
     length (hit_actions input rules tier velocity prefix_hits) \<and>
   (mset rules' = mset rules \<longrightarrow>
      action_priority (vd_action (judge input rules' tier velocity prefix_hits)) =
      action_priority (vd_action (judge input rules tier velocity prefix_hits)))"
proof -
  have "set (hit_actions input rules' tier velocity prefix_hits) =
      set (hit_actions input rules tier velocity prefix_hits)" if "mset rules' = mset rules"
    using mset_eq_setD [OF that] by (simp add: hit_actions_def)
  then show ?thesis
    using merge_fold_mem [of "hit_actions input rules tier velocity prefix_hits" "''allow''"]
    by (auto simp: judge_action judge_reasons merge_fold_priority)
qed

definition ex_fraud_input :: fraud_input where
  "ex_fraud_input =
     \<lparr>fi_tenant_id = ''ten1'', fi_phone_number = ''+251911234567'', fi_body = ''Win CASH now'',
      fi_sender_id = ''MYAPP'', fi_traffic_type = ''marketing''\<rparr>"

definition ex_rules :: "fraud_rule list" where
  "ex_rules =
     [\<lparr>fr_id = 1, fr_tenant_id = None, fr_name = ''cash'', fr_rule_type = ''keyword_block'',
       fr_action = ''alert'', fr_values = [''cash''], fr_is_active = True\<rparr>,
      \<lparr>fr_id = 2, fr_tenant_id = None, fr_name = ''app'', fr_rule_type = ''sender_block'',
       fr_action = ''block'', fr_values = [''myapp''], fr_is_active = True\<rparr>]"

theorem judge_takes_highest_witness:
  "action_priority (vd_action (judge ex_fraud_input (rev ex_rules) 2 1 1)) =
   action_priority (vd_action (judge ex_fraud_input ex_rules 2 1 1))"
  using judge_takes_highest [of ex_fraud_input ex_rules 2 1 1 "rev ex_rules"] by simp

text \<open>A value of a rule that is the empty string never hits, and hides every value after it that
  would: with an empty keyword first, no keyword of the rule blocks anything.\<close>

theorem empty_value_disables_rule:
  "fr_rule_type r \<in> {''keyword_block'', ''prefix_block''} \<Longrightarrow> fr_values r = [] # vs \<Longrightarrow>
   apply_rule input r v = v"
  by (auto simp: apply_rule_def rule_hit_def value_hits_def to_lower_def js_includes_iff_sublist)

theorem empty_value_disables_rule_witness:
  "apply_rule ex_fraud_input ((hd ex_rules)\<lparr>fr_values := [[], ''cash'']\<rparr>) v0 = v0"
  by (rule empty_value_disables_rule [of _ "[''cash'']"]) (simp_all add: ex_rules_def)

end
