(* ===== verification/Providers.thy ===== *)
theory Providers
  imports Environment
begin

text \<open>
  Providers as \<open>providers.service.ts\<close> keeps them: the profiles, the health log, the circuit
  state behind a dispatch, and the admission of a dispatch (circuit first, then the provider's
  rate limit).
\<close>

definition get_provider :: "int \<Rightarrow> ('m env_scheme, provider_profile) io" where
  "get_provider provider_id e =
     (case first_row (filter (\<lambda>p. pp_id p = provider_id) (en_providers e)) of
        None \<Rightarrow> (Inl (NotFoundException ''Provider not found''), e)
      | Some row \<Rightarrow> (Inr (provider_profile.truncate row), e))"

definition get_smpp_config :: "int \<Rightarrow> ('m env_scheme, smpp_config_profile) io" where
  "get_smpp_config smpp_config_id e =
     (case first_row (filter (\<lambda>c. sc_id c = smpp_config_id \<and> sg_is_active c) (en_smpp_configs e)) of
        None \<Rightarrow> (Inl (NotFoundException ''SMPP config not found''), e)
      | Some row \<Rightarrow> (Inr (smpp_config_profile.truncate row), e))"

record provider_metrics =
  pm_latency_ms :: int
  pm_error_rate :: rat
  pm_circuit_state :: circuit_state

definition get_provider_metrics :: "int \<Rightarrow> 'm env_scheme \<Rightarrow> provider_metrics" where
  "get_provider_metrics provider_id e =
     (let latest = first_row (sort_desc hl_recorded_at
            (filter (\<lambda>h. hl_provider_id h = provider_id) (en_health_logs e)))
      in \<lparr>pm_latency_ms = coalesce (Option.bind latest hl_latency_ms) 0,
          pm_error_rate = coalesce (Option.bind latest hl_error_rate) 0,
          pm_circuit_state = get_state (en_now e) provider_id (en_redis e)\<rparr>)"

definition provider_json :: "'m env_scheme \<Rightarrow> provider_row \<Rightarrow> json" where
  "provider_json e row =
     (let metrics = get_provider_metrics (pp_id row) e in
      jobj [(''id'', Some (jint (pp_id row))),
            (''code'', Some (JStr (pp_code row))),
            (''name'', Some (JStr (pp_name row))),
            (''defaultProtocol'', Some (JStr (protocol_str (pp_default_protocol row)))),
            (''httpBaseUrl'', Some (jnullable JStr (pp_http_base_url row))),
            (''maxGlobalTps'', Some (jint (pp_max_global_tps row))),
            (''priority'', Some (jint (pv_priority row))),
            (''isActive'', Some (JBool (pv_is_active row))),
            (''healthStatus'', Some (JStr (pp_health_status row))),
            (''createdAt'', Some (jint (pv_created_at row))),
            (''updatedAt'', Some (jint (pv_updated_at row))),
            (''metrics'', Some (jobj
               [(''latencyMs'', Some (jint (pm_latency_ms metrics))),
                (''errorRate'', Some (JNum (pm_error_rate metrics))),
                (''circuitState'', Some (JStr (circuit_state_str (pm_circuit_state metrics))))]))])"

definition list_providers :: "'m env_scheme \<Rightarrow> json list" where
  "list_providers e = map (provider_json e) (sort_key pv_priority (sort_key pp_id (en_providers e)))"

definition health_json :: "health_log \<Rightarrow> json" where
  "health_json h =
     jobj [(''protocol'', Some (JStr (protocol_str (hl_protocol h)))),
           (''status'', Some (JStr (hl_status h))),
           (''latencyMs'', Some (jnullable jint (hl_latency_ms h))),
           (''errorRate'', Some (JNum (coalesce (hl_error_rate h) 0))),
           (''successTps'', Some (jnullable jint (hl_success_tps h))),
           (''throttleCount'', Some (jint (hl_throttle_count h))),
           (''sampleWindowSec'', Some (jint (hl_sample_window_sec h))),
           (''recordedAt'', Some (jint (hl_recorded_at h)))]"

definition get_provider_health_history :: "int \<Rightarrow> 'm env_scheme \<Rightarrow> json list" where
  "get_provider_health_history provider_id e =
     map health_json (take 120 (sort_desc hl_recorded_at
       (filter (\<lambda>h. hl_provider_id h = provider_id) (en_health_logs e))))"

definition smpp_config_json :: "smpp_config_row \<Rightarrow> json" where
  "smpp_config_json row =
     jobj [(''id'', Some (jint (sc_id row))),
           (''name'', Some (JStr (sg_name row))),
           (''host'', Some (JStr (sc_host row))),
           (''port'', Some (jint (sc_port row))),
           (''systemId'', Some (JStr (sc_system_id row))),
           (''bindMode'', Some (JStr (sc_bind_mode row))),
           (''maxSessions'', Some (jint (sc_max_sessions row))),
           (''sessionTps'', Some (jint (sc_session_tps row))),
           (''isActive'', Some (JBool (sg_is_active row)))]"

record provider_detail =
  pd_provider :: provider_profile
  pd_smpp_configs :: "json list"
  pd_health_history :: "json list"

definition get_provider_detail :: "int \<Rightarrow> ('m env_scheme, provider_detail) io" where
  "get_provider_detail provider_id =
     io_bind (get_provider provider_id) (\<lambda>provider e.
       (Inr \<lparr>pd_provider = provider,
             pd_smpp_configs = map smpp_config_json (sort_key sc_id
               (filter (\<lambda>c. sc_provider_id c = provider_id) (en_smpp_configs e))),
             pd_health_history = get_provider_health_history provider_id e\<rparr>, e))"

definition persist_circuit_snapshot :: "int \<Rightarrow> circuit_snapshot \<Rightarrow> 'm env_scheme \<Rightarrow> 'm env_scheme" where
  "persist_circuit_snapshot provider_id snapshot e =
     e\<lparr>en_circuit_rows :=
        (if provider_id \<in> fst ` set (en_circuit_rows e)
         then map (\<lambda>(p, old). if p = provider_id then (p, snapshot) else (p, old)) (en_circuit_rows e)
         else en_circuit_rows e @ [(provider_id, snapshot)])\<rparr>"

definition set_circuit_state ::
  "circuit_config \<Rightarrow> int \<Rightarrow> circuit_state \<Rightarrow> string option \<Rightarrow> 'm env_scheme \<Rightarrow> 'm env_scheme" where
  "set_circuit_state cfg provider_id state reason e =
     (let (snapshot, s) = set_state cfg (en_now e) provider_id state None reason (en_redis e)
      in persist_circuit_snapshot provider_id snapshot (e\<lparr>en_redis := s\<rparr>))"

definition assert_provider_dispatch_allowed ::
  "circuit_config \<Rightarrow> int \<Rightarrow> int \<Rightarrow> ('m env_scheme, unit) io" where
  "assert_provider_dispatch_allowed cfg provider_id max_global_tps =
     io_bind (with_redis (\<lambda>now s. let (allowed, s') = allow_dispatch cfg now provider_id s in (Inr allowed, s')))
       (\<lambda>allowed.
         if \<not> allowed then io_throw (PlainError ''Provider circuit is open'')
         else
           io_bind (with_redis (\<lambda>now.
               enforce_limit now (''rl:provider:'' @ int_str provider_id @ '':global'') max_global_tps 1 1))
             (\<lambda>_. io_return ()))"

definition is_throttle :: "string option \<Rightarrow> bool" where
  "is_throttle error_code \<longleftrightarrow> (case error_code of None \<Rightarrow> False | Some s \<Rightarrow> js_includes s ''throttle'')"

definition new_health_log :: "dispatch_record \<Rightarrow> circuit_snapshot \<Rightarrow> 'm env_scheme \<Rightarrow> health_log" where
  "new_health_log input snapshot e =
     \<lparr>hl_recorded_date = en_today e, hl_provider_id = dp_provider_id input,
      hl_smpp_config_id = dp_smpp_config_id input, hl_protocol = dp_protocol input,
      hl_status = (if cs_state snapshot = Closed then ''healthy'' else ''degraded''),
      hl_latency_ms = Some (max 0 (dp_latency_ms input)),
      hl_error_rate = Some (if dp_accepted input then 0 else 1),
      hl_success_tps = Some (if dp_accepted input then 1 else 0),
      hl_throttle_count = (if is_throttle (dp_error_code input) then 1 else 0),
      hl_sample_window_sec = 60, hl_recorded_at = en_now e\<rparr>"

definition record_dispatch_result ::
  "circuit_config \<Rightarrow> dispatch_record \<Rightarrow> ('m env_scheme, unit) io" where
  "record_dispatch_result cfg input e =
     (let (snapshot, s) =
            (if dp_accepted input then register_success cfg (en_now e) (dp_provider_id input) (en_redis e)
             else register_failure cfg (en_now e) (dp_provider_id input) (dp_error_code input) (en_redis e));
          e1 = persist_circuit_snapshot (dp_provider_id input) snapshot (e\<lparr>en_redis := s\<rparr>)
      in (Inr (), e1\<lparr>en_health_logs := en_health_logs e1 @ [new_health_log input snapshot e1]\<rparr>))"

subsection \<open>The stored circuit state follows the snapshot\<close>

definition stored_circuit :: "int \<Rightarrow> 'm env_scheme \<Rightarrow> circuit_snapshot option" where
  "stored_circuit provider_id e = map_of (en_circuit_rows e) provider_id"

lemma map_of_replace:
  "map_of (map (\<lambda>(p, old). if p = k then (p, v) else (p, old)) xs) q =
     (if q = k \<and> k \<in> fst ` set xs then Some v else map_of xs q)"
proof (induction xs)
  case (Cons x xs)
  then show ?case by (cases x; cases "q = k"; cases "k \<in> fst ` set xs") simp_all
qed simp

lemma stored_circuit_persist [simp]:
  "stored_circuit q (persist_circuit_snapshot p snapshot e) =
     (if q = p then Some snapshot else stored_circuit q e)"
proof (cases "p \<in> fst ` set (en_circuit_rows e)")
  case True
  then show ?thesis
    by (simp add: stored_circuit_def persist_circuit_snapshot_def map_of_replace)
next
  case False
  then have "map_of (en_circuit_rows e) p = None" by (simp add: map_of_eq_None_iff)
  with False show ?thesis
    by (simp add: stored_circuit_def persist_circuit_snapshot_def map_add_def split: option.splits)
qed

lemma persist_keys_distinct:
  "distinct (map fst (en_circuit_rows e)) \<Longrightarrow>
   distinct (map fst (en_circuit_rows (persist_circuit_snapshot p snapshot e)))"
proof -
  have "map fst (map (\<lambda>(q, old). if q = p then (q, snapshot) else (q, old)) xs) = map fst xs" for xs
    by (induction xs) auto
  then show "distinct (map fst (en_circuit_rows e)) \<Longrightarrow>
      distinct (map fst (en_circuit_rows (persist_circuit_snapshot p snapshot e)))"
    by (auto simp: persist_circuit_snapshot_def simp del: map_map)
qed

text \<open>Every recorded dispatch result leaves one row per provider, the row of the provider and its
  Redis snapshot agree, a success closes the circuit, and a failure counts one more.\<close>

theorem dispatch_result_recorded:
  assumes "circuit_config_ok cfg" and "distinct (map fst (en_circuit_rows e))"
    and "record_dispatch_result cfg input e = (Inr (), e')"
  shows "distinct (map fst (en_circuit_rows e')) \<and>
    stored_circuit (dp_provider_id input) e' =
      Some (get_snapshot (en_now e) (dp_provider_id input) (en_redis e')) \<and>
    (dp_accepted input \<longrightarrow> get_state (en_now e) (dp_provider_id input) (en_redis e') = Closed) \<and>
    (\<not> dp_accepted input \<longrightarrow>
       cs_failure_count (get_snapshot (en_now e) (dp_provider_id input) (en_redis e')) =
         cs_failure_count (get_snapshot (en_now e) (dp_provider_id input) (en_redis e)) + 1)"
proof -
  define p where "p = dp_provider_id input"
  define now where "now = en_now e"
  have ttl: "0 < calculate_snapshot_ttl_seconds cfg now snapshot" for snapshot
    by (rule ttl_pos [OF assms(1)])
  obtain snapshot s where s: "(if dp_accepted input then register_success cfg now p (en_redis e)
      else register_failure cfg now p (dp_error_code input) (en_redis e)) = (snapshot, s)"
    by fastforce
  have read: "get_snapshot now p s = snapshot"
    using s ttl [of snapshot]
    by (auto simp: register_success_def register_failure_def Let_def get_persisted [OF assms(1)] split: if_splits)
  have counts: "dp_accepted input \<Longrightarrow> cs_state snapshot = Closed"
    "\<not> dp_accepted input \<Longrightarrow> cs_failure_count snapshot = cs_failure_count (get_snapshot now p (en_redis e)) + 1"
    using s by (auto simp: register_success_def register_failure_def Let_def)
  define e1 where "e1 = persist_circuit_snapshot p snapshot (e\<lparr>en_redis := s\<rparr>)"
  have e': "e' = e1\<lparr>en_health_logs := en_health_logs e1 @ [new_health_log input snapshot e1]\<rparr>"
    using assms(3) s unfolding record_dispatch_result_def p_def [symmetric] now_def [symmetric]
    by (simp add: e1_def Let_def)
  have "distinct (map fst (en_circuit_rows e1))"
    unfolding e1_def using assms(2) by (intro persist_keys_distinct) simp
  moreover have "stored_circuit p e1 = Some snapshot" by (simp add: e1_def)
  moreover have "en_redis e1 = s" by (simp add: e1_def persist_circuit_snapshot_def)
  ultimately show ?thesis
    using read counts by (simp add: e' stored_circuit_def get_state_def flip: p_def now_def)
qed

definition ex_env :: env where
  "ex_env =
     \<lparr>en_now = 1763500000000, en_today = ''2025-11-18'', en_redis = (\<lambda>_. None), en_providers = [],
      en_smpp_configs = [], en_health_logs = [], en_circuit_rows = [], en_routing_rules = [],
      en_pricing_rules = [], en_retry_policies = [], en_fraud_rules = [], en_tenants = [],
      en_next_rule_id = 1, en_next_routing_id = 1, en_next_pricing_id = 1, en_next_policy_id = 1\<rparr>"

definition ex_failure :: dispatch_record where
  "ex_failure =
     \<lparr>dp_provider_id = 3, dp_protocol = Http, dp_accepted = False, dp_latency_ms = 20,
      dp_error_code = Some ''throttle'', dp_smpp_config_id = None\<rparr>"

theorem dispatch_result_recorded_witness:
  "\<exists>e'. record_dispatch_result ex_circuit ex_failure ex_env = (Inr (), e') \<and>
     cs_failure_count (get_snapshot 1763500000000 3 (en_redis e')) = 1"
proof -
  have "fst (record_dispatch_result ex_circuit ex_failure ex_env) = Inr ()"
    by (simp add: record_dispatch_result_def Let_def split: prod.split)
  then obtain e' where e': "record_dispatch_result ex_circuit ex_failure ex_env = (Inr (), e')"
    by (metis prod.collapse)
  have "distinct (map fst (en_circuit_rows ex_env))" by (simp add: ex_env_def)
  from dispatch_result_recorded [OF ex_circuit_ok this e'] e' show ?thesis
    by (simp add: ex_failure_def ex_env_def get_snapshot_def default_snapshot_def)
qed

end
