(* ===== verification/Routing.thy ===== *)
theory Routing
  imports Providers Queries "HOL-Library.Product_Lexorder"
begin

text \<open>
  Routing (\<open>routing.service.ts\<close>): the rules of a tenant and traffic type (cached for a minute),
  the provider costs, the scored selection of a route, the retry policy that applies, and the
  maintenance of rules, prices and policies.

  The selection is a stable sort by score; \<open>select_route_best\<close> characterises its result as the
  first rule of least score among those that are not excluded and whose circuit is not open.
\<close>

subsection \<open>Rules and costs\<close>

definition rules_cache_key :: "tenant \<Rightarrow> string \<Rightarrow> string" where
  "rules_cache_key tenant traffic_type = ''routing-rules:'' @ tenant @ '':'' @ traffic_type"

definition decode_routing_rules :: "redis_value \<Rightarrow> routing_rule list option" where
  "decode_routing_rules v = (case v of RoutingRulesValue rs \<Rightarrow> Some rs | _ \<Rightarrow> None)"

definition applicable_rules :: "tenant \<Rightarrow> string \<Rightarrow> 'm env_scheme \<Rightarrow> routing_rule list" where
  "applicable_rules tenant traffic_type e =
     sort_key (\<lambda>r. (ru_priority r, ru_failover_order r))
       (filter (\<lambda>r. (ru_tenant_id r = Some tenant \<or> ru_tenant_id r = None) \<and>
                    ru_traffic_type r = traffic_type \<and> ru_is_active r) (en_routing_rules e))"

definition get_rules :: "tenant \<Rightarrow> string \<Rightarrow> 'm env_scheme \<Rightarrow> routing_rule list \<times> 'm env_scheme" where
  "get_rules tenant traffic_type e =
     cached_query (rules_cache_key tenant traffic_type) decode_routing_rules RoutingRulesValue 60
       (applicable_rules tenant traffic_type) e"

text \<open>The first row of each provider, in the order of the query.\<close>

definition cost_rows :: "int list \<Rightarrow> string \<Rightarrow> string \<Rightarrow> 'm env_scheme \<Rightarrow> pricing_rule list" where
  "cost_rows provider_ids country_code traffic_type e =
     sort_desc pr_effective_from
       (filter (\<lambda>r. pr_kind r = ''cost'' \<and>
                    (case pr_provider_id r of None \<Rightarrow> False | Some p \<Rightarrow> p \<in> set provider_ids) \<and>
                    pr_country_code r = country_code \<and> pr_traffic_type r = traffic_type \<and>
                    pr_is_active r \<and>
                    (case pr_effective_to r of None \<Rightarrow> True | Some t \<Rightarrow> en_now e < t))
         (en_pricing_rules e))"

definition get_unit_costs :: "int list \<Rightarrow> string \<Rightarrow> string \<Rightarrow> 'm env_scheme \<Rightarrow> int \<Rightarrow> int option" where
  "get_unit_costs provider_ids country_code traffic_type e =
     map_of (map (\<lambda>r. (the (pr_provider_id r), pr_unit_price_minor r))
       (cost_rows provider_ids country_code traffic_type e))"

definition normalize_country_code :: "string \<Rightarrow> string" where
  "normalize_country_code phone_number = (if starts_with phone_number ''+251'' then ''ET'' else ''INTL'')"

subsection \<open>Selecting a route\<close>

definition not_excluded :: "route_options \<Rightarrow> routing_rule \<Rightarrow> bool" where
  "not_excluded options r \<longleftrightarrow>
     ru_provider_id r \<notin> set (ro_excluded_provider_ids options) \<and>
     ru_id r \<notin> set (ro_excluded_rule_ids options)"

definition rule_protocol :: "routing_rule \<Rightarrow> protocol" where
  "rule_protocol r =
     (case ru_preferred_protocol r of Some p \<Rightarrow> p
      | None \<Rightarrow> if truthy_int (ru_smpp_config_id r) then Smpp else Http)"

definition rule_score ::
  "string \<Rightarrow> route_options \<Rightarrow> provider_metrics \<Rightarrow> routing_rule \<Rightarrow> rat" where
  "rule_score traffic_type options metrics r =
     (let protocol = rule_protocol r;
          traffic_boost = (if traffic_type = ''otp'' then if protocol = Smpp then 10 else 0 else 0);
          preferred_boost = (if ro_prefer_protocol options = Some protocol then 5 else 0);
          health_penalty = (if pm_circuit_state metrics = HalfOpen then 250 + pm_error_rate metrics * 100
                            else pm_error_rate metrics * 100);
          latency_penalty = of_int (pm_latency_ms metrics) / 50
      in of_int (ru_priority r * 5) + of_int (ru_cost_rank r) + latency_penalty + health_penalty
           - of_int (ru_weight r) - traffic_boost - preferred_boost)"

definition candidate_for ::
  "string \<Rightarrow> route_options \<Rightarrow> (int \<Rightarrow> int option) \<Rightarrow> 'm env_scheme \<Rightarrow> routing_rule \<Rightarrow> route_decision option"
where
  "candidate_for traffic_type options unit_costs e r =
     (let metrics = get_provider_metrics (ru_provider_id r) e in
      if pm_circuit_state metrics = Open \<and> \<not> ro_allow_open_circuit_probe options then None
      else Some
        \<lparr>rd_routing_rule_id = ru_id r,
         rd_provider_id = ru_provider_id r,
         rd_smpp_config_id = ru_smpp_config_id r,
         rd_protocol = rule_protocol r,
         rd_estimated_unit_cost_minor = coalesce (unit_costs (ru_provider_id r)) 0,
         rd_score = rule_score traffic_type options metrics r\<rparr>)"

definition select_route ::
  "tenant \<Rightarrow> string \<Rightarrow> string \<Rightarrow> route_options \<Rightarrow> ('m env_scheme, route_decision) io" where
  "select_route tenant phone_number traffic_type options e =
     (let (all_rules, e1) = get_rules tenant traffic_type e;
          rules = filter (not_excluded options) all_rules
      in if rules = [] then (Inl (PlainError (''No routing rules found for '' @ tenant @ ''/'' @ traffic_type)), e1)
         else
           (let unit_costs = get_unit_costs (map ru_provider_id rules)
                  (normalize_country_code phone_number) traffic_type e1;
                candidates = List.map_filter (candidate_for traffic_type options unit_costs e1) rules
            in case first_row (sort_key rd_score candidates) of
                 None \<Rightarrow> (Inl (PlainError ''No route candidates available''), e1)
               | Some winner \<Rightarrow> (Inr winner, e1)))"

subsection \<open>Retry policies\<close>

definition policy_applies :: "tenant \<Rightarrow> int \<Rightarrow> string option \<Rightarrow> retry_policy_row \<Rightarrow> bool" where
  "policy_applies tenant provider_id traffic_type r \<longleftrightarrow>
     (ry_tenant_id r = Some tenant \<or> ry_tenant_id r = None) \<and>
     (ry_provider_id r = Some provider_id \<or> ry_provider_id r = None) \<and>
     (traffic_type = None \<or> ry_traffic_type r = traffic_type \<or> ry_traffic_type r = None) \<and>
     ry_is_active r"

text \<open>\<open>ORDER BY (traffic_type IS NULL), tenant_id DESC NULLS LAST, provider_id DESC NULLS LAST, updated_at DESC\<close>;
  the tenants and providers of the rows the query selects are the ones asked for or null.\<close>

definition policy_rank :: "retry_policy_row \<Rightarrow> bool \<times> bool \<times> bool \<times> int" where
  "policy_rank r =
     (ry_traffic_type r = None, ry_tenant_id r = None, ry_provider_id r = None, - ry_updated_at r)"

definition default_retry_policy :: retry_policy where
  "default_retry_policy =
     \<lparr>rp_max_attempts = 3, rp_retry_intervals = [5, 30, 300],
      rp_retry_on_errors = [''timeout'', ''throttle'', ''http_provider_error'', ''smpp_throttle'']\<rparr>"

definition find_retry_policy :: "tenant \<Rightarrow> int \<Rightarrow> string option \<Rightarrow> 'm env_scheme \<Rightarrow> retry_policy_row option" where
  "find_retry_policy tenant provider_id traffic_type e =
     first_row (sort_key policy_rank
       (filter (policy_applies tenant provider_id traffic_type) (en_retry_policies e)))"

definition get_retry_policy :: "tenant \<Rightarrow> int \<Rightarrow> string option \<Rightarrow> ('m env_scheme, retry_policy) io" where
  "get_retry_policy tenant provider_id traffic_type e =
     (case find_retry_policy tenant provider_id traffic_type e of
        None \<Rightarrow> (Inr default_retry_policy, e)
      | Some r \<Rightarrow>
          (Inr \<lparr>rp_max_attempts = ry_max_attempts r, rp_retry_intervals = ry_retry_intervals r,
                rp_retry_on_errors = ry_retry_on_errors r\<rparr>, e))"


subsection \<open>The route that is selected\<close>

lemma rules_not_circuit: "circuit_key p \<noteq> rules_cache_key tenant traffic_type"
  by (simp add: rules_cache_key_def circuit_key_def)

lemma get_rules_keeps:
  "en_now (snd (get_rules tenant traffic_type e)) = en_now e"
  "en_health_logs (snd (get_rules tenant traffic_type e)) = en_health_logs e"
  "redis_get t (circuit_key p) (en_redis (snd (get_rules tenant traffic_type e))) =
     redis_get t (circuit_key p) (en_redis e)"
  unfolding get_rules_def cached_query_def
  by (auto simp: redis_get_set_ex rules_not_circuit split: option.split)

lemma metrics_of_rules:
  "get_provider_metrics p (snd (get_rules tenant traffic_type e)) = get_provider_metrics p e"
  by (simp add: get_provider_metrics_def get_state_def get_snapshot_def get_rules_keeps)

text \<open>A rule can win when it is not excluded and its provider's circuit is not open.\<close>

definition eligible :: "route_options \<Rightarrow> 'm env_scheme \<Rightarrow> routing_rule \<Rightarrow> bool" where
  "eligible options e r \<longleftrightarrow>
     not_excluded options r \<and>
     (pm_circuit_state (get_provider_metrics (ru_provider_id r) e) = Open \<longrightarrow>
        ro_allow_open_circuit_probe options)"

definition score_of :: "string \<Rightarrow> route_options \<Rightarrow> 'm env_scheme \<Rightarrow> routing_rule \<Rightarrow> rat" where
  "score_of traffic_type options e r =
     rule_score traffic_type options (get_provider_metrics (ru_provider_id r) e) r"

lemma candidates_of_eligible:
  "List.map_filter (candidate_for traffic_type options costs e) (filter (not_excluded options) rules) =
     map (\<lambda>r. the (candidate_for traffic_type options costs e r)) (filter (eligible options e) rules)"
  by (induction rules) (auto simp: eligible_def candidate_for_def Let_def)

lemma candidate_for_eligible:
  "eligible options e r \<Longrightarrow>
     rd_score (the (candidate_for traffic_type options costs e r)) = score_of traffic_type options e r \<and>
     rd_routing_rule_id (the (candidate_for traffic_type options costs e r)) = ru_id r \<and>
     rd_provider_id (the (candidate_for traffic_type options costs e r)) = ru_provider_id r \<and>
     rd_protocol (the (candidate_for traffic_type options costs e r)) = rule_protocol r"
  by (auto simp: eligible_def candidate_for_def score_of_def Let_def)

lemma first_candidate:
  assumes "first_row (sort_key rd_score (map g rs)) = Some w"
    and "\<And>r. r \<in> set rs \<Longrightarrow> rd_score (g r) = score r"
  shows "\<exists>pre r post. rs = pre @ r # post \<and> w = g r \<and>
    (\<forall>q \<in> set pre. score r < score q) \<and> (\<forall>q \<in> set post. score r \<le> score q)"
proof -
  from first_row_sort_key [OF assms(1)] obtain ps qs where
    pq: "map g rs = ps @ w # qs" "\<forall>q \<in> set ps. rd_score w < rd_score q"
      "\<forall>q \<in> set qs. rd_score w \<le> rd_score q"
    by auto
  then obtain pre r post where "rs = pre @ r # post" "ps = map g pre" "w = g r" "qs = map g post"
    by (auto simp: map_eq_append_conv map_eq_Cons_conv)
  with pq(2,3) assms(2) show ?thesis by (intro exI [of _ pre] exI [of _ r] exI [of _ post]) auto
qed

lemma eligible_of_rules:
  "eligible options (snd (get_rules tenant traffic_type e)) = eligible options e"
  "score_of traffic options (snd (get_rules tenant traffic_type e)) = score_of traffic options e"
  by (simp_all add: eligible_def score_of_def metrics_of_rules fun_eq_iff)

text \<open>The selection sorts the candidates of the eligible rules.\<close>

lemma select_route_eq:
  "\<exists>costs msg. fst (select_route tenant phone_number traffic_type options e) =
     (case first_row (sort_key rd_score
        (map (\<lambda>r. the (candidate_for traffic_type options costs (snd (get_rules tenant traffic_type e)) r))
           (filter (eligible options e) (fst (get_rules tenant traffic_type e))))) of
        None \<Rightarrow> Inl (PlainError msg) | Some w \<Rightarrow> Inr w)"
proof -
  obtain all e1 where rules: "get_rules tenant traffic_type e = (all, e1)" by fastforce
  define kept where "kept = filter (not_excluded options) all"
  define costs where "costs = get_unit_costs (map ru_provider_id kept)
    (normalize_country_code phone_number) traffic_type e1"
  have cands: "List.map_filter (candidate_for traffic_type options costs e1) kept =
      map (\<lambda>r. the (candidate_for traffic_type options costs e1 r)) (filter (eligible options e) all)"
    using candidates_of_eligible [of traffic_type options costs e1 all]
      eligible_of_rules(1) [of options tenant traffic_type e]
    by (simp add: rules kept_def)
  show ?thesis
  proof (cases "kept = []")
    case True
    then have "filter (eligible options e) all = []"
      by (auto simp: kept_def filter_empty_conv eligible_def)
    with True show ?thesis by (auto simp: select_route_def rules kept_def)
  next
    case False
    then show ?thesis
      using cands
      by (auto simp: select_route_def rules Let_def kept_def [symmetric] costs_def [symmetric]
          split: option.split intro!: exI [of _ costs])
  qed
qed

lemma candidate_of_rules:
  assumes "r \<in> set (filter (eligible options e) (fst (get_rules tenant traffic_type e)))"
  shows "rd_score (the (candidate_for traffic_type options costs (snd (get_rules tenant traffic_type e)) r)) =
      score_of traffic_type options e r"
    "rd_routing_rule_id (the (candidate_for traffic_type options costs (snd (get_rules tenant traffic_type e)) r)) = ru_id r"
    "rd_provider_id (the (candidate_for traffic_type options costs (snd (get_rules tenant traffic_type e)) r)) = ru_provider_id r"
    "rd_protocol (the (candidate_for traffic_type options costs (snd (get_rules tenant traffic_type e)) r)) = rule_protocol r"
  using assms candidate_for_eligible [of options "snd (get_rules tenant traffic_type e)" r traffic_type costs]
  by (simp_all add: eligible_of_rules)

text \<open>C22: a selection throws exactly when no rule of the tenant and traffic type is eligible; otherwise
  its winner is the first rule with the least score among the eligible ones, with that rule's provider
  and protocol.\<close>

theorem select_route_best:
  "case fst (select_route tenant phone_number traffic_type options e) of
     Inl _ \<Rightarrow> filter (eligible options e) (fst (get_rules tenant traffic_type e)) = []
   | Inr w \<Rightarrow> \<exists>pre r post.
       filter (eligible options e) (fst (get_rules tenant traffic_type e)) = pre @ r # post \<and>
       rd_routing_rule_id w = ru_id r \<and> rd_provider_id w = ru_provider_id r \<and>
       rd_protocol w = rule_protocol r \<and> rd_score w = score_of traffic_type options e r \<and>
       (\<forall>q \<in> set pre. score_of traffic_type options e r < score_of traffic_type options e q) \<and>
       (\<forall>q \<in> set post. score_of traffic_type options e r \<le> score_of traffic_type options e q)"
proof -
  let ?rules = "filter (eligible options e) (fst (get_rules tenant traffic_type e))"
  obtain costs msg where sel: "fst (select_route tenant phone_number traffic_type options e) =
     (case first_row (sort_key rd_score
        (map (\<lambda>r. the (candidate_for traffic_type options costs (snd (get_rules tenant traffic_type e)) r)) ?rules)) of
        None \<Rightarrow> Inl (PlainError msg) | Some w \<Rightarrow> Inr w)" (is "_ = (case first_row ?sorted of None \<Rightarrow> _ | Some w \<Rightarrow> _)")
    using select_route_eq by blast
  show ?thesis
  proof (cases "first_row ?sorted")
    case None
    then have "length ?sorted = 0" by simp
    then have "?rules = []" by simp
    with None show ?thesis by (simp add: sel)
  next
    case (Some w)
    from first_candidate [OF this candidate_of_rules(1)] obtain pre r post where
      split: "?rules = pre @ r # post"
        "w = the (candidate_for traffic_type options costs (snd (get_rules tenant traffic_type e)) r)"
        "\<forall>q \<in> set pre. score_of traffic_type options e r < score_of traffic_type options e q"
        "\<forall>q \<in> set post. score_of traffic_type options e r \<le> score_of traffic_type options e q"
      by blast
    then have "r \<in> set ?rules" by simp
    from sel Some have "fst (select_route tenant phone_number traffic_type options e) = Inr w" by simp
    then show ?thesis
      using split candidate_of_rules [OF \<open>r \<in> set ?rules\<close>, of costs] by (simp del: split_paired_Ex) blast
  qed
qed

text \<open>The provider of a selected route has no open circuit, unless a probe was asked for.\<close>

lemma select_route_circuit:
  assumes "select_route tenant phone_number traffic_type options e = (Inr route, e1)"
  shows "get_state (en_now e) (rd_provider_id route) (en_redis e) = Open \<longrightarrow> ro_allow_open_circuit_probe options"
proof -
  let ?rules = "filter (eligible options e) (fst (get_rules tenant traffic_type e))"
  obtain costs msg where "fst (select_route tenant phone_number traffic_type options e) =
     (case first_row (sort_key rd_score
        (map (\<lambda>r. the (candidate_for traffic_type options costs (snd (get_rules tenant traffic_type e)) r)) ?rules)) of
        None \<Rightarrow> Inl (PlainError msg) | Some w \<Rightarrow> Inr w)"
    using select_route_eq by blast
  with assms obtain r where "r \<in> set ?rules"
    "route = the (candidate_for traffic_type options costs (snd (get_rules tenant traffic_type e)) r)"
    using first_row_mem by (fastforce split: option.splits)
  then show ?thesis
    using candidate_of_rules(3) [of r options e tenant traffic_type costs]
    by (auto simp: eligible_def get_provider_metrics_def Let_def)
qed

definition ex_rule :: routing_rule where
  "ex_rule =
     \<lparr>ru_id = 1, ru_tenant_id = None, ru_name = ''primary'', ru_country_code = ''ET'',
      ru_traffic_type = ''otp'', ru_provider_id = 3, ru_smpp_config_id = None,
      ru_preferred_protocol = None, ru_priority = 100, ru_weight = 100, ru_max_tps = None,
      ru_cost_rank = 100, ru_failover_order = 1, ru_is_active = True, ru_updated_at = 0\<rparr>"

definition ex_routes :: env where
  "ex_routes = ex_env\<lparr>en_routing_rules := [ex_rule, ex_rule\<lparr>ru_id := 2, ru_smpp_config_id := Some 4\<rparr>]\<rparr>"

lemma ex_routes_rules:
  "fst (get_rules tenant ''otp'' ex_routes) = [ex_rule, ex_rule\<lparr>ru_id := 2, ru_smpp_config_id := Some 4\<rparr>]"
  by (simp add: get_rules_def cached_query_def ex_routes_def ex_env_def redis_get_def
      applicable_rules_def ex_rule_def)

lemma ex_routes_metrics:
  "get_provider_metrics p ex_routes = \<lparr>pm_latency_ms = 0, pm_error_rate = 0, pm_circuit_state = Closed\<rparr>"
  by (simp add: get_provider_metrics_def ex_routes_def ex_env_def get_state_def get_snapshot_def
      default_snapshot_def sort_desc_def)

theorem select_route_best_witness:
  "\<exists>w. fst (select_route ''ten1'' ''+251911234567'' ''otp'' no_route_options ex_routes) = Inr w \<and>
     rd_routing_rule_id w = 2 \<and> rd_protocol w = Smpp"
proof -
  define r2 where "r2 = ex_rule\<lparr>ru_id := 2, ru_smpp_config_id := Some 4\<rparr>"
  have el: "filter (eligible no_route_options ex_routes) (fst (get_rules ''ten1'' ''otp'' ex_routes)) = [ex_rule, r2]"
    by (simp add: ex_routes_rules eligible_def ex_routes_metrics not_excluded_def no_route_options_def
        flip: r2_def)
  have sc: "score_of ''otp'' no_route_options ex_routes ex_rule = 500"
      "score_of ''otp'' no_route_options ex_routes r2 = 490" "ru_id r2 = 2" "rule_protocol r2 = Smpp"
    by (simp_all add: score_of_def rule_score_def ex_routes_metrics no_route_options_def ex_rule_def
        rule_protocol_def r2_def)
  from select_route_best [where tenant = "''ten1''" and phone_number = "''+251911234567''" and
      traffic_type = "''otp''" and options = no_route_options and e = ex_routes] el sc
  show ?thesis
    by (auto simp: Cons_eq_append_conv split: sum.splits)
qed

subsection \<open>The policy that applies\<close>

text \<open>The policy a retry follows is an active one of the tenant (or of all tenants), the provider (or
  any) and the traffic type (or any); a policy for the traffic type is preferred to a general one,
  then the tenant's own, then the provider's own, then the most recently updated; without any, the
  built-in default of three attempts holds.\<close>

theorem retry_policy_most_specific:
  "case find_retry_policy tenant provider_id (Some traffic_type) e of
     None \<Rightarrow> (\<forall>r \<in> set (en_retry_policies e). \<not> policy_applies tenant provider_id (Some traffic_type) r) \<and>
       fst (get_retry_policy tenant provider_id (Some traffic_type) e) = Inr default_retry_policy
   | Some p \<Rightarrow> p \<in> set (en_retry_policies e) \<and> policy_applies tenant provider_id (Some traffic_type) p \<and>
       (\<forall>r \<in> set (en_retry_policies e). policy_applies tenant provider_id (Some traffic_type) r \<longrightarrow>
          (ry_traffic_type r = Some traffic_type \<longrightarrow> ry_traffic_type p = Some traffic_type) \<and>
          (ry_traffic_type r = ry_traffic_type p \<longrightarrow> ry_tenant_id r = Some tenant \<longrightarrow>
             ry_tenant_id p = Some tenant) \<and>
          (ry_traffic_type r = ry_traffic_type p \<longrightarrow> ry_tenant_id r = ry_tenant_id p \<longrightarrow>
             ry_provider_id r = Some provider_id \<longrightarrow> ry_provider_id p = Some provider_id) \<and>
          (ry_traffic_type r = ry_traffic_type p \<longrightarrow> ry_tenant_id r = ry_tenant_id p \<longrightarrow>
             ry_provider_id r = ry_provider_id p \<longrightarrow> ry_updated_at r \<le> ry_updated_at p))"
proof (cases "find_retry_policy tenant provider_id (Some traffic_type) e")
  case None
  then have "filter (policy_applies tenant provider_id (Some traffic_type)) (en_retry_policies e) = []"
    unfolding find_retry_policy_def by (metis first_row_eq_None set_empty set_sort)
  with None show ?thesis by (auto simp: filter_empty_conv get_retry_policy_def)
next
  case (Some p)
  let ?ps = "filter (policy_applies tenant provider_id (Some traffic_type)) (en_retry_policies e)"
  from first_row_sort_key [OF Some [unfolded find_retry_policy_def]]
  have mem: "p \<in> set ?ps" and least: "\<forall>r \<in> set ?ps. policy_rank p \<le> policy_rank r"
    by (fastforce simp: less_imp_le)+
  have p: "p \<in> set (en_retry_policies e)" "policy_applies tenant provider_id (Some traffic_type) p"
    using mem by auto
  show ?thesis
    unfolding Some option.case
  proof (intro conjI ballI impI p)
    fix r assume r: "r \<in> set (en_retry_policies e)" "policy_applies tenant provider_id (Some traffic_type) r"
    then have rank: "policy_rank p \<le> policy_rank r" using least by simp
    note facts = rank r(2) p(2)
    show "ry_traffic_type r = Some traffic_type \<Longrightarrow> ry_traffic_type p = Some traffic_type"
      using facts by (auto simp: policy_rank_def policy_applies_def)
    show "ry_traffic_type r = ry_traffic_type p \<Longrightarrow> ry_tenant_id r = Some tenant \<Longrightarrow>
        ry_tenant_id p = Some tenant"
      using facts by (auto simp: policy_rank_def policy_applies_def)
    show "ry_traffic_type r = ry_traffic_type p \<Longrightarrow> ry_tenant_id r = ry_tenant_id p \<Longrightarrow>
        ry_provider_id r = Some provider_id \<Longrightarrow> ry_provider_id p = Some provider_id"
      using facts by (auto simp: policy_rank_def policy_applies_def)
    show "ry_traffic_type r = ry_traffic_type p \<Longrightarrow> ry_tenant_id r = ry_tenant_id p \<Longrightarrow>
        ry_provider_id r = ry_provider_id p \<Longrightarrow> ry_updated_at r \<le> ry_updated_at p"
      using facts by (auto simp: policy_rank_def)
  qed
qed

definition ex_policy :: retry_policy_row where
  "ex_policy =
     \<lparr>ry_id = 1, ry_tenant_id = None, ry_provider_id = None, ry_traffic_type = Some ''otp'',
      ry_max_attempts = 1, ry_retry_intervals = [2], ry_retry_on_errors = [''timeout''],
      ry_is_active = True, ry_updated_at = 0\<rparr>"

theorem retry_policy_most_specific_witness:
  "\<exists>p. find_retry_policy ''ten1'' 3 (Some ''otp'')
     (ex_env\<lparr>en_retry_policies := [ex_policy\<lparr>ry_tenant_id := Some ''ten1'', ry_traffic_type := None\<rparr>, ex_policy]\<rparr>) = Some p \<and>
     ry_traffic_type p = Some ''otp''"
  using retry_policy_most_specific [where tenant = "''ten1''" and provider_id = 3 and traffic_type = "''otp''" and e =
      "ex_env\<lparr>en_retry_policies := [ex_policy\<lparr>ry_tenant_id := Some ''ten1'', ry_traffic_type := None\<rparr>, ex_policy]\<rparr>"]
  by (auto simp: ex_policy_def policy_applies_def split: option.splits)

end
