(* ===== verification/Connectors.thy ===== *)
theory Connectors
  imports Providers "HOL-Library.Word" "HOL-Library.AList"
begin

text \<open>
  The two connectors of a dispatch (\<open>connectors/http-provider.service.ts\<close> and
  \<open>connectors/smpp.service.ts\<close>). What the other end of the wire answers is not part of the program:
  an outcome is an argument, and the connectors are the functions that classify it. The SMPP
  connector also keeps a map of bound sessions; the second half of the theory is the step
  relation of that map, with calls that overlap between \<open>connect\<close> and the answer to the bind.
\<close>

subsection \<open>HTTP\<close>

text \<open>What \<open>axios.post\<close> gives: a response with its status and the \<open>messageId\<close> and \<open>id\<close> of its body, an
  axios error with its code and the status of a response if there is one, or another error.\<close>

datatype http_outcome =
    HttpResponse int "string option" "string option"
  | AxiosError "string option" "int option" string
  | UnexpectedError

definition refused :: "string \<Rightarrow> string \<Rightarrow> int \<Rightarrow> bool option \<Rightarrow> bool option \<Rightarrow> dispatch_result" where
  "refused code msg latency retryable uncertain =
     \<lparr>dr_accepted = False, dr_provider_message_id = None, dr_error_code = Some code,
      dr_error_message = Some msg, dr_latency_ms = Some latency,
      dr_retryable = retryable, dr_uncertain = uncertain\<rparr>"

definition accepted_as :: "string option \<Rightarrow> int \<Rightarrow> dispatch_result" where
  "accepted_as provider_message_id latency =
     \<lparr>dr_accepted = True, dr_provider_message_id = provider_message_id, dr_error_code = None,
      dr_error_message = None, dr_latency_ms = Some latency, dr_retryable = None, dr_uncertain = None\<rparr>"

fun classify_http :: "http_outcome \<Rightarrow> int \<Rightarrow> dispatch_result result" where
  "classify_http (HttpResponse status message_id body_id) latency =
     (if 200 \<le> status \<and> status < 300 then Inr (accepted_as (or_else message_id body_id) latency)
      else if status = 429
      then Inr (refused ''throttle'' ''HTTP provider throttled the request'' latency (Some True) None)
      else if 500 \<le> status
      then Inr (refused ''http_provider_error'' ''HTTP provider returned a server error'' latency (Some True) None)
      else Inr (refused (''http_'' @ int_str status) ''HTTP provider rejected the request'' latency None None))"
| "classify_http (AxiosError code response msg) latency =
     (if response = None \<or> code = Some ''ECONNABORTED''
      then Inr (refused ''unknown_submit_outcome'' msg latency (Some False) (Some True))
      else Inr (refused ''http_provider_error'' msg latency (Some True) None))"
| "classify_http UnexpectedError latency =
     Inl (ServiceUnavailableException ''HTTP provider request failed unexpectedly'')"

text \<open>\<open>peer\<close> is the provider at the end of the wire.\<close>

definition http_submit ::
  "(http_dispatch_request \<Rightarrow> 'e \<Rightarrow> (http_outcome \<times> int) \<times> 'e) \<Rightarrow> http_dispatch_request \<Rightarrow> ('e, dispatch_result) io"
where
  "http_submit peer request e =
     (let ((outcome, latency), e') = peer request e in (classify_http outcome latency, e'))"

fun may_have_been_sent :: "http_outcome \<Rightarrow> bool" where
  "may_have_been_sent (HttpResponse status _ _) = False"
| "may_have_been_sent (AxiosError code response _) = (response = None \<or> code = Some ''ECONNABORTED'')"
| "may_have_been_sent UnexpectedError = False"

text \<open>An HTTP dispatch throws exactly on an error axios did not raise; otherwise it is accepted exactly
  on a 2xx answer, uncertain exactly when no answer arrived or the request was aborted, and never
  both retryable and uncertain; only 429, a 5xx answer or an answered axios error is retryable.\<close>

theorem http_classification:
  "case classify_http outcome latency of
     Inl _ \<Rightarrow> outcome = UnexpectedError
   | Inr r \<Rightarrow>
       outcome \<noteq> UnexpectedError \<and>
       (dr_accepted r \<longleftrightarrow> (\<exists>status m i. outcome = HttpResponse status m i \<and> 200 \<le> status \<and> status < 300)) \<and>
       (dr_uncertain r = Some True \<longleftrightarrow> may_have_been_sent outcome) \<and>
       (dr_retryable r = Some True \<longrightarrow> dr_uncertain r \<noteq> Some True \<and> \<not> dr_accepted r) \<and>
       (dr_retryable r = Some True \<longleftrightarrow>
          (case outcome of
             HttpResponse status _ _ \<Rightarrow> status = 429 \<or> 500 \<le> status
           | AxiosError _ _ _ \<Rightarrow> \<not> may_have_been_sent outcome
           | UnexpectedError \<Rightarrow> False))"
  by (cases outcome) (auto simp: refused_def accepted_as_def)

theorem http_classification_witness:
  "\<exists>r. classify_http (AxiosError (Some ''ECONNREFUSED'') None ''connect ECONNREFUSED'') 12 = Inr r \<and>
     dr_uncertain r = Some True \<and> dr_retryable r \<noteq> Some True"
  using http_classification [of "AxiosError (Some ''ECONNREFUSED'') None ''connect ECONNREFUSED''" 12]
  by (simp split: sum.splits)

subsection \<open>The session slot\<close>

text \<open>\<open>x | 0\<close> and the result of \<open><<\<close>: the low 32 bits, read as a signed integer.\<close>

definition to_int32 :: "int \<Rightarrow> int" where
  "to_int32 x = sint (word_of_int x :: 32 word)"

definition hash_step :: "int \<Rightarrow> char \<Rightarrow> int" where
  "hash_step hash c = to_int32 (to_int32 (hash * 2 ^ 5) - hash + int (of_char c))"

definition compute_session_slot :: "string \<Rightarrow> int \<Rightarrow> int" where
  "compute_session_slot destination_addr max_sessions =
     \<bar>foldl hash_step 0 (filter is_digit destination_addr)\<bar> mod max max_sessions 1"

text \<open>The hash over unbounded integers that the 32-bit one wraps.\<close>

fun wide_hash :: "int \<Rightarrow> string \<Rightarrow> int" where
  "wide_hash h [] = h"
| "wide_hash h (c # s) = wide_hash (31 * h + int (of_char c)) s"

lemma to_int32_word: "word_of_int (to_int32 x) = (word_of_int x :: 32 word)"
  by (simp add: to_int32_def)

lemma hash_step_word:
  "(word_of_int (hash_step h c) :: 32 word) = word_of_int (31 * h + int (of_char c))"
proof -
  have "(word_of_int (to_int32 (h * 2 ^ 5)) :: 32 word) = word_of_int (h * 2 ^ 5)"
    by (rule to_int32_word)
  then have "(word_of_int (to_int32 (h * 2 ^ 5) - h + int (of_char c)) :: 32 word) =
      word_of_int (h * 2 ^ 5 - h + int (of_char c))"
    by (simp only: wi_hom_add [symmetric] wi_hom_sub [symmetric])
  then show ?thesis by (simp add: hash_step_def to_int32_word)
qed

lemma fold_hash_step_word:
  "(word_of_int (foldl hash_step h s) :: 32 word) = word_of_int (wide_hash g s)"
  if "(word_of_int h :: 32 word) = word_of_int g"
  using that
proof (induction s arbitrary: h g)
  case (Cons c s)
  have "(word_of_int (31 * h + int (of_char c)) :: 32 word) = word_of_int (31 * g + int (of_char c))"
    using Cons.prems by (simp only: wi_hom_add [symmetric] wi_hom_mult [symmetric])
  then have "(word_of_int (hash_step h c) :: 32 word) = word_of_int (31 * g + int (of_char c))"
    by (simp only: hash_step_word)
  from Cons.IH [OF this] show ?case by simp
qed simp

lemma to_int32_bounds: "- (2 ^ 31) \<le> to_int32 x" "to_int32 x < 2 ^ 31"
  using sint_greater_eq [of "word_of_int x :: 32 word"] sint_less [of "word_of_int x :: 32 word"]
  by (simp_all add: to_int32_def)

lemma fold_hash_signed:
  "foldl hash_step (to_int32 h) s = to_int32 (foldl hash_step (to_int32 h) s)"
proof (induction s arbitrary: h)
  case (Cons c s)
  show ?case using Cons [of "to_int32 (to_int32 h * 2 ^ 5) - to_int32 h + int (of_char c)"]
    by (simp add: hash_step_def)
qed (simp add: to_int32_def)


text \<open>The slot of an address is the 32-bit wrap-around of the polynomial hash of its digits, in
  absolute value, modulo the number of sessions; it is a valid slot, even for a configuration of no
  sessions and for the least 32-bit integer, and other characters of the address do not matter.\<close>

theorem session_slot_hash:
  "compute_session_slot addr n = \<bar>to_int32 (wide_hash 0 (filter is_digit addr))\<bar> mod max n 1 \<and>
   0 \<le> compute_session_slot addr n \<and> compute_session_slot addr n < max n 1 \<and>
   compute_session_slot (filter is_digit addr) n = compute_session_slot addr n"
proof -
  let ?ds = "filter is_digit addr"
  have "foldl hash_step 0 ?ds = to_int32 (foldl hash_step 0 ?ds)"
    using fold_hash_signed [of 0 ?ds] by (simp add: to_int32_def)
  also have "\<dots> = to_int32 (wide_hash 0 ?ds)"
    using fold_hash_step_word [of 0 0 ?ds] by (simp add: to_int32_def)
  finally show ?thesis by (simp add: compute_session_slot_def)
qed

subsection \<open>SMPP sessions\<close>

definition get_session_key :: "smpp_dispatch_request \<Rightarrow> string" where
  "get_session_key request =
     int_str (sq_provider_id request) @ '':'' @ sq_host request @ '':'' @ int_str (sq_port request) @ '':'' @
     sq_system_id request @ '':'' @
     int_str (compute_session_slot (sq_destination_addr request) (sq_max_sessions request))"

record smpp_session =
  ss_session_key :: string
  ss_provider_id :: int
  ss_healthy :: bool

text \<open>The sessions ever connected, by their number; the map of the connector from keys to sessions, in
  the order of insertion; and the sessions whose bind has not been answered yet.\<close>

record smpp_state =
  sp_connected :: "smpp_session list"
  sp_sessions :: "(string \<times> nat) list"
  sp_binding :: "nat list"

definition lookup_session :: "smpp_dispatch_request \<Rightarrow> smpp_state \<Rightarrow> nat option" where
  "lookup_session request st =
     (case map_of (sp_sessions st) (get_session_key request) of
        None \<Rightarrow> None
      | Some i \<Rightarrow> if ss_healthy (sp_connected st ! i) then Some i else None)"

definition connect_session :: "smpp_dispatch_request \<Rightarrow> smpp_state \<Rightarrow> nat \<times> smpp_state" where
  "connect_session request st =
     (length (sp_connected st),
      st\<lparr>sp_connected := sp_connected st @
           [\<lparr>ss_session_key = get_session_key request, ss_provider_id = sq_provider_id request,
             ss_healthy = False\<rparr>],
         sp_binding := sp_binding st @ [length (sp_connected st)]\<rparr>)"

definition set_healthy :: "bool \<Rightarrow> nat \<Rightarrow> smpp_state \<Rightarrow> smpp_state" where
  "set_healthy b i st =
     st\<lparr>sp_connected := (sp_connected st)[i := (sp_connected st ! i)\<lparr>ss_healthy := b\<rparr>]\<rparr>"

definition bind_answered :: "nat \<Rightarrow> int \<Rightarrow> smpp_state \<Rightarrow> nat result \<times> smpp_state" where
  "bind_answered i command_status st =
     (let st1 = st\<lparr>sp_binding := removeAll i (sp_binding st)\<rparr> in
      if command_status = 0
      then (Inr i,
            (set_healthy True i st1)\<lparr>sp_sessions :=
               AList.update (ss_session_key (sp_connected st ! i)) i (sp_sessions st)\<rparr>)
      else (Inl (PlainError (''SMPP bind failed with status '' @ int_str command_status)), st1))"

text \<open>\<open>resolve\<close> is \<open>resolveSecret\<close>, \<open>bind\<close> the answer of the other end to the credentials.\<close>

definition ensure_session ::
  "(string \<Rightarrow> string result) \<Rightarrow> (smpp_dispatch_request \<Rightarrow> string \<Rightarrow> int) \<Rightarrow> smpp_dispatch_request \<Rightarrow>
   smpp_state \<Rightarrow> nat result \<times> smpp_state" where
  "ensure_session resolve bind request st =
     (case lookup_session request st of
        Some i \<Rightarrow> (Inr i, st)
      | None \<Rightarrow>
          (let (i, st1) = connect_session request st in
           case resolve (sq_password_ref request) of
             Inl ex \<Rightarrow> (Inl ex, st1\<lparr>sp_binding := removeAll i (sp_binding st1)\<rparr>)
           | Inr password \<Rightarrow> bind_answered i (bind request password) st1))"

definition drop_session :: "nat \<Rightarrow> smpp_state \<Rightarrow> smpp_state" where
  "drop_session i st =
     (set_healthy False i st)\<lparr>sp_sessions := AList.delete (ss_session_key (sp_connected st ! i)) (sp_sessions st)\<rparr>"

definition session_closed ::
  "circuit_config \<Rightarrow> time \<Rightarrow> int \<Rightarrow> nat \<Rightarrow> smpp_state \<times> redis_value store \<Rightarrow> smpp_state \<times> redis_value store" where
  "session_closed cfg now enquire_link_seconds i = (\<lambda>(st, s).
     (drop_session i st,
      snd (set_state cfg now (ss_provider_id (sp_connected st ! i)) HalfOpen (Some enquire_link_seconds)
        (Some ''smpp_session_closed'') s)))"

definition session_errored ::
  "circuit_config \<Rightarrow> time \<Rightarrow> int \<Rightarrow> string \<Rightarrow> nat \<Rightarrow> smpp_state \<times> redis_value store \<Rightarrow> smpp_state \<times> redis_value store" where
  "session_errored cfg now enquire_link_seconds msg i = (\<lambda>(st, s).
     (drop_session i st,
      snd (set_state cfg now (ss_provider_id (sp_connected st ! i)) Open (Some enquire_link_seconds)
        (Some msg) s)))"

definition evaluate_session_health :: "int \<Rightarrow> smpp_state \<Rightarrow> int \<times> int" where
  "evaluate_session_health provider_id st =
     (let sessions = filter (\<lambda>x. ss_provider_id x = provider_id)
            (map (\<lambda>(k, i). sp_connected st ! i) (sp_sessions st))
      in (int (length sessions), int (length (filter ss_healthy sessions))))"

subsection \<open>Submitting over a session\<close>

text \<open>The answer to \<open>submit_sm\<close>, or none before the timer of the unknown outcome.\<close>

datatype smpp_outcome = SubmitAnswer int "string option" | SubmitTimedOut

fun classify_smpp :: "smpp_outcome \<Rightarrow> int \<Rightarrow> dispatch_result" where
  "classify_smpp SubmitTimedOut latency =
     refused ''unknown_submit_outcome'' ''SMPP submit result timed out'' latency None (Some True)"
| "classify_smpp (SubmitAnswer command_status message_id) latency =
     (if command_status = 0 then accepted_as message_id latency
      else refused (if command_status = 88 then ''smpp_throttle'' else ''smpp_'' @ int_str command_status)
             ''SMPP submit_sm rejected'' latency (Some (command_status = 88)) None)"

definition session_limit_key :: "smpp_dispatch_request \<Rightarrow> string" where
  "session_limit_key request =
     ''rl:provider:'' @ int_str (sq_provider_id request) @ '':session:'' @ get_session_key request"

definition submit_sm ::
  "(string \<Rightarrow> string result) \<Rightarrow> (smpp_dispatch_request \<Rightarrow> string \<Rightarrow> int) \<Rightarrow>
   (smpp_dispatch_request \<Rightarrow> smpp_outcome \<times> int) \<Rightarrow> time \<Rightarrow> smpp_dispatch_request \<Rightarrow>
   (smpp_state \<times> redis_value store, dispatch_result) io" where
  "submit_sm resolve bind answer now request = (\<lambda>(st, s).
     case ensure_session resolve bind request st of
       (Inl ex, st1) \<Rightarrow> (Inl ex, (st1, s))
     | (Inr _, st1) \<Rightarrow>
         (case enforce_limit now (session_limit_key request) (sq_session_tps request) 1 1 s of
            (Inl ex, s1) \<Rightarrow> (Inl ex, (st1, s1))
          | (Inr _, s1) \<Rightarrow>
              (let (outcome, latency) = answer request in
               (Inr (classify_smpp outcome latency), (st1, s1)))))"

subsection \<open>Overlapping calls\<close>

text \<open>\<open>ensureSession\<close> waits for the answer to its bind between looking up the map and writing it, and
  other calls run meanwhile. A step is one piece of a call: a connect after a failed lookup, the
  answer to a bind, or the end of a bound session.\<close>

inductive smpp_step :: "(smpp_dispatch_request \<Rightarrow> bool) \<Rightarrow> smpp_state \<Rightarrow> smpp_state \<Rightarrow> bool"
  for asked :: "smpp_dispatch_request \<Rightarrow> bool" where
  connecting: "asked request \<Longrightarrow> lookup_session request st = None \<Longrightarrow>
     smpp_step asked st (snd (connect_session request st))"
| answered: "i \<in> set (sp_binding st) \<Longrightarrow>
     smpp_step asked st (snd (bind_answered i command_status st))"
| ended: "i < length (sp_connected st) \<Longrightarrow> ss_healthy (sp_connected st ! i) \<Longrightarrow>
     smpp_step asked st (drop_session i st)"

definition no_sessions :: smpp_state where
  "no_sessions = \<lparr>sp_connected = [], sp_sessions = [], sp_binding = []\<rparr>"

abbreviation smpp_reachable :: "(smpp_dispatch_request \<Rightarrow> bool) \<Rightarrow> smpp_state \<Rightarrow> bool" where
  "smpp_reachable asked st \<equiv> (smpp_step asked)\<^sup>*\<^sup>* no_sessions st"


lemma set_AList_update_sub: "set (AList.update k v al) \<subseteq> insert (k, v) {p \<in> set al. fst p \<noteq> k \<or> p \<in> set al}"
  by (induction al) auto




lemma set_healthy_keeps [simp]:
  "length (sp_connected (set_healthy b i st)) = length (sp_connected st)"
  "sp_sessions (set_healthy b i st) = sp_sessions st" "sp_binding (set_healthy b i st) = sp_binding st"
  by (simp_all add: set_healthy_def)









lemma two_connects:
  fixes request :: smpp_dispatch_request
  defines "k \<equiv> get_session_key request"
  defines "x b \<equiv> \<lparr>ss_session_key = k, ss_provider_id = sq_provider_id request, ss_healthy = b\<rparr>"
  shows "smpp_reachable (\<lambda>r. r = request)
      \<lparr>sp_connected = [x True, x True], sp_sessions = [(k, 1)], sp_binding = []\<rparr>"
proof -
  let ?S = "smpp_step (\<lambda>r. r = request)"
  have "?S no_sessions \<lparr>sp_connected = [x False], sp_sessions = [], sp_binding = [0]\<rparr>"
    using smpp_step.connecting [of "\<lambda>r. r = request" request no_sessions]
    by (simp add: connect_session_def no_sessions_def lookup_session_def x_def k_def)
  moreover have "?S \<lparr>sp_connected = [x False], sp_sessions = [], sp_binding = [0]\<rparr>
      \<lparr>sp_connected = [x False, x False], sp_sessions = [], sp_binding = [0, 1]\<rparr>"
    using smpp_step.connecting [of "\<lambda>r. r = request" request
        "\<lparr>sp_connected = [x False], sp_sessions = [], sp_binding = [0]\<rparr>"]
    by (simp add: connect_session_def lookup_session_def x_def k_def)
  moreover have "?S \<lparr>sp_connected = [x False, x False], sp_sessions = [], sp_binding = [0, 1]\<rparr>
      \<lparr>sp_connected = [x True, x False], sp_sessions = [(k, 0)], sp_binding = [1]\<rparr>"
    using smpp_step.answered [of 0 "\<lparr>sp_connected = [x False, x False], sp_sessions = [], sp_binding = [0, 1]\<rparr>"
        "\<lambda>r. r = request" 0]
    by (simp add: bind_answered_def set_healthy_def x_def)
  moreover have "?S \<lparr>sp_connected = [x True, x False], sp_sessions = [(k, 0)], sp_binding = [1]\<rparr>
      \<lparr>sp_connected = [x True, x True], sp_sessions = [(k, 1)], sp_binding = []\<rparr>"
    using smpp_step.answered [of 1 "\<lparr>sp_connected = [x True, x False], sp_sessions = [(k, 0)], sp_binding = [1]\<rparr>"
        "\<lambda>r. r = request" 0]
    by (simp add: bind_answered_def set_healthy_def x_def)
  ultimately show ?thesis by (meson converse_rtranclp_into_rtranclp rtranclp.rtrancl_refl)
qed


text \<open>The maximum does not bound the connections: two calls that overlap both find no session and both
  bind, so one slot has two live sessions of which the map knows one, and the end of the unknown one
  removes the known one from the map while it is still bound.\<close>

theorem overlapping_binds_leak:
  "\<exists>st st'. smpp_reachable (\<lambda>r. r = request) st \<and>
     length (filter ss_healthy (sp_connected st)) = 2 \<and>
     (\<exists>i. map snd (sp_sessions st) = [i]) \<and>
     smpp_step (\<lambda>r. r = request) st st' \<and> sp_sessions st' = [] \<and>
     length (filter ss_healthy (sp_connected st')) = 1"
proof -
  define k where "k = get_session_key request"
  define x where "x b = \<lparr>ss_session_key = k, ss_provider_id = sq_provider_id request, ss_healthy = b\<rparr>" for b
  let ?st = "\<lparr>sp_connected = [x True, x True], sp_sessions = [(k, 1)], sp_binding = []\<rparr>"
  let ?st' = "\<lparr>sp_connected = [x False, x True], sp_sessions = [], sp_binding = []\<rparr>"
  have "smpp_reachable (\<lambda>r. r = request) ?st"
    using two_connects [of request] by (simp add: x_def k_def)
  moreover have "smpp_step (\<lambda>r. r = request) ?st ?st'"
    using smpp_step.ended [of 0 ?st "\<lambda>r. r = request"]
    by (simp add: drop_session_def set_healthy_def x_def AList.delete_eq)
  ultimately show ?thesis
    by (intro exI [of _ ?st] exI [of _ ?st'] conjI) (simp_all add: x_def)
qed

end
