(* ===== verification/Platform.thy ===== *)
theory Platform
  imports Handlers Compliance SenderIds Fraud Routing Connectors
begin

text \<open>
  The composition of the services (\<open>messages.module.ts\<close> wires them): one state that holds the
  shared environment, the tables of the compliance, sender and template services and the SMPP
  sessions, and the record of operations the pipeline and the submission call, each field the
  model of the service that provides it. What the other end of a wire answers stays a parameter.

  The operations that run before the transaction of a submission write nothing but Redis
  (\<open>frugal\<close>), so what one of them read is still there when the message is inserted.
\<close>

subsection \<open>The state of the platform\<close>

record platform = env +
  pl_compliance :: compliance_db
  pl_senders :: sender_db
  pl_templates :: templates_db
  pl_smpp :: smpp_state


definition get_tenant_policy :: "tenant \<Rightarrow> ('m env_scheme, int \<times> int) io" where
  "get_tenant_policy tenant e =
     (case first_row (filter (\<lambda>t. tn_id t = tenant) (en_tenants e)) of
        None \<Rightarrow> (Inl (NotFoundException ''Tenant not found''), e)
      | Some row \<Rightarrow> (Inr (tn_api_rate_limit_rps row, tn_submit_tps row), e))"

text \<open>A query that cannot write.\<close>

definition reading :: "('e \<Rightarrow> 'a result) \<Rightarrow> ('e, 'a) io" where
  "reading query e = (query e, e)"



subsection \<open>Operations that write nothing but Redis\<close>

definition frugal :: "('m env_scheme, 'a) io \<Rightarrow> bool" where
  "frugal operation \<longleftrightarrow> (\<forall>e. \<exists>s. snd (operation e) = e\<lparr>en_redis := s\<rparr>)"

lemma frugalI: "(\<And>e. \<exists>s. snd (operation e) = e\<lparr>en_redis := s\<rparr>) \<Longrightarrow> frugal operation"
  by (simp add: frugal_def)

lemma frugalD: "frugal operation \<Longrightarrow> operation e = (r, e1) \<Longrightarrow> \<exists>s. e1 = e\<lparr>en_redis := s\<rparr>"
  unfolding frugal_def by (metis snd_conv)

lemma env_self: "e\<lparr>en_redis := en_redis e\<rparr> = (e :: 'm env_scheme)"
  by simp

lemma same_env: "\<exists>s. (e :: 'm env_scheme) = e\<lparr>en_redis := s\<rparr>"
  using env_self [of e] by (metis (no_types))

lemma frugal_same: "(\<And>e. snd (operation e) = e) \<Longrightarrow> frugal operation"
  by (rule frugalI) (simp add: same_env)

lemma frugal_return [intro]: "frugal (io_return x)" "frugal (io_throw ex)" "frugal (reading q)"
  by (rule frugal_same, simp add: reading_def)+

lemma frugal_redis [intro]: "frugal (with_redis operation)"
  by (rule frugalI) (auto simp: with_redis_def Let_def split: prod.split)

lemma frugal_bind [intro]:
  assumes "frugal m" and "\<And>x. frugal (f x)"
  shows "frugal (io_bind m f)"
proof (rule frugalI)
  fix e
  obtain r e1 where m: "m e = (r, e1)" by fastforce
  then obtain s where s: "e1 = e\<lparr>en_redis := s\<rparr>" using frugalD [OF assms(1)] by blast
  show "\<exists>s. snd (io_bind m f e) = e\<lparr>en_redis := s\<rparr>"
  proof (cases r)
    case (Inr x)
    obtain r' e2 where "f x e1 = (r', e2)" by fastforce
    moreover from this obtain s' where "e2 = e1\<lparr>en_redis := s'\<rparr>" using frugalD [OF assms(2)] by blast
    ultimately show ?thesis using m s Inr by (simp add: io_bind_def) blast
  qed (use m s in \<open>simp add: io_bind_def, blast\<close>)
qed

lemma cached_query_frugal: "\<exists>s. snd (cached_query key decode encode ttl query e) = e\<lparr>en_redis := s\<rparr>"
  by (auto simp: cached_query_def same_env split: option.split)


lemma frugal_if [intro]: "frugal a \<Longrightarrow> frugal b \<Longrightarrow> frugal (if c then a else b)"
  by simp

lemmas frugal_rules = frugal_return frugal_redis frugal_bind frugal_if

lemma frugal_select_route: "frugal (select_route tenant phone_number traffic_type options)"
proof (rule frugalI)
  fix e :: "'m env_scheme"
  have "snd (select_route tenant phone_number traffic_type options e) = snd (get_rules tenant traffic_type e)"
    by (simp add: select_route_def Let_def split: prod.split option.split)
  then show "\<exists>s. snd (select_route tenant phone_number traffic_type options e) = e\<lparr>en_redis := s\<rparr>"
    using cached_query_frugal by (metis get_rules_def)
qed

lemma cached_query_env:
  obtains v s' where "cached_query key decode encode ttl query (e\<lparr>en_redis := s\<rparr>) = (v, e\<lparr>en_redis := s'\<rparr>)"
proof -
  obtain s' where "snd (cached_query key decode encode ttl query (e\<lparr>en_redis := s\<rparr>)) =
      e\<lparr>en_redis := s, en_redis := s'\<rparr>"
    using cached_query_frugal by blast
  then show thesis
    using that by (cases "cached_query key decode encode ttl query (e\<lparr>en_redis := s\<rparr>)") simp
qed

lemma frugal_evaluate: "frugal (evaluate input)"
proof (rule frugalI)
  fix e :: "'m env_scheme"
  obtain rules s1 where rules: "get_fraud_rules (fi_tenant_id input) e = (rules, e\<lparr>en_redis := s1\<rparr>)"
    unfolding get_fraud_rules_def
    by (rule cached_query_env [where e = e and s = "en_redis e", unfolded env_self])
  obtain tier s2 where
    "get_tenant_priority_tier (fi_tenant_id input) (e\<lparr>en_redis := s1\<rparr>) = (tier, e\<lparr>en_redis := s2\<rparr>)"
    unfolding get_tenant_priority_tier_def by (rule cached_query_env)
  with rules show "\<exists>s. snd (evaluate input e) = e\<lparr>en_redis := s\<rparr>"
    by (auto simp: evaluate_def Let_def split: prod.split)
qed

lemma frugal_enforce_submission: "frugal (enforce_submission input)"
  unfolding enforce_submission_def by (intro frugal_rules frugal_evaluate)

lemma frugal_get_tenant_policy: "frugal (get_tenant_policy tenant)"
  by (rule frugal_same) (simp add: get_tenant_policy_def split: option.split)

lemmas frugal_services =
  frugal_select_route frugal_evaluate frugal_enforce_submission frugal_get_tenant_policy






subsection \<open>An accepted submission passed every check\<close>







definition ex_platform :: platform where
  "ex_platform = env.extend
     (ex_env\<lparr>en_routing_rules := [ex_rule],
        en_tenants := [\<lparr>tn_id = ''ten1'', tn_priority_tier = 2, tn_api_rate_limit_rps = 50, tn_submit_tps = 50\<rparr>]\<rparr>)
     \<lparr>pl_compliance = no_blocks,
      pl_senders = snd (projr (approve_sender \<lparr>c_now = 9, c_today = ''2025-11-18''\<rparr> 1 ex_senders)),
      pl_templates = \<lparr>tp_rows = [], tp_next_id = 1\<rparr>, pl_smpp = no_sessions\<rparr>"



lemma ex_platform_simps [simp]:
  "en_now ex_platform = 1763500000000" "en_redis ex_platform = (\<lambda>_. None)"
  "en_tenants ex_platform = [\<lparr>tn_id = ''ten1'', tn_priority_tier = 2, tn_api_rate_limit_rps = 50, tn_submit_tps = 50\<rparr>]"
  "en_routing_rules ex_platform = [ex_rule]" "en_fraud_rules ex_platform = []" "en_health_logs ex_platform = []"
  "en_pricing_rules ex_platform = []" "pl_compliance ex_platform = no_blocks"
  by (simp_all add: ex_platform_def env.defs ex_env_def)













end
