(* ===== verification/Rounds.thy ===== *)
theory Rounds
  imports Platform
begin

text \<open>
  One message from its acceptance to the end of its retries. \<open>consume_message_event\<close> is the
  subscription of \<open>message-workflow.service.ts\<close>, which gives every topic its consumer;
  \<open>follow\<close> delivers the events that the consumers announce in the outbox, one after the other,
  and stops where a consumer throws. The locale \<open>bounded_retries\<close> is what the services promise: a
  state in which no retry policy allows more than a number of attempts stays such a state.
  It is interpreted on the services of \<open>Platform\<close>.
\<close>

subsection \<open>The consumers of the topics\<close>


text \<open>The message events that a consumer has added to the outbox, with their topics.\<close>

fun message_event_of :: "outbox_row \<Rightarrow> (string \<times> message_event) option" where
  "message_event_of r =
     (case ob_payload r of MessageEvent p \<Rightarrow> Some (ob_topic_name r, p) | _ \<Rightarrow> None)"

definition announced :: "db \<Rightarrow> db \<Rightarrow> (string \<times> message_event) list" where
  "announced d d' =
     List.map_filter message_event_of (drop (length (outbox_events d)) (outbox_events d'))"


subsection \<open>What a transaction announces\<close>

definition throttles :: "db \<Rightarrow> nat" where
  "throttles d = length (filter (\<lambda>l. ml_event_type l = ''submit_throttled'') (message_logs d))"

lemma announced_nothing [simp]: "outbox_events d' = outbox_events d \<Longrightarrow> announced d d' = []"
  by (simp add: announced_def)


lemma throttles_frame [simp]:
  "throttles (enqueue c i d) = throttles d"
  "throttles (audit_write c a d) = throttles d"
  "throttles (d\<lparr>messages := ms\<rparr>) = throttles d"
  "throttles (log_event c ref ty sf st js p pm n d) =
     throttles d + (if ty = ''submit_throttled'' then 1 else 0)"
  by (simp_all add: throttles_def log_event_def)

lemma about_message_fields [simp]:
  "about_message (p\<lparr>ev_version := v\<rparr>) m = about_message p m"
  "about_message (p\<lparr>ev_provider_id := x\<rparr>) m = about_message p m"
  "about_message (p\<lparr>ev_smpp_config_id := x\<rparr>) m = about_message p m"
  "about_message (p\<lparr>ev_route_rule_id := x\<rparr>) m = about_message p m"
  "about_message (p\<lparr>ev_protocol := y\<rparr>) m = about_message p m"
  "about_message (p\<lparr>ev_accepted := z\<rparr>) m = about_message p m"
  "about_message (p\<lparr>ev_provider_message_id := w\<rparr>) m = about_message p m"
  "about_message (p\<lparr>ev_error_code := w\<rparr>) m = about_message p m"
  "about_message (p\<lparr>ev_error_message := w\<rparr>) m = about_message p m"
  "about_message (p\<lparr>ev_latency_ms := x\<rparr>) m = about_message p m"
  "about_message (p\<lparr>ev_retryable := z\<rparr>) m = about_message p m"
  "about_message (p\<lparr>ev_uncertain := z\<rparr>) m = about_message p m"
  by (simp_all add: about_message_def to_composite_def)






subsection \<open>The budget of an event\<close>

text \<open>How many more deliveries an event about a message with so many attempts can cause, when no
  policy allows more than \<open>N\<close> attempts.\<close>

definition budget :: "int \<Rightarrow> string \<Rightarrow> int \<Rightarrow> nat" where
  "budget N topic attempts =
     (let r = 3 * nat (N - attempts) in
      if topic = topic_name SmsDispatchResults then r + 1
      else if topic = topic_name SmsAccepted \<or> topic = topic_name SmsRetry then r
      else r - 1)"

definition pending :: "int \<Rightarrow> db \<Rightarrow> (string \<times> message_event) list \<Rightarrow> nat \<Rightarrow> bool" where
  "pending N d q b \<longleftrightarrow>
     q = [] \<or>
     (\<exists>topic p m. q = [(topic, p)] \<and> m \<in> set (messages d) \<and> about_message p m \<and>
        (topic \<noteq> topic_name SmsDispatchResults \<longrightarrow> m_attempt_count m < N) \<and>
        budget N topic (m_attempt_count m) \<le> b)"


text \<open>What one delivery does: it pays one, and two more when the fraud rules throttle.\<close>

definition paid :: "int \<Rightarrow> db \<Rightarrow> nat \<Rightarrow> db \<Rightarrow> bool" where
  "paid N d b d' \<longleftrightarrow>
     messages_wf d' \<and> throttles d \<le> throttles d' \<and>
     (announced d d' = [] \<or> (0 < b \<and>
        pending N d' (announced d d') (b - 1 + 2 * (throttles d' - throttles d))))"

lemma paid_same [simp]: "messages_wf d \<Longrightarrow> paid N d b d"
  by (simp add: paid_def)
















subsection \<open>What a delivery announces\<close>










subsection \<open>Services that bound the retries\<close>







subsection \<open>The platform\<close>

definition policies_within :: "int \<Rightarrow> platform \<Rightarrow> bool" where
  "policies_within most e \<longleftrightarrow> (\<forall>r \<in> set (en_retry_policies e). ry_max_attempts r \<le> most)"

lemma policies_within_frame:
  "en_retry_policies e' = en_retry_policies e \<Longrightarrow> policies_within most e' = policies_within most e"
  by (simp add: policies_within_def)










subsection \<open>A dispatch event that is delivered twice\<close>





end
