(* ===== verification/RoutingAdmin.thy ===== *)
theory RoutingAdmin
  imports Routing
begin

text \<open>
  The maintenance side of \<open>routing.service.ts\<close>: listing, creating and changing routing rules,
  prices and retry policies. A row names a tenant, a provider and an SMPP configuration by
  foreign keys, so a statement that names a missing one is refused by the database.
\<close>

definition scoped_tenant :: "jwt_claims \<Rightarrow> tenant option \<Rightarrow> tenant result" where
  "scoped_tenant user requested =
     (if truthy_str requested then resolve_tenant_scope user requested else Inr (jc_tenant_id user))"

lemma scoped_tenant_eq: "scoped_tenant user requested = resolve_tenant_scope user requested"
  by (simp add: scoped_tenant_def resolve_tenant_scope_def)

definition references_ok :: "tenant \<Rightarrow> int option \<Rightarrow> int option \<Rightarrow> 'm env_scheme \<Rightarrow> bool" where
  "references_ok tenant provider smpp e \<longleftrightarrow>
     list_ex (\<lambda>t. tn_id t = tenant) (en_tenants e) \<and>
     sql_filter provider (\<lambda>p. list_ex (\<lambda>r. pp_id r = p) (en_providers e)) \<and>
     sql_filter smpp (\<lambda>c. list_ex (\<lambda>r. sc_id r = c) (en_smpp_configs e))"

subsection \<open>Routing rules\<close>

record upsert_routing_dto =
  ur_tenant_id :: "tenant option"
  ur_name :: string
  ur_country_code :: "string option"
  ur_traffic_type :: "string option"
  ur_provider_id :: int
  ur_smpp_config_id :: "int option"
  ur_preferred_protocol :: "protocol option"
  ur_priority :: "int option"
  ur_weight :: "int option"
  ur_max_tps :: "int option"
  ur_cost_rank :: "int option"
  ur_failover_order :: "int option"
  ur_is_active :: "bool option"

definition routing_rule_json :: "routing_rule \<Rightarrow> json" where
  "routing_rule_json row =
     jobj [(''id'', Some (jint (ru_id row))),
           (''tenantId'', Some (jnullable JStr (ru_tenant_id row))),
           (''name'', Some (JStr (ru_name row))),
           (''countryCode'', Some (JStr (ru_country_code row))),
           (''trafficType'', Some (JStr (ru_traffic_type row))),
           (''providerId'', Some (jint (ru_provider_id row))),
           (''smppConfigId'', Some (jnullable jint (ru_smpp_config_id row))),
           (''preferredProtocol'', Some (jnullable (\<lambda>p. JStr (protocol_str p)) (ru_preferred_protocol row))),
           (''priority'', Some (jint (ru_priority row))),
           (''weight'', Some (jint (ru_weight row))),
           (''maxTps'', Some (jnullable jint (ru_max_tps row))),
           (''costRank'', Some (jint (ru_cost_rank row))),
           (''failoverOrder'', Some (jint (ru_failover_order row))),
           (''isActive'', Some (JBool (ru_is_active row))),
           (''updatedAt'', Some (jint (ru_updated_at row)))]"

definition tenant_rules :: "tenant \<Rightarrow> 'm env_scheme \<Rightarrow> routing_rule list" where
  "tenant_rules tenant e =
     sort_key (\<lambda>r. (ru_priority r, ru_failover_order r, ru_id r))
       (filter (\<lambda>r. ru_tenant_id r = Some tenant \<or> ru_tenant_id r = None) (en_routing_rules e))"

definition list_routing_rules ::
  "jwt_claims \<Rightarrow> tenant option \<Rightarrow> 'm env_scheme \<Rightarrow> json list result" where
  "list_routing_rules user requested e =
     and_then (scoped_tenant user requested) (\<lambda>tenant. Inr (map routing_rule_json (tenant_rules tenant e)))"

definition new_routing_rule ::
  "'m env_scheme \<Rightarrow> tenant \<Rightarrow> upsert_routing_dto \<Rightarrow> int \<Rightarrow> routing_rule" where
  "new_routing_rule e tenant dto rule_id =
     \<lparr>ru_id = rule_id,
      ru_tenant_id = Some tenant,
      ru_name = ur_name dto,
      ru_country_code = coalesce (ur_country_code dto) ''ET'',
      ru_traffic_type = coalesce (ur_traffic_type dto) ''transactional'',
      ru_provider_id = ur_provider_id dto,
      ru_smpp_config_id = ur_smpp_config_id dto,
      ru_preferred_protocol = ur_preferred_protocol dto,
      ru_priority = coalesce (ur_priority dto) 100,
      ru_weight = coalesce (ur_weight dto) 100,
      ru_max_tps = ur_max_tps dto,
      ru_cost_rank = coalesce (ur_cost_rank dto) 100,
      ru_failover_order = coalesce (ur_failover_order dto) 1,
      ru_is_active = coalesce (ur_is_active dto) True,
      ru_updated_at = en_now e\<rparr>"

text \<open>The statement the service runs: an update by id when an id is given (and not zero), an insert
  otherwise; \<open>RETURNING\<close> gives the row, or none when the id is unknown.\<close>

definition write_routing_rule ::
  "tenant \<Rightarrow> upsert_routing_dto \<Rightarrow> int option \<Rightarrow> ('m env_scheme, int option) io" where
  "write_routing_rule tenant dto rule_id e =
     (if truthy_int rule_id then
        (let hit = (\<lambda>r. ru_id r = the rule_id);
             row = new_routing_rule e tenant dto (the rule_id)
         in if filter hit (en_routing_rules e) = [] then (Inr None, e)
            else if \<not> references_ok tenant (Some (ur_provider_id dto)) (ur_smpp_config_id dto) e
            then (Inl foreign_key_error, e)
            else (Inr (Some (the rule_id)),
                  e\<lparr>en_routing_rules := sql_update hit (\<lambda>_. row) (en_routing_rules e)\<rparr>))
      else if \<not> references_ok tenant (Some (ur_provider_id dto)) (ur_smpp_config_id dto) e
      then (Inl foreign_key_error, e)
      else
        (Inr (Some (en_next_routing_id e)),
         e\<lparr>en_routing_rules := en_routing_rules e @
             [new_routing_rule e tenant dto (en_next_routing_id e)],
           en_next_routing_id := en_next_routing_id e + 1\<rparr>))"

definition upsert_routing_rule ::
  "jwt_claims \<Rightarrow> upsert_routing_dto \<Rightarrow> int option \<Rightarrow> ('m env_scheme, json) io" where
  "upsert_routing_rule user dto rule_id =
     io_bind (\<lambda>e. (scoped_tenant user (ur_tenant_id dto), e)) (\<lambda>tenant.
     io_bind (write_routing_rule tenant dto rule_id) (\<lambda>returned.
     (\<lambda>e. (let e' = e\<lparr>en_redis :=
             redis_del (rules_cache_key tenant (coalesce (ur_traffic_type dto) ''transactional'')) (en_redis e)\<rparr>
           in (and_then (scoped_tenant user (Some tenant)) (\<lambda>own.
                 Inr (case first_row (filter (\<lambda>r. Some (ru_id r) = returned) (tenant_rules own e')) of
                        None \<Rightarrow> jobj [] | Some r \<Rightarrow> routing_rule_json r)), e')))))"

subsection \<open>Prices\<close>

record upsert_pricing_dto =
  up_kind :: string
  up_tenant_id :: "tenant option"
  up_provider_id :: "int option"
  up_country_code :: "string option"
  up_traffic_type :: "string option"
  up_parts_from :: "int option"
  up_parts_to :: "int option"
  up_unit_price_minor :: int
  up_currency :: "string option"
  up_is_active :: "bool option"

definition pricing_rule_json :: "pricing_rule \<Rightarrow> json" where
  "pricing_rule_json row =
     jobj [(''id'', Some (jint (pr_id row))),
           (''kind'', Some (JStr (pr_kind row))),
           (''tenantId'', Some (jnullable JStr (pr_tenant_id row))),
           (''providerId'', Some (jnullable jint (pr_provider_id row))),
           (''countryCode'', Some (JStr (pr_country_code row))),
           (''trafficType'', Some (JStr (pr_traffic_type row))),
           (''partsFrom'', Some (jint (pr_parts_from row))),
           (''partsTo'', Some (jint (pr_parts_to row))),
           (''unitPriceMinor'', Some (jint (pr_unit_price_minor row))),
           (''currency'', Some (JStr (pr_currency row))),
           (''effectiveFrom'', Some (jint (pr_effective_from row))),
           (''effectiveTo'', Some (jnullable jint (pr_effective_to row))),
           (''isActive'', Some (JBool (pr_is_active row)))]"

text \<open>\<open>ORDER BY kind ASC, effective_from DESC, id DESC\<close>: a stable sort by the kind of the rows in the
  order of the other two keys. \<open>kind\<close> is \<open>cost\<close> or \<open>sell\<close>.\<close>

definition list_pricing_rules ::
  "jwt_claims \<Rightarrow> tenant option \<Rightarrow> 'm env_scheme \<Rightarrow> json list result" where
  "list_pricing_rules user requested e =
     and_then (scoped_tenant user requested) (\<lambda>tenant.
       Inr (map pricing_rule_json
         (sort_key (\<lambda>r. (pr_kind r = ''sell'', - pr_effective_from r, - pr_id r))
           (filter (\<lambda>r. pr_tenant_id r = Some tenant \<or> pr_provider_id r \<noteq> None) (en_pricing_rules e)))))"

text \<open>What both statements write; \<open>effective_from\<close> and \<open>effective_to\<close> keep their values in an update and
  take the defaults of the table (now, null) in an insert.\<close>

definition priced :: "tenant \<Rightarrow> upsert_pricing_dto \<Rightarrow> pricing_rule \<Rightarrow> pricing_rule" where
  "priced tenant dto row =
     row\<lparr>pr_kind := up_kind dto,
         pr_tenant_id := (if up_kind dto = ''sell'' then Some tenant else None),
         pr_provider_id := (if up_kind dto = ''cost'' then up_provider_id dto else None),
         pr_country_code := coalesce (up_country_code dto) ''ET'',
         pr_traffic_type := coalesce (up_traffic_type dto) ''transactional'',
         pr_parts_from := coalesce (up_parts_from dto) 1,
         pr_parts_to := coalesce (up_parts_to dto) 1,
         pr_unit_price_minor := up_unit_price_minor dto,
         pr_currency := coalesce (up_currency dto) ''ETB'',
         pr_is_active := coalesce (up_is_active dto) True\<rparr>"

definition blank_price :: "'m env_scheme \<Rightarrow> pricing_rule" where
  "blank_price e =
     \<lparr>pr_id = en_next_pricing_id e, pr_kind = [], pr_tenant_id = None, pr_provider_id = None,
      pr_country_code = ''ET'', pr_traffic_type = ''transactional'', pr_parts_from = 1, pr_parts_to = 10,
      pr_unit_price_minor = 0, pr_currency = ''ETB'', pr_effective_from = en_now e,
      pr_effective_to = None, pr_is_active = True\<rparr>"

definition price_references_ok :: "tenant \<Rightarrow> upsert_pricing_dto \<Rightarrow> 'm env_scheme \<Rightarrow> bool" where
  "price_references_ok tenant dto e \<longleftrightarrow>
     (if up_kind dto = ''sell'' then list_ex (\<lambda>t. tn_id t = tenant) (en_tenants e)
      else sql_filter (up_provider_id dto) (\<lambda>p. list_ex (\<lambda>r. pp_id r = p) (en_providers e)))"

definition upsert_pricing_rule ::
  "jwt_claims \<Rightarrow> upsert_pricing_dto \<Rightarrow> int option \<Rightarrow> ('m env_scheme, int option) io" where
  "upsert_pricing_rule user dto rule_id =
     io_bind (\<lambda>e. (scoped_tenant user (up_tenant_id dto), e)) (\<lambda>tenant e.
       if truthy_int rule_id then
         (let hit = (\<lambda>r. pr_id r = the rule_id) in
          if filter hit (en_pricing_rules e) = [] then (Inr None, e)
          else if \<not> price_references_ok tenant dto e then (Inl foreign_key_error, e)
          else (Inr rule_id,
                e\<lparr>en_pricing_rules := sql_update hit (priced tenant dto) (en_pricing_rules e)\<rparr>))
       else if \<not> price_references_ok tenant dto e then (Inl foreign_key_error, e)
       else
         (Inr (Some (en_next_pricing_id e)),
          e\<lparr>en_pricing_rules := en_pricing_rules e @ [priced tenant dto (blank_price e)],
            en_next_pricing_id := en_next_pricing_id e + 1\<rparr>))"

subsection \<open>Retry policies\<close>

record upsert_retry_dto =
  uy_tenant_id :: "tenant option"
  uy_provider_id :: "int option"
  uy_traffic_type :: "string option"
  uy_max_attempts :: "int option"
  uy_retry_intervals :: "int list"
  uy_retry_on_errors :: "string list"
  uy_is_active :: "bool option"

definition list_retry_policies ::
  "jwt_claims \<Rightarrow> tenant option \<Rightarrow> 'm env_scheme \<Rightarrow> retry_policy_row list result" where
  "list_retry_policies user requested e =
     and_then (scoped_tenant user requested) (\<lambda>tenant.
       Inr (sort_key (\<lambda>r. (- ry_updated_at r, - ry_id r))
         (filter (\<lambda>r. ry_tenant_id r = Some tenant \<or> ry_tenant_id r = None) (en_retry_policies e))))"

definition new_retry_policy ::
  "'m env_scheme \<Rightarrow> tenant \<Rightarrow> upsert_retry_dto \<Rightarrow> int \<Rightarrow> retry_policy_row" where
  "new_retry_policy e tenant dto policy_id =
     \<lparr>ry_id = policy_id, ry_tenant_id = Some tenant, ry_provider_id = uy_provider_id dto,
      ry_traffic_type = uy_traffic_type dto, ry_max_attempts = coalesce (uy_max_attempts dto) 3,
      ry_retry_intervals = uy_retry_intervals dto, ry_retry_on_errors = uy_retry_on_errors dto,
      ry_is_active = coalesce (uy_is_active dto) True, ry_updated_at = en_now e\<rparr>"

definition upsert_retry_policy ::
  "jwt_claims \<Rightarrow> upsert_retry_dto \<Rightarrow> int option \<Rightarrow> ('m env_scheme, int option) io" where
  "upsert_retry_policy user dto policy_id =
     io_bind (\<lambda>e. (scoped_tenant user (uy_tenant_id dto), e)) (\<lambda>tenant e.
       if truthy_int policy_id then
         (let hit = (\<lambda>r. ry_id r = the policy_id) in
          if filter hit (en_retry_policies e) = [] then (Inr None, e)
          else if \<not> references_ok tenant (uy_provider_id dto) None e then (Inl foreign_key_error, e)
          else (Inr policy_id,
                e\<lparr>en_retry_policies :=
                    sql_update hit (\<lambda>_. new_retry_policy e tenant dto (the policy_id)) (en_retry_policies e)\<rparr>))
       else if \<not> references_ok tenant (uy_provider_id dto) None e then (Inl foreign_key_error, e)
       else
         (Inr (Some (en_next_policy_id e)),
          e\<lparr>en_retry_policies := en_retry_policies e @ [new_retry_policy e tenant dto (en_next_policy_id e)],
            en_next_policy_id := en_next_policy_id e + 1\<rparr>))"

subsection \<open>When a change takes effect\<close>

lemma rules_cache_key_inject:
  assumes "CHR '':'' \<notin> set t" and "CHR '':'' \<notin> set t'"
  shows "rules_cache_key t tt = rules_cache_key t' tt' \<longleftrightarrow> t = t' \<and> tt = tt'"
  using sep_append_eq [OF assms, of tt tt'] by (auto simp: rules_cache_key_def)

lemma upsert_routing_ruleD:
  assumes "upsert_routing_rule user dto rule_id e = (Inr response, e')"
  shows "\<exists>tenant returned e1. resolve_tenant_scope user (ur_tenant_id dto) = Inr tenant \<and>
    write_routing_rule tenant dto rule_id e = (Inr returned, e1) \<and>
    e' = e1\<lparr>en_redis :=
      redis_del (rules_cache_key tenant (coalesce (ur_traffic_type dto) ''transactional'')) (en_redis e1)\<rparr>"
  using assms
  by (auto simp: upsert_routing_rule_def io_bind_def Let_def scoped_tenant_eq
      split: sum.splits prod.splits)

lemma write_routing_rule_keeps:
  "write_routing_rule tenant dto rule_id e = (r, e1) \<Longrightarrow>
   en_now e1 = en_now e \<and> en_redis e1 = en_redis e"
  by (auto simp: write_routing_rule_def Let_def split: if_splits)

lemma applicable_rules_redis:
  "applicable_rules tenant tt (e\<lparr>en_redis := s\<rparr>) = applicable_rules tenant tt e"
  by (simp add: applicable_rules_def)

text \<open>After a rule is written, the next selection of that tenant and traffic type reads the table as
  it is now; every other cached list of rules is still served until it expires, so a rule moved to
  another traffic type keeps routing the old one for up to a minute.\<close>

theorem upsert_takes_effect:
  assumes "upsert_routing_rule user dto rule_id e = (Inr response, e')"
    and "resolve_tenant_scope user (ur_tenant_id dto) = Inr tenant"
    and "CHR '':'' \<notin> set tenant" and "CHR '':'' \<notin> set other"
  shows "fst (get_rules tenant (coalesce (ur_traffic_type dto) ''transactional'') e') =
      applicable_rules tenant (coalesce (ur_traffic_type dto) ''transactional'') e' \<and>
    ((other, tt) \<noteq> (tenant, coalesce (ur_traffic_type dto) ''transactional'') \<longrightarrow>
     redis_get (en_now e) (rules_cache_key other tt) (en_redis e) = Some (RoutingRulesValue stale) \<longrightarrow>
     fst (get_rules other tt e') = stale)"
proof -
  let ?tt = "coalesce (ur_traffic_type dto) ''transactional''"
  from upsert_routing_ruleD [OF assms(1)] assms(2) obtain returned e1 where
    w: "write_routing_rule tenant dto rule_id e = (Inr returned, e1)" and
    e': "e' = e1\<lparr>en_redis := redis_del (rules_cache_key tenant ?tt) (en_redis e1)\<rparr>"
    by auto
  have clock: "en_now e' = en_now e" "en_redis e' = redis_del (rules_cache_key tenant ?tt) (en_redis e)"
    using write_routing_rule_keeps [OF w] by (simp_all add: e')
  have "redis_get (en_now e') (rules_cache_key tenant ?tt) (en_redis e') = None"
    by (simp add: clock redis_get_del)
  then have "fst (get_rules tenant ?tt e') = applicable_rules tenant ?tt e'"
    by (simp add: get_rules_def cached_query_miss)
  moreover have "fst (get_rules other tt e') = stale"
    if "(other, tt) \<noteq> (tenant, ?tt)"
      and c: "redis_get (en_now e) (rules_cache_key other tt) (en_redis e) = Some (RoutingRulesValue stale)"
  proof -
    have "rules_cache_key other tt \<noteq> rules_cache_key tenant ?tt"
      using that(1) rules_cache_key_inject [OF assms(4,3), of tt ?tt] by auto
    with c show ?thesis
      by (simp add: get_rules_def cached_query_def clock redis_get_del decode_routing_rules_def)
  qed
  ultimately show ?thesis by blast
qed

text \<open>No write leaves a rule global: whatever rule an update names, a rule of all tenants included,
  belongs to the caller's tenant in scope afterwards and no other tenant's selection reads it from
  the table again.\<close>

theorem update_captures_rule:
  assumes "upsert_routing_rule user dto (Some rule_id) e = (Inr response, e')" and "rule_id \<noteq> 0"
    and "resolve_tenant_scope user (ur_tenant_id dto) = Inr tenant" and "other \<noteq> tenant"
  shows "rule_id \<notin> ru_id ` set (applicable_rules other tt e')"
proof -
  from upsert_routing_ruleD [OF assms(1)] assms(3) obtain returned e1 where
    w: "write_routing_rule tenant dto (Some rule_id) e = (Inr returned, e1)" and
    rules: "en_routing_rules e' = en_routing_rules e1"
    by auto
  have "\<forall>r \<in> set (en_routing_rules e1). ru_id r = rule_id \<longrightarrow> ru_tenant_id r = Some tenant"
    using w assms(2)
    by (auto simp: write_routing_rule_def Let_def truthy_int_def new_routing_rule_def filter_empty_conv
        set_sql_update split: if_splits)
  then show ?thesis using assms(4) by (auto simp: applicable_rules_def rules)
qed


text \<open>A sell price created without \<open>partsTo\<close> prices one-part messages only: for two or more parts
  the price list answers as if it had not been created (0 when nothing else matches), although the
  table itself would default to ten parts.\<close>

theorem default_price_covers_one_part:
  assumes "upsert_pricing_rule user dto None e = (Inr new_id, e')"
    and "up_parts_to dto = None" and "2 \<le> parts"
  shows "get_sell_unit_price_minor c (en_pricing_rules e') tenant country tt parts =
    get_sell_unit_price_minor c (en_pricing_rules e) tenant country tt parts"
proof -
  obtain t where "en_pricing_rules e' = en_pricing_rules e @ [priced t dto (blank_price e)]"
    using assms(1)
    by (auto simp: upsert_pricing_rule_def io_bind_def split: sum.splits prod.splits if_splits)
  then show ?thesis
    using assms(2,3) by (simp add: get_sell_unit_price_minor_def priced_def)
qed

subsection \<open>Examples\<close>

definition ex_admin :: env where
  "ex_admin = ex_env
     \<lparr>en_tenants := [\<lparr>tn_id = ''ten1'', tn_priority_tier = 2, tn_api_rate_limit_rps = 50, tn_submit_tps = 50\<rparr>],
      en_providers := [\<lparr>pp_id = 3, pp_code = ''p3'', pp_name = ''P3'', pp_default_protocol = Http,
        pp_http_base_url = Some ''https://p3'', pp_max_global_tps = 10, pp_health_status = ''healthy'',
        pv_priority = 1, pv_is_active = True, pv_created_at = 0, pv_updated_at = 0\<rparr>],
      en_routing_rules := [ex_rule],
      en_redis := [rules_cache_key ''ten1'' ''otp'' \<mapsto> (RoutingRulesValue [ex_rule], None)]\<rparr>"

definition ex_routing_dto :: upsert_routing_dto where
  "ex_routing_dto =
     \<lparr>ur_tenant_id = None, ur_name = ''primary'', ur_country_code = None, ur_traffic_type = None,
      ur_provider_id = 3, ur_smpp_config_id = None, ur_preferred_protocol = None, ur_priority = None,
      ur_weight = None, ur_max_tps = None, ur_cost_rank = None, ur_failover_order = None,
      ur_is_active = None\<rparr>"

lemma ex_upsert:
  "\<exists>response e'. upsert_routing_rule ex_claims ex_routing_dto (Some 1) ex_admin = (Inr response, e')"
proof -
  have "jc_tenant_id ex_claims = ''ten1''" by (simp add: ex_claims_def)
  then show ?thesis
    by (simp add: upsert_routing_rule_def io_bind_def scoped_tenant_def ex_routing_dto_def
        write_routing_rule_def references_ok_def ex_admin_def ex_rule_def Let_def and_then_def
        resolve_tenant_scope_def)
qed

theorem upsert_takes_effect_witness:
  "\<exists>response e'. upsert_routing_rule ex_claims ex_routing_dto (Some 1) ex_admin = (Inr response, e') \<and>
     fst (get_rules ''ten1'' ''transactional'' e') = applicable_rules ''ten1'' ''transactional'' e' \<and>
     fst (get_rules ''ten1'' ''otp'' e') = [ex_rule]"
proof -
  obtain response e' where u: "upsert_routing_rule ex_claims ex_routing_dto (Some 1) ex_admin = (Inr response, e')"
    using ex_upsert by auto
  have t: "resolve_tenant_scope ex_claims (ur_tenant_id ex_routing_dto) = Inr ''ten1''"
    "ur_traffic_type ex_routing_dto = None"
    by (simp_all add: ex_routing_dto_def ex_claims_def)
  have "redis_get (en_now ex_admin) (rules_cache_key ''ten1'' ''otp'') (en_redis ex_admin) =
      Some (RoutingRulesValue [ex_rule])"
    by (simp add: ex_admin_def redis_get_def alive_def)
  with upsert_takes_effect [OF u t(1), of "''ten1''" "''otp''" "[ex_rule]"] u show ?thesis
    by (auto simp: t(2))
qed

theorem update_captures_rule_witness:
  "\<exists>response e'. upsert_routing_rule ex_claims ex_routing_dto (Some 1) ex_admin = (Inr response, e') \<and>
     1 \<in> ru_id ` set (applicable_rules ''ten2'' ''otp'' ex_admin) \<and>
     1 \<notin> ru_id ` set (applicable_rules ''ten2'' ''otp'' e')"
proof -
  obtain response e' where u: "upsert_routing_rule ex_claims ex_routing_dto (Some 1) ex_admin = (Inr response, e')"
    using ex_upsert by auto
  have "resolve_tenant_scope ex_claims (ur_tenant_id ex_routing_dto) = Inr ''ten1''"
    by (simp add: ex_routing_dto_def ex_claims_def)
  from update_captures_rule [OF u _ this, of "''ten2''" "''otp''"] u show ?thesis
    by (simp add: applicable_rules_def ex_admin_def ex_rule_def)
qed

theorem default_price_covers_one_part_witness:
  "\<exists>new_id e'. upsert_pricing_rule ex_claims
       \<lparr>up_kind = ''sell'', up_tenant_id = None, up_provider_id = None, up_country_code = None,
        up_traffic_type = None, up_parts_from = None, up_parts_to = None, up_unit_price_minor = 35,
        up_currency = None, up_is_active = None\<rparr> None ex_admin = (Inr new_id, e') \<and>
     get_sell_unit_price_minor \<lparr>c_now = 0, c_today = ''2025-11-18''\<rparr> (en_pricing_rules e') ''ten1'' ''ET''
       ''transactional'' 2 = 0"
proof -
  let ?dto = "\<lparr>up_kind = ''sell'', up_tenant_id = None, up_provider_id = None, up_country_code = None,
        up_traffic_type = None, up_parts_from = None, up_parts_to = None, up_unit_price_minor = 35,
        up_currency = None, up_is_active = None\<rparr>"
  have "jc_tenant_id ex_claims = ''ten1''" by (simp add: ex_claims_def)
  then have "\<exists>new_id e'. upsert_pricing_rule ex_claims ?dto None ex_admin = (Inr new_id, e')"
    by (simp add: upsert_pricing_rule_def io_bind_def scoped_tenant_def price_references_ok_def
        ex_admin_def)
  then obtain new_id e' where u: "upsert_pricing_rule ex_claims ?dto None ex_admin = (Inr new_id, e')"
    by auto
  from default_price_covers_one_part [OF u, of 2] u show ?thesis
    by (simp add: get_sell_unit_price_minor_def ex_admin_def ex_env_def sort_desc_def)
qed

end
