(* ===== verification/Contacts.thy ===== *)
theory Contacts
  imports Messages Services "HOL-Library.AList" "HOL-Library.Char_ord" "HOL-Library.List_Lexorder"
    "HOL-Library.Product_Lexorder"
begin

text \<open>
  Contacts, groups and the inline CSV import (\<open>contacts/contacts.service.ts\<close>): the parser of the
  upload, which sorts every data line into a row or an error, the upsert of a contact with its
  merged metadata, and the import transaction.

  The tables keep the limits PostgreSQL enforces on them: 20 characters of a phone number, 100 of
  a name, 255 of a file name, one contact per tenant and number, one group per tenant and name.
\<close>

subsection \<open>Tables\<close>

record contact_row =
  ct_id :: int
  ct_tenant_id :: tenant
  ct_phone_number :: string
  ct_name :: "string option"
  ct_metadata :: "(string \<times> json) list"
  ct_is_active :: bool
  ct_source :: string
  ct_created_at :: time
  ct_updated_at :: time

record group_row =
  gr_id :: int
  gr_tenant_id :: tenant
  gr_name :: string
  gr_created_at :: time

record upload_row =
  cu_id :: int
  cu_tenant_id :: tenant
  cu_target_group_id :: "int option"
  cu_storage_uri :: string
  cu_original_file_name :: string
  cu_status :: string
  cu_total_rows :: int
  cu_valid_rows :: int
  cu_invalid_rows :: int
  cu_metadata :: json
  cu_created_at :: time
  cu_completed_at :: "time option"

record upload_error =
  ue_id :: int
  ue_upload_id :: int
  ue_row_number :: int
  ue_raw_record :: "(string \<times> string) list"
  ue_error_reason :: string
  ue_created_at :: time

record contacts_db =
  cd_contacts :: "contact_row list"
  cd_groups :: "group_row list"
  cd_members :: "(int \<times> int) list" \<comment> \<open>group, contact\<close>
  cd_uploads :: "upload_row list"
  cd_upload_errors :: "upload_error list"
  cd_next_contact_id :: int
  cd_next_group_id :: int
  cd_next_upload_id :: int
  cd_next_error_id :: int

subsection \<open>The parser\<close>

definition contact_phone_number :: "string \<Rightarrow> string result" where
  "contact_phone_number phone_number =
     (let trimmed = filter (\<lambda>c. is_digit c \<or> c = CHR ''+'') phone_number in
      if starts_with trimmed ''+'' then Inr trimmed
      else if starts_with trimmed ''251'' then Inr (''+'' @ trimmed)
      else if starts_with trimmed ''0'' then Inr (''+251'' @ drop 1 trimmed)
      else Inl (BadRequestException ''Phone number must be in Ethiopian local format or E.164''))"

text \<open>A contact is normalised the way a message to it is.\<close>

lemma contact_phone_number_eq: "contact_phone_number = normalize_phone_number"
  by (simp add: fun_eq_iff contact_phone_number_def normalize_phone_number_def)

record parsed_row =
  pc_row_number :: int
  pc_phone_number :: string
  pc_name :: "string option"
  pc_metadata :: "(string \<times> string) list"

record parsed_error =
  px_row_number :: int
  px_raw_record :: "(string \<times> string) list"
  px_error_reason :: string

text \<open>\<open>split(/\r?\n/)\<close>, \<open>split(delimiter)\<close> (at most one character), \<open>findIndex\<close>, \<open>columns[i] ?? ''\<close> and
  \<open>Object.fromEntries\<close>, where a later entry replaces the value of an earlier one.\<close>

definition strip_cr :: "string \<Rightarrow> string" where
  "strip_cr s = (if s \<noteq> [] \<and> last s = CHR 0x0D then butlast s else s)"

definition split_lines :: "string \<Rightarrow> string list" where
  "split_lines s = (let parts = split_char (CHR 0x0A) s in map strip_cr (butlast parts) @ [last parts])"

definition split_on :: "string \<Rightarrow> string \<Rightarrow> string list" where
  "split_on delimiter s = (if delimiter = [] then map (\<lambda>c. [c]) s else split_char (hd delimiter) s)"

fun find_index :: "('a \<Rightarrow> bool) \<Rightarrow> 'a list \<Rightarrow> nat option" where
  "find_index P [] = None"
| "find_index P (x # xs) = (if P x then Some 0 else map_option Suc (find_index P xs))"

definition column :: "string list \<Rightarrow> nat \<Rightarrow> string option" where
  "column columns i = (if i < length columns then Some (columns ! i) else None)"

definition from_entries :: "(string \<times> 'v) list \<Rightarrow> (string \<times> 'v) list" where
  "from_entries entries = fold (\<lambda>(k, v) al. AList.update k v al) entries []"

definition raw_record :: "string list \<Rightarrow> string list \<Rightarrow> (string \<times> string) list" where
  "raw_record headers columns =
     from_entries (map (\<lambda>i. (headers ! i, coalesce (column columns i) [])) [0..<length headers])"

definition row_metadata :: "string list \<Rightarrow> nat \<Rightarrow> nat option \<Rightarrow> string list \<Rightarrow> (string \<times> string) list" where
  "row_metadata headers phone_index name_index columns =
     from_entries
       (map (\<lambda>i. (headers ! i,
              coalesce (Option.bind (find_index (\<lambda>h. h = headers ! i) headers) (column columns)) []))
         (filter (\<lambda>i. i \<noteq> phone_index \<and> Some i \<noteq> name_index) [0..<length headers]))"

text \<open>One data line: the row numbers count the header as line 1.\<close>

definition parse_line ::
  "string list \<Rightarrow> nat \<Rightarrow> nat option \<Rightarrow> string \<Rightarrow> nat \<times> string \<Rightarrow>
   parsed_row list \<times> parsed_error list \<Rightarrow> parsed_row list \<times> parsed_error list" where
  "parse_line headers phone_index name_index delimiter = (\<lambda>(line_index, raw_line) (rows, errors).
     (let columns = map trim (split_on delimiter raw_line);
          failed = (\<lambda>reason.
            (rows, errors @ [\<lparr>px_row_number = int line_index + 1, px_raw_record = raw_record headers columns,
                               px_error_reason = reason\<rparr>]))
      in case contact_phone_number (coalesce (column columns phone_index) []) of
           Inl ex \<Rightarrow> failed (exn_message ex)
         | Inr phone \<Rightarrow>
             if phone \<in> set (map pc_phone_number rows) then failed ''duplicate_in_upload''
             else
               (rows @ [\<lparr>pc_row_number = int line_index + 1, pc_phone_number = phone,
                          pc_name = Option.bind name_index (column columns),
                          pc_metadata = row_metadata headers phone_index name_index columns\<rparr>],
                errors)))"

definition data_lines :: "string \<Rightarrow> (nat \<times> string) list" where
  "data_lines csv_content =
     filter (\<lambda>(i, l). trim l \<noteq> []) (drop 1 (enumerate 0 (split_lines (trim csv_content))))"

definition parse_csv_content ::
  "string \<Rightarrow> string \<Rightarrow> (parsed_row list \<times> parsed_error list) result" where
  "parse_csv_content csv_content delimiter =
     (let trimmed = trim csv_content; lines = split_lines trimmed;
          headers = map trim (split_on delimiter (hd lines))
      in if trimmed = [] then Inl (BadRequestException ''CSV content is empty'')
         else if 100001 < length lines then Inl (BadRequestException ''Inline upload exceeds 100000 data rows'')
         else if headers = [] then Inl (BadRequestException ''CSV header is missing'')
         else
           (case find_index (\<lambda>h. h \<in> set [''phone_number'', ''phoneNumber'', ''msisdn'']) headers of
              None \<Rightarrow> Inl (BadRequestException ''CSV must include a phone_number column'')
            | Some phone_index \<Rightarrow>
                Inr (fold (parse_line headers phone_index
                       (find_index (\<lambda>h. h \<in> set [''name'', ''full_name'']) headers) delimiter)
                     (data_lines csv_content) ([], []))))"

subsection \<open>What the parser does with the lines\<close>

definition rows_numbered :: "parsed_row list \<times> parsed_error list \<Rightarrow> int list" where
  "rows_numbered p = map pc_row_number (fst p) @ map px_row_number (snd p)"

lemma parse_line_numbers:
  "mset (rows_numbered (parse_line headers pidx nidx delimiter line p)) =
     add_mset (int (fst line) + 1) (mset (rows_numbered p))"
  by (cases line; cases p)
    (simp add: parse_line_def rows_numbered_def Let_def split: sum.split)

lemma parse_line_phones:
  assumes "distinct (map pc_phone_number (fst p))"
    and "\<forall>r \<in> set (fst p). \<exists>raw. normalize_phone_number raw = Inr (pc_phone_number r)"
  shows "distinct (map pc_phone_number (fst (parse_line headers pidx nidx delimiter line p))) \<and>
    (\<forall>r \<in> set (fst (parse_line headers pidx nidx delimiter line p)).
       \<exists>raw. normalize_phone_number raw = Inr (pc_phone_number r))"
  using assms
  by (cases line; cases p)
    (auto simp: parse_line_def Let_def contact_phone_number_eq split: sum.split)

lemma parse_lines:
  assumes "distinct (map pc_phone_number (fst p))"
    and "\<forall>r \<in> set (fst p). \<exists>raw. normalize_phone_number raw = Inr (pc_phone_number r)"
  shows "mset (rows_numbered (fold (parse_line headers pidx nidx delimiter) lines p)) =
      mset (map (\<lambda>l. int (fst l) + 1) lines) + mset (rows_numbered p) \<and>
    distinct (map pc_phone_number (fst (fold (parse_line headers pidx nidx delimiter) lines p))) \<and>
    (\<forall>r \<in> set (fst (fold (parse_line headers pidx nidx delimiter) lines p)).
       \<exists>raw. normalize_phone_number raw = Inr (pc_phone_number r))"
  using assms
proof (induction lines arbitrary: p)
  case (Cons l lines)
  let ?p = "parse_line headers pidx nidx delimiter l p"
  note step = parse_line_phones [OF Cons.prems, of headers pidx nidx delimiter l]
  from Cons.IH [of ?p] step show ?case by (simp add: parse_line_numbers)
qed simp

text \<open>The parser loses no line and counts none twice: the numbers of the rows and of the errors are
  together those of the data lines that are not blank, each once; the rows have pairwise different
  phone numbers, each one the normal form of what the line says.\<close>

theorem parse_partitions_lines:
  assumes "parse_csv_content csv_content delimiter = Inr (rows, errors)"
  shows "mset (map pc_row_number rows) + mset (map px_row_number errors) =
      mset (map (\<lambda>line. int (fst line) + 1) (data_lines csv_content)) \<and>
    distinct (map pc_phone_number rows) \<and>
    (\<forall>r \<in> set rows. \<exists>raw. normalize_phone_number raw = Inr (pc_phone_number r))"
proof -
  obtain headers phone_index name_index where
    "fold (parse_line headers phone_index name_index delimiter) (data_lines csv_content) ([], []) = (rows, errors)"
    using assms by (auto simp: parse_csv_content_def Let_def split: if_splits option.splits)
  with parse_lines [of "([], [])" headers phone_index name_index delimiter "data_lines csv_content"]
  show ?thesis by (simp add: rows_numbered_def split_beta)
qed

subsection \<open>Contacts\<close>

text \<open>\<open>a || b\<close> of two JSON objects: the keys of \<open>b\<close> win.\<close>

definition json_merge :: "(string \<times> json) list \<Rightarrow> (string \<times> json) list \<Rightarrow> (string \<times> json) list" where
  "json_merge a b = fold (\<lambda>(k, v) al. AList.update k v al) b a"

definition upsert_contact ::
  "ctx \<Rightarrow> tenant \<Rightarrow> string \<Rightarrow> string option \<Rightarrow> (string \<times> json) list \<Rightarrow> string \<Rightarrow> (contacts_db, contact_row) tx"
where
  "upsert_contact c tenant phone name metadata source st =
     (if 20 < length phone \<or> (case name of None \<Rightarrow> False | Some n \<Rightarrow> 100 < length n) then Inl too_long
      else
        (let hit = (\<lambda>r. ct_tenant_id r = tenant \<and> ct_phone_number r = phone);
             merged = (\<lambda>r. r\<lparr>ct_name := or_else name (ct_name r),
                             ct_metadata := json_merge (ct_metadata r) metadata,
                             ct_updated_at := c_now c\<rparr>);
             fresh = \<lparr>ct_id = cd_next_contact_id st, ct_tenant_id = tenant, ct_phone_number = phone,
                      ct_name = name, ct_metadata = metadata, ct_is_active = True, ct_source = source,
                      ct_created_at = c_now c, ct_updated_at = c_now c\<rparr>
         in case first_row (filter hit (cd_contacts st)) of
              Some r \<Rightarrow> Inr (merged r, st\<lparr>cd_contacts := sql_update hit merged (cd_contacts st)\<rparr>)
            | None \<Rightarrow> Inr (fresh, st\<lparr>cd_contacts := cd_contacts st @ [fresh],
                                    cd_next_contact_id := cd_next_contact_id st + 1\<rparr>)))"

definition create_contact ::
  "ctx \<Rightarrow> tenant \<Rightarrow> string \<Rightarrow> string option \<Rightarrow> (string \<times> json) list option \<Rightarrow> contacts_db \<Rightarrow>
   contact_row result \<times> contacts_db" where
  "create_contact c tenant phone_number name metadata st =
     (case contact_phone_number phone_number of
        Inl ex \<Rightarrow> (Inl ex, st)
      | Inr phone \<Rightarrow>
          with_transaction (upsert_contact c tenant phone name (coalesce metadata []) ''manual'') st)"

definition list_contacts :: "tenant \<Rightarrow> contacts_db \<Rightarrow> contact_row list" where
  "list_contacts tenant st =
     take 500 (sort_key (\<lambda>r. (- ct_updated_at r, - ct_id r))
       (filter (\<lambda>r. ct_tenant_id r = tenant) (cd_contacts st)))"

definition find_contact :: "tenant \<Rightarrow> int \<Rightarrow> contacts_db \<Rightarrow> contact_row option" where
  "find_contact tenant contact_id st =
     first_row (filter (\<lambda>r. ct_tenant_id r = tenant \<and> ct_id r = contact_id) (cd_contacts st))"

definition get_contact :: "tenant \<Rightarrow> int \<Rightarrow> contacts_db \<Rightarrow> (contact_row \<times> group_row list) result" where
  "get_contact tenant contact_id st =
     (case find_contact tenant contact_id st of
        None \<Rightarrow> Inl (NotFoundException ''Contact not found'')
      | Some row \<Rightarrow>
          Inr (row, sort_key gr_name
            (filter (\<lambda>g. (gr_id g, contact_id) \<in> set (cd_members st)) (cd_groups st))))"

definition update_contact ::
  "ctx \<Rightarrow> tenant \<Rightarrow> int \<Rightarrow> string option \<Rightarrow> (string \<times> json) list option \<Rightarrow> contacts_db \<Rightarrow>
   contact_row result \<times> contacts_db" where
  "update_contact c tenant contact_id name metadata st =
     (let hit = (\<lambda>r. ct_tenant_id r = tenant \<and> ct_id r = contact_id);
          changed = (\<lambda>r. r\<lparr>ct_name := or_else name (ct_name r),
                           ct_metadata := (case metadata of None \<Rightarrow> ct_metadata r
                                           | Some m \<Rightarrow> json_merge (ct_metadata r) m),
                           ct_updated_at := c_now c\<rparr>)
      in case first_row (filter hit (cd_contacts st)) of
           None \<Rightarrow> (Inl (NotFoundException ''Contact not found''), st)
         | Some r \<Rightarrow>
             if (case name of None \<Rightarrow> False | Some n \<Rightarrow> 100 < length n) then (Inl too_long, st)
             else (Inr (changed r), st\<lparr>cd_contacts := sql_update hit changed (cd_contacts st)\<rparr>))"

subsection \<open>Groups\<close>

definition create_group :: "ctx \<Rightarrow> tenant \<Rightarrow> string \<Rightarrow> contacts_db \<Rightarrow> group_row result \<times> contacts_db" where
  "create_group c tenant name st =
     (if 100 < length name then (Inl too_long, st)
      else if filter (\<lambda>g. gr_tenant_id g = tenant \<and> gr_name g = name) (cd_groups st) \<noteq> []
      then (Inl duplicate_key, st)
      else
        (let row = \<lparr>gr_id = cd_next_group_id st, gr_tenant_id = tenant, gr_name = name, gr_created_at = c_now c\<rparr>
         in (Inr row, st\<lparr>cd_groups := cd_groups st @ [row], cd_next_group_id := cd_next_group_id st + 1\<rparr>)))"

definition member_count :: "int \<Rightarrow> contacts_db \<Rightarrow> int" where
  "member_count group_id st = int (length (filter (\<lambda>(g, _). g = group_id) (cd_members st)))"

definition list_groups :: "tenant \<Rightarrow> contacts_db \<Rightarrow> (group_row \<times> int) list" where
  "list_groups tenant st =
     map (\<lambda>g. (g, member_count (gr_id g) st))
       (sort_desc gr_created_at (filter (\<lambda>g. gr_tenant_id g = tenant) (cd_groups st)))"

definition find_group :: "tenant \<Rightarrow> int \<Rightarrow> contacts_db \<Rightarrow> group_row option" where
  "find_group tenant group_id st =
     first_row (filter (\<lambda>g. gr_tenant_id g = tenant \<and> gr_id g = group_id) (cd_groups st))"

definition get_group_detail :: "tenant \<Rightarrow> int \<Rightarrow> contacts_db \<Rightarrow> (group_row \<times> contact_row list) result" where
  "get_group_detail tenant group_id st =
     (case find_group tenant group_id st of
        None \<Rightarrow> Inl (NotFoundException ''Contact group not found'')
      | Some row \<Rightarrow>
          Inr (row, take 500 (sort_desc ct_created_at
            (filter (\<lambda>r. (group_id, ct_id r) \<in> set (cd_members st)) (cd_contacts st)))))"

subsection \<open>Uploads\<close>

definition find_upload :: "tenant \<Rightarrow> int \<Rightarrow> contacts_db \<Rightarrow> upload_row option" where
  "find_upload tenant upload_id st =
     first_row (filter (\<lambda>u. cu_tenant_id u = tenant \<and> cu_id u = upload_id) (cd_uploads st))"

definition list_uploads :: "tenant \<Rightarrow> contacts_db \<Rightarrow> upload_row list" where
  "list_uploads tenant st =
     take 100 (sort_desc cu_created_at (filter (\<lambda>u. cu_tenant_id u = tenant) (cd_uploads st)))"

definition list_upload_errors :: "tenant \<Rightarrow> int \<Rightarrow> contacts_db \<Rightarrow> upload_error list result" where
  "list_upload_errors tenant upload_id st =
     (case find_upload tenant upload_id st of
        None \<Rightarrow> Inl (NotFoundException ''Contact upload not found'')
      | Some _ \<Rightarrow>
          Inr (sort_key ue_row_number (filter (\<lambda>e. ue_upload_id e = upload_id) (cd_upload_errors st))))"

record upload_dto =
  ud_file_name :: string
  ud_csv_content :: string
  ud_target_group_id :: "int option"
  ud_delimiter :: "string option"

definition add_member :: "int option \<Rightarrow> int \<Rightarrow> contacts_db \<Rightarrow> contacts_db" where
  "add_member group_id contact_id st =
     (if truthy_int group_id \<and> (the group_id, contact_id) \<notin> set (cd_members st)
      then st\<lparr>cd_members := cd_members st @ [(the group_id, contact_id)]\<rparr> else st)"

fun import_rows :: "ctx \<Rightarrow> tenant \<Rightarrow> int option \<Rightarrow> parsed_row list \<Rightarrow> (contacts_db, int) tx" where
  "import_rows c tenant group_id [] st = Inr (0, st)"
| "import_rows c tenant group_id (row # rows) st =
     and_then (upsert_contact c tenant (pc_phone_number row) (pc_name row)
         (map (\<lambda>(k, v). (k, JStr v)) (pc_metadata row)) ''upload'' st) (\<lambda>(contact, st1).
     and_then (import_rows c tenant group_id rows (add_member group_id (ct_id contact) st1)) (\<lambda>(n, st2).
     Inr (n + 1, st2)))"

definition new_error :: "ctx \<Rightarrow> int \<Rightarrow> parsed_error \<Rightarrow> contacts_db \<Rightarrow> contacts_db" where
  "new_error c upload_id e st =
     st\<lparr>cd_upload_errors := cd_upload_errors st @
          [\<lparr>ue_id = cd_next_error_id st, ue_upload_id = upload_id, ue_row_number = px_row_number e,
            ue_raw_record = px_raw_record e, ue_error_reason = px_error_reason e, ue_created_at = c_now c\<rparr>],
        cd_next_error_id := cd_next_error_id st + 1\<rparr>"

definition new_upload :: "ctx \<Rightarrow> tenant \<Rightarrow> upload_dto \<Rightarrow> int \<Rightarrow> upload_row" where
  "new_upload c tenant dto upload_id =
     \<lparr>cu_id = upload_id, cu_tenant_id = tenant, cu_target_group_id = ud_target_group_id dto,
      cu_storage_uri = ''inline://'' @ int_str (c_now c) @ ''-'' @ ud_file_name dto,
      cu_original_file_name = ud_file_name dto, cu_status = ''importing'', cu_total_rows = 0,
      cu_valid_rows = 0, cu_invalid_rows = 0,
      cu_metadata = jobj [(''delimiter'', Some (JStr (coalesce (ud_delimiter dto) '','')))],
      cu_created_at = c_now c, cu_completed_at = None\<rparr>"

definition import_tx ::
  "ctx \<Rightarrow> tenant \<Rightarrow> upload_dto \<Rightarrow> parsed_row list \<Rightarrow> parsed_error list \<Rightarrow> (contacts_db, int \<times> int \<times> int \<times> int) tx"
where
  "import_tx c tenant dto rows errors st =
     (if 255 < length (ud_file_name dto) then Inl too_long
      else
        (let upload_id = cd_next_upload_id st;
             st1 = st\<lparr>cd_uploads := cd_uploads st @ [new_upload c tenant dto upload_id],
                      cd_next_upload_id := upload_id + 1\<rparr>;
             st2 = fold (new_error c upload_id) errors st1;
             all_rows = int (length rows) + int (length errors)
         in and_then (import_rows c tenant (ud_target_group_id dto) rows st2) (\<lambda>(valid_rows, st3).
              Inr ((upload_id, all_rows, valid_rows, int (length errors)),
                st3\<lparr>cd_uploads := sql_update (\<lambda>u. cu_id u = upload_id)
                   (\<lambda>u. u\<lparr>cu_status := ''completed'', cu_total_rows := all_rows, cu_valid_rows := valid_rows,
                           cu_invalid_rows := int (length errors), cu_completed_at := Some (c_now c)\<rparr>)
                   (cd_uploads st3)\<rparr>))))"

definition import_inline_csv ::
  "ctx \<Rightarrow> tenant \<Rightarrow> upload_dto \<Rightarrow> contacts_db \<Rightarrow> (int \<times> int \<times> int \<times> int) result \<times> contacts_db" where
  "import_inline_csv c tenant dto st =
     (case parse_csv_content (ud_csv_content dto) (coalesce (ud_delimiter dto) '','') of
        Inl ex \<Rightarrow> (Inl ex, st)
      | Inr (rows, errors) \<Rightarrow>
          if truthy_int (ud_target_group_id dto) \<and> find_group tenant (the (ud_target_group_id dto)) st = None
          then (Inl (NotFoundException ''Target group not found''), st)
          else with_transaction (import_tx c tenant dto rows errors) st)"


subsection \<open>What an import does to the tables\<close>

definition contact_key :: "contact_row \<Rightarrow> tenant \<times> string" where
  "contact_key r = (ct_tenant_id r, ct_phone_number r)"

definition contacts_ok :: "contacts_db \<Rightarrow> bool" where
  "contacts_ok st \<longleftrightarrow>
     distinct (map contact_key (cd_contacts st)) \<and> distinct (map ct_id (cd_contacts st)) \<and>
     (\<forall>r \<in> set (cd_contacts st). ct_id r < cd_next_contact_id st)"

text \<open>Contacts are never dropped, keep their key and identifier, and those of other tenants stay as they are.\<close>

definition contacts_grow :: "tenant \<Rightarrow> contacts_db \<Rightarrow> contacts_db \<Rightarrow> bool" where
  "contacts_grow tenant st st' \<longleftrightarrow>
     (\<forall>r \<in> set (cd_contacts st). \<exists>r' \<in> set (cd_contacts st'). contact_key r' = contact_key r \<and> ct_id r' = ct_id r) \<and>
     filter (\<lambda>r. ct_tenant_id r \<noteq> tenant) (cd_contacts st') = filter (\<lambda>r. ct_tenant_id r \<noteq> tenant) (cd_contacts st) \<and>
     set (cd_members st) \<subseteq> set (cd_members st')"

lemma contacts_grow_refl [simp]: "contacts_grow tenant st st"
  by (auto simp: contacts_grow_def)

lemma contacts_grow_trans:
  "contacts_grow tenant a b \<Longrightarrow> contacts_grow tenant b c \<Longrightarrow> contacts_grow tenant a c"
  unfolding contacts_grow_def by (auto, metis)

lemma filter_sql_update:
  "(\<And>r. cond r \<Longrightarrow> \<not> P r \<and> \<not> P (f r)) \<Longrightarrow> filter P (sql_update cond f rs) = filter P rs"
  by (induction rs) auto

lemma upsert_contact_effect:
  assumes "upsert_contact c tenant phone name metadata source st = Inr (r, st')" and "contacts_ok st"
  shows "contacts_ok st' \<and> contacts_grow tenant st st' \<and> r \<in> set (cd_contacts st') \<and>
    contact_key r = (tenant, phone) \<and> cd_members st' = cd_members st \<and> length phone \<le> 20"
proof -
  let ?hit = "\<lambda>r. ct_tenant_id r = tenant \<and> ct_phone_number r = phone"
  let ?m = "\<lambda>r. r\<lparr>ct_name := or_else name (ct_name r), ct_metadata := json_merge (ct_metadata r) metadata,
                  ct_updated_at := c_now c\<rparr>"
  have len: "length phone \<le> 20" using assms(1) by (auto simp: upsert_contact_def split: if_splits)
  show ?thesis
  proof (cases "first_row (filter ?hit (cd_contacts st))")
    case (Some x)
    then have x: "x \<in> set (cd_contacts st)" "?hit x" using first_row_mem [OF Some] by auto
    have st': "st' = st\<lparr>cd_contacts := sql_update ?hit ?m (cd_contacts st)\<rparr>" and r: "r = ?m x"
      using assms(1) Some by (auto simp: upsert_contact_def Let_def split: if_splits)
    have keys: "map contact_key (cd_contacts st') = map contact_key (cd_contacts st)"
      "map ct_id (cd_contacts st') = map ct_id (cd_contacts st)"
      by (simp_all add: st' map_sql_update contact_key_def)
    have "\<forall>r \<in> set (cd_contacts st'). ct_id r < cd_next_contact_id st"
      using assms(2) by (auto simp: contacts_ok_def st' set_sql_update)
    then have ok: "contacts_ok st'" using assms(2) keys by (simp add: contacts_ok_def st')
    have "\<exists>r' \<in> set (cd_contacts st'). contact_key r' = contact_key q \<and> ct_id r' = ct_id q"
      if "q \<in> set (cd_contacts st)" for q
      using that by (intro bexI [of _ "if ?hit q then ?m q else q"])
        (auto simp: st' sql_update_def contact_key_def)
    moreover have "filter (\<lambda>r. ct_tenant_id r \<noteq> tenant) (cd_contacts st') =
        filter (\<lambda>r. ct_tenant_id r \<noteq> tenant) (cd_contacts st)"
      unfolding st' by (simp, rule filter_sql_update) auto
    ultimately have "contacts_grow tenant st st'" by (simp add: contacts_grow_def st')
    moreover have "r \<in> set (cd_contacts st')"
      using x by (auto simp: st' r sql_update_def intro!: image_eqI [of _ _ x])
    ultimately show ?thesis using ok x(2) len by (simp add: r st' contact_key_def)
  next
    case None
    then have none: "filter ?hit (cd_contacts st) = []" by simp
    have st': "st' = st\<lparr>cd_contacts := cd_contacts st @ [r], cd_next_contact_id := cd_next_contact_id st + 1\<rparr>"
      and r: "ct_id r = cd_next_contact_id st" "ct_tenant_id r = tenant" "ct_phone_number r = phone"
      using assms(1) None by (auto simp: upsert_contact_def Let_def split: if_splits)
    have "contact_key r \<notin> set (map contact_key (cd_contacts st))"
      using none by (auto simp: filter_empty_conv contact_key_def r)
    moreover have "ct_id r \<notin> set (map ct_id (cd_contacts st))"
      using assms(2) by (auto simp: contacts_ok_def r)
    ultimately have "contacts_ok st'" using assms(2) by (auto simp: contacts_ok_def st' r)
    moreover have "contacts_grow tenant st st'" by (auto simp: contacts_grow_def st' r)
    ultimately show ?thesis using len by (simp add: st' r contact_key_def)
  qed
qed

lemma add_member_effect:
  "contacts_ok (add_member g i st) = contacts_ok st" "contacts_grow tenant st (add_member g i st)"
  "truthy_int g \<Longrightarrow> (the g, i) \<in> set (cd_members (add_member g i st))"
  "cd_contacts (add_member g i st) = cd_contacts st"
  by (auto simp: add_member_def contacts_ok_def contacts_grow_def)

definition row_filed :: "tenant \<Rightarrow> int option \<Rightarrow> contacts_db \<Rightarrow> string \<Rightarrow> bool" where
  "row_filed tenant group_id st phone \<longleftrightarrow>
     (\<exists>x \<in> set (cd_contacts st). contact_key x = (tenant, phone) \<and>
        (truthy_int group_id \<longrightarrow> (the group_id, ct_id x) \<in> set (cd_members st)))"

lemma row_filed_grow:
  "row_filed tenant g st phone \<Longrightarrow> contacts_grow tenant st st' \<Longrightarrow> row_filed tenant g st' phone"
  unfolding row_filed_def contacts_grow_def by (metis subsetD)

lemma import_rows_effect:
  "import_rows c tenant g rows st = Inr (n, st') \<Longrightarrow> contacts_ok st \<Longrightarrow>
   contacts_ok st' \<and> contacts_grow tenant st st' \<and> n = int (length rows) \<and>
   (\<forall>row \<in> set rows. row_filed tenant g st' (pc_phone_number row) \<and> length (pc_phone_number row) \<le> 20)"
proof (induction rows arbitrary: st n)
  case Nil
  then show ?case by simp
next
  case (Cons row rows)
  let ?md = "map (\<lambda>(k, v). (k, JStr v)) (pc_metadata row)"
  obtain contact st1 m where
    up: "upsert_contact c tenant (pc_phone_number row) (pc_name row) ?md ''upload'' st = Inr (contact, st1)" and
    rest: "import_rows c tenant g rows (add_member g (ct_id contact) st1) = Inr (m, st')" and n: "n = m + 1"
    using Cons.prems(1) by (auto simp: and_then_eq_Inr)
  note eff = upsert_contact_effect [OF up Cons.prems(2)]
  let ?st2 = "add_member g (ct_id contact) st1"
  have "contacts_ok ?st2" using eff by (simp add: add_member_effect)
  note IH = Cons.IH [OF rest this]
  have "row_filed tenant g ?st2 (pc_phone_number row)"
    using eff add_member_effect(3) [of g "ct_id contact" st1]
    by (auto simp: row_filed_def add_member_effect(4))
  moreover have "contacts_grow tenant st ?st2"
    using eff contacts_grow_trans add_member_effect(2) by blast
  ultimately show ?case
    using IH eff row_filed_grow contacts_grow_trans by (auto simp: n)
qed

lemma fold_new_error:
  "cd_contacts (fold (new_error c i) errors st) = cd_contacts st"
  "cd_members (fold (new_error c i) errors st) = cd_members st"
  "cd_next_contact_id (fold (new_error c i) errors st) = cd_next_contact_id st"
  by (induction errors arbitrary: st) (simp_all add: new_error_def)

text \<open>C27: an import that answers has filed every row: each one is a contact of the tenant under its number,
  in the target group if there is one; its counts are those of the parser; no contact is dropped, no
  other tenant's contact is touched, and numbers stay unique per tenant.\<close>

theorem import_files_every_row:
  assumes "import_inline_csv c tenant dto st = (Inr (upload_id, all_rows, valid, invalid), st')"
    and "contacts_ok st"
  shows "\<exists>rows errors. parse_csv_content (ud_csv_content dto) (coalesce (ud_delimiter dto) '','') = Inr (rows, errors) \<and>
    valid = int (length rows) \<and> invalid = int (length errors) \<and> all_rows = valid + invalid \<and>
    (\<forall>row \<in> set rows. row_filed tenant (ud_target_group_id dto) st' (pc_phone_number row)) \<and>
    contacts_grow tenant st st' \<and> contacts_ok st'"
proof -
  obtain rows errors where parse: "parse_csv_content (ud_csv_content dto) (coalesce (ud_delimiter dto) '','') = Inr (rows, errors)"
    and tx: "with_transaction (import_tx c tenant dto rows errors) st = (Inr (upload_id, all_rows, valid, invalid), st')"
    using assms(1) by (auto simp: import_inline_csv_def split: sum.splits if_splits)
  then have tx': "import_tx c tenant dto rows errors st = Inr ((upload_id, all_rows, valid, invalid), st')"
    by (auto simp: with_transaction_def split: sum.splits)
  let ?st1 = "st\<lparr>cd_uploads := cd_uploads st @ [new_upload c tenant dto (cd_next_upload_id st)],
                 cd_next_upload_id := cd_next_upload_id st + 1\<rparr>"
  let ?st2 = "fold (new_error c (cd_next_upload_id st)) errors ?st1"
  obtain st3 where rows: "import_rows c tenant (ud_target_group_id dto) rows ?st2 = Inr (valid, st3)"
    and same: "cd_contacts st' = cd_contacts st3" "cd_members st' = cd_members st3"
      "cd_next_contact_id st' = cd_next_contact_id st3"
    and counts: "invalid = int (length errors)" "all_rows = int (length rows) + int (length errors)"
    using tx' by (auto simp: import_tx_def Let_def and_then_eq_Inr split: if_splits)
  have "contacts_ok ?st2" "contacts_grow tenant st ?st2"
    using assms(2) by (simp_all add: contacts_ok_def contacts_grow_def fold_new_error) blast
  with import_rows_effect [OF rows] have
    "contacts_ok st3" "contacts_grow tenant st st3" "valid = int (length rows)"
    "\<forall>row \<in> set rows. row_filed tenant (ud_target_group_id dto) st3 (pc_phone_number row)"
    using contacts_grow_trans by blast+
  then have "contacts_ok st'" "contacts_grow tenant st st'"
    "\<forall>row \<in> set rows. row_filed tenant (ud_target_group_id dto) st' (pc_phone_number row)"
    by (simp_all add: contacts_ok_def contacts_grow_def row_filed_def same)
  with parse counts \<open>valid = int (length rows)\<close> show ?thesis by auto
qed

text \<open>One accepted row whose number is longer than the column loses the whole upload: the import throws,
  and no contact, no error row and no upload record is left.\<close>

theorem overlong_row_loses_upload:
  assumes "parse_csv_content (ud_csv_content dto) (coalesce (ud_delimiter dto) '','') = Inr (rows, errors)"
    and "row \<in> set rows" and "20 < length (pc_phone_number row)" and "contacts_ok st"
  shows "\<exists>ex. import_inline_csv c tenant dto st = (Inl ex, st)"
proof -
  obtain r st' where imp: "import_inline_csv c tenant dto st = (r, st')" by fastforce
  show ?thesis
  proof (cases r)
    case (Inl ex)
    with imp show ?thesis
      by (auto simp: import_inline_csv_def with_transaction_def split: sum.splits if_splits)
  next
    case (Inr a)
    then obtain valid st2 st3 where "import_rows c tenant (ud_target_group_id dto) rows st2 = Inr (valid, st3)"
      and "contacts_ok st2"
      using imp assms(1,4)
      by (auto simp: import_inline_csv_def with_transaction_def import_tx_def Let_def and_then_eq_Inr
          contacts_ok_def fold_new_error split: sum.splits if_splits)
    from import_rows_effect [OF this] assms(2,3) show ?thesis by fastforce
  qed
qed

subsection \<open>Witnesses\<close>

definition ex_contacts :: contacts_db where
  "ex_contacts = \<lparr>cd_contacts = [], cd_groups = [\<lparr>gr_id = 3, gr_tenant_id = ''t1'', gr_name = ''vip'', gr_created_at = 1\<rparr>],
     cd_members = [], cd_uploads = [], cd_upload_errors = [], cd_next_contact_id = 1, cd_next_group_id = 4,
     cd_next_upload_id = 1, cd_next_error_id = 1\<rparr>"

definition ex_csv_ctx :: ctx where
  "ex_csv_ctx = \<lparr>c_now = 1763500000000, c_today = ''2025-11-18''\<rparr>"

definition ex_csv :: string where
  "ex_csv = ''msisdn,name'' @ [CHR 0x0D, CHR 0x0A] @ ''0911,Abel'' @ [CHR 0x0A] @ ''x,Sara'' @ [CHR 0x0A] @ ''+251911,Eve''"

definition ex_upload :: upload_dto where
  "ex_upload = \<lparr>ud_file_name = ''vip.csv'', ud_csv_content = ex_csv, ud_target_group_id = Some 3, ud_delimiter = None\<rparr>"

lemma trim_unspaced: "s \<noteq> [] \<Longrightarrow> \<not> is_space (hd s) \<Longrightarrow> \<not> is_space (last s) \<Longrightarrow> trim s = s"
proof -
  assume s: "s \<noteq> []" "\<not> is_space (hd s)" "\<not> is_space (last s)"
  then have "dropWhile is_space s = s" "dropWhile is_space (rev s) = rev s"
    by (simp_all add: dropWhile_eq_self_iff hd_rev)
  then show "trim s = s" by (simp add: trim_def)
qed

lemma ex_csv_lines: "split_lines (trim ex_csv) = [''msisdn,name'', ''0911,Abel'', ''x,Sara'', ''+251911,Eve'']"
proof -
  have "trim ex_csv = ex_csv" by (rule trim_unspaced) (simp_all add: ex_csv_def is_space_def)
  then show ?thesis by (simp add: ex_csv_def split_lines_def strip_cr_def)
qed

lemma ex_trims:
  "trim ''msisdn'' = ''msisdn''" "trim ''name'' = ''name''" "trim ''0911'' = ''0911''" "trim ''Abel'' = ''Abel''"
  "trim ''x'' = ''x''" "trim ''Sara'' = ''Sara''" "trim ''+251911'' = ''+251911''" "trim ''Eve'' = ''Eve''"
  by (simp_all add: trim_unspaced is_space_def)

lemma ex_data_lines: "data_lines ex_csv = [(1, ''0911,Abel''), (2, ''x,Sara''), (3, ''+251911,Eve'')]"
proof -
  have "trim ''0911,Abel'' = ''0911,Abel''" "trim ''x,Sara'' = ''x,Sara''" "trim ''+251911,Eve'' = ''+251911,Eve''"
    by (simp_all add: trim_unspaced is_space_def)
  then show ?thesis by (simp add: data_lines_def ex_csv_lines)
qed

lemma ex_columns:
  "split_on '','' ''msisdn,name'' = [''msisdn'', ''name'']"
  "split_on '','' ''0911,Abel'' = [''0911'', ''Abel'']"
  "split_on '','' ''x,Sara'' = [''x'', ''Sara'']"
  "split_on '','' ''+251911,Eve'' = [''+251911'', ''Eve'']"
  by (simp_all add: split_on_def)

lemma ex_numbers:
  "contact_phone_number ''0911'' = Inr ''+251911''"
  "contact_phone_number ''x'' = Inl (BadRequestException ''Phone number must be in Ethiopian local format or E.164'')"
  "contact_phone_number ''+251911'' = Inr ''+251911''"
  by (simp_all add: contact_phone_number_def is_digit_def)

lemmas ex_line_simps = parse_line_def row_metadata_def raw_record_def column_def from_entries_def ex_columns ex_trims
  ex_numbers

lemma ex_lines_parsed:
  "parse_line [''msisdn'', ''name''] 0 (Some 1) '','' (1, ''0911,Abel'') ([], []) =
     ([\<lparr>pc_row_number = 2, pc_phone_number = ''+251911'', pc_name = Some ''Abel'', pc_metadata = []\<rparr>], [])"
  "parse_line [''msisdn'', ''name''] 0 (Some 1) '','' (2, ''x,Sara'') (rows, errors) =
     (rows, errors @ [\<lparr>px_row_number = 3, px_raw_record = [(''msisdn'', ''x''), (''name'', ''Sara'')],
        px_error_reason = ''Phone number must be in Ethiopian local format or E.164''\<rparr>])"
  "''+251911'' \<in> set (map pc_phone_number rows) \<Longrightarrow>
   parse_line [''msisdn'', ''name''] 0 (Some 1) '','' (3, ''+251911,Eve'') (rows, errors) =
     (rows, errors @ [\<lparr>px_row_number = 4, px_raw_record = [(''msisdn'', ''+251911''), (''name'', ''Eve'')],
        px_error_reason = ''duplicate_in_upload''\<rparr>])"
  by (simp_all add: ex_line_simps)

lemma ex_csv_parsed:
  "parse_csv_content ex_csv '','' = Inr
     ([\<lparr>pc_row_number = 2, pc_phone_number = ''+251911'', pc_name = Some ''Abel'', pc_metadata = []\<rparr>],
      [\<lparr>px_row_number = 3, px_raw_record = [(''msisdn'', ''x''), (''name'', ''Sara'')],
        px_error_reason = ''Phone number must be in Ethiopian local format or E.164''\<rparr>,
       \<lparr>px_row_number = 4, px_raw_record = [(''msisdn'', ''+251911''), (''name'', ''Eve'')],
        px_error_reason = ''duplicate_in_upload''\<rparr>])"
proof -
  have "trim ex_csv \<noteq> []" using ex_csv_lines by (auto simp: split_lines_def)
  moreover have "find_index (\<lambda>h. h \<in> set [''phone_number'', ''phoneNumber'', ''msisdn'']) [''msisdn'', ''name''] = Some 0"
    "find_index (\<lambda>h. h \<in> set [''name'', ''full_name'']) [''msisdn'', ''name''] = Some 1" by simp_all
  ultimately show ?thesis
    using ex_lines_parsed
    by (simp add: parse_csv_content_def ex_csv_lines ex_data_lines ex_columns ex_trims Let_def)
qed

theorem parse_partitions_lines_witness:
  "\<exists>rows errors. parse_csv_content ex_csv '','' = Inr (rows, errors) \<and> length errors = 2 \<and>
     mset (map pc_row_number rows) + mset (map px_row_number errors) =
       mset (map (\<lambda>line. int (fst line) + 1) (data_lines ex_csv))"
  using ex_csv_parsed parse_partitions_lines [OF ex_csv_parsed] by (simp del: mset_map)

lemma ex_contacts_ok: "contacts_ok ex_contacts"
  by (simp add: contacts_ok_def ex_contacts_def)

lemma ex_import:
  "fst (import_inline_csv ex_csv_ctx ''t1'' ex_upload ex_contacts) = Inr (1, 3, 1, 2)"
  by (simp add: import_inline_csv_def ex_upload_def ex_csv_parsed ex_contacts_def find_group_def
      with_transaction_def import_tx_def new_error_def upsert_contact_def add_member_def Let_def)

theorem import_files_every_row_witness:
  "\<exists>st'. import_inline_csv ex_csv_ctx ''t1'' ex_upload ex_contacts = (Inr (1, 3, 1, 2), st') \<and>
     row_filed ''t1'' (Some 3) st' ''+251911'' \<and> contacts_ok st'"
proof -
  obtain st' where st': "import_inline_csv ex_csv_ctx ''t1'' ex_upload ex_contacts = (Inr (1, 3, 1, 2), st')"
    using ex_import by (metis prod.collapse)
  have dto: "ud_csv_content ex_upload = ex_csv" "ud_delimiter ex_upload = None" "ud_target_group_id ex_upload = Some 3"
    by (simp_all add: ex_upload_def)
  from import_files_every_row [OF st' ex_contacts_ok] ex_csv_parsed st' show ?thesis
    by (auto simp: dto)
qed

definition ex_long_csv :: string where
  "ex_long_csv = ''msisdn'' @ [CHR 0x0A] @ ''+11111111111111111111''"

lemma ex_long_csv_parsed:
  "parse_csv_content ex_long_csv '','' = Inr ([\<lparr>pc_row_number = 2, pc_phone_number = ''+11111111111111111111'', pc_name = None,
     pc_metadata = []\<rparr>], [])"
proof -
  have t: "trim ex_long_csv = ex_long_csv" "trim ''msisdn'' = ''msisdn''" "trim ''+11111111111111111111'' = ''+11111111111111111111''"
    by (rule trim_unspaced; simp add: is_space_def ex_long_csv_def)+
  have l: "split_lines ex_long_csv = [''msisdn'', ''+11111111111111111111'']"
    by (simp add: split_lines_def strip_cr_def ex_long_csv_def)
  have c: "split_on '','' ''+11111111111111111111'' = [''+11111111111111111111'']" "split_on '','' ''msisdn'' = [''msisdn'']"
    by (simp_all add: split_on_def)
  have ph: "contact_phone_number ''+11111111111111111111'' = Inr ''+11111111111111111111''"
    by (simp add: contact_phone_number_def is_digit_def)
  have d: "data_lines ex_long_csv = [(1, ''+11111111111111111111'')]"
    unfolding data_lines_def t l using t(3) by simp
  have "ex_long_csv \<noteq> []" by (simp add: ex_long_csv_def)
  then show ?thesis
    unfolding parse_csv_content_def t l d
    by (simp add: t l c ph parse_line_def column_def row_metadata_def from_entries_def Let_def)
qed

theorem overlong_row_loses_upload_witness:
  "\<exists>ex. import_inline_csv ex_csv_ctx ''t1'' (ex_upload\<lparr>ud_csv_content := ex_long_csv\<rparr>) ex_contacts = (Inl ex, ex_contacts)"
  by (rule overlong_row_loses_upload [where row = "\<lparr>pc_row_number = 2, pc_phone_number = ''+11111111111111111111'',
       pc_name = None, pc_metadata = []\<rparr>" and rows = "[\<lparr>pc_row_number = 2, pc_phone_number = ''+11111111111111111111'',
       pc_name = None, pc_metadata = []\<rparr>]" and errors = "[]"])
    (use ex_long_csv_parsed in \<open>simp_all add: ex_upload_def ex_contacts_ok\<close>)

end
