(* ===== verification/Runtime.thy ===== *)
theory Runtime
  imports Access Circuit
begin

text \<open>
  The process around the services: its settings (\<open>config/configuration.ts\<close>, with the ranges that
  \<open>config/validation.ts\<close> asks Joi to check), the roles of a process
  (\<open>runtime/runtime-role.service.ts\<close>), the resolution of secrets (\<open>secrets/secrets.service.ts\<close>),
  what the logger redacts (\<open>common/logging/app-logger.service.ts\<close>) and how an exception becomes a
  response (\<open>common/filters/global-exception.filter.ts\<close>). The environment of the process is a map
  from names to strings.
\<close>

subsection \<open>Settings\<close>

definition parse_boolean :: "string option \<Rightarrow> bool \<Rightarrow> bool" where
  "parse_boolean value default_value =
     (if \<not> truthy_str value then default_value else to_lower (the value) = ''true'')"

definition parse_number :: "string option \<Rightarrow> rat \<Rightarrow> rat" where
  "parse_number value default_value =
     (if \<not> truthy_str value then default_value else coalesce (js_number (the value)) default_value)"

record app_settings =
  st_environment :: string
  st_role :: string
  st_port :: rat
  st_trust_proxy :: bool
  st_cors_allowed_origins :: "string list"
  st_shutdown_timeout_ms :: rat
  st_api_prefix :: string
  st_postgres_max_pool :: rat
  st_kafka_brokers :: "string list"
  st_http_timeout_ms :: rat
  st_unknown_outcome_timeout_ms :: rat
  st_smpp_enquire_link_seconds :: rat
  st_failure_threshold :: rat
  st_open_seconds :: rat
  st_half_open_probe_seconds :: rat
  st_outbox_batch_size :: rat
  st_publish_lease_seconds :: rat
  st_allow_insecure_plain_text :: bool

definition configuration :: "(string \<Rightarrow> string option) \<Rightarrow> app_settings" where
  "configuration env =
     \<lparr>st_environment = coalesce (env ''NODE_ENV'') ''development'',
      st_role = coalesce (env ''APP_ROLE'') ''all'',
      st_port = parse_number (env ''PORT'') 3000,
      st_trust_proxy = parse_boolean (env ''TRUST_PROXY'') False,
      st_cors_allowed_origins =
        filter (\<lambda>v. v \<noteq> []) (map trim (split_char (CHR '','') (coalesce (env ''CORS_ALLOWED_ORIGINS'') []))),
      st_shutdown_timeout_ms = parse_number (env ''SHUTDOWN_TIMEOUT_MS'') 15000,
      st_api_prefix = coalesce (env ''API_PREFIX'') ''api/v1'',
      st_postgres_max_pool = parse_number (env ''POSTGRES_MAX_POOL'') 20,
      st_kafka_brokers =
        map trim (split_char (CHR '','') (coalesce (env ''KAFKA_BROKERS'') ''localhost:9092'')),
      st_http_timeout_ms = parse_number (env ''HTTP_PROVIDER_TIMEOUT_MS'') 10000,
      st_unknown_outcome_timeout_ms = parse_number (env ''PROVIDER_UNKNOWN_OUTCOME_TIMEOUT_MS'') 15000,
      st_smpp_enquire_link_seconds = parse_number (env ''SMPP_ENQUIRE_LINK_SECONDS'') 30,
      st_failure_threshold = parse_number (env ''CIRCUIT_BREAKER_FAILURE_THRESHOLD'') 3,
      st_open_seconds = parse_number (env ''CIRCUIT_BREAKER_OPEN_SECONDS'') 60,
      st_half_open_probe_seconds = parse_number (env ''CIRCUIT_BREAKER_HALF_OPEN_PROBE_SECONDS'') 10,
      st_outbox_batch_size = parse_number (env ''OUTBOX_BATCH_SIZE'') 100,
      st_publish_lease_seconds = parse_number (env ''OUTBOX_PUBLISH_LEASE_SECONDS'') 300,
      st_allow_insecure_plain_text = parse_boolean (env ''ALLOW_INSECURE_PLAIN_SECRETS'') False\<rparr>"

text \<open>What Joi accepts for \<open>Joi.number().integer().min(lo)\<close>, with or without a maximum: an absent value, or
  a literal of an integer in the range.\<close>

definition joi_integer :: "int \<Rightarrow> int option \<Rightarrow> string option \<Rightarrow> bool" where
  "joi_integer lo hi value \<longleftrightarrow>
     (case value of
        None \<Rightarrow> True
      | Some s \<Rightarrow> s \<noteq> [] \<and>
          (case js_number s of
             None \<Rightarrow> False
           | Some r \<Rightarrow> r = of_int \<lfloor>r\<rfloor> \<and> lo \<le> \<lfloor>r\<rfloor> \<and> (case hi of None \<Rightarrow> True | Some h \<Rightarrow> \<lfloor>r\<rfloor> \<le> h)))"

definition app_roles :: "string list" where
  "app_roles = [''all'', ''api'', ''worker-dispatch'', ''worker-dlr'', ''worker-outbox'',
     ''worker-campaign'', ''worker-fraud'', ''worker-reconciliation'']"

definition validated :: "(string \<Rightarrow> string option) \<Rightarrow> bool" where
  "validated env \<longleftrightarrow>
     (case env ''NODE_ENV'' of None \<Rightarrow> True
      | Some v \<Rightarrow> v \<in> set [''development'', ''test'', ''staging'', ''production'']) \<and>
     (case env ''APP_ROLE'' of None \<Rightarrow> True | Some v \<Rightarrow> v \<in> set app_roles) \<and>
     joi_integer 1000 None (env ''SHUTDOWN_TIMEOUT_MS'') \<and>
     joi_integer 1 None (env ''POSTGRES_MAX_POOL'') \<and>
     joi_integer 1000 None (env ''HTTP_PROVIDER_TIMEOUT_MS'') \<and>
     joi_integer 1000 None (env ''PROVIDER_UNKNOWN_OUTCOME_TIMEOUT_MS'') \<and>
     joi_integer 1 (Some 1000) (env ''OUTBOX_BATCH_SIZE'') \<and>
     joi_integer 5 None (env ''OUTBOX_PUBLISH_LEASE_SECONDS'') \<and>
     joi_integer 5 None (env ''SMPP_ENQUIRE_LINK_SECONDS'') \<and>
     joi_integer 1 None (env ''CIRCUIT_BREAKER_FAILURE_THRESHOLD'') \<and>
     joi_integer 5 None (env ''CIRCUIT_BREAKER_OPEN_SECONDS'') \<and>
     joi_integer 1 None (env ''CIRCUIT_BREAKER_HALF_OPEN_PROBE_SECONDS'')"

definition circuit_settings :: "app_settings \<Rightarrow> circuit_config" where
  "circuit_settings s =
     \<lparr>cc_failure_threshold = \<lfloor>st_failure_threshold s\<rfloor>,
      cc_open_seconds = \<lfloor>st_open_seconds s\<rfloor>,
      cc_half_open_probe_seconds = \<lfloor>st_half_open_probe_seconds s\<rfloor>\<rparr>"

lemma joi_parse_number:
  assumes "joi_integer lo hi raw" and "lo \<le> d" and "\<And>h. hi = Some h \<Longrightarrow> d \<le> h"
  shows "\<exists>n. parse_number raw (of_int d) = of_int n \<and> lo \<le> n \<and> (\<forall>h. hi = Some h \<longrightarrow> n \<le> h)"
proof (cases "truthy_str raw")
  case False
  with assms(2,3) show ?thesis by (intro exI [of _ d]) (auto simp: parse_number_def)
next
  case True
  then obtain s where s: "raw = Some s" "s \<noteq> []" by (cases raw) simp_all
  with assms(1) obtain r where r: "js_number s = Some r" and whole: "r = of_int \<lfloor>r\<rfloor>"
    and range: "lo \<le> \<lfloor>r\<rfloor>" "\<forall>h. hi = Some h \<longrightarrow> \<lfloor>r\<rfloor> \<le> h"
    by (cases "js_number s") (simp_all add: joi_integer_def split: option.splits)
  have "parse_number raw (of_int d) = r" using s r by (simp add: parse_number_def)
  then have "parse_number raw (of_int d) = of_int \<lfloor>r\<rfloor>" using whole by (rule trans)
  with range show ?thesis by blast
qed

text \<open>C32: every environment that passes the validation gives a circuit breaker with positive settings, an
  outbox batch of 1 to 1000 rows, a lease of at least five seconds and a known role: the
  hypotheses of the circuit, the outbox and the role table hold in a running process.\<close>

theorem settings_in_range:
  assumes "validated env"
  shows "circuit_config_ok (circuit_settings (configuration env)) \<and>
    1 \<le> st_outbox_batch_size (configuration env) \<and> st_outbox_batch_size (configuration env) \<le> 1000 \<and>
    5 \<le> st_publish_lease_seconds (configuration env) \<and>
    st_role (configuration env) \<in> set app_roles"
proof -
  obtain n where n: "parse_number (env ''CIRCUIT_BREAKER_FAILURE_THRESHOLD'') 3 = of_int n" "1 \<le> n"
    using joi_parse_number [of 1 None "env ''CIRCUIT_BREAKER_FAILURE_THRESHOLD''" 3] assms by (auto simp: validated_def)
  obtain m where m: "parse_number (env ''CIRCUIT_BREAKER_OPEN_SECONDS'') 60 = of_int m" "5 \<le> m"
    using joi_parse_number [of 5 None "env ''CIRCUIT_BREAKER_OPEN_SECONDS''" 60] assms by (auto simp: validated_def)
  obtain k where k: "parse_number (env ''CIRCUIT_BREAKER_HALF_OPEN_PROBE_SECONDS'') 10 = of_int k" "1 \<le> k"
    using joi_parse_number [of 1 None "env ''CIRCUIT_BREAKER_HALF_OPEN_PROBE_SECONDS''" 10] assms by (auto simp: validated_def)
  obtain b where b: "parse_number (env ''OUTBOX_BATCH_SIZE'') 100 = of_int b" "1 \<le> b" "b \<le> 1000"
    using joi_parse_number [of 1 "Some 1000" "env ''OUTBOX_BATCH_SIZE''" 100] assms by (auto simp: validated_def)
  obtain l where l: "parse_number (env ''OUTBOX_PUBLISH_LEASE_SECONDS'') 300 = of_int l" "5 \<le> l"
    using joi_parse_number [of 5 None "env ''OUTBOX_PUBLISH_LEASE_SECONDS''" 300] assms by (auto simp: validated_def)
  have "circuit_config_ok (circuit_settings (configuration env))"
    using n m k by (simp add: circuit_config_ok_def circuit_settings_def configuration_def)
  moreover have "st_role (configuration env) \<in> set app_roles"
    using assms by (cases "env ''APP_ROLE''") (auto simp: configuration_def app_roles_def validated_def)
  ultimately show ?thesis using b l by (simp add: configuration_def)
qed

theorem settings_in_range_witness:
  "circuit_config_ok (circuit_settings (configuration [''OUTBOX_BATCH_SIZE'' \<mapsto> ''50'']))"
proof -
  have "js_number ''50'' = Some 50"
    by (simp add: js_number_def trim_def is_space_def decimal_val_def is_digit_def digits_val_def
        str_nat_def digit_val_def)
  then have "validated [''OUTBOX_BATCH_SIZE'' \<mapsto> ''50'']"
    by (simp add: validated_def joi_integer_def)
  from settings_in_range [OF this] show ?thesis by simp
qed

subsection \<open>Roles of a process\<close>

datatype runtime_capability =
    HttpCapability | MessageWorkflow | DlrProcessor | OutboxRelay | CampaignScheduler
  | FraudConsumers | ReconciliationConsumer

definition role_capabilities :: "string \<Rightarrow> runtime_capability list" where
  "role_capabilities role =
     (if role = ''all'' then
        [HttpCapability, MessageWorkflow, DlrProcessor, OutboxRelay, CampaignScheduler,
         FraudConsumers, ReconciliationConsumer]
      else if role = ''worker-dispatch'' then [HttpCapability, MessageWorkflow]
      else if role = ''worker-dlr'' then [HttpCapability, DlrProcessor]
      else if role = ''worker-outbox'' then [HttpCapability, OutboxRelay]
      else if role = ''worker-campaign'' then [HttpCapability, CampaignScheduler]
      else if role = ''worker-fraud'' then [HttpCapability, FraudConsumers]
      else if role = ''worker-reconciliation'' then [HttpCapability, ReconciliationConsumer]
      else if role = ''api'' then [HttpCapability]
      else [])"

definition has_capability :: "string \<Rightarrow> runtime_capability \<Rightarrow> bool" where
  "has_capability role capability \<longleftrightarrow> capability \<in> set (role_capabilities role)"

definition is_api_role :: "string \<Rightarrow> bool" where
  "is_api_role role \<longleftrightarrow> has_capability role HttpCapability \<and> role = ''api''"

definition is_production_like :: "string \<Rightarrow> bool" where
  "is_production_like environment \<longleftrightarrow> environment \<in> set [''production'', ''staging'']"

text \<open>Every background capability has exactly one worker role beside \<open>all\<close>.\<close>

lemma one_worker_per_capability:
  "c \<noteq> HttpCapability \<Longrightarrow>
   length (filter (\<lambda>r. has_capability r c) app_roles) = 2 \<and> has_capability ''all'' c \<and>
   \<not> has_capability ''api'' c"
  by (cases c) (simp_all add: app_roles_def has_capability_def role_capabilities_def)

subsection \<open>Secrets\<close>

text \<open>\<open>Buffer.from(s, 'base64')\<close>: characters outside the alphabets of base64 and base64url are skipped,
  the first \<open>=\<close> ends the text. A string is its UTF-8 bytes, so \<open>toString('utf8')\<close> of valid UTF-8 is
  the bytes.\<close>

definition base64_alphabet :: string where
  "base64_alphabet = ''ABCDEFGHIJKLMNOPQRSTUVWXYZabcdefghijklmnopqrstuvwxyz0123456789+/''"

definition sextet :: "char \<Rightarrow> nat option" where
  "sextet c = map_of (zip base64_alphabet [0..<64] @ [(CHR ''-'', 62), (CHR ''_'', 63)]) c"

fun sextets_bytes :: "nat list \<Rightarrow> nat list" where
  "sextets_bytes (a # b # c # d # r) =
     (a * 4 + b div 16) # (b mod 16 * 16 + c div 4) # (c mod 4 * 64 + d) # sextets_bytes r"
| "sextets_bytes [a, b, c] = [a * 4 + b div 16, b mod 16 * 16 + c div 4]"
| "sextets_bytes [a, b] = [a * 4 + b div 16]"
| "sextets_bytes r = []"

definition base64_decode :: "string \<Rightarrow> string" where
  "base64_decode s =
     map char_of (sextets_bytes (List.map_filter sextet (takeWhile (\<lambda>c. c \<noteq> CHR ''='') s)))"

definition allow_plain_text_secrets :: "app_settings \<Rightarrow> bool" where
  "allow_plain_text_secrets s \<longleftrightarrow>
     st_environment s \<in> set [''development'', ''test''] \<and> st_allow_insecure_plain_text s"

definition resolve_secret :: "(string \<Rightarrow> string option) \<Rightarrow> app_settings \<Rightarrow> string \<Rightarrow> string result" where
  "resolve_secret env s secret_ref =
     (if starts_with secret_ref ''env:'' then
        (let name = drop 4 secret_ref in
         if \<not> truthy_str (env name)
         then Inl (InternalServerErrorException (''Missing secret in environment: '' @ name))
         else Inr (the (env name)))
      else if starts_with secret_ref ''base64:'' then Inr (base64_decode (drop 7 secret_ref))
      else if starts_with secret_ref ''plain:'' then
        (if \<not> allow_plain_text_secrets s
         then Inl (InternalServerErrorException
           ''plain: secret references are disabled outside explicit development/test configurations'')
         else Inr (drop 6 secret_ref))
      else if st_environment s = ''production''
      then Inl (InternalServerErrorException ''Unqualified secret references are not allowed in production'')
      else Inr secret_ref)"

text \<open>The encoder that writes such a reference.\<close>

fun bytes_sextets :: "nat list \<Rightarrow> nat list" where
  "bytes_sextets (a # b # c # r) =
     (a div 4) # (a mod 4 * 16 + b div 16) # (b mod 16 * 4 + c div 64) # (c mod 64) # bytes_sextets r"
| "bytes_sextets [a, b] = [a div 4, a mod 4 * 16 + b div 16, b mod 16 * 4]"
| "bytes_sextets [a] = [a div 4, a mod 4 * 16]"
| "bytes_sextets [] = []"

definition base64_encode :: "string \<Rightarrow> string" where
  "base64_encode s =
     map (\<lambda>v. base64_alphabet ! v) (bytes_sextets (map of_char s)) @
     replicate ((3 - length s mod 3) mod 3) (CHR ''='')"

lemma sextet_alphabet: "v < 64 \<Longrightarrow> sextet (base64_alphabet ! v) = Some v \<and> base64_alphabet ! v \<noteq> CHR ''=''"
proof -
  have "list_all (\<lambda>v. sextet (base64_alphabet ! v) = Some v \<and> base64_alphabet ! v \<noteq> CHR ''='') [0..<64]"
    by code_simp
  then show "v < 64 \<Longrightarrow> ?thesis" by (simp add: list_all_iff)
qed

lemma carry16:
  fixes x y :: nat
  shows "y < 16 \<Longrightarrow> (x * 16 + y) div 16 = x" "y < 16 \<Longrightarrow> (x * 16 + y) mod 16 = y"
  by simp_all

lemma carry4:
  fixes x y :: nat
  shows "y < 4 \<Longrightarrow> (x * 4 + y) div 4 = x" "y < 4 \<Longrightarrow> (x * 4 + y) mod 4 = y"
  by simp_all

lemma byte_split:
  fixes a b c :: nat
  assumes "a < 256" "b < 256" "c < 256"
  shows "a div 4 * 4 + (a mod 4 * 16 + b div 16) div 16 = a"
    "(a mod 4 * 16 + b div 16) mod 16 * 16 + (b mod 16 * 4 + c div 64) div 4 = b"
    "(b mod 16 * 4 + c div 64) mod 4 * 64 + c mod 64 = c"
    "a div 4 < 64" "a mod 4 * 16 + b div 16 < 64" "b mod 16 * 4 + c div 64 < 64"
proof -
  have b: "b div 16 < 16" and c: "c div 64 < 4" using assms by (simp_all add: less_mult_imp_div_less)
  show "a div 4 * 4 + (a mod 4 * 16 + b div 16) div 16 = a"
    "(a mod 4 * 16 + b div 16) mod 16 * 16 + (b mod 16 * 4 + c div 64) div 4 = b"
    "(b mod 16 * 4 + c div 64) mod 4 * 64 + c mod 64 = c"
    by (simp_all only: carry16 [OF b] carry4 [OF c] div_mult_mod_eq)
  show "a div 4 < 64" using assms(1) by (simp add: less_mult_imp_div_less)
  have "a mod 4 \<le> 3" "b mod 16 \<le> 15" using mod_less_divisor [of 4 a] mod_less_divisor [of 16 b] by linarith+
  with b c show "a mod 4 * 16 + b div 16 < 64" "b mod 16 * 4 + c div 64 < 64" by linarith+
qed

lemma byte_pair:
  fixes a b :: nat
  assumes "a < 256" "b < 256"
  shows "(a mod 4 * 16 + b div 16) mod 16 * 16 + b mod 16 * 4 div 4 = b" "b mod 16 * 4 < 64" "a mod 4 * 16 < 64"
    "a div 4 * 4 + a mod 4 * 16 div 16 = a"
proof -
  have b: "b div 16 < 16" using assms by (simp add: less_mult_imp_div_less)
  show "(a mod 4 * 16 + b div 16) mod 16 * 16 + b mod 16 * 4 div 4 = b"
    by (simp only: carry16 [OF b]) simp
  have "b mod 16 \<le> 15" "a mod 4 \<le> 3"
    using mod_less_divisor [of 16 b] mod_less_divisor [of 4 a] by linarith+
  then show "b mod 16 * 4 < 64" "a mod 4 * 16 < 64" by linarith+
  show "a div 4 * 4 + a mod 4 * 16 div 16 = a" by simp
qed

lemma sextets_of_bytes:
  "\<forall>a \<in> set bs. a < 256 \<Longrightarrow> sextets_bytes (bytes_sextets bs) = bs \<and> (\<forall>v \<in> set (bytes_sextets bs). v < 64)"
proof (induction bs rule: bytes_sextets.induct)
  case (1 a b c r)
  then have l: "a < 256" "b < 256" "c < 256" "\<forall>a \<in> set r. a < 256" by simp_all
  have "c mod 64 < 64" by simp
  with 1(1) [OF l(4)] byte_split(4-6) [OF l(1-3)] show ?case
    by (simp only: bytes_sextets.simps sextets_bytes.simps byte_split(1-3) [OF l(1-3)] list.set Ball_def) auto
next
  case (2 a b)
  then have l: "a < 256" "b < 256" by simp_all
  have zero: "(0::nat) < 256" by simp
  show ?case
    using byte_split(4,5) [OF l zero] byte_pair [OF l]
    by (simp only: bytes_sextets.simps sextets_bytes.simps byte_split(1) [OF l zero] byte_pair(1) [OF l]
        list.set Ball_def) auto
next
  case (3 a)
  then have l: "a < 256" by simp
  have zero: "(0::nat) < 256" by simp
  show ?case
    using byte_split(4) [OF l zero zero] byte_pair [OF l zero]
    by (simp only: bytes_sextets.simps sextets_bytes.simps byte_pair(4) [OF l zero] list.set Ball_def) auto
qed simp

lemma of_char_byte: "(of_char c :: nat) < 256"
  by (metis mod_less_divisor of_char_mod_256 zero_less_numeral)

lemma base64_round: "base64_decode (base64_encode s) = s"
proof -
  let ?vs = "bytes_sextets (map of_char s)"
  have vs: "sextets_bytes ?vs = map of_char s" "\<forall>v \<in> set ?vs. v < 64"
    using sextets_of_bytes [of "map of_char s"] by (auto simp: of_char_byte)
  have "\<forall>c \<in> set (map (\<lambda>v. base64_alphabet ! v) ?vs). c \<noteq> CHR ''=''"
    using vs(2) sextet_alphabet by auto
  then have "takeWhile (\<lambda>c. c \<noteq> CHR ''='') (base64_encode s) = map (\<lambda>v. base64_alphabet ! v) ?vs"
    unfolding base64_encode_def by (subst takeWhile_append2) (auto simp: takeWhile_replicate)
  moreover have "List.map_filter sextet (map (\<lambda>v. base64_alphabet ! v) vs) = vs" if "\<forall>v \<in> set vs. v < 64" for vs
    using that by (induction vs) (simp_all add: sextet_alphabet)
  ultimately show ?thesis using vs by (simp add: base64_decode_def)
qed

text \<open>A reference written in base64 resolves to exactly the secret it encodes, in every environment;
  and in production a secret is never the reference itself: only an environment variable or a
  base64 text is accepted.\<close>

theorem secret_resolution:
  "resolve_secret env s (''base64:'' @ base64_encode secret) = Inr secret \<and>
   (st_environment s = ''production'' \<longrightarrow> resolve_secret env s secret_ref = Inr secret' \<longrightarrow>
      starts_with secret_ref ''env:'' \<and> env (drop 4 secret_ref) = Some secret' \<and> secret' \<noteq> [] \<or>
      starts_with secret_ref ''base64:'')"
proof -
  have "resolve_secret env s (''base64:'' @ base64_encode secret) = Inr secret"
    by (simp add: resolve_secret_def base64_round)
  moreover have "starts_with secret_ref ''env:'' \<and> env (drop 4 secret_ref) = Some secret' \<and> secret' \<noteq> [] \<or>
      starts_with secret_ref ''base64:''"
    if "st_environment s = ''production''" "resolve_secret env s secret_ref = Inr secret'"
    using that unfolding resolve_secret_def Let_def allow_plain_text_secrets_def truthy_str_def
    by (auto split: if_splits simp del: starts_with_Cons)
  ultimately show ?thesis by blast
qed


theorem secret_resolution_witness:
  "\<exists>v. resolve_secret [''SMPP_PASSWORD'' \<mapsto> ''s3cret''] (configuration [''NODE_ENV'' \<mapsto> ''production''])
     ''env:SMPP_PASSWORD'' = Inr v \<and> [''SMPP_PASSWORD'' \<mapsto> ''s3cret''] (drop 4 ''env:SMPP_PASSWORD'') = Some v"
  using secret_resolution [where env = "[''SMPP_PASSWORD'' \<mapsto> ''s3cret'']" and secret_ref = "''env:SMPP_PASSWORD''"
      and secret' = "''s3cret''" and s = "configuration [''NODE_ENV'' \<mapsto> ''production'']"]
  by (simp add: resolve_secret_def configuration_def)

subsection \<open>What the log keeps\<close>

definition sensitive_key :: "string \<Rightarrow> bool" where
  "sensitive_key key \<longleftrightarrow>
     list_ex (js_includes (to_lower key)) [''password'', ''secret'', ''token'', ''authorization'', ''cookie'']"

fun sanitize :: "json \<Rightarrow> json" where
  "sanitize (JArr items) = JArr (map sanitize items)"
| "sanitize (JObj kvs) =
     JObj (map (\<lambda>kv. (fst kv, if sensitive_key (fst kv) then JStr ''[REDACTED]'' else sanitize (snd kv))) kvs)"
| "sanitize v = v"

text \<open>Every key of a value, at any depth, with what it holds.\<close>

fun keyed_values :: "json \<Rightarrow> (string \<times> json) set" where
  "keyed_values (JArr items) = (\<Union>v \<in> set items. keyed_values v)"
| "keyed_values (JObj kvs) = set kvs \<union> (\<Union>kv \<in> set kvs. keyed_values (snd kv))"
| "keyed_values v = {}"

lemma sanitize_redacts: "(k, v) \<in> keyed_values (sanitize j) \<Longrightarrow> sensitive_key k \<Longrightarrow> v = JStr ''[REDACTED]''"
proof (induction j rule: sanitize.induct)
  case (2 kvs)
  then show ?case by (auto split: if_splits)
qed auto

lemma sanitize_idem: "sanitize (sanitize j) = sanitize j"
  by (induction j rule: sanitize.induct) auto

lemma sanitize_innocent: "(\<And>k v. (k, v) \<in> keyed_values j \<Longrightarrow> \<not> sensitive_key k) \<Longrightarrow> sanitize j = j"
proof (induction j rule: sanitize.induct)
  case (1 items)
  have "sanitize x = x" if "x \<in> set items" for x
    by (rule 1(1) [OF that]) (use 1(2) that in auto)
  then show ?case by (simp add: map_idI)
next
  case (2 kvs)
  have key: "\<not> sensitive_key (fst kv)" if "kv \<in> set kvs" for kv
    using 2(2) [of "fst kv" "snd kv"] that by simp
  have "sanitize (snd kv) = snd kv" if "kv \<in> set kvs" for kv
    by (rule 2(1) [OF that key [OF that]]) (use 2(2) that in auto)
  with key show ?case by (simp add: map_idI)
qed auto

text \<open>Nothing under a key that names a password, a secret, a token, an authorization or a cookie
  reaches the log, at any depth of the entry; a second pass changes nothing, and an entry without
  such a key is logged as it is.\<close>

theorem log_redacts_secrets:
  "((k, v) \<in> keyed_values (sanitize j) \<longrightarrow> sensitive_key k \<longrightarrow> v = JStr ''[REDACTED]'') \<and>
   sanitize (sanitize j) = sanitize j \<and>
   ((\<forall>(k, v) \<in> keyed_values j. \<not> sensitive_key k) \<longrightarrow> sanitize j = j)"
  using sanitize_redacts [of k v j] sanitize_idem [of j] sanitize_innocent [of j] by blast

theorem log_redacts_secrets_witness:
  "\<exists>v. (''apiToken'', v) \<in> keyed_values (sanitize (JArr [JObj [(''apiToken'', JStr ''t1'')]])) \<and> v = JStr ''[REDACTED]''"
proof -
  have "sensitive_key ''apiToken''" by code_simp
  moreover have "(''apiToken'', JStr ''[REDACTED]'') \<in> keyed_values (sanitize (JArr [JObj [(''apiToken'', JStr ''t1'')]]))"
    using calculation by simp
  ultimately show ?thesis
    using log_redacts_secrets [of "''apiToken''" _ "JArr [JObj [(''apiToken'', JStr ''t1'')]]"] by blast
qed

subsection \<open>Exceptions as responses\<close>

fun http_status :: "exn \<Rightarrow> int" where
  "http_status (BadRequestException _) = 400"
| "http_status (UnauthorizedException _) = 401"
| "http_status (ForbiddenException _) = 403"
| "http_status (NotFoundException _) = 404"
| "http_status (ConflictException _) = 409"
| "http_status (TooManyRequests _) = 429"
| "http_status (InternalServerErrorException _) = 500"
| "http_status (ServiceUnavailableException _) = 503"
| "http_status (PlainError _) = 500"
| "http_status (DatabaseError _) = 500"

text \<open>The fields of the response that depend on the exception and the request. An exception that is not
  an \<open>HttpException\<close> is an \<open>Error\<close> here, so its own message is the message of the response.\<close>

definition error_response :: "string \<Rightarrow> string option \<Rightarrow> exn \<Rightarrow> json" where
  "error_response url request_id ex =
     jobj [(''message'', Some (JStr (exn_message ex))),
           (''statusCode'', Some (jint (http_status ex))),
           (''path'', Some (JStr url)),
           (''requestId'', map_option JStr request_id)]"

text \<open>The message of an error of the database or of a service is what the client reads.\<close>

lemma internal_message_is_sent:
  "json_field (error_response url request_id (DatabaseError msg)) ''message'' = Some (JStr msg)"
  "json_field (error_response url request_id (PlainError msg)) ''message'' = Some (JStr msg)"
  by (simp_all add: error_response_def jobj_def map_filter_simps split: option.split)

end
