(* ===== verification/AuditTrail.thy ===== *)
theory AuditTrail
  imports Runtime Outbox
begin

text \<open>
  The audit trail: the interceptor that records every request of an audited route
  (\<open>audit/audit.interceptor.ts\<close>) and the listing of the log (\<open>audit/audit.service.ts\<close>), with
  PostgreSQL's \<open>ILIKE\<close>. The writer itself is \<open>audit_write\<close> of the \<open>Outbox\<close> theory.
\<close>

subsection \<open>ILIKE\<close>

fun like :: "string \<Rightarrow> string \<Rightarrow> bool" where
  "like [] s = (s = [])"
| "like (p # ps) s =
     (if p = CHR ''%'' then like ps s \<or> (case s of [] \<Rightarrow> False | c # t \<Rightarrow> like (p # ps) t)
      else if p = CHR ''_'' then (case s of [] \<Rightarrow> False | c # t \<Rightarrow> like ps t)
      else if p = CHR 0x5C then
        (case ps of [] \<Rightarrow> False
         | q # qs \<Rightarrow> (case s of [] \<Rightarrow> False | c # t \<Rightarrow> c = q \<and> like qs t))
      else (case s of [] \<Rightarrow> False | c # t \<Rightarrow> c = p \<and> like ps t))"

definition ilike_contains :: "string \<Rightarrow> string \<Rightarrow> bool" where
  "ilike_contains hay needle \<longleftrightarrow> like (to_lower (CHR ''%'' # needle @ ''%'')) (to_lower hay)"

lemma like_percent: "like (CHR ''%'' # ps) s \<longleftrightarrow> (\<exists>t. suffix t s \<and> like ps t)"
proof (induction s)
  case Nil
  show ?case by simp
next
  case (Cons c s)
  have "like (CHR ''%'' # ps) (c # s) \<longleftrightarrow> like ps (c # s) \<or> like (CHR ''%'' # ps) s" by simp
  with Cons show ?case by (auto simp: suffix_Cons)
qed

lemma like_any [simp]: "like ''%'' s"
  unfolding like_percent by auto

declare like.simps(2) [simp del]

lemma like_literal:
  "list_all (\<lambda>c. c \<notin> {CHR ''%'', CHR ''_'', CHR 0x5C}) w \<Longrightarrow>
   like (w @ ps) s \<longleftrightarrow> (\<exists>t. s = w @ t \<and> like ps t)"
proof (induction w arbitrary: s)
  case (Cons c w)
  then show ?case by (cases s) (auto simp: like.simps(2))
qed simp

text \<open>A needle without wildcards is searched as a substring, whatever the case of its letters.\<close>

lemma to_lower_append [simp]: "to_lower (s @ t) = to_lower s @ to_lower t"
  by (simp add: to_lower_def)

lemma ilike_contains_iff:
  assumes "list_all (\<lambda>c. c \<notin> {CHR ''%'', CHR ''_'', CHR 0x5C}) (to_lower needle)"
  shows "ilike_contains hay needle \<longleftrightarrow> js_includes (to_lower hay) (to_lower needle)"
proof -
  have low: "to_lower (CHR ''%'' # needle @ ''%'') = CHR ''%'' # to_lower needle @ ''%''"
    by (simp add: to_lower_def lower_char_def)
  show ?thesis
    unfolding ilike_contains_def low like_percent like_literal [OF assms] js_includes_iff_sublist sublist_def
    by (auto simp: suffix_def)
qed

subsection \<open>Listing\<close>

record audit_query =
  aq_tenant_id :: "tenant option"
  aq_user_id :: "string option"
  aq_api_key_id :: "string option"
  aq_action :: "string option"
  aq_from :: "time option"
  aq_to :: "time option"
  aq_page :: int
  aq_limit :: int

definition audit_match :: "tenant \<Rightarrow> audit_query \<Rightarrow> audit_row \<Rightarrow> bool" where
  "audit_match tenant query r \<longleftrightarrow>
     au_tenant_id r = Some tenant \<and>
     sql_filter (given_str (aq_user_id query)) (\<lambda>v. au_user_id r = Some v) \<and>
     sql_filter (given_str (aq_api_key_id query)) (\<lambda>v. au_api_key_id r = Some v) \<and>
     sql_filter (given_str (aq_action query)) (\<lambda>v. ilike_contains (au_action r) v) \<and>
     sql_filter (aq_from query) (\<lambda>t. t \<le> au_created_at r) \<and>
     sql_filter (aq_to query) (\<lambda>t. au_created_at r \<le> t)"

definition audit_json :: "audit_row \<Rightarrow> json" where
  "audit_json row =
     jobj [(''logDate'', Some (JStr (au_log_date row))),
           (''tenantId'', Some (jnullable JStr (au_tenant_id row))),
           (''userId'', Some (jnullable JStr (au_user_id row))),
           (''apiKeyId'', Some (jnullable JStr (au_api_key_id row))),
           (''action'', Some (JStr (au_action row))),
           (''targetType'', Some (jnullable JStr (au_target_type row))),
           (''targetId'', Some (jnullable JStr (au_target_id row))),
           (''sourceIp'', Some (jnullable JStr (au_source_ip row))),
           (''metadata'', Some (au_metadata row)),
           (''createdAt'', Some (jint (au_created_at row)))]"

definition list_audit_logs :: "jwt_claims \<Rightarrow> audit_query \<Rightarrow> db \<Rightarrow> json page_result result" where
  "list_audit_logs user query d =
     and_then (resolve_tenant_scope user (aq_tenant_id query)) (\<lambda>tenant.
       let matching = filter (audit_match tenant query) (audit_logs d) in
       Inr \<lparr>pg_items = map audit_json
                (paginate (aq_page query) (aq_limit query) (sort_desc au_created_at matching)),
            pg_page = aq_page query, pg_limit = aq_limit query, pg_total = int (length matching)\<rparr>)"

subsection \<open>The interceptor\<close>

text \<open>What the interceptor reads of an HTTP request beside its principal.\<close>

record http_request =
  hr_request :: request
  hr_route_path :: "string option"
  hr_param_id :: "string option"
  hr_ip :: "string option"
  hr_method :: "string option"
  hr_original_url :: "string option"

definition audit_metadata :: "http_request \<Rightarrow> exn option \<Rightarrow> json" where
  "audit_metadata request failure =
     jobj ([(''method'', map_option JStr (hr_method request)),
            (''path'', map_option JStr (hr_original_url request)),
            (''requestId'', map_option JStr (rq_request_id (hr_request request))),
            (''outcome'', Some (JStr (if failure = None then ''success'' else ''error'')))] @
           (case failure of None \<Rightarrow> [] | Some ex \<Rightarrow> [(''error'', Some (JStr (exn_message ex)))]))"

definition build_audit_entry :: "string option \<Rightarrow> http_request \<Rightarrow> exn option \<Rightarrow> audit_entry" where
  "build_audit_entry action request failure =
     (let user = rq_user (hr_request request); api = rq_api_principal (hr_request request)
      in \<lparr>au_tenant_id = or_else (map_option jc_tenant_id user) (map_option ap_tenant_id api),
          au_user_id = map_option jc_sub user,
          au_api_key_id = map_option ap_api_key_id api,
          au_action = coalesce action ''unknown'',
          au_target_type = hr_route_path request,
          au_target_id = hr_param_id request,
          au_source_ip = hr_ip request,
          au_metadata = audit_metadata request failure\<rparr>)"

text \<open>\<open>intercept\<close>: \<open>refusals\<close> says what the database answers to the first and the second write of the
  request, \<open>None\<close> when it accepts it. The \<open>catchError\<close> stands behind the write of the success, so it
  also catches the failure of that write.\<close>

definition intercept ::
  "string option \<Rightarrow> http_request \<Rightarrow> ctx \<Rightarrow> exn option \<times> exn option \<Rightarrow> (db, 'a) io \<Rightarrow> (db, 'a) io" where
  "intercept action request c refusals handler d =
     (if \<not> truthy_str action then handler d
      else
        (let record_error = (\<lambda>refusal ex d1.
               (case refusal of
                  Some refused \<Rightarrow> (Inl refused, d1)
                | None \<Rightarrow> (Inl ex, audit_write c (build_audit_entry action request (Some ex)) d1)))
         in case handler d of
              (Inl ex, d1) \<Rightarrow> record_error (fst refusals) ex d1
            | (Inr body, d1) \<Rightarrow>
                (case fst refusals of
                   None \<Rightarrow> (Inr body, audit_write c (build_audit_entry action request None) d1)
                 | Some refused \<Rightarrow> record_error (snd refusals) refused d1)))"

lemma audit_logs_write:
  "audit_logs (audit_write c entry d) = audit_logs d @
     [\<lparr>au_tenant_id = au_tenant_id entry, au_user_id = au_user_id entry, au_api_key_id = au_api_key_id entry,
       au_action = au_action entry, au_target_type = au_target_type entry, au_target_id = au_target_id entry,
       au_source_ip = au_source_ip entry, au_metadata = au_metadata entry, au_log_date = c_today c,
       au_created_at = c_now c\<rparr>]"
  by (simp add: audit_write_def)

text \<open>While the database accepts the write, an audited request answers what its handler answers and
  leaves exactly one row more than the handler, with the outcome of the handler; when the write of a
  success is refused, the request fails although the handler's changes stay, and the row of the
  second attempt calls it an error.\<close>

theorem audited_once:
  assumes "truthy_str action" and "handler d = (r, d1)"
  shows "(\<exists>row. intercept action request c (None, None) handler d =
        (r, d1\<lparr>audit_logs := audit_logs d1 @ [row]\<rparr>) \<and> au_action row = the action \<and>
        json_field (au_metadata row) ''outcome'' = Some (JStr (case r of Inr _ \<Rightarrow> ''success'' | Inl _ \<Rightarrow> ''error''))) \<and>
    (r = Inr body \<longrightarrow>
      (\<exists>row. intercept action request c (Some refused, None) handler d =
        (Inl refused, d1\<lparr>audit_logs := audit_logs d1 @ [row]\<rparr>) \<and>
        json_field (au_metadata row) ''outcome'' = Some (JStr ''error'')))"
proof -
  have outcome: "json_field (audit_metadata request failure) ''outcome'' =
      Some (JStr (if failure = None then ''success'' else ''error''))" for failure
    by (auto simp: audit_metadata_def jobj_def map_filter_simps split: option.split)
  obtain name where name: "action = Some name" "name \<noteq> []" using assms(1) by (cases action) simp_all
  show ?thesis
    using assms(2) name
    by (cases r) (auto simp: intercept_def audit_write_def build_audit_entry_def Let_def outcome)
qed

theorem audited_once_witness:
  "\<exists>row. intercept (Some ''wallet.adjust'')
      \<lparr>hr_request = ex_request, hr_route_path = None, hr_param_id = None, hr_ip = None, hr_method = None,
       hr_original_url = None\<rparr> \<lparr>c_now = 0, c_today = ''2025-11-18''\<rparr> (Some (DatabaseError ''down''), None) (io_return (7 :: int)) empty_db =
      (Inl (DatabaseError ''down''), empty_db\<lparr>audit_logs := audit_logs empty_db @ [row]\<rparr>)"
  using audited_once [of "Some ''wallet.adjust''" "io_return (7 :: int)" empty_db "Inr 7" empty_db
      "\<lparr>hr_request = ex_request, hr_route_path = None, hr_param_id = None, hr_ip = None, hr_method = None,
       hr_original_url = None\<rparr>" "\<lparr>c_now = 0, c_today = ''2025-11-18''\<rparr>" 7 "DatabaseError ''down''"]
  by auto

end
