(* ===== verification/Auth.thy ===== *)
theory Auth
  imports AuditTrail "HOL-Library.List_Lexorder"
begin

text \<open>
  Sessions and API keys (\<open>auth/auth.service.ts\<close>): login, the current session, re-authentication
  before a dangerous action, switching the tenant, and the life of an API key (create, list,
  rotate, disable, validate).

  Cryptography is a parameter: \<open>scrypt\<close> from a text and a salt to bytes, \<open>sign\<close> from a payload and a
  lifetime to a token. Random bytes and the identifiers the database generates are arguments.
\<close>

subsection \<open>Tables\<close>

record user_row =
  us_id :: string
  us_tenant_id :: tenant
  us_email :: string
  us_password_hash :: string
  us_role :: string
  us_is_active :: bool

record tenant_account =
  ta_id :: tenant
  ta_code :: string
  ta_name :: string
  ta_status :: string
  ta_timezone :: string

record api_key_row =
  ak_id :: string
  ak_tenant_id :: tenant
  ak_key_prefix :: string
  ak_key_hash :: string
  ak_key_salt :: string
  ak_name :: string
  ak_scopes :: "string list"
  ak_rate_limit_rps :: "int option"
  ak_daily_quota :: "int option"
  ak_is_active :: bool
  ak_last_used_at :: "time option"
  ak_expires_at :: "time option"
  ak_last_rotated_at :: "time option"
  ak_created_at :: time

record auth_state =
  as_db :: db
  as_users :: "user_row list"
  as_tenants :: "tenant_account list"
  as_api_keys :: "api_key_row list"

definition with_audit :: "ctx \<Rightarrow> audit_entry \<Rightarrow> auth_state \<Rightarrow> auth_state" where
  "with_audit c entry st = st\<lparr>as_db := audit_write c entry (as_db st)\<rparr>"

definition auth_entry :: "tenant \<Rightarrow> string option \<Rightarrow> string \<Rightarrow> string \<Rightarrow> string \<Rightarrow> json \<Rightarrow> audit_entry" where
  "auth_entry tenant user_id action target_type target_id metadata =
     \<lparr>au_tenant_id = Some tenant, au_user_id = user_id, au_api_key_id = None, au_action = action,
      au_target_type = Some target_type, au_target_id = Some target_id, au_source_ip = None,
      au_metadata = metadata\<rparr>"

subsection \<open>Hexadecimal\<close>

definition hex_digits :: string where
  "hex_digits = ''0123456789abcdef''"

definition hex_val :: "char \<Rightarrow> nat option" where
  "hex_val c = map_of (zip hex_digits [0..<16]) (lower_char c)"

definition hex_string :: "nat list \<Rightarrow> string" where
  "hex_string bytes = concat (map (\<lambda>b. [hex_digits ! (b div 16), hex_digits ! (b mod 16)]) bytes)"

text \<open>\<open>Buffer.from(s, 'hex')\<close> stops at the first pair that is not two hexadecimal digits.\<close>

fun hex_bytes :: "string \<Rightarrow> nat list" where
  "hex_bytes (a # b # r) =
     (case (hex_val a, hex_val b) of (Some x, Some y) \<Rightarrow> (x * 16 + y) # hex_bytes r | _ \<Rightarrow> [])"
| "hex_bytes r = []"

lemma hex_digit: "v < 16 \<Longrightarrow> hex_val (hex_digits ! v) = Some v"
proof -
  have "list_all (\<lambda>v. hex_val (hex_digits ! v) = Some v) [0..<16]" by code_simp
  then show "v < 16 \<Longrightarrow> ?thesis" by (simp add: list_all_iff)
qed

lemma hex_round: "\<forall>b \<in> set bs. b < 256 \<Longrightarrow> hex_bytes (hex_string bs) = bs"
proof (induction bs)
  case (Cons b bs)
  have "b div 16 < 16" "b mod 16 < 16" using Cons.prems by (simp_all add: less_mult_imp_div_less)
  then show ?case using Cons by (simp add: hex_string_def hex_digit)
qed (simp add: hex_string_def)

subsection \<open>Passwords\<close>

definition verify_password :: "(string \<Rightarrow> string \<Rightarrow> nat list) \<Rightarrow> string \<Rightarrow> string \<Rightarrow> bool result" where
  "verify_password scrypt password stored_hash =
     (let parts = split_char (CHR ''$'') stored_hash;
          part = (\<lambda>i. if i < length parts then Some (parts ! i) else None)
      in if part 0 \<noteq> Some ''scrypt'' \<or> \<not> truthy_str (part 1) \<or> \<not> truthy_str (part 2)
         then Inl (ConflictException ''Unsupported password hash format'')
         else Inr (hex_bytes (hex_string (scrypt password (base64_decode (the (part 1))))) =
                   hex_bytes (the (part 2))))"

subsection \<open>Sessions\<close>

datatype token_payload = Session jwt_claims | Reauth reauth_claims

type_synonym signer = "time \<Rightarrow> int \<Rightarrow> token_payload \<Rightarrow> string"

definition session_lifetime :: int where
  "session_lifetime = 12 * 60 * 60"

record session_response =
  sr_access_token :: string
  sr_expires_in :: string
  sr_user :: "string \<times> string \<times> string"
  sr_tenant :: tenant_account
  sr_available_tenants :: "tenant_account list option"

record login_dto =
  lg_tenant_code :: string
  lg_email :: string
  lg_password :: string

definition list_tenant_options :: "jwt_claims \<Rightarrow> auth_state \<Rightarrow> tenant_account list" where
  "list_tenant_options user st =
     (if \<not> can_use_cross_tenant_scope user then []
      else take 200 (sort_key (\<lambda>t. map of_char (ta_name t) :: nat list)
             (filter (\<lambda>t. ta_status t = ''active'') (as_tenants st))))"

text \<open>The row of the join the login selects: a user of the tenant with that code.\<close>

definition find_login :: "login_dto \<Rightarrow> auth_state \<Rightarrow> (user_row \<times> tenant_account) option" where
  "find_login dto st =
     first_row
       [(u, t). u \<leftarrow> as_users st, t \<leftarrow> as_tenants st,
          ta_id t = us_tenant_id u \<and> ta_code t = lg_tenant_code dto \<and>
          to_lower (us_email u) = to_lower (lg_email dto)]"

definition user_view :: "user_row \<Rightarrow> string \<times> string \<times> string" where
  "user_view u = (us_id u, us_email u, us_role u)"

definition session_claims :: "user_row \<Rightarrow> tenant \<Rightarrow> tenant \<Rightarrow> jwt_claims" where
  "session_claims u tenant home =
     \<lparr>jc_sub = us_id u, jc_tenant_id = tenant, jc_home_tenant_id = Some home, jc_role = us_role u,
      jc_email = Some (us_email u)\<rparr>"

definition login ::
  "signer \<Rightarrow> (string \<Rightarrow> string \<Rightarrow> nat list) \<Rightarrow> ctx \<Rightarrow> login_dto \<Rightarrow> (auth_state, session_response) io" where
  "login sign scrypt c dto st =
     (case find_login dto st of
        None \<Rightarrow> (Inl (UnauthorizedException ''Invalid login credentials''), st)
      | Some (user, tenant) \<Rightarrow>
          if \<not> us_is_active user \<or> ta_status tenant \<noteq> ''active''
          then (Inl (UnauthorizedException ''Invalid login credentials''), st)
          else
            (case verify_password scrypt (lg_password dto) (us_password_hash user) of
               Inl ex \<Rightarrow> (Inl ex, st)
             | Inr False \<Rightarrow> (Inl (UnauthorizedException ''Invalid login credentials''), st)
             | Inr True \<Rightarrow>
                 (Inr \<lparr>sr_access_token = sign (c_now c) session_lifetime
                         (Session (session_claims user (us_tenant_id user) (us_tenant_id user))),
                       sr_expires_in = ''12h'', sr_user = user_view user, sr_tenant = tenant,
                       sr_available_tenants = None\<rparr>,
                  with_audit c (auth_entry (us_tenant_id user) (Some (us_id user)) ''auth.login'' ''user''
                    (us_id user) (jobj [(''email'', Some (JStr (us_email user)))])) st)))"

definition home_tenant :: "jwt_claims \<Rightarrow> tenant" where
  "home_tenant claims = coalesce (jc_home_tenant_id claims) (jc_tenant_id claims)"

definition find_user :: "jwt_claims \<Rightarrow> auth_state \<Rightarrow> user_row option" where
  "find_user claims st =
     first_row (filter (\<lambda>u. us_id u = jc_sub claims \<and> us_tenant_id u = home_tenant claims) (as_users st))"

definition find_tenant :: "tenant \<Rightarrow> auth_state \<Rightarrow> tenant_account option" where
  "find_tenant tenant st = first_row (filter (\<lambda>t. ta_id t = tenant) (as_tenants st))"

text \<open>\<open>getCurrentUser\<close>: the user, the tenant of the session and the tenants it may switch to.\<close>

definition get_current_user ::
  "jwt_claims \<Rightarrow> auth_state \<Rightarrow> ((string \<times> string \<times> string) \<times> tenant_account \<times> tenant_account list) result" where
  "get_current_user claims st =
     (case first_row (filter (\<lambda>u. us_id u = jc_sub claims \<and> us_tenant_id u = home_tenant claims \<and>
             us_is_active u) (as_users st)) of
        None \<Rightarrow> Inl (UnauthorizedException ''User session is no longer active'')
      | Some user \<Rightarrow>
          (case find_tenant (jc_tenant_id claims) st of
             None \<Rightarrow> Inl (UnauthorizedException ''Tenant session is no longer active'')
           | Some tenant \<Rightarrow>
               if ta_status tenant \<noteq> ''active''
               then Inl (UnauthorizedException ''Tenant session is no longer active'')
               else Inr (user_view user, tenant, list_tenant_options claims st)))"

definition reauth_claims_for :: "ctx \<Rightarrow> jwt_claims \<Rightarrow> reauth_claims" where
  "reauth_claims_for c claims =
     \<lparr>jc_sub = jc_sub claims, jc_tenant_id = jc_tenant_id claims,
      jc_home_tenant_id = Some (home_tenant claims), jc_role = jc_role claims, jc_email = jc_email claims,
      jc_kind = ''reauth'', jc_scope = ''dangerous_action'', jc_reauth_at = c_now c\<rparr>"

definition reauthenticate ::
  "signer \<Rightarrow> (string \<Rightarrow> string \<Rightarrow> nat list) \<Rightarrow> ctx \<Rightarrow> jwt_claims \<Rightarrow> string \<Rightarrow> (auth_state, string \<times> int) io" where
  "reauthenticate sign scrypt c claims password st =
     (case find_user claims st of
        None \<Rightarrow> (Inl (UnauthorizedException ''User session is no longer active''), st)
      | Some user \<Rightarrow>
          if \<not> us_is_active user
          then (Inl (UnauthorizedException ''User session is no longer active''), st)
          else
            (case verify_password scrypt password (us_password_hash user) of
               Inl ex \<Rightarrow> (Inl ex, st)
             | Inr False \<Rightarrow>
                 (Inl (UnauthorizedException ''Password confirmation failed''),
                  with_audit c (auth_entry (jc_tenant_id claims) (Some (jc_sub claims)) ''auth.reauth.failed''
                    ''user'' (jc_sub claims) (jobj [(''reason'', Some (JStr ''invalid_password''))])) st)
             | Inr True \<Rightarrow>
                 (Inr (sign (c_now c) 300 (Reauth (reauth_claims_for c claims)), 300),
                  with_audit c (auth_entry (jc_tenant_id claims) (Some (jc_sub claims)) ''auth.reauth.succeeded''
                    ''user'' (jc_sub claims) (jobj [(''homeTenantId'', Some (JStr (home_tenant claims)))])) st)))"

definition switch_tenant ::
  "signer \<Rightarrow> ctx \<Rightarrow> jwt_claims \<Rightarrow> tenant \<Rightarrow> (auth_state, session_response) io" where
  "switch_tenant sign c claims target st =
     (if \<not> can_use_cross_tenant_scope claims
      then (Inl (UnauthorizedException ''Cross-tenant access is not allowed for this role''), st)
      else
        (case (find_user claims st, find_tenant target st) of
           (Some user, Some tenant) \<Rightarrow>
             if \<not> us_is_active user \<or> ta_status tenant \<noteq> ''active''
             then (Inl (UnauthorizedException ''Unable to switch tenant context''), st)
             else
               (let next_claims = session_claims user (ta_id tenant) (home_tenant claims);
                    st1 = with_audit c (auth_entry (ta_id tenant) (Some (us_id user)) ''auth.switch_tenant''
                      ''tenant'' (ta_id tenant)
                      (jobj [(''homeTenantId'', Some (JStr (home_tenant claims))),
                             (''tenantCode'', Some (JStr (ta_code tenant)))])) st
                in (Inr \<lparr>sr_access_token = sign (c_now c) session_lifetime (Session next_claims),
                         sr_expires_in = ''12h'', sr_user = user_view user, sr_tenant = tenant,
                         sr_available_tenants = Some (list_tenant_options next_claims st1)\<rparr>, st1))
         | _ \<Rightarrow> (Inl (UnauthorizedException ''Unable to switch tenant context''), st)))"

subsection \<open>API keys\<close>

record issued_key =
  ik_raw_key :: string
  ik_prefix :: string
  ik_salt :: string
  ik_hash :: string

definition hash_api_key :: "(string \<Rightarrow> string \<Rightarrow> nat list) \<Rightarrow> string \<Rightarrow> string \<Rightarrow> string" where
  "hash_api_key scrypt api_key salt = hex_string (scrypt api_key salt)"

text \<open>Six random bytes for the prefix, a base64url text for the secret, a salt.\<close>

definition issue_api_key_secret ::
  "(string \<Rightarrow> string \<Rightarrow> nat list) \<Rightarrow> nat list \<Rightarrow> string \<Rightarrow> string \<Rightarrow> issued_key" where
  "issue_api_key_secret scrypt prefix_bytes secret salt =
     (let prefix = hex_string prefix_bytes;
          raw_key = ''sk_live_'' @ prefix @ ''_'' @ secret
      in \<lparr>ik_raw_key = raw_key, ik_prefix = prefix, ik_salt = salt,
          ik_hash = hash_api_key scrypt raw_key salt\<rparr>)"

record create_api_key_dto =
  ck_name :: string
  ck_scopes :: "string list option"
  ck_rate_limit_rps :: "int option"
  ck_daily_quota :: "int option"
  ck_expires_in_days :: "int option"

definition scopes_json :: "string list \<Rightarrow> json" where
  "scopes_json scopes = JArr (map JStr scopes)"

text \<open>The insert, which the primary key and the unique prefix may refuse.\<close>

definition insert_api_key :: "api_key_row \<Rightarrow> auth_state \<Rightarrow> auth_state result" where
  "insert_api_key row st =
     (if ak_key_prefix row \<in> set (map ak_key_prefix (as_api_keys st)) \<or>
         ak_id row \<in> set (map ak_id (as_api_keys st))
      then Inl (DatabaseError ''duplicate key value violates unique constraint'')
      else Inr (st\<lparr>as_api_keys := as_api_keys st @ [row]\<rparr>))"

definition create_api_key ::
  "ctx \<Rightarrow> string \<Rightarrow> issued_key \<Rightarrow> tenant \<Rightarrow> create_api_key_dto \<Rightarrow> auth_state \<Rightarrow> (string \<times> string) result \<times> auth_state"
where
  "create_api_key c new_id issued tenant dto =
     with_transaction (\<lambda>st.
       and_then (insert_api_key
         \<lparr>ak_id = new_id, ak_tenant_id = tenant, ak_key_prefix = ik_prefix issued,
          ak_key_hash = ik_hash issued, ak_key_salt = ik_salt issued, ak_name = ck_name dto,
          ak_scopes = coalesce (ck_scopes dto) [''sms:send''],
          ak_rate_limit_rps = ck_rate_limit_rps dto, ak_daily_quota = ck_daily_quota dto,
          ak_is_active = True, ak_last_used_at = None,
          ak_expires_at =
            (if truthy_int (ck_expires_in_days dto)
             then Some (c_now c + the (ck_expires_in_days dto) * 24 * 60 * 60 * 1000) else None),
          ak_last_rotated_at = None, ak_created_at = c_now c\<rparr> st) (\<lambda>st1.
       Inr ((new_id, ik_raw_key issued),
         with_audit c (auth_entry tenant None ''api_keys.create'' ''api_key'' new_id
           (jobj [(''keyPrefix'', Some (JStr (ik_prefix issued))),
                  (''scopes'', Some (scopes_json (coalesce (ck_scopes dto) [''sms:send'']))),
                  (''dailyQuota'', Some (jnullable jint (ck_daily_quota dto))),
                  (''rateLimitRps'', Some (jnullable jint (ck_rate_limit_rps dto)))])) st1)))"

definition list_api_keys :: "tenant \<Rightarrow> auth_state \<Rightarrow> api_key_row list" where
  "list_api_keys tenant st =
     sort_desc ak_created_at (filter (\<lambda>k. ak_tenant_id k = tenant) (as_api_keys st))"

record rotate_api_key_dto =
  rk_name :: "string option"
  rk_scopes :: "string list option"

definition rotate_api_key ::
  "ctx \<Rightarrow> string \<Rightarrow> issued_key \<Rightarrow> tenant \<Rightarrow> string \<Rightarrow> rotate_api_key_dto \<Rightarrow> auth_state \<Rightarrow>
   (string \<times> string) result \<times> auth_state" where
  "rotate_api_key c new_id issued tenant key_id dto =
     with_transaction (\<lambda>st.
       if filter (\<lambda>k. ak_id k = key_id \<and> ak_tenant_id k = tenant) (as_api_keys st) = []
       then Inl (NotFoundException ''API key not found'')
       else
         (let st1 = st\<lparr>as_api_keys := sql_update (\<lambda>k. ak_id k = key_id)
                (\<lambda>k. k\<lparr>ak_is_active := False, ak_last_rotated_at := Some (c_now c)\<rparr>) (as_api_keys st)\<rparr>
          in and_then (insert_api_key
               \<lparr>ak_id = new_id, ak_tenant_id = tenant, ak_key_prefix = ik_prefix issued,
                ak_key_hash = ik_hash issued, ak_key_salt = ik_salt issued,
                ak_name = coalesce (rk_name dto) ''Rotated key'',
                ak_scopes = coalesce (rk_scopes dto) [''sms:send''],
                ak_rate_limit_rps = None, ak_daily_quota = None, ak_is_active = True,
                ak_last_used_at = None, ak_expires_at = None, ak_last_rotated_at = None,
                ak_created_at = c_now c\<rparr> st1) (\<lambda>st2.
             Inr ((new_id, ik_raw_key issued),
               with_audit c (auth_entry tenant None ''api_keys.rotate'' ''api_key'' new_id
                 (jobj [(''previousApiKeyId'', Some (JStr key_id)),
                        (''keyPrefix'', Some (JStr (ik_prefix issued))),
                        (''scopes'', Some (scopes_json (coalesce (rk_scopes dto) [''sms:send''])))])) st2))))"

definition disable_api_key ::
  "ctx \<Rightarrow> tenant \<Rightarrow> string \<Rightarrow> auth_state \<Rightarrow> unit result \<times> auth_state" where
  "disable_api_key c tenant key_id =
     with_transaction (\<lambda>st.
       (let hit = (\<lambda>k. ak_id k = key_id \<and> ak_tenant_id k = tenant) in
        if filter hit (as_api_keys st) = [] then Inl (NotFoundException ''API key not found'')
        else Inr ((), with_audit c (auth_entry tenant None ''api_keys.disable'' ''api_key'' key_id (jobj []))
               (st\<lparr>as_api_keys := sql_update hit (\<lambda>k. k\<lparr>ak_is_active := False\<rparr>) (as_api_keys st)\<rparr>))))"

definition principal_of :: "api_key_row \<Rightarrow> api_principal" where
  "principal_of row =
     \<lparr>ap_api_key_id = ak_id row, ap_tenant_id = ak_tenant_id row, ap_name = ak_name row,
      ap_scopes = ak_scopes row, ap_rate_limit_rps = ak_rate_limit_rps row,
      ap_daily_quota = ak_daily_quota row\<rparr>"

definition validate_api_key ::
  "(string \<Rightarrow> string \<Rightarrow> nat list) \<Rightarrow> ctx \<Rightarrow> string \<Rightarrow> (auth_state, api_principal) io" where
  "validate_api_key scrypt c api_key st =
     (let segments = split_char (CHR ''_'') api_key in
      if length segments < 4 then (Inl (UnauthorizedException ''Malformed API key''), st)
      else
        (case first_row (filter (\<lambda>k. ak_key_prefix k = segments ! 2) (as_api_keys st)) of
           None \<Rightarrow> (Inl (UnauthorizedException ''API key is not active''), st)
         | Some row \<Rightarrow>
             if \<not> ak_is_active row then (Inl (UnauthorizedException ''API key is not active''), st)
             else if (case ak_expires_at row of None \<Rightarrow> False | Some t \<Rightarrow> t < c_now c)
             then (Inl (UnauthorizedException ''API key has expired''), st)
             else if hex_bytes (hash_api_key scrypt api_key (ak_key_salt row)) \<noteq> hex_bytes (ak_key_hash row)
             then (Inl (UnauthorizedException ''Invalid API key''), st)
             else
               (Inr (principal_of row),
                st\<lparr>as_api_keys := sql_update (\<lambda>k. ak_id k = ak_id row)
                     (\<lambda>k. k\<lparr>ak_last_used_at := Some (c_now c)\<rparr>) (as_api_keys st)\<rparr>)))"


subsection \<open>The life of a key\<close>

definition keys_ok :: "auth_state \<Rightarrow> bool" where
  "keys_ok st \<longleftrightarrow> distinct (map ak_id (as_api_keys st)) \<and> distinct (map ak_key_prefix (as_api_keys st))"

inductive key_step :: "(string \<Rightarrow> string \<Rightarrow> nat list) \<Rightarrow> auth_state \<Rightarrow> auth_state \<Rightarrow> bool"
  for scrypt :: "string \<Rightarrow> string \<Rightarrow> nat list" where
  created: "key_step scrypt st (snd (create_api_key c new_id issued tenant cdto st))"
| rotated: "key_step scrypt st (snd (rotate_api_key c new_id issued tenant key_id rdto st))"
| disabled: "key_step scrypt st (snd (disable_api_key c tenant key_id st))"
| used: "key_step scrypt st (snd (validate_api_key scrypt c api_key st))"

text \<open>What no operation changes of a key that exists, and that none reactivates it.\<close>

definition same_key :: "api_key_row \<Rightarrow> api_key_row \<Rightarrow> bool" where
  "same_key k k' \<longleftrightarrow>
     ak_id k' = ak_id k \<and> ak_tenant_id k' = ak_tenant_id k \<and> ak_key_prefix k' = ak_key_prefix k \<and>
     ak_key_hash k' = ak_key_hash k \<and> ak_key_salt k' = ak_key_salt k \<and> ak_scopes k' = ak_scopes k \<and>
     ak_rate_limit_rps k' = ak_rate_limit_rps k \<and> ak_expires_at k' = ak_expires_at k \<and>
     (ak_is_active k' \<longrightarrow> ak_is_active k)"

definition keys_kept :: "auth_state \<Rightarrow> auth_state \<Rightarrow> bool" where
  "keys_kept st st' \<longleftrightarrow> (\<forall>k \<in> set (as_api_keys st). \<exists>k' \<in> set (as_api_keys st'). same_key k k')"

lemma keys_kept_refl [simp]: "keys_kept st st"
  by (auto simp: keys_kept_def same_key_def)

lemma keys_kept_trans: "keys_kept a b \<Longrightarrow> keys_kept b c \<Longrightarrow> keys_kept a c"
  unfolding keys_kept_def same_key_def by fastforce

lemma with_audit_keys [simp]: "as_api_keys (with_audit c entry st) = as_api_keys st"
  by (simp add: with_audit_def)

lemma kept_update:
  assumes "\<And>k. same_key k (f k)"
  shows "keys_kept st (st\<lparr>as_api_keys := sql_update cond f (as_api_keys st)\<rparr>)"
    and "keys_ok (st\<lparr>as_api_keys := sql_update cond f (as_api_keys st)\<rparr>) \<longleftrightarrow> keys_ok st"
proof -
  have "\<exists>k' \<in> set (sql_update cond f (as_api_keys st)). same_key k k'" if "k \<in> set (as_api_keys st)" for k
  proof (rule bexI)
    show "same_key k (if cond k then f k else k)" using assms by (simp add: same_key_def)
    show "(if cond k then f k else k) \<in> set (sql_update cond f (as_api_keys st))"
      using that by (auto simp: sql_update_def)
  qed
  then show "keys_kept st (st\<lparr>as_api_keys := sql_update cond f (as_api_keys st)\<rparr>)"
    by (simp add: keys_kept_def)
  show "keys_ok (st\<lparr>as_api_keys := sql_update cond f (as_api_keys st)\<rparr>) \<longleftrightarrow> keys_ok st"
    using assms by (simp add: keys_ok_def map_sql_update same_key_def)
qed

lemma kept_insert:
  assumes "insert_api_key row st = Inr st'"
  shows "keys_kept st st' \<and> (keys_ok st \<longrightarrow> keys_ok st')"
  using assms by (auto simp: insert_api_key_def keys_kept_def same_key_def keys_ok_def split: if_splits)

lemma kept_eq: "as_api_keys st' = as_api_keys st'' \<Longrightarrow> keys_kept st st' = keys_kept st st'' \<and> keys_ok st' = keys_ok st''"
  by (simp add: keys_kept_def keys_ok_def)

lemma rotated_keeps:
  "keys_kept st (snd (rotate_api_key c new_id issued tenant key_id dto st)) \<and>
   (keys_ok st \<longrightarrow> keys_ok (snd (rotate_api_key c new_id issued tenant key_id dto st)))"
proof -
  let ?r = "rotate_api_key c new_id issued tenant key_id dto st"
  let ?st1 = "st\<lparr>as_api_keys := sql_update (\<lambda>k. ak_id k = key_id)
      (\<lambda>k. k\<lparr>ak_is_active := False, ak_last_rotated_at := Some (c_now c)\<rparr>) (as_api_keys st)\<rparr>"
  have step1: "keys_kept st ?st1" "keys_ok ?st1 \<longleftrightarrow> keys_ok st"
    by (rule kept_update; simp add: same_key_def)+
  have "snd ?r = st \<or> (\<exists>row st2. insert_api_key row ?st1 = Inr st2 \<and> as_api_keys (snd ?r) = as_api_keys st2)"
    by (auto simp: rotate_api_key_def with_transaction_def and_then_def Let_def split: sum.split)
  then show ?thesis
  proof (elim disjE exE conjE)
    fix row st2 assume ins: "insert_api_key row ?st1 = Inr st2" and eq: "as_api_keys (snd ?r) = as_api_keys st2"
    have "keys_kept st st2" using keys_kept_trans [OF step1(1)] kept_insert [OF ins] by blast
    moreover have "keys_ok st \<longrightarrow> keys_ok st2" using kept_insert [OF ins] step1(2) by blast
    ultimately show ?thesis using kept_eq [OF eq] by metis
  qed simp
qed

lemma key_step_keeps:
  "key_step scrypt st st' \<Longrightarrow> keys_kept st st' \<and> (keys_ok st \<longrightarrow> keys_ok st')"
proof (induction rule: key_step.induct)
  case (created st c new_id issued tenant cdto)
  let ?st' = "snd (create_api_key c new_id issued tenant cdto st)"
  have "?st' = st \<or> (\<exists>row st2. insert_api_key row st = Inr st2 \<and> as_api_keys ?st' = as_api_keys st2)"
    by (auto simp: create_api_key_def with_transaction_def and_then_def split: sum.split)
  then show ?case
  proof (elim disjE exE conjE)
    fix row st2 assume ins: "insert_api_key row st = Inr st2" and eq: "as_api_keys ?st' = as_api_keys st2"
    from kept_insert [OF ins] show ?thesis using kept_eq [OF eq] by metis
  qed simp
next
  case (rotated st c new_id issued tenant key_id rdto)
  show ?case by (rule rotated_keeps)
next
  case (disabled st c tenant key_id)
  have "same_key k (k\<lparr>ak_is_active := False\<rparr>)" for k by (simp add: same_key_def)
  note upd = kept_update [OF this, where st = st and cond = "\<lambda>k. ak_id k = key_id \<and> ak_tenant_id k = tenant"]
  let ?st' = "snd (disable_api_key c tenant key_id st)"
  let ?st2 = "st\<lparr>as_api_keys := sql_update (\<lambda>k. ak_id k = key_id \<and> ak_tenant_id k = tenant)
      (\<lambda>k. k\<lparr>ak_is_active := False\<rparr>) (as_api_keys st)\<rparr>"
  have "?st' = st \<or> as_api_keys ?st' = as_api_keys ?st2"
    by (simp add: disable_api_key_def with_transaction_def Let_def)
  then show ?case
  proof
    assume "as_api_keys ?st' = as_api_keys ?st2"
    from kept_eq [OF this] upd show ?thesis by blast
  qed simp
next
  case (used st c api_key)
  have "same_key k (k\<lparr>ak_last_used_at := Some (c_now c)\<rparr>)" for k by (simp add: same_key_def)
  note upd = kept_update [OF this, where st = st]
  show ?case using upd
    by (auto simp: validate_api_key_def Let_def split: option.split)
qed

lemma key_steps_keep: "(key_step scrypt)\<^sup>*\<^sup>* st st' \<Longrightarrow> keys_kept st st' \<and> (keys_ok st \<longrightarrow> keys_ok st')"
  by (induction rule: rtranclp_induct) (auto dest: key_step_keeps intro: keys_kept_trans)

lemma prefix_lookup:
  assumes "distinct (map ak_key_prefix ks)" and "k \<in> set ks"
  shows "first_row (filter (\<lambda>r. ak_key_prefix r = ak_key_prefix k) ks) = Some k"
  using assms by (induction ks) (auto simp: filter_empty_conv image_iff)

text \<open>C13: revocation is permanent. Once a key is inactive, no sequence of creations, rotations, disablings
  and validations, of this or any other key, makes a text with its prefix pass the validation again.\<close>

theorem revocation_is_permanent:
  assumes "keys_ok st" and "k \<in> set (as_api_keys st)" and "\<not> ak_is_active k"
    and "(key_step scrypt)\<^sup>*\<^sup>* st st'" and "split_char (CHR ''_'') api_key ! 2 = ak_key_prefix k"
  shows "\<exists>msg. validate_api_key scrypt c api_key st' = (Inl (UnauthorizedException msg), st')"
proof -
  from key_steps_keep [OF assms(4)] assms(1,2,3) obtain k' where
    k': "k' \<in> set (as_api_keys st')" "same_key k k'" "\<not> ak_is_active k'" and ok: "keys_ok st'"
    by (auto simp: keys_kept_def same_key_def)
  have "first_row (filter (\<lambda>r. ak_key_prefix r = split_char (CHR ''_'') api_key ! 2) (as_api_keys st')) = Some k'"
    using prefix_lookup [of "as_api_keys st'" k'] ok k' assms(5) by (simp add: keys_ok_def same_key_def)
  with k'(3) show ?thesis by (simp add: validate_api_key_def Let_def)
qed


subsection \<open>Keys that were issued\<close>

lemma hex_digit_not_underscore: "v < 16 \<Longrightarrow> hex_digits ! v \<noteq> CHR ''_''"
  using nth_mem [of v hex_digits] by (auto simp: hex_digits_def)

lemma hex_string_no_underscore: "\<forall>b \<in> set bs. b < 256 \<Longrightarrow> CHR ''_'' \<notin> set (hex_string bs)"
proof (induction bs)
  case (Cons b bs)
  have "hex_digits ! (b div 16) \<noteq> CHR ''_''" "hex_digits ! (b mod 16) \<noteq> CHR ''_''"
    using Cons.prems by (simp_all add: hex_digit_not_underscore less_mult_imp_div_less)
  with Cons show ?case by (auto simp: hex_string_def)
qed (simp add: hex_string_def)

lemma raw_key_segments:
  assumes "\<forall>b \<in> set prefix_bytes. b < 256"
  shows "split_char (CHR ''_'') (ik_raw_key (issue_api_key_secret scrypt prefix_bytes secret salt)) =
    ''sk'' # ''live'' # hex_string prefix_bytes # split_char (CHR ''_'') secret"
proof -
  show ?thesis
    by (simp add: issue_api_key_secret_def Let_def split_char_append [OF hex_string_no_underscore [OF assms]])
qed

lemma validate_inserted:
  assumes "insert_api_key row st = Inr st1" and "as_api_keys st' = as_api_keys st1"
    and "split_char (CHR ''_'') raw ! 2 = ak_key_prefix row" and "4 \<le> length (split_char (CHR ''_'') raw)"
    and "ak_is_active row" and "\<And>t. ak_expires_at row = Some t \<Longrightarrow> c_now c \<le> t"
    and "ak_key_hash row = hash_api_key scrypt raw (ak_key_salt row)"
  shows "\<exists>st2. validate_api_key scrypt c raw st' = (Inr (principal_of row), st2)"
proof -
  have keys: "as_api_keys st' = as_api_keys st @ [row]" "ak_key_prefix row \<notin> set (map ak_key_prefix (as_api_keys st))"
    using assms(1,2) by (auto simp: insert_api_key_def split: if_splits)
  have "first_row (filter (\<lambda>k. ak_key_prefix k = ak_key_prefix row) (as_api_keys st')) = Some row"
  proof -
    have "filter (\<lambda>k. ak_key_prefix k = ak_key_prefix row) (as_api_keys st) = []"
      using keys(2) by (auto simp: filter_empty_conv image_iff)
    then show ?thesis by (simp add: keys(1))
  qed
  moreover have "\<not> (case ak_expires_at row of None \<Rightarrow> False | Some t \<Rightarrow> t < c_now c)"
    using assms(6) by (auto split: option.split simp: not_less)
  ultimately show ?thesis
    using assms(3,4,5,7) by (simp add: validate_api_key_def Let_def)
qed

text \<open>C28: the text a creation returns validates, whatever its random secret contains, until the key
  expires: as the tenant it was created for, with the scopes and limits that were asked.\<close>

theorem issued_key_validates:
  assumes "create_api_key c new_id (issue_api_key_secret scrypt prefix_bytes secret salt) tenant dto st =
      (Inr (i, raw_key), st1)"
    and "\<forall>b \<in> set prefix_bytes. b < 256"
    and "truthy_int (ck_expires_in_days dto) \<Longrightarrow>
      c_now c' \<le> c_now c + the (ck_expires_in_days dto) * 24 * 60 * 60 * 1000"
  shows "\<exists>st2. validate_api_key scrypt c' raw_key st1 =
    (Inr \<lparr>ap_api_key_id = i, ap_tenant_id = tenant, ap_name = ck_name dto,
       ap_scopes = coalesce (ck_scopes dto) [''sms:send''], ap_rate_limit_rps = ck_rate_limit_rps dto,
       ap_daily_quota = ck_daily_quota dto\<rparr>, st2)"
proof -
  let ?issued = "issue_api_key_secret scrypt prefix_bytes secret salt"
  obtain row sti where ins: "insert_api_key row st = Inr sti" and keys: "as_api_keys st1 = as_api_keys sti"
    and raw: "raw_key = ik_raw_key ?issued" and "i = new_id"
    and row: "row = \<lparr>ak_id = new_id, ak_tenant_id = tenant, ak_key_prefix = ik_prefix ?issued,
          ak_key_hash = ik_hash ?issued, ak_key_salt = ik_salt ?issued, ak_name = ck_name dto,
          ak_scopes = coalesce (ck_scopes dto) [''sms:send''],
          ak_rate_limit_rps = ck_rate_limit_rps dto, ak_daily_quota = ck_daily_quota dto,
          ak_is_active = True, ak_last_used_at = None,
          ak_expires_at =
            (if truthy_int (ck_expires_in_days dto)
             then Some (c_now c + the (ck_expires_in_days dto) * 24 * 60 * 60 * 1000) else None),
          ak_last_rotated_at = None, ak_created_at = c_now c\<rparr>"
    using assms(1)
    by (auto simp: create_api_key_def with_transaction_def and_then_def split: sum.splits)
  have "split_char (CHR ''_'') raw_key ! 2 = ak_key_prefix row" "4 \<le> length (split_char (CHR ''_'') raw_key)"
    unfolding raw raw_key_segments [OF assms(2)] row
    by (cases "split_char (CHR ''_'') secret"; simp add: issue_api_key_secret_def Let_def)+
  then have "\<exists>st2. validate_api_key scrypt c' raw_key st1 = (Inr (principal_of row), st2)"
    by (rule validate_inserted [OF ins keys])
      (use assms(3) in \<open>auto simp: row raw issue_api_key_secret_def Let_def split: if_splits\<close>)
  then show ?thesis by (simp add: row principal_of_def \<open>i = new_id\<close>)
qed

text \<open>A rotation makes every text with the old prefix fail and its own answer pass, as the same tenant;
  but the new key has neither rate limit, daily quota nor expiry, whatever limits the old key had, and
  the old key need not have been active.\<close>

theorem rotation_replaces_key:
  assumes "rotate_api_key c new_id (issue_api_key_secret scrypt prefix_bytes secret salt) tenant key_id dto st =
      (Inr (i, raw_key), st1)"
    and "\<forall>b \<in> set prefix_bytes. b < 256" and "keys_ok st"
    and "k \<in> set (as_api_keys st)" and "ak_id k = key_id"
  shows "(split_char (CHR ''_'') old_text ! 2 = ak_key_prefix k \<longrightarrow>
      (\<exists>msg. validate_api_key scrypt c' old_text st1 = (Inl (UnauthorizedException msg), st1))) \<and>
    (\<exists>st2. validate_api_key scrypt c' raw_key st1 =
      (Inr \<lparr>ap_api_key_id = i, ap_tenant_id = tenant, ap_name = coalesce (rk_name dto) ''Rotated key'',
         ap_scopes = coalesce (rk_scopes dto) [''sms:send''], ap_rate_limit_rps = None,
         ap_daily_quota = None\<rparr>, st2))"
proof -
  let ?issued = "issue_api_key_secret scrypt prefix_bytes secret salt"
  let ?off = "sql_update (\<lambda>k. ak_id k = key_id)
      (\<lambda>k. k\<lparr>ak_is_active := False, ak_last_rotated_at := Some (c_now c)\<rparr>) (as_api_keys st)"
  obtain row sti where ins: "insert_api_key row (st\<lparr>as_api_keys := ?off\<rparr>) = Inr sti"
    and keys: "as_api_keys st1 = as_api_keys sti" and raw: "raw_key = ik_raw_key ?issued" and "i = new_id"
    and row: "row = \<lparr>ak_id = new_id, ak_tenant_id = tenant, ak_key_prefix = ik_prefix ?issued,
                ak_key_hash = ik_hash ?issued, ak_key_salt = ik_salt ?issued,
                ak_name = coalesce (rk_name dto) ''Rotated key'',
                ak_scopes = coalesce (rk_scopes dto) [''sms:send''],
                ak_rate_limit_rps = None, ak_daily_quota = None, ak_is_active = True,
                ak_last_used_at = None, ak_expires_at = None, ak_last_rotated_at = None,
                ak_created_at = c_now c\<rparr>"
    using assms(1)
    by (auto simp: rotate_api_key_def with_transaction_def and_then_def Let_def split: sum.splits if_splits)
  have seg: "split_char (CHR ''_'') raw_key ! 2 = ak_key_prefix row" "4 \<le> length (split_char (CHR ''_'') raw_key)"
    unfolding raw raw_key_segments [OF assms(2)] row
    by (cases "split_char (CHR ''_'') secret"; simp add: issue_api_key_secret_def Let_def)+
  have new: "\<exists>st2. validate_api_key scrypt c' raw_key st1 = (Inr (principal_of row), st2)"
    by (rule validate_inserted [OF ins keys seg]) (simp_all add: row raw issue_api_key_secret_def Let_def)
  have rot: "st1 = snd (rotate_api_key c new_id ?issued tenant key_id dto st)" by (simp add: assms(1))
  have ok: "keys_ok st1" using rotated_keeps [of st] assms(3) unfolding rot by blast
  let ?k = "k\<lparr>ak_is_active := False, ak_last_rotated_at := Some (c_now c)\<rparr>"
  have "?k \<in> set ?off" using assms(4,5) by (auto simp: sql_update_def intro!: image_eqI [of _ _ k])
  then have "?k \<in> set (as_api_keys st1)"
    using ins keys by (auto simp: insert_api_key_def split: if_splits)
  then have "first_row (filter (\<lambda>r. ak_key_prefix r = ak_key_prefix ?k) (as_api_keys st1)) = Some ?k"
    using prefix_lookup [of "as_api_keys st1" ?k] ok by (simp add: keys_ok_def)
  then have "split_char (CHR ''_'') old_text ! 2 = ak_key_prefix k \<longrightarrow>
      (\<exists>msg. validate_api_key scrypt c' old_text st1 = (Inl (UnauthorizedException msg), st1))"
    by (simp add: validate_api_key_def Let_def)
  with new show ?thesis by (simp add: row principal_of_def \<open>i = new_id\<close>)
qed

text \<open>A session token says what the tables said: a login returns a token exactly for an active user of an
  active tenant with the given code whose password verifies, with that user's identifier, role and
  tenant in its claims, and writes one audit row; any failure leaves no trace.\<close>

theorem login_tells_the_tables:
  "case login sign scrypt c dto st of
     (Inl _, st') \<Rightarrow> st' = st
   | (Inr response, st') \<Rightarrow> \<exists>u t.
       u \<in> set (as_users st) \<and> t \<in> set (as_tenants st) \<and> us_is_active u \<and> ta_status t = ''active'' \<and>
       ta_id t = us_tenant_id u \<and> ta_code t = lg_tenant_code dto \<and>
       to_lower (us_email u) = to_lower (lg_email dto) \<and>
       verify_password scrypt (lg_password dto) (us_password_hash u) = Inr True \<and>
       sr_access_token response = sign (c_now c) session_lifetime (Session (session_claims u (ta_id t) (ta_id t))) \<and>
       length (audit_logs (as_db st')) = length (audit_logs (as_db st)) + 1 \<and>
       as_users st' = as_users st \<and> as_api_keys st' = as_api_keys st"
proof (cases "find_login dto st")
  case None
  then show ?thesis by (simp add: login_def)
next
  case (Some p)
  obtain u t where p: "p = (u, t)" by (cases p)
  have "(u, t) \<in> set [(u, t). u \<leftarrow> as_users st, t \<leftarrow> as_tenants st,
          ta_id t = us_tenant_id u \<and> ta_code t = lg_tenant_code dto \<and>
          to_lower (us_email u) = to_lower (lg_email dto)]"
    by (rule first_row_mem [OF Some [unfolded find_login_def p]])
  then have row: "u \<in> set (as_users st)" "t \<in> set (as_tenants st)" "ta_id t = us_tenant_id u"
    "ta_code t = lg_tenant_code dto" "to_lower (us_email u) = to_lower (lg_email dto)"
    by (auto split: if_splits)
  show ?thesis
    using Some row unfolding p login_def
    by (auto simp: with_audit_def audit_logs_write split: sum.split bool.split
        intro!: exI [of _ u] exI [of _ t])
qed


subsection \<open>Examples\<close>

text \<open>A stand-in for the hash: the bytes of the text and the salt.\<close>

definition ex_scrypt :: "string \<Rightarrow> string \<Rightarrow> nat list" where
  "ex_scrypt text salt = map of_char (text @ salt)"

definition ex_auth :: auth_state where
  "ex_auth =
     \<lparr>as_db = empty_db,
      as_users = [\<lparr>us_id = ''u1'', us_tenant_id = ''ten1'', us_email = ''Owner@acme.et'',
        us_password_hash = ''scrypt$QQ$'' @ hex_string (ex_scrypt ''ChangeMe'' ''A''), us_role = ''owner'',
        us_is_active = True\<rparr>],
      as_tenants = [\<lparr>ta_id = ''ten1'', ta_code = ''acme-et'', ta_name = ''Acme'', ta_status = ''active'',
        ta_timezone = ''Africa/Addis_Ababa''\<rparr>],
      as_api_keys = [\<lparr>ak_id = ''k1'', ak_tenant_id = ''ten1'', ak_key_prefix = ''0a'', ak_key_hash = ''00'',
        ak_key_salt = [], ak_name = ''old'', ak_scopes = [''sms:send''], ak_rate_limit_rps = Some 5,
        ak_daily_quota = Some 100, ak_is_active = False, ak_last_used_at = None,
        ak_expires_at = Some 5, ak_last_rotated_at = None, ak_created_at = 0\<rparr>]\<rparr>"

definition ex_auth_ctx :: ctx where
  "ex_auth_ctx = \<lparr>c_now = 10, c_today = ''2025-11-18''\<rparr>"

definition ex_create :: create_api_key_dto where
  "ex_create = \<lparr>ck_name = ''Primary'', ck_scopes = None, ck_rate_limit_rps = Some 100,
     ck_daily_quota = None, ck_expires_in_days = Some 1\<rparr>"

lemma ex_keys: "keys_ok ex_auth" "length (as_api_keys ex_auth) = 1"
  by (simp_all add: keys_ok_def ex_auth_def)

lemma ex_hex: "hex_string [11] = ''0b''"
  by (simp add: hex_string_def hex_digits_def)

theorem issued_key_validates_witness:
  "\<exists>i raw_key st1 st2.
     create_api_key ex_auth_ctx ''k2'' (issue_api_key_secret ex_scrypt [11] ''a_b'' ''s'') ''ten1'' ex_create ex_auth =
       (Inr (i, raw_key), st1) \<and> raw_key = ''sk_live_0b_a_b'' \<and>
     fst (validate_api_key ex_scrypt ex_auth_ctx raw_key st1) =
       Inr \<lparr>ap_api_key_id = ''k2'', ap_tenant_id = ''ten1'', ap_name = ''Primary'', ap_scopes = [''sms:send''],
         ap_rate_limit_rps = Some 100, ap_daily_quota = None\<rparr>"
proof -
  have "\<exists>st1. create_api_key ex_auth_ctx ''k2'' (issue_api_key_secret ex_scrypt [11] ''a_b'' ''s'') ''ten1'' ex_create
      ex_auth = (Inr (''k2'', ''sk_live_0b_a_b''), st1)"
    by (simp add: create_api_key_def with_transaction_def and_then_def insert_api_key_def ex_auth_def
        issue_api_key_secret_def Let_def ex_hex)
  then obtain st1 where st1: "create_api_key ex_auth_ctx ''k2'' (issue_api_key_secret ex_scrypt [11] ''a_b'' ''s'')
      ''ten1'' ex_create ex_auth = (Inr (''k2'', ''sk_live_0b_a_b''), st1)" ..
  from issued_key_validates [OF st1, of ex_auth_ctx] st1 show ?thesis
    by (auto simp: ex_create_def ex_auth_ctx_def)
qed

theorem revocation_is_permanent_witness:
  "\<exists>msg. validate_api_key ex_scrypt ex_auth_ctx ''sk_live_0a_x''
     (snd (rotate_api_key ex_auth_ctx ''k2'' (issue_api_key_secret ex_scrypt [11] ''s'' ''t'') ''ten1'' ''k1''
        \<lparr>rk_name = None, rk_scopes = None\<rparr> ex_auth)) =
     (Inl (UnauthorizedException msg),
      snd (rotate_api_key ex_auth_ctx ''k2'' (issue_api_key_secret ex_scrypt [11] ''s'' ''t'') ''ten1'' ''k1''
        \<lparr>rk_name = None, rk_scopes = None\<rparr> ex_auth))"
  by (rule revocation_is_permanent [OF ex_keys(1), of "hd (as_api_keys ex_auth)"],
      simp_all add: ex_auth_def)
    (rule r_into_rtranclp, rule key_step.rotated)

theorem rotation_replaces_key_witness:
  "\<exists>i raw_key st1.
     rotate_api_key ex_auth_ctx ''k2'' (issue_api_key_secret ex_scrypt [11] ''s'' ''t'') ''ten1'' ''k1''
       \<lparr>rk_name = None, rk_scopes = None\<rparr> ex_auth = (Inr (i, raw_key), st1) \<and>
     ak_daily_quota (hd (as_api_keys ex_auth)) = Some 100 \<and>
     (\<exists>st2 p. validate_api_key ex_scrypt ex_auth_ctx raw_key st1 = (Inr p, st2) \<and> ap_daily_quota p = None)"
proof -
  have "\<exists>st1. rotate_api_key ex_auth_ctx ''k2'' (issue_api_key_secret ex_scrypt [11] ''s'' ''t'') ''ten1'' ''k1''
       \<lparr>rk_name = None, rk_scopes = None\<rparr> ex_auth = (Inr (''k2'', ''sk_live_0b_s''), st1)"
    by (simp add: rotate_api_key_def with_transaction_def and_then_def insert_api_key_def ex_auth_def
        issue_api_key_secret_def Let_def ex_hex)
  then obtain st1 where st1: "rotate_api_key ex_auth_ctx ''k2'' (issue_api_key_secret ex_scrypt [11] ''s'' ''t'')
       ''ten1'' ''k1'' \<lparr>rk_name = None, rk_scopes = None\<rparr> ex_auth = (Inr (''k2'', ''sk_live_0b_s''), st1)" ..
  have k: "hd (as_api_keys ex_auth) \<in> set (as_api_keys ex_auth)" "ak_id (hd (as_api_keys ex_auth)) = ''k1''"
    "ak_daily_quota (hd (as_api_keys ex_auth)) = Some 100"
    by (simp_all add: ex_auth_def)
  from rotation_replaces_key [OF st1 _ ex_keys(1) k(1,2)] st1 k(3) show ?thesis
    by fastforce
qed

end
