(* ===== verification/Campaigns.thy ===== *)
theory Campaigns
  imports Contacts Auth
begin

text \<open>
  Campaigns (\<open>campaigns/campaigns.service.ts\<close>): scheduling over a contact group or an upload, the
  periodic materialisation of the schedules that are due into campaign jobs, pausing, resuming and
  cancelling, and the read operations.

  The cron parser is a parameter \<open>cron\<close> from an expression, a time zone and a reference time to the
  next run or the message of the error it throws; the parser documents that the next run is after
  the reference. \<open>scan\<close> stands for the rows PostgreSQL returns of the due ones: \<open>LIMIT 25\<close> without an
  order, less those another instance holds locked. \<open>startAt\<close> is the instant its ISO string names.
\<close>

subsection \<open>Tables\<close>

record campaign_row =
  cg_id :: int
  cg_tenant_id :: tenant
  cg_name :: string
  cg_status :: string
  cg_source_type :: string
  cg_scheduled_at :: "time option"
  cg_metadata :: json
  cg_created_at :: time
  cg_updated_at :: time

record schedule_row =
  sch_id :: int
  sch_tenant_id :: tenant
  sch_campaign_id :: int
  sch_template_ref :: string
  sch_sender_id :: string
  sch_contact_group_id :: "int option"
  sch_contact_upload_id :: "int option"
  sch_recurrence_cron :: "string option"
  sch_timezone :: string
  sch_next_run_at :: time
  sch_shard_count :: int
  sch_is_active :: bool
  sch_created_at :: time

record job_row =
  jb_id :: int
  jb_tenant_id :: tenant
  jb_campaign_id :: int
  jb_source_type :: string
  jb_status :: string
  jb_total_records :: int
  jb_processed_records :: int
  jb_accepted_records :: int
  jb_failed_records :: int
  jb_shard_count :: int
  jb_priority :: int
  jb_created_at :: time
  jb_started_at :: "time option"
  jb_completed_at :: "time option"
  jb_last_error :: "string option"

record campaigns_state =
  cp_db :: db
  cp_contacts :: contacts_db
  cp_tenants :: "tenant_account list"
  cp_campaigns :: "campaign_row list"
  cp_schedules :: "schedule_row list"
  cp_jobs :: "job_row list"
  cp_next_campaign_id :: int
  cp_next_schedule_id :: int
  cp_next_job_id :: int

type_synonym cron_parser = "string \<Rightarrow> string \<Rightarrow> time \<Rightarrow> string + time"

definition audited :: "ctx \<Rightarrow> tenant \<Rightarrow> string \<Rightarrow> string \<Rightarrow> string \<Rightarrow> json \<Rightarrow> campaigns_state \<Rightarrow> campaigns_state" where
  "audited c tenant action target_type target_id metadata st =
     st\<lparr>cp_db := audit_write c (auth_entry tenant None action target_type target_id metadata) (cp_db st)\<rparr>"

lemma audited_frame [simp]:
  "cp_contacts (audited c t a tt ti m st) = cp_contacts st"
  "cp_tenants (audited c t a tt ti m st) = cp_tenants st"
  "cp_campaigns (audited c t a tt ti m st) = cp_campaigns st"
  "cp_schedules (audited c t a tt ti m st) = cp_schedules st"
  "cp_jobs (audited c t a tt ti m st) = cp_jobs st"
  "cp_next_campaign_id (audited c t a tt ti m st) = cp_next_campaign_id st"
  "cp_next_schedule_id (audited c t a tt ti m st) = cp_next_schedule_id st"
  "cp_next_job_id (audited c t a tt ti m st) = cp_next_job_id st"
  by (simp_all add: audited_def)

subsection \<open>When a schedule runs\<close>

definition parse_cron_expression :: "cron_parser \<Rightarrow> string \<Rightarrow> string \<Rightarrow> time \<Rightarrow> time result" where
  "parse_cron_expression cron expression timezone reference =
     (case cron expression timezone reference of
        Inl msg \<Rightarrow> Inl (BadRequestException (''Invalid campaign recurrence cron: '' @ msg))
      | Inr t \<Rightarrow> Inr t)"

definition compute_next_run_at ::
  "cron_parser \<Rightarrow> string option \<Rightarrow> string \<Rightarrow> time \<Rightarrow> bool \<Rightarrow> time result" where
  "compute_next_run_at cron recurrence_cron timezone reference include_reference =
     (if \<not> truthy_str recurrence_cron then Inr reference
      else parse_cron_expression cron (the recurrence_cron) timezone
             (if include_reference then reference - 1000 else reference))"

subsection \<open>Scheduling\<close>

record schedule_dto =
  sd_campaign_id :: "int option"
  sd_campaign_name :: "string option"
  sd_start_at :: time
  sd_recurrence_cron :: "string option"
  sd_template_ref :: string
  sd_sender_id :: string
  sd_contact_group_id :: "int option"
  sd_contact_upload_id :: "int option"
  sd_shard_count :: "int option"

definition tenant_timezone :: "tenant \<Rightarrow> campaigns_state \<Rightarrow> string" where
  "tenant_timezone tenant st =
     (case first_row (filter (\<lambda>t. ta_id t = tenant) (cp_tenants st)) of
        None \<Rightarrow> ''UTC'' | Some t \<Rightarrow> ta_timezone t)"

definition new_campaign :: "ctx \<Rightarrow> tenant \<Rightarrow> schedule_dto \<Rightarrow> int \<Rightarrow> campaign_row" where
  "new_campaign c tenant dto i =
     \<lparr>cg_id = i, cg_tenant_id = tenant,
      cg_name = coalesce (sd_campaign_name dto) (''campaign-'' @ int_str (c_now c)),
      cg_status = ''scheduled'', cg_source_type = ''api'', cg_scheduled_at = Some (sd_start_at dto),
      cg_metadata = jobj [(''templateRef'', Some (JStr (sd_template_ref dto))),
                          (''senderId'', Some (JStr (sd_sender_id dto))),
                          (''contactGroupId'', Some (jnullable jint (sd_contact_group_id dto))),
                          (''contactUploadId'', Some (jnullable jint (sd_contact_upload_id dto)))],
      cg_created_at = c_now c, cg_updated_at = c_now c\<rparr>"

definition insert_campaign :: "ctx \<Rightarrow> tenant \<Rightarrow> schedule_dto \<Rightarrow> (campaigns_state, int) tx" where
  "insert_campaign c tenant dto st =
     (let row = new_campaign c tenant dto (cp_next_campaign_id st) in
      if 160 < length (cg_name row) then Inl too_long
      else if tenant \<notin> set (map ta_id (cp_tenants st)) then Inl foreign_key_error
      else Inr (cg_id row, st\<lparr>cp_campaigns := cp_campaigns st @ [row],
                             cp_next_campaign_id := cp_next_campaign_id st + 1\<rparr>))"

definition references_exist :: "tenant \<Rightarrow> int \<Rightarrow> campaigns_state \<Rightarrow> bool" where
  "references_exist tenant campaign_id st \<longleftrightarrow>
     tenant \<in> set (map ta_id (cp_tenants st)) \<and> campaign_id \<in> set (map cg_id (cp_campaigns st))"

definition new_schedule :: "ctx \<Rightarrow> tenant \<Rightarrow> int \<Rightarrow> schedule_dto \<Rightarrow> string \<Rightarrow> time \<Rightarrow> int \<Rightarrow> schedule_row" where
  "new_schedule c tenant campaign_id dto timezone first_run_at i =
     \<lparr>sch_id = i, sch_tenant_id = tenant, sch_campaign_id = campaign_id,
      sch_template_ref = sd_template_ref dto, sch_sender_id = sd_sender_id dto,
      sch_contact_group_id = sd_contact_group_id dto, sch_contact_upload_id = sd_contact_upload_id dto,
      sch_recurrence_cron = sd_recurrence_cron dto, sch_timezone = timezone,
      sch_next_run_at = first_run_at, sch_shard_count = coalesce (sd_shard_count dto) 4,
      sch_is_active = True, sch_created_at = c_now c\<rparr>"

definition insert_schedule ::
  "ctx \<Rightarrow> tenant \<Rightarrow> int \<Rightarrow> schedule_dto \<Rightarrow> string \<Rightarrow> time \<Rightarrow> (campaigns_state, schedule_row) tx" where
  "insert_schedule c tenant campaign_id dto timezone first_run_at st =
     (let row = new_schedule c tenant campaign_id dto timezone first_run_at (cp_next_schedule_id st) in
      if 100 < length (sch_template_ref row) \<or> 20 < length (sch_sender_id row) \<or>
         (\<exists>e \<in> set_option (sch_recurrence_cron row). 64 < length e) then Inl too_long
      else if 2 ^ 31 \<le> sch_shard_count row then Inl (DatabaseError ''integer out of range'')
      else if \<not> references_exist tenant campaign_id st then Inl foreign_key_error
      else Inr (row, st\<lparr>cp_schedules := cp_schedules st @ [row],
                       cp_next_schedule_id := cp_next_schedule_id st + 1\<rparr>))"

definition new_job ::
  "ctx \<Rightarrow> tenant \<Rightarrow> int \<Rightarrow> string \<Rightarrow> string \<Rightarrow> int \<Rightarrow> int \<Rightarrow> time option \<Rightarrow> int \<Rightarrow> job_row" where
  "new_job c tenant campaign_id source_type status all_records shard_count started_at i =
     \<lparr>jb_id = i, jb_tenant_id = tenant, jb_campaign_id = campaign_id, jb_source_type = source_type,
      jb_status = status, jb_total_records = all_records, jb_processed_records = 0, jb_accepted_records = 0,
      jb_failed_records = 0, jb_shard_count = shard_count, jb_priority = 5, jb_created_at = c_now c,
      jb_started_at = started_at, jb_completed_at = None, jb_last_error = None\<rparr>"

definition insert_job ::
  "ctx \<Rightarrow> tenant \<Rightarrow> int \<Rightarrow> string \<Rightarrow> string \<Rightarrow> int \<Rightarrow> int \<Rightarrow> time option \<Rightarrow> (campaigns_state, job_row) tx" where
  "insert_job c tenant campaign_id source_type status all_records shard_count started_at st =
     (let row = new_job c tenant campaign_id source_type status all_records shard_count started_at (cp_next_job_id st) in
      if \<not> references_exist tenant campaign_id st then Inl foreign_key_error
      else Inr (row, st\<lparr>cp_jobs := cp_jobs st @ [row], cp_next_job_id := cp_next_job_id st + 1\<rparr>))"

text \<open>The response: campaign, schedule, job, next run and the status of the job.\<close>

type_synonym scheduled = "int \<times> int \<times> int \<times> time \<times> string"

definition schedule_tx :: "cron_parser \<Rightarrow> ctx \<Rightarrow> tenant \<Rightarrow> schedule_dto \<Rightarrow> (campaigns_state, scheduled) tx" where
  "schedule_tx cron c tenant dto st =
     (let timezone = tenant_timezone tenant st in
      if truthy_int (sd_contact_group_id dto) \<and> find_group tenant (the (sd_contact_group_id dto)) (cp_contacts st) = None
      then Inl (NotFoundException ''Contact group not found'')
      else if truthy_int (sd_contact_upload_id dto) \<and>
              find_upload tenant (the (sd_contact_upload_id dto)) (cp_contacts st) = None
      then Inl (NotFoundException ''Contact upload not found'')
      else
        and_then (compute_next_run_at cron (sd_recurrence_cron dto) timezone (sd_start_at dto) True) (\<lambda>first_run_at.
        and_then (if truthy_int (sd_campaign_id dto) then Inr (the (sd_campaign_id dto), st)
                  else insert_campaign c tenant dto st) (\<lambda>(campaign_id, st1).
        and_then (insert_schedule c tenant campaign_id dto timezone first_run_at st1) (\<lambda>(schedule, st2).
        and_then (insert_job c tenant campaign_id ''api'' ''pending'' 0 (coalesce (sd_shard_count dto) 4) None st2)
          (\<lambda>(job, st3).
             Inr ((campaign_id, sch_id schedule, jb_id job, sch_next_run_at schedule, jb_status job),
               audited c tenant ''campaigns.schedule.materialized'' ''campaign'' (int_str campaign_id)
                 (jobj [(''scheduleId'', Some (jint (sch_id schedule))),
                        (''jobId'', Some (jint (jb_id job))),
                        (''contactGroupId'', Some (jnullable jint (sd_contact_group_id dto))),
                        (''contactUploadId'', Some (jnullable jint (sd_contact_upload_id dto))),
                        (''timezone'', Some (JStr timezone)),
                        (''shardCount'', Some (jint (coalesce (sd_shard_count dto) 4)))]) st3))))))"

definition schedule_campaign ::
  "cron_parser \<Rightarrow> ctx \<Rightarrow> tenant \<Rightarrow> schedule_dto \<Rightarrow> campaigns_state \<Rightarrow> scheduled result \<times> campaigns_state" where
  "schedule_campaign cron c tenant dto st =
     (if \<not> truthy_int (sd_contact_group_id dto) \<and> \<not> truthy_int (sd_contact_upload_id dto)
      then (Inl (BadRequestException ''Campaign scheduling requires contactGroupId or contactUploadId''), st)
      else with_transaction (schedule_tx cron c tenant dto) st)"

subsection \<open>Pausing, resuming and cancelling\<close>

definition set_schedule_active ::
  "tenant \<Rightarrow> int \<Rightarrow> bool \<Rightarrow> campaigns_state \<Rightarrow> (int \<times> bool \<times> time) result \<times> campaigns_state" where
  "set_schedule_active tenant schedule_id is_active st =
     (let hit = (\<lambda>s. sch_tenant_id s = tenant \<and> sch_id s = schedule_id);
          set_active = (\<lambda>s. s\<lparr>sch_is_active := is_active\<rparr>)
      in case first_row (map set_active (filter hit (cp_schedules st))) of
           None \<Rightarrow> (Inl (NotFoundException ''Campaign schedule not found''), st)
         | Some s \<Rightarrow> (Inr (sch_id s, sch_is_active s, sch_next_run_at s),
                     st\<lparr>cp_schedules := sql_update hit set_active (cp_schedules st)\<rparr>))"

definition cancel_tx :: "ctx \<Rightarrow> tenant \<Rightarrow> int \<Rightarrow> (campaigns_state, unit) tx" where
  "cancel_tx c tenant campaign_id st =
     (let hit = (\<lambda>g. cg_tenant_id g = tenant \<and> cg_id g = campaign_id) in
      if filter hit (cp_campaigns st) = [] then Inl (NotFoundException ''Campaign not found'')
      else Inr ((),
        audited c tenant ''campaigns.cancel'' ''campaign'' (int_str campaign_id) (jobj [])
          (st\<lparr>cp_campaigns := sql_update hit (\<lambda>g. g\<lparr>cg_status := ''cancelled'', cg_updated_at := c_now c\<rparr>)
               (cp_campaigns st),
             cp_schedules := sql_update (\<lambda>s. sch_tenant_id s = tenant \<and> sch_campaign_id s = campaign_id)
               (\<lambda>s. s\<lparr>sch_is_active := False\<rparr>) (cp_schedules st)\<rparr>)))"

definition cancel_campaign :: "ctx \<Rightarrow> tenant \<Rightarrow> int \<Rightarrow> campaigns_state \<Rightarrow> unit result \<times> campaigns_state" where
  "cancel_campaign c tenant campaign_id = with_transaction (cancel_tx c tenant campaign_id)"

subsection \<open>Materialising the schedules that are due\<close>

type_synonym scan = "schedule_row list \<Rightarrow> schedule_row list"

definition due_schedules :: "scan \<Rightarrow> ctx \<Rightarrow> campaigns_state \<Rightarrow> schedule_row list" where
  "due_schedules scan c st =
     take 25 (scan (filter (\<lambda>s. sch_is_active s \<and> sch_next_run_at s \<le> c_now c) (cp_schedules st)))"

definition audience :: "schedule_row \<Rightarrow> contacts_db \<Rightarrow> int \<times> string" where
  "audience schedule contacts =
     (if truthy_int (sch_contact_group_id schedule)
      then (member_count (the (sch_contact_group_id schedule)) contacts, ''contact_group'')
      else if truthy_int (sch_contact_upload_id schedule)
      then (case first_row (filter (\<lambda>u. cu_id u = the (sch_contact_upload_id schedule)) (cd_uploads contacts)) of
              None \<Rightarrow> 0 | Some u \<Rightarrow> cu_valid_rows u, ''upload'')
      else (0, ''api''))"

definition next_occurrence :: "cron_parser \<Rightarrow> ctx \<Rightarrow> schedule_row \<Rightarrow> time result" where
  "next_occurrence cron c schedule =
     (if truthy_str (sch_recurrence_cron schedule)
      then compute_next_run_at cron (sch_recurrence_cron schedule) (sch_timezone schedule) (sch_next_run_at schedule) False
      else Inr (c_now c + 100 * 365 * 24 * 60 * 60 * 1000))"

definition move_on :: "time \<Rightarrow> schedule_row \<Rightarrow> schedule_row" where
  "move_on next_run_at s = s\<lparr>sch_next_run_at := next_run_at, sch_is_active := (sch_recurrence_cron s \<noteq> None)\<rparr>"

definition materialize_schedule :: "cron_parser \<Rightarrow> ctx \<Rightarrow> schedule_row \<Rightarrow> (campaigns_state, unit) tx" where
  "materialize_schedule cron c schedule st =
     (let (all_records, source_type) = audience schedule (cp_contacts st) in
      and_then (insert_job c (sch_tenant_id schedule) (sch_campaign_id schedule) source_type ''queued'' all_records
                  (sch_shard_count schedule) (Some (c_now c)) st) (\<lambda>(_, st1).
      and_then (next_occurrence cron c schedule) (\<lambda>next_run_at.
        Inr ((),
          audited c (sch_tenant_id schedule) ''campaign_jobs.materialize'' ''campaign_schedule''
            (int_str (sch_id schedule))
            (jobj [(''campaignId'', Some (jint (sch_campaign_id schedule))),
                   (''sourceType'', Some (JStr source_type)),
                   (''totalRecords'', Some (jint all_records)),
                   (''timezone'', Some (JStr (sch_timezone schedule))),
                   (''nextRunAt'', Some (if truthy_str (sch_recurrence_cron schedule) then jint next_run_at else JNull)),
                   (''shardCount'', Some (jint (sch_shard_count schedule)))])
            (st1\<lparr>cp_schedules := sql_update (\<lambda>s. sch_id s = sch_id schedule) (move_on next_run_at)
                 (cp_schedules st1)\<rparr>)))))"

fun materialize_all :: "cron_parser \<Rightarrow> ctx \<Rightarrow> schedule_row list \<Rightarrow> (campaigns_state, unit) tx" where
  "materialize_all cron c [] st = Inr ((), st)"
| "materialize_all cron c (s # rest) st =
     and_then (materialize_schedule cron c s st) (\<lambda>(_, st1). materialize_all cron c rest st1)"

definition materialize_due_schedules ::
  "cron_parser \<Rightarrow> scan \<Rightarrow> ctx \<Rightarrow> campaigns_state \<Rightarrow> unit result \<times> campaigns_state" where
  "materialize_due_schedules cron scan c st =
     with_transaction (materialize_all cron c (due_schedules scan c st)) st"

subsection \<open>Reading\<close>

definition get_campaign_job :: "tenant \<Rightarrow> int \<Rightarrow> campaigns_state \<Rightarrow> job_row result" where
  "get_campaign_job tenant job_id st =
     (case first_row (filter (\<lambda>j. jb_id j = job_id \<and> jb_tenant_id j = tenant) (cp_jobs st)) of
        None \<Rightarrow> Inl (NotFoundException ''Campaign job not found'')
      | Some j \<Rightarrow> Inr j)"

text \<open>The lateral join of the listing: the latest job of the campaign, whoever scheduled it.\<close>

definition latest_job :: "int \<Rightarrow> campaigns_state \<Rightarrow> (int \<times> string \<times> int \<times> int) option" where
  "latest_job campaign_id st =
     map_option (\<lambda>j. (jb_id j, jb_status j, jb_total_records j, jb_processed_records j))
       (first_row (sort_desc jb_created_at (filter (\<lambda>j. jb_campaign_id j = campaign_id) (cp_jobs st))))"

definition list_campaigns ::
  "tenant \<Rightarrow> campaigns_state \<Rightarrow> (campaign_row \<times> (int \<times> string \<times> int \<times> int) option) list" where
  "list_campaigns tenant st =
     map (\<lambda>g. (g, latest_job (cg_id g) st))
       (sort_desc cg_created_at (filter (\<lambda>g. cg_tenant_id g = tenant) (cp_campaigns st)))"

definition list_schedules :: "tenant \<Rightarrow> campaigns_state \<Rightarrow> schedule_row list" where
  "list_schedules tenant st =
     sort_desc sch_created_at (filter (\<lambda>s. sch_tenant_id s = tenant) (cp_schedules st))"

record performance =
  pf_total_records :: int
  pf_accepted_records :: int
  pf_delivered_records :: int
  pf_failed_records :: int
  pf_pending_records :: int

definition campaign_performance :: "message_row list \<Rightarrow> performance" where
  "campaign_performance rows =
     (let counted = (\<lambda>states. int (length (filter (\<lambda>m. status_str (m_status m) \<in> set states) rows))) in
      \<lparr>pf_total_records = int (length rows),
       pf_accepted_records = counted [''accepted'', ''routed'', ''submitting'', ''provider_accepted'', ''sent'',
                                      ''delivered'', ''failed''],
       pf_delivered_records = counted [''delivered''],
       pf_failed_records = counted [''failed''],
       pf_pending_records = counted [''accepted'', ''queued'', ''routed'', ''submitting'', ''provider_accepted'', ''sent'']\<rparr>)"

text \<open>\<open>(metadata ->> 'campaignId') = $2::text\<close>: only a number, a string or a boolean can be the text.\<close>

definition json_text_is :: "string \<Rightarrow> json option \<Rightarrow> bool" where
  "json_text_is s j =
     (case j of
        Some (JStr t) \<Rightarrow> t = s
      | Some (JNum r) \<Rightarrow> snd (quotient_of r) = 1 \<and> int_str (fst (quotient_of r)) = s
      | Some (JBool b) \<Rightarrow> s = (if b then ''true'' else ''false'')
      | _ \<Rightarrow> False)"

record campaign_detail =
  de_campaign :: campaign_row
  de_schedules :: "schedule_row list"
  de_jobs :: "job_row list"
  de_performance :: performance
  de_recent_failures :: "message_row list"
  de_audit_trail :: "audit_row list"

definition get_campaign_detail :: "tenant \<Rightarrow> int \<Rightarrow> campaigns_state \<Rightarrow> campaign_detail result" where
  "get_campaign_detail tenant campaign_id st =
     (let of_campaign = filter (\<lambda>m. m_tenant_id m = tenant \<and> m_campaign_id m = Some campaign_id) (messages (cp_db st)) in
      case first_row (filter (\<lambda>g. cg_tenant_id g = tenant \<and> cg_id g = campaign_id) (cp_campaigns st)) of
        None \<Rightarrow> Inl (NotFoundException ''Campaign not found'')
      | Some g \<Rightarrow> Inr
          \<lparr>de_campaign = g,
           de_schedules = sort_desc sch_created_at
             (filter (\<lambda>s. sch_tenant_id s = tenant \<and> sch_campaign_id s = campaign_id) (cp_schedules st)),
           de_jobs = sort_desc jb_created_at
             (filter (\<lambda>j. jb_tenant_id j = tenant \<and> jb_campaign_id j = campaign_id) (cp_jobs st)),
           de_performance = campaign_performance of_campaign,
           de_recent_failures = take 10 (sort_desc (\<lambda>m. coalesce (m_failed_at m) (m_accepted_at m))
             (filter (\<lambda>m. m_status m = Failed) of_campaign)),
           de_audit_trail = take 10 (sort_desc au_created_at
             (filter (\<lambda>a. au_tenant_id a = Some tenant \<and>
                ((au_target_type a = Some ''campaign'' \<and> au_target_id a = Some (int_str campaign_id)) \<or>
                 json_text_is (int_str campaign_id) (json_field (au_metadata a) ''campaignId'')))
               (audit_logs (cp_db st))))\<rparr>)"

subsection \<open>What a run of the scheduler does\<close>

definition campaigns_ok :: "campaigns_state \<Rightarrow> bool" where
  "campaigns_ok st \<longleftrightarrow>
     distinct (map sch_id (cp_schedules st)) \<and>
     (\<forall>s \<in> set (cp_schedules st). sch_id s < cp_next_schedule_id st \<and>
        references_exist (sch_tenant_id s) (sch_campaign_id s) st)"

definition job_for :: "ctx \<Rightarrow> contacts_db \<Rightarrow> schedule_row \<Rightarrow> int \<Rightarrow> job_row" where
  "job_for c contacts s i =
     new_job c (sch_tenant_id s) (sch_campaign_id s) (snd (audience s contacts)) ''queued''
       (fst (audience s contacts)) (sch_shard_count s) (Some (c_now c)) i"

definition advanced :: "cron_parser \<Rightarrow> ctx \<Rightarrow> schedule_row list \<Rightarrow> schedule_row \<Rightarrow> schedule_row" where
  "advanced cron c ss r =
     (case find (\<lambda>s. sch_id s = sch_id r) ss of None \<Rightarrow> r
      | Some s \<Rightarrow> move_on (projr (next_occurrence cron c s)) r)"

lemma move_on_id [simp]:
  "sch_id (move_on t s) = sch_id s" "sch_tenant_id (move_on t s) = sch_tenant_id s"
  "sch_campaign_id (move_on t s) = sch_campaign_id s" "sch_recurrence_cron (move_on t s) = sch_recurrence_cron s"
  "sch_is_active (move_on t s) = (sch_recurrence_cron s \<noteq> None)"
  by (simp_all add: move_on_def)

lemma advanced_id [simp]:
  "sch_id (advanced cron c ss r) = sch_id r" "sch_tenant_id (advanced cron c ss r) = sch_tenant_id r"
  "sch_campaign_id (advanced cron c ss r) = sch_campaign_id r"
  "sch_recurrence_cron (advanced cron c ss r) = sch_recurrence_cron r"
  by (simp_all add: advanced_def split: option.split)

lemma materialize_schedule_effect:
  assumes "materialize_schedule cron c s st = Inr (u, st')"
  shows "cp_jobs st' = cp_jobs st @ [job_for c (cp_contacts st) s (cp_next_job_id st)] \<and>
    cp_next_job_id st' = cp_next_job_id st + 1 \<and> cp_contacts st' = cp_contacts st \<and>
    cp_tenants st' = cp_tenants st \<and> cp_campaigns st' = cp_campaigns st \<and>
    cp_next_schedule_id st' = cp_next_schedule_id st \<and>
    (\<exists>t. next_occurrence cron c s = Inr t \<and>
      cp_schedules st' = sql_update (\<lambda>r. sch_id r = sch_id s) (move_on t) (cp_schedules st))"
  using assms
  by (auto simp: materialize_schedule_def insert_job_def Let_def and_then_eq_Inr split_beta job_for_def
      split: if_splits)

lemma find_None_notin: "i \<notin> set (map sch_id ss) \<Longrightarrow> find (\<lambda>s. sch_id s = i) ss = None"
  by (auto simp: find_None_iff)

lemma materialize_all_effect:
  "materialize_all cron c ss st = Inr (u, st') \<Longrightarrow> distinct (map sch_id ss) \<Longrightarrow>
   (\<exists>ids. length ids = length ss \<and>
      cp_jobs st' = cp_jobs st @ map2 (job_for c (cp_contacts st)) ss ids) \<and>
   cp_contacts st' = cp_contacts st \<and> cp_tenants st' = cp_tenants st \<and> cp_campaigns st' = cp_campaigns st \<and>
   cp_next_schedule_id st' = cp_next_schedule_id st \<and>
   cp_schedules st' = map (advanced cron c ss) (cp_schedules st) \<and>
   (\<forall>s \<in> set ss. \<exists>t. next_occurrence cron c s = Inr t)"
proof (induction ss arbitrary: st)
  case Nil
  then show ?case by (simp add: advanced_def)
next
  case (Cons s ss)
  then obtain v st1 where one: "materialize_schedule cron c s st = Inr (v, st1)"
    and rest: "materialize_all cron c ss st1 = Inr (u, st')"
    by (auto simp: and_then_eq_Inr)
  note E = materialize_schedule_effect [OF one]
  obtain t where t: "next_occurrence cron c s = Inr t"
    and sch: "cp_schedules st1 = sql_update (\<lambda>r. sch_id r = sch_id s) (move_on t) (cp_schedules st)"
    using E by blast
  have "distinct (map sch_id ss)" using Cons.prems by simp
  note IH = Cons.IH [OF rest this]
  obtain ids where "length ids = length ss"
    "cp_jobs st' = cp_jobs st1 @ map2 (job_for c (cp_contacts st1)) ss ids" using IH by blast
  then have "length (cp_next_job_id st # ids) = length (s # ss) \<and>
      cp_jobs st' = cp_jobs st @ map2 (job_for c (cp_contacts st)) (s # ss) (cp_next_job_id st # ids)"
    using E by simp
  then have jobs: "\<exists>ids. length ids = length (s # ss) \<and>
      cp_jobs st' = cp_jobs st @ map2 (job_for c (cp_contacts st)) (s # ss) ids" by blast
  have "find (\<lambda>q. sch_id q = sch_id s) ss = None"
    using Cons.prems(2) by (intro find_None_notin) simp
  then have "cp_schedules st' = map (advanced cron c (s # ss)) (cp_schedules st)"
    using IH by (auto simp: sch sql_update_def advanced_def t)
  with E IH t show ?case by (intro conjI jobs) simp_all
qed

lemma mset_sub_distinct: "mset xs \<subseteq># mset ys \<Longrightarrow> distinct ys \<Longrightarrow> distinct xs"
proof -
  assume sub: "mset xs \<subseteq># mset ys" and d: "distinct ys"
  obtain zs where "mset ys = mset (xs @ zs)"
    using sub by (metis ex_mset mset_append subset_mset.add_diff_inverse)
  with d have "distinct (xs @ zs)" using mset_eq_imp_distinct_iff by blast
  then show ?thesis by simp
qed

text \<open>The rows the database returns are distinct rows of the table that are due.\<close>

definition scans :: "scan \<Rightarrow> bool" where
  "scans scan \<longleftrightarrow> (\<forall>rows. mset (scan rows) \<subseteq># mset rows)"

lemma due_schedules_sub:
  assumes "scans scan" and "campaigns_ok st"
  shows "distinct (map sch_id (due_schedules scan c st))"
    and "s \<in> set (due_schedules scan c st) \<Longrightarrow>
      s \<in> set (cp_schedules st) \<and> sch_is_active s \<and> sch_next_run_at s \<le> c_now c"
proof -
  let ?due = "filter (\<lambda>s. sch_is_active s \<and> sch_next_run_at s \<le> c_now c) (cp_schedules st)"
  have sub: "mset (scan ?due) \<subseteq># mset ?due" using assms(1) unfolding scans_def by blast
  then have set: "set (scan ?due) \<subseteq> set ?due" by (metis set_mset_mono set_mset_mset)
  have "distinct (map sch_id ?due)"
    using assms(2) by (simp add: campaigns_ok_def distinct_map_filter)
  moreover have "mset (map sch_id (scan ?due)) \<subseteq># mset (map sch_id ?due)"
    unfolding mset_map by (rule image_mset_subseteq_mono [OF sub])
  ultimately have "distinct (map sch_id (scan ?due))" by (rule mset_sub_distinct [rotated])
  then show "distinct (map sch_id (due_schedules scan c st))"
    unfolding due_schedules_def by (metis distinct_take take_map)
  show "s \<in> set (due_schedules scan c st) \<Longrightarrow>
      s \<in> set (cp_schedules st) \<and> sch_is_active s \<and> sch_next_run_at s \<le> c_now c"
    unfolding due_schedules_def using set set_take_subset by fastforce
qed

lemma find_own:
  assumes "distinct (map sch_id rows)" and "set ss \<subseteq> set rows" and "r \<in> set rows"
  shows "find (\<lambda>s. sch_id s = sch_id r) ss = (if r \<in> set ss then Some r else None)"
proof -
  have same: "s = r" if "s \<in> set ss" "sch_id s = sch_id r" for s
    using that assms by (metis distinct_map inj_on_def subsetD)
  show ?thesis
  proof (cases "find (\<lambda>s. sch_id s = sch_id r) ss")
    case None
    then show ?thesis by (auto simp: find_None_iff)
  next
    case (Some s)
    then have "s \<in> set ss \<and> sch_id s = sch_id r" by (auto simp: find_Some_iff)
    with same Some show ?thesis by auto
  qed
qed

lemma materialize_effect:
  assumes run: "materialize_due_schedules cron scan c st = (Inr u, st')"
    and ok: "campaigns_ok st" "scans scan"
  shows "(\<exists>ids. length ids = length (due_schedules scan c st) \<and>
      cp_jobs st' = cp_jobs st @ map2 (job_for c (cp_contacts st)) (due_schedules scan c st) ids) \<and>
    cp_schedules st' =
      map (\<lambda>s. if s \<in> set (due_schedules scan c st) then move_on (projr (next_occurrence cron c s)) s else s)
        (cp_schedules st)"
proof -
  have "materialize_all cron c (due_schedules scan c st) st = Inr (u, st')"
    using run by (auto simp: materialize_due_schedules_def with_transaction_def split: sum.splits)
  note E = materialize_all_effect [OF this due_schedules_sub(1) [OF ok(2,1)]]
  have jobs: "\<exists>ids. length ids = length (due_schedules scan c st) \<and>
      cp_jobs st' = cp_jobs st @ map2 (job_for c (cp_contacts st)) (due_schedules scan c st) ids"
    using E by blast
  have sub: "set (due_schedules scan c st) \<subseteq> set (cp_schedules st)"
    using due_schedules_sub(2) [OF ok(2,1)] by blast
  have own: "find (\<lambda>s. sch_id s = sch_id r) (due_schedules scan c st) =
      (if r \<in> set (due_schedules scan c st) then Some r else None)" if "r \<in> set (cp_schedules st)" for r
    using find_own [OF _ sub that] ok by (simp add: campaigns_ok_def)
  show ?thesis using jobs E own by (simp add: advanced_def)
qed

text \<open>C25: a run of the scheduler that commits makes exactly one queued job for each schedule it took, for
  its tenant, campaign and audience as it is now; it moves each of them to its next occurrence (a
  schedule without recurrence becomes inactive) and leaves every other schedule as it was.\<close>

theorem due_schedules_get_one_job:
  assumes run: "materialize_due_schedules cron scan c st = (Inr u, st')"
    and ok: "campaigns_ok st" "scans scan"
  shows "(\<exists>ids. length ids = length (due_schedules scan c st) \<and>
      cp_jobs st' = cp_jobs st @ map2 (job_for c (cp_contacts st)) (due_schedules scan c st) ids) \<and>
    cp_schedules st' =
      map (\<lambda>s. if s \<in> set (due_schedules scan c st) then move_on (projr (next_occurrence cron c s)) s else s)
        (cp_schedules st)"
  using materialize_effect [OF assms] .

subsection \<open>A schedule whose recurrence cannot be parsed\<close>

lemma materialize_all_throws:
  "s \<in> set ss \<Longrightarrow> next_occurrence cron c s = Inl ex \<Longrightarrow> \<exists>ex. materialize_all cron c ss st = Inl ex"
proof (induction ss arbitrary: st)
  case (Cons r ss)
  show ?case
  proof (cases "materialize_schedule cron c r st")
    case (Inr a)
    then obtain u st1 where one: "materialize_schedule cron c r st = Inr (u, st1)" by (cases a) simp
    from materialize_schedule_effect [OF one] Cons.prems have "s \<in> set ss" by auto
    with Cons.IH [OF this Cons.prems(2), of st1] one show ?thesis by simp
  qed simp
qed simp

text \<open>One schedule among those a run took whose cron expression does not parse undoes the run: no job
  is made and no schedule moves, so the same schedules are due again at the next run.\<close>

theorem bad_recurrence_blocks_the_batch:
  assumes "s \<in> set (due_schedules scan c st)" and "sch_recurrence_cron s = Some expression" and "expression \<noteq> []"
    and "cron expression (sch_timezone s) (sch_next_run_at s) = Inl msg"
  shows "\<exists>ex. materialize_due_schedules cron scan c st = (Inl ex, st)"
proof -
  have "next_occurrence cron c s = Inl (BadRequestException (''Invalid campaign recurrence cron: '' @ msg))"
    using assms(2-4) by (simp add: next_occurrence_def compute_next_run_at_def parse_cron_expression_def)
  from materialize_all_throws [OF assms(1) this, of st] show ?thesis
    unfolding materialize_due_schedules_def by (meson with_transaction_Inl)
qed

subsection \<open>Runs of the operations\<close>

datatype campaign_event =
    ScheduleEvent ctx tenant schedule_dto
  | ActivateEvent tenant int bool
  | CancelEvent ctx tenant int
  | TickEvent scan ctx

fun campaign_exec :: "cron_parser \<Rightarrow> campaign_event \<Rightarrow> campaigns_state \<Rightarrow> campaigns_state" where
  "campaign_exec cron (ScheduleEvent c tenant dto) st = snd (schedule_campaign cron c tenant dto st)"
| "campaign_exec cron (ActivateEvent tenant i b) st = snd (set_schedule_active tenant i b st)"
| "campaign_exec cron (CancelEvent c tenant g) st = snd (cancel_campaign c tenant g st)"
| "campaign_exec cron (TickEvent scan c) st = snd (materialize_due_schedules cron scan c st)"

text \<open>How often a schedule was turned into a job by an event, and in a sequence of events.\<close>

fun fired_by :: "cron_parser \<Rightarrow> int \<Rightarrow> campaign_event \<Rightarrow> campaigns_state \<Rightarrow> nat" where
  "fired_by cron i (TickEvent scan c) st =
     (case fst (materialize_due_schedules cron scan c st) of
        Inl _ \<Rightarrow> 0
      | Inr _ \<Rightarrow> length (filter (\<lambda>s. sch_id s = i) (due_schedules scan c st)))"
| "fired_by cron i _ st = 0"

fun fired :: "cron_parser \<Rightarrow> int \<Rightarrow> campaign_event list \<Rightarrow> campaigns_state \<Rightarrow> nat" where
  "fired cron i [] st = 0"
| "fired cron i (ev # evs) st = fired_by cron i ev st + fired cron i evs (campaign_exec cron ev st)"

fun resumes :: "int \<Rightarrow> campaign_event \<Rightarrow> nat" where
  "resumes i (ActivateEvent tenant j b) = (if j = i \<and> b then 1 else 0)"
| "resumes i _ = 0"

fun fair_scan :: "campaign_event \<Rightarrow> bool" where
  "fair_scan (TickEvent scan c) = scans scan"
| "fair_scan _ = True"

text \<open>A schedule without recurrence, and whether it is active.\<close>

definition one_shot :: "int \<Rightarrow> campaigns_state \<Rightarrow> bool" where
  "one_shot i st \<longleftrightarrow> i < cp_next_schedule_id st \<and>
     (\<forall>s \<in> set (cp_schedules st). sch_id s = i \<longrightarrow> sch_recurrence_cron s = None)"

definition active :: "int \<Rightarrow> campaigns_state \<Rightarrow> nat" where
  "active i st = (if \<exists>s \<in> set (cp_schedules st). sch_id s = i \<and> sch_is_active s then 1 else 0)"

lemma active_update:
  assumes "\<And>s. s \<in> set (cp_schedules st) \<Longrightarrow> cond s \<Longrightarrow> sch_id (f s) = sch_id s"
    and "\<And>s. s \<in> set (cp_schedules st) \<Longrightarrow> cond s \<Longrightarrow> sch_id s = i \<Longrightarrow> sch_is_active (f s) \<Longrightarrow> sch_is_active s"
    and "cp_schedules st' = sql_update cond f (cp_schedules st)"
  shows "active i st' \<le> active i st"
  using assms by (auto simp: active_def set_sql_update split: if_splits)

lemma campaigns_ok_update:
  assumes "campaigns_ok st"
    and "\<And>s. sch_id (f s) = sch_id s \<and> sch_tenant_id (f s) = sch_tenant_id s \<and> sch_campaign_id (f s) = sch_campaign_id s"
    and "cp_schedules st' = map f (cp_schedules st)" "cp_next_schedule_id st' = cp_next_schedule_id st"
    and "set (map ta_id (cp_tenants st)) \<subseteq> set (map ta_id (cp_tenants st'))"
    and "set (map cg_id (cp_campaigns st)) \<subseteq> set (map cg_id (cp_campaigns st'))"
  shows "campaigns_ok st'"
proof -
  have "map sch_id (cp_schedules st') = map sch_id (cp_schedules st)"
    unfolding assms(3) map_map by (rule map_cong) (simp_all add: assms(2))
  then have "distinct (map sch_id (cp_schedules st'))" using assms(1) by (simp only: campaigns_ok_def)
  moreover have "references_exist t g st'" if "references_exist t g st" for t g
    using that assms(5,6) unfolding references_exist_def by blast
  then have "\<forall>s \<in> set (cp_schedules st'). sch_id s < cp_next_schedule_id st' \<and>
      references_exist (sch_tenant_id s) (sch_campaign_id s) st'"
    using assms(1) by (auto simp: assms(2-4) campaigns_ok_def)
  ultimately show ?thesis by (simp add: campaigns_ok_def)
qed

lemma sql_update_map: "sql_update cond f rs = map (\<lambda>r. if cond r then f r else r) rs"
  by (simp add: sql_update_def)

lemma schedule_tx_effect:
  assumes "schedule_tx cron c tenant dto st = Inr (r, st')"
  shows "\<exists>row. cp_schedules st' = cp_schedules st @ [row] \<and> sch_id row = cp_next_schedule_id st \<and>
    cp_next_schedule_id st' = cp_next_schedule_id st + 1 \<and> cp_tenants st' = cp_tenants st \<and>
    set (map cg_id (cp_campaigns st)) \<subseteq> set (map cg_id (cp_campaigns st')) \<and>
    references_exist (sch_tenant_id row) (sch_campaign_id row) st' \<and>
    (\<exists>job. cp_jobs st' = cp_jobs st @ [job] \<and> jb_tenant_id job = tenant \<and> jb_campaign_id job = fst r \<and>
       jb_status job = ''pending'' \<and> jb_total_records job = 0 \<and> jb_processed_records job = 0 \<and>
       jb_accepted_records job = 0 \<and> jb_failed_records job = 0 \<and> jb_created_at job = c_now c \<and>
       jb_id job = fst (snd (snd r)))"
  using assms
  by (auto simp: schedule_tx_def insert_campaign_def insert_schedule_def insert_job_def new_schedule_def new_job_def
      references_exist_def Let_def and_then_eq_Inr split: if_splits)

lemma campaign_exec_ok:
  assumes "campaigns_ok st" and "fair_scan ev"
  shows "campaigns_ok (campaign_exec cron ev st)"
proof (cases ev)
  case (ScheduleEvent c tenant dto)
  show ?thesis
  proof (cases "schedule_tx cron c tenant dto st")
    case (Inr a)
    then obtain r st' where tx: "schedule_tx cron c tenant dto st = Inr (r, st')" by (cases a) simp
    obtain row where row: "cp_schedules st' = cp_schedules st @ [row]" "sch_id row = cp_next_schedule_id st"
      "cp_next_schedule_id st' = cp_next_schedule_id st + 1" "cp_tenants st' = cp_tenants st"
      "set (map cg_id (cp_campaigns st)) \<subseteq> set (map cg_id (cp_campaigns st'))"
      "references_exist (sch_tenant_id row) (sch_campaign_id row) st'"
      using schedule_tx_effect [OF tx] by blast
    have "references_exist t g st'" if "references_exist t g st" for t g
      using that row(4,5) unfolding references_exist_def by auto
    with assms(1) row have "campaigns_ok st'" by (fastforce simp: campaigns_ok_def)
    then show ?thesis using assms(1) tx by (simp add: ScheduleEvent schedule_campaign_def)
  qed (use assms(1) in \<open>simp add: ScheduleEvent schedule_campaign_def\<close>)
next
  case (ActivateEvent tenant i b)
  show ?thesis
    unfolding ActivateEvent campaign_exec.simps set_schedule_active_def Let_def
    using assms(1) by (auto split: option.split simp: sql_update_def intro!: campaigns_ok_update [OF assms(1),
      where f = "\<lambda>s. if sch_tenant_id s = tenant \<and> sch_id s = i then s\<lparr>sch_is_active := b\<rparr> else s"])
next
  case (CancelEvent c tenant g)
  show ?thesis
  proof (cases "cancel_tx c tenant g st")
    case (Inr a)
    then obtain u st' where tx: "cancel_tx c tenant g st = Inr (u, st')" by (cases a) simp
    let ?hit = "\<lambda>s. sch_tenant_id s = tenant \<and> sch_campaign_id s = g"
    have "map cg_id (cp_campaigns st') = map cg_id (cp_campaigns st)"
      and "cp_schedules st' = map (\<lambda>s. if ?hit s then s\<lparr>sch_is_active := False\<rparr> else s) (cp_schedules st)"
      and "cp_next_schedule_id st' = cp_next_schedule_id st" "cp_tenants st' = cp_tenants st"
      using tx by (auto simp: cancel_tx_def Let_def map_sql_update sql_update_def [of ?hit] split: if_splits)
    note same = this
    have "campaigns_ok st'"
      by (rule campaigns_ok_update [OF assms(1), where f = "\<lambda>s. if ?hit s then s\<lparr>sch_is_active := False\<rparr> else s"])
        (simp_all add: same(2-4), simp only: same(1) flip: set_map)
    then show ?thesis using tx by (simp add: CancelEvent cancel_campaign_def)
  qed (use assms(1) in \<open>simp add: CancelEvent cancel_campaign_def\<close>)
next
  case (TickEvent scan c)
  show ?thesis
  proof (cases "materialize_all cron c (due_schedules scan c st) st")
    case (Inr a)
    then obtain u st' where all: "materialize_all cron c (due_schedules scan c st) st = Inr (u, st')" by (cases a) simp
    have "scans scan" using assms(2) TickEvent by simp
    note E = materialize_all_effect [OF all due_schedules_sub(1) [OF this assms(1)]]
    have "campaigns_ok st'" by (rule campaigns_ok_update [OF assms(1), where f = "advanced cron c (due_schedules scan c st)"]) (use E in simp_all)
    then show ?thesis using all by (simp add: TickEvent materialize_due_schedules_def)
  qed (use assms(1) in \<open>simp add: TickEvent materialize_due_schedules_def\<close>)
qed

lemma one_shot_update:
  assumes "one_shot i st" and "\<And>s. sch_id (f s) = sch_id s \<and> sch_recurrence_cron (f s) = sch_recurrence_cron s"
    and "cp_schedules st' = map f (cp_schedules st)" and "cp_next_schedule_id st' = cp_next_schedule_id st"
  shows "one_shot i st'"
  using assms by (auto simp: one_shot_def)

lemma filter_id_count:
  assumes "distinct (map sch_id ss)"
  shows "length (filter (\<lambda>s. sch_id s = i) ss) = (if i \<in> sch_id ` set ss then 1 else 0)"
  using assms by (induction ss) (auto simp: filter_empty_conv)

lemma tick_one_shot:
  assumes "campaigns_ok st" and "scans scan" and "one_shot i st"
  shows "one_shot i (campaign_exec cron (TickEvent scan c) st) \<and>
    fired_by cron i (TickEvent scan c) st + active i (campaign_exec cron (TickEvent scan c) st) \<le> active i st"
proof (cases "materialize_all cron c (due_schedules scan c st) st")
  case (Inl ex)
  then have "materialize_due_schedules cron scan c st = (Inl ex, st)"
    by (simp add: materialize_due_schedules_def)
  then show ?thesis using assms(3) by simp
next
  case (Inr a)
  let ?due = "due_schedules scan c st"
  obtain u st' where all: "materialize_all cron c ?due st = Inr (u, st')" using Inr by (cases a) simp
  then have run: "materialize_due_schedules cron scan c st = (Inr u, st')"
    by (simp add: materialize_due_schedules_def)
  note E = materialize_all_effect [OF all due_schedules_sub(1) [OF assms(2,1)]]
  have keep: "one_shot i st'"
    by (rule one_shot_update [OF assms(3), where f = "advanced cron c ?due"]) (use E in simp_all)
  have still: "active i st' \<le> active i st"
  proof (cases "active i st' = 0")
    case False
    then obtain r where r: "r \<in> set (cp_schedules st)" "sch_id r = i" "sch_is_active (advanced cron c ?due r)"
      using E by (auto simp: active_def split: if_splits)
    then have "sch_recurrence_cron r = None" using assms(3) by (auto simp: one_shot_def)
    with r(3) have "sch_is_active r" by (auto simp: advanced_def split: option.splits)
    with r(1,2) show ?thesis by (auto simp: active_def)
  qed simp
  show ?thesis
  proof (cases "i \<in> sch_id ` set ?due")
    case True
    then obtain s where s: "s \<in> set ?due" "sch_id s = i" by auto
    from due_schedules_sub(2) [OF assms(2,1) s(1)] s(2) have was: "active i st = 1" by (auto simp: active_def)
    have "\<not> sch_is_active (advanced cron c ?due r)" if "r \<in> set (cp_schedules st)" "sch_id r = i" for r
    proof -
      have "find (\<lambda>s. sch_id s = i) ?due \<noteq> None" using s by (auto simp: find_None_iff)
      moreover have "sch_recurrence_cron r = None" using that assms(3) by (auto simp: one_shot_def)
      ultimately show ?thesis using that(2) by (auto simp: advanced_def)
    qed
    then have "active i st' = 0" using E by (auto simp: active_def)
    with keep run was True show ?thesis
      by (simp add: filter_id_count [OF due_schedules_sub(1) [OF assms(2,1)]])
  next
    case False
    with keep run still show ?thesis
      by (simp add: filter_id_count [OF due_schedules_sub(1) [OF assms(2,1)]])
  qed
qed

lemma event_one_shot:
  assumes "campaigns_ok st" and "fair_scan ev" and "one_shot i st"
  shows "one_shot i (campaign_exec cron ev st) \<and>
    fired_by cron i ev st + active i (campaign_exec cron ev st) \<le> active i st + resumes i ev"
proof (cases ev)
  case (ScheduleEvent c tenant dto)
  show ?thesis
  proof (cases "schedule_tx cron c tenant dto st")
    case (Inr a)
    then obtain r st' where tx: "schedule_tx cron c tenant dto st = Inr (r, st')" by (cases a) simp
    obtain row where row: "cp_schedules st' = cp_schedules st @ [row]" "sch_id row = cp_next_schedule_id st"
      "cp_next_schedule_id st' = cp_next_schedule_id st + 1"
      using schedule_tx_effect [OF tx] by blast
    then show ?thesis
      using assms(3) tx by (auto simp: ScheduleEvent schedule_campaign_def one_shot_def active_def)
  qed (use assms(3) in \<open>simp add: ScheduleEvent schedule_campaign_def\<close>)
next
  case (ActivateEvent tenant j b)
  let ?hit = "\<lambda>s. sch_tenant_id s = tenant \<and> sch_id s = j"
  let ?st = "st\<lparr>cp_schedules := sql_update ?hit (\<lambda>s. s\<lparr>sch_is_active := b\<rparr>) (cp_schedules st)\<rparr>"
  have "campaign_exec cron ev st = st \<or> campaign_exec cron ev st = ?st"
    by (auto simp: ActivateEvent set_schedule_active_def Let_def split: option.split)
  moreover have "one_shot i ?st"
    by (rule one_shot_update [OF assms(3), where f = "\<lambda>s. if ?hit s then s\<lparr>sch_is_active := b\<rparr> else s"])
      (simp_all add: sql_update_def)
  moreover have "active i ?st \<le> active i st + resumes i ev"
  proof (cases "j = i \<and> b")
    case True
    then show ?thesis by (simp add: ActivateEvent active_def)
  next
    case False
    have "active i ?st \<le> active i st"
      by (rule active_update [where cond = ?hit and f = "\<lambda>s. s\<lparr>sch_is_active := b\<rparr>"]) (use False in auto)
    then show ?thesis by simp
  qed
  ultimately show ?thesis using assms(3) by (auto simp: ActivateEvent)
next
  case (CancelEvent c tenant g)
  show ?thesis
  proof (cases "cancel_tx c tenant g st")
    case (Inr a)
    then obtain u st' where tx: "cancel_tx c tenant g st = Inr (u, st')" by (cases a) simp
    let ?hit = "\<lambda>s. sch_tenant_id s = tenant \<and> sch_campaign_id s = g"
    have sch: "cp_schedules st' = sql_update ?hit (\<lambda>s. s\<lparr>sch_is_active := False\<rparr>) (cp_schedules st)"
      "cp_next_schedule_id st' = cp_next_schedule_id st"
      using tx by (auto simp: cancel_tx_def Let_def split: if_splits)
    have "active i st' \<le> active i st" by (rule active_update [OF _ _ sch(1)]) auto
    moreover have "one_shot i st'"
      by (rule one_shot_update [OF assms(3), where f = "\<lambda>s. if ?hit s then s\<lparr>sch_is_active := False\<rparr> else s"])
        (simp_all add: sch sql_update_def)
    ultimately show ?thesis using tx by (simp add: CancelEvent cancel_campaign_def)
  qed (use assms(3) in \<open>simp add: CancelEvent cancel_campaign_def\<close>)
next
  case (TickEvent scan c)
  with tick_one_shot [OF assms(1) _ assms(3)] assms(2) show ?thesis by simp
qed

text \<open>C26: whatever sequence of scheduling, pausing, resuming, cancelling and scheduler runs follows, a
  schedule without recurrence is turned into at most one job, plus one for each time it is resumed.\<close>

theorem one_shot_fires_once:
  assumes "campaigns_ok st" and "one_shot i st" and "\<forall>ev \<in> set evs. fair_scan ev"
  shows "fired cron i evs st \<le> active i st + (\<Sum>ev\<leftarrow>evs. resumes i ev)"
  using assms
proof (induction evs arbitrary: st)
  case (Cons ev evs)
  have fair: "fair_scan ev" using Cons.prems(3) by simp
  have rest: "\<forall>e \<in> set evs. fair_scan e" using Cons.prems(3) by simp
  note step = event_one_shot [OF Cons.prems(1) fair Cons.prems(2), of cron]
  from Cons.IH [OF campaign_exec_ok [OF Cons.prems(1) fair] _ rest, of cron] step show ?case by simp
qed simp

subsection \<open>Cancelling\<close>

lemma set_active_effect:
  assumes "s \<in> set (cp_schedules st)" and "sch_tenant_id s = tenant"
  shows "snd (set_schedule_active tenant (sch_id s) b st) =
    st\<lparr>cp_schedules := sql_update (\<lambda>r. sch_tenant_id r = tenant \<and> sch_id r = sch_id s)
         (\<lambda>r. r\<lparr>sch_is_active := b\<rparr>) (cp_schedules st)\<rparr>"
proof -
  have "filter (\<lambda>r. sch_tenant_id r = tenant \<and> sch_id r = sch_id s) (cp_schedules st) \<noteq> []"
    using assms by (auto simp: filter_empty_conv)
  then show ?thesis by (auto simp: set_schedule_active_def Let_def split: option.split)
qed

text \<open>A committed cancellation stops every schedule the tenant has for the campaign and touches no
  other; but a schedule another tenant made for the campaign stays as it was, and resuming an own one
  makes it run again although the campaign stays cancelled.\<close>

theorem cancel_stops_own_schedules:
  assumes "cancel_campaign c tenant g st = (Inr u, st')"
  shows "(\<forall>s \<in> set (cp_schedules st'). sch_tenant_id s = tenant \<and> sch_campaign_id s = g \<longrightarrow> \<not> sch_is_active s) \<and>
    filter (\<lambda>s. sch_tenant_id s \<noteq> tenant \<or> sch_campaign_id s \<noteq> g) (cp_schedules st') =
      filter (\<lambda>s. sch_tenant_id s \<noteq> tenant \<or> sch_campaign_id s \<noteq> g) (cp_schedules st) \<and>
    (\<forall>s \<in> set (cp_schedules st'). sch_tenant_id s = tenant \<longrightarrow>
       s\<lparr>sch_is_active := True\<rparr> \<in> set (cp_schedules (snd (set_schedule_active tenant (sch_id s) True st'))) \<and>
       cp_campaigns (snd (set_schedule_active tenant (sch_id s) True st')) = cp_campaigns st') \<and>
    (\<exists>r \<in> set (cp_campaigns st'). cg_id r = g \<and> cg_tenant_id r = tenant \<and> cg_status r = ''cancelled'')"
proof -
  let ?own = "\<lambda>s. sch_tenant_id s = tenant \<and> sch_campaign_id s = g"
  let ?hit = "\<lambda>r. cg_tenant_id r = tenant \<and> cg_id r = g"
  have tx: "cancel_tx c tenant g st = Inr (u, st')"
    using assms by (auto simp: cancel_campaign_def with_transaction_def split: sum.splits)
  then have sch: "cp_schedules st' = sql_update ?own (\<lambda>s. s\<lparr>sch_is_active := False\<rparr>) (cp_schedules st)"
    and cmp: "cp_campaigns st' = sql_update ?hit (\<lambda>r. r\<lparr>cg_status := ''cancelled'', cg_updated_at := c_now c\<rparr>) (cp_campaigns st)"
    and some: "filter ?hit (cp_campaigns st) \<noteq> []"
    by (auto simp: cancel_tx_def Let_def split: if_splits)
  have 1: "\<forall>s \<in> set (cp_schedules st'). ?own s \<longrightarrow> \<not> sch_is_active s"
    unfolding sch ball_sql_update by auto
  have 2: "filter (\<lambda>s. \<not> ?own s) (cp_schedules st') = filter (\<lambda>s. \<not> ?own s) (cp_schedules st)"
    unfolding sch by (rule filter_sql_update) simp
  obtain r where r: "r \<in> set (cp_campaigns st)" "?hit r" using some by (auto simp: filter_empty_conv)
  then have 3: "\<exists>r \<in> set (cp_campaigns st'). cg_id r = g \<and> cg_tenant_id r = tenant \<and> cg_status r = ''cancelled''"
    by (intro bexI [of _ "r\<lparr>cg_status := ''cancelled'', cg_updated_at := c_now c\<rparr>"])
      (auto simp: cmp set_sql_update)
  have 4: "s\<lparr>sch_is_active := True\<rparr> \<in> set (cp_schedules (snd (set_schedule_active tenant (sch_id s) True st'))) \<and>
      cp_campaigns (snd (set_schedule_active tenant (sch_id s) True st')) = cp_campaigns st'"
    if "s \<in> set (cp_schedules st')" "sch_tenant_id s = tenant" for s
  proof -
    have "s\<lparr>sch_is_active := True\<rparr> \<in> (\<lambda>r. r\<lparr>sch_is_active := True\<rparr>) `
        {r \<in> set (cp_schedules st'). sch_tenant_id r = tenant \<and> sch_id r = sch_id s}"
      by (rule imageI) (simp add: that)
    then show ?thesis by (simp add: set_active_effect [OF that] set_sql_update del: image_iff)
  qed
  show ?thesis using 1 2 3 4 by simp
qed

subsection \<open>Who may schedule a campaign\<close>

lemma latest_job_of_newest:
  assumes "cp_jobs st = js @ [job]" and "jb_campaign_id job = g"
    and "\<forall>j \<in> set js. jb_created_at j < jb_created_at job"
  shows "latest_job g st = Some (jb_id job, jb_status job, jb_total_records job, jb_processed_records job)"
proof -
  let ?js = "filter (\<lambda>j. jb_campaign_id j = g) (cp_jobs st)"
  obtain x xs where xs: "sort_desc jb_created_at ?js = x # xs"
    using assms(1,2) by (cases "sort_desc jb_created_at ?js") (auto dest: arg_cong [of _ _ set])
  have mem: "set (x # xs) = set ?js" by (simp flip: xs)
  have "job \<in> set (x # xs)" unfolding mem using assms(1,2) by simp
  from sort_desc_head [OF xs this] have "jb_created_at job \<le> jb_created_at x" .
  moreover have "x \<in> set ?js" using mem by auto
  ultimately have "x \<in> set js \<or> x = job" "\<not> jb_created_at x < jb_created_at job"
    using assms(1) by (auto simp: not_less split: if_splits)
  with assms(3) have "x = job" by auto
  with xs show ?thesis by (simp add: latest_job_def)
qed

text \<open>Scheduling a campaign that exists never asks whose campaign it is: the job is the scheduling
  tenant's, and the owner of the campaign sees it as the latest job of the campaign.\<close>

theorem foreign_campaign_is_scheduled:
  assumes "schedule_campaign cron c tenant dto st = (Inr (g, schedule_id, job_id, next_run_at, status), st')"
    and "\<forall>j \<in> set (cp_jobs st). jb_created_at j < c_now c"
    and "owned \<in> set (cp_campaigns st')" and "cg_id owned = g"
  shows "(owned, Some (job_id, ''pending'', 0, 0)) \<in> set (list_campaigns (cg_tenant_id owned) st') \<and>
    (\<exists>j \<in> set (cp_jobs st'). jb_id j = job_id \<and> jb_tenant_id j = tenant)"
proof -
  have "schedule_tx cron c tenant dto st = Inr ((g, schedule_id, job_id, next_run_at, status), st')"
    using assms(1) by (auto simp: schedule_campaign_def with_transaction_def split: if_splits sum.splits)
  from schedule_tx_effect [OF this] obtain job where job: "cp_jobs st' = cp_jobs st @ [job]"
    "jb_tenant_id job = tenant" "jb_campaign_id job = g" "jb_status job = ''pending''" "jb_total_records job = 0"
    "jb_processed_records job = 0" "jb_created_at job = c_now c" "jb_id job = job_id"
    by auto
  from latest_job_of_newest [OF job(1,3)] assms(2) job have
    "latest_job g st' = Some (job_id, ''pending'', 0, 0)" by simp
  with assms(3,4) job show ?thesis by (auto simp: list_campaigns_def)
qed

subsection \<open>Nothing works the jobs off\<close>

definition jobs_idle :: "campaigns_state \<Rightarrow> bool" where
  "jobs_idle st \<longleftrightarrow>
     (\<forall>j \<in> set (cp_jobs st). jb_status j \<in> {''pending'', ''queued''} \<and> jb_processed_records j = 0 \<and>
        jb_accepted_records j = 0 \<and> jb_failed_records j = 0)"

lemma set_map2: "set (map2 f xs ys) \<subseteq> {f x y |x y. True}"
  by (auto simp: set_zip)

lemma campaign_exec_idle:
  assumes "campaigns_ok st" and "fair_scan ev" and "jobs_idle st"
  shows "jobs_idle (campaign_exec cron ev st)"
proof (cases ev)
  case (ScheduleEvent c tenant dto)
  show ?thesis
  proof (cases "schedule_tx cron c tenant dto st")
    case (Inr a)
    then obtain r st' where tx: "schedule_tx cron c tenant dto st = Inr (r, st')" by (cases a) simp
    obtain job where "cp_jobs st' = cp_jobs st @ [job]" "jb_status job = ''pending''" "jb_processed_records job = 0"
      "jb_accepted_records job = 0" "jb_failed_records job = 0"
      using schedule_tx_effect [OF tx] by blast
    with assms(3) have "jobs_idle st'" by (auto simp: jobs_idle_def)
    then show ?thesis using assms(3) tx by (simp add: ScheduleEvent schedule_campaign_def)
  qed (use assms(3) in \<open>simp add: ScheduleEvent schedule_campaign_def\<close>)
next
  case (ActivateEvent tenant i b)
  then show ?thesis
    using assms(3) by (auto simp: set_schedule_active_def Let_def jobs_idle_def split: option.split)
next
  case (CancelEvent c tenant g)
  then show ?thesis
    using assms(3) by (auto simp: cancel_campaign_def with_transaction_def cancel_tx_def Let_def jobs_idle_def)
next
  case (TickEvent scan c)
  show ?thesis
  proof (cases "materialize_due_schedules cron scan c st")
    case (Pair r st')
    have "jobs_idle st'"
    proof (cases r)
      case (Inl ex)
      with Pair assms(3) show ?thesis
        by (auto simp: materialize_due_schedules_def with_transaction_def split: sum.splits)
    next
      case (Inr u)
      have "scans scan" using assms(2) TickEvent by simp
      with materialize_effect Pair Inr assms(1) obtain ids where
        "cp_jobs st' = cp_jobs st @ map2 (job_for c (cp_contacts st)) (due_schedules scan c st) ids"
        by blast
      with assms(3) set_map2 [of "job_for c (cp_contacts st)"] show ?thesis
        by (fastforce simp: jobs_idle_def job_for_def new_job_def)
    qed
    then show ?thesis using Pair TickEvent by simp
  qed
qed

text \<open>No operation of the service ever works a job off: in every run its jobs are pending or queued and
  have processed, accepted and failed nothing.\<close>

theorem jobs_stay_idle:
  assumes "campaigns_ok st" and "jobs_idle st" and "\<forall>ev \<in> set evs. fair_scan ev"
  shows "campaigns_ok (fold (campaign_exec cron) evs st) \<and> jobs_idle (fold (campaign_exec cron) evs st)"
  using assms
proof (induction evs arbitrary: st)
  case (Cons ev evs)
  have "fair_scan ev" "\<forall>e \<in> set evs. fair_scan e" using Cons.prems(3) by simp_all
  then show ?case
    using Cons.IH [OF campaign_exec_ok [OF Cons.prems(1)] campaign_exec_idle [OF Cons.prems(1) _ Cons.prems(2)]] by simp
qed simp

subsection \<open>Witnesses\<close>

definition ex_cron :: cron_parser where
  "ex_cron expression timezone t = (if expression = ''bad'' then Inl ''invalid'' else Inr (t + 86400000))"

definition ex_schedule :: "int \<Rightarrow> string option \<Rightarrow> schedule_row" where
  "ex_schedule i cron = \<lparr>sch_id = i, sch_tenant_id = ''t1'', sch_campaign_id = 1, sch_template_ref = ''promo@1'',
     sch_sender_id = ''MYAPP'', sch_contact_group_id = Some 3, sch_contact_upload_id = None, sch_recurrence_cron = cron,
     sch_timezone = ''UTC'', sch_next_run_at = 1763400000000, sch_shard_count = 4, sch_is_active = True, sch_created_at = 5\<rparr>"

definition ex_campaigns :: "db \<Rightarrow> schedule_row list \<Rightarrow> campaigns_state" where
  "ex_campaigns d schedules = \<lparr>cp_db = d, cp_contacts = ex_contacts,
     cp_tenants = [\<lparr>ta_id = ''t1'', ta_code = ''a'', ta_name = ''A'', ta_status = ''active'', ta_timezone = ''UTC''\<rparr>,
                   \<lparr>ta_id = ''t2'', ta_code = ''b'', ta_name = ''B'', ta_status = ''active'', ta_timezone = ''UTC''\<rparr>],
     cp_campaigns = [\<lparr>cg_id = 1, cg_tenant_id = ''t1'', cg_name = ''promo'', cg_status = ''scheduled'',
                      cg_source_type = ''api'', cg_scheduled_at = None, cg_metadata = JObj [], cg_created_at = 5,
                      cg_updated_at = 5\<rparr>],
     cp_schedules = schedules, cp_jobs = [], cp_next_campaign_id = 2, cp_next_schedule_id = 9, cp_next_job_id = 1\<rparr>"

lemma scans_id: "scans (\<lambda>rows. rows)"
  by (simp add: scans_def)

lemma ex_campaigns_ok: "campaigns_ok (ex_campaigns d [ex_schedule 7 None, ex_schedule 8 (Some ''0 8 * * *'')])"
  by (simp add: campaigns_ok_def ex_campaigns_def ex_schedule_def references_exist_def)

lemma ex_due:
  "due_schedules (\<lambda>rows. rows) ex_csv_ctx (ex_campaigns d [ex_schedule 7 None, ex_schedule 8 (Some e)]) =
     [ex_schedule 7 None, ex_schedule 8 (Some e)]"
  by (simp add: due_schedules_def ex_campaigns_def ex_schedule_def ex_csv_ctx_def)

lemma ex_run:
  "fst (materialize_due_schedules ex_cron (\<lambda>rows. rows) ex_csv_ctx
     (ex_campaigns d [ex_schedule 7 None, ex_schedule 8 (Some ''0 8 * * *'')])) = Inr ()"
  unfolding materialize_due_schedules_def ex_due
  by (simp add: materialize_schedule_def insert_job_def references_exist_def next_occurrence_def compute_next_run_at_def
      parse_cron_expression_def ex_cron_def ex_campaigns_def ex_schedule_def with_transaction_def split_beta Let_def)

theorem due_schedules_get_one_job_witness:
  "\<exists>st'. materialize_due_schedules ex_cron (\<lambda>rows. rows) ex_csv_ctx
       (ex_campaigns empty_db [ex_schedule 7 None, ex_schedule 8 (Some ''0 8 * * *'')]) = (Inr (), st') \<and>
     length (cp_jobs st') = 2 \<and> map sch_is_active (cp_schedules st') = [False, True]"
proof -
  let ?st = "ex_campaigns empty_db [ex_schedule 7 None, ex_schedule 8 (Some ''0 8 * * *'')]"
  obtain st' where run: "materialize_due_schedules ex_cron (\<lambda>rows. rows) ex_csv_ctx ?st = (Inr (), st')"
    using ex_run [of empty_db] by (metis prod.collapse)
  have sch: "cp_schedules ?st = [ex_schedule 7 None, ex_schedule 8 (Some ''0 8 * * *'')]" "cp_jobs ?st = []"
    by (simp_all add: ex_campaigns_def)
  from due_schedules_get_one_job [OF run ex_campaigns_ok scans_id] run show ?thesis
    by (auto simp: ex_due sch) (simp_all add: ex_schedule_def)
qed

theorem bad_recurrence_blocks_the_batch_witness:
  "\<exists>ex. materialize_due_schedules ex_cron (\<lambda>rows. rows) ex_csv_ctx
     (ex_campaigns empty_db [ex_schedule 7 None, ex_schedule 8 (Some ''bad'')]) =
     (Inl ex, ex_campaigns empty_db [ex_schedule 7 None, ex_schedule 8 (Some ''bad'')])"
  by (rule bad_recurrence_blocks_the_batch [where s = "ex_schedule 8 (Some ''bad'')" and expression = "''bad''" and msg = "''invalid''"])
    (simp_all add: ex_due, simp_all add: ex_schedule_def ex_cron_def)

definition ex_events :: "campaign_event list" where
  "ex_events = [TickEvent (\<lambda>rows. rows) ex_csv_ctx, ActivateEvent ''t1'' 7 True, TickEvent (\<lambda>rows. rows) ex_csv_ctx]"

theorem one_shot_fires_once_witness:
  "fired ex_cron 7 ex_events (ex_campaigns empty_db [ex_schedule 7 None, ex_schedule 8 (Some ''0 8 * * *'')]) \<le> 2"
proof -
  let ?st = "ex_campaigns empty_db [ex_schedule 7 None, ex_schedule 8 (Some ''0 8 * * *'')]"
  have st: "one_shot 7 ?st" "active 7 ?st = 1"
    by (simp_all add: one_shot_def active_def ex_campaigns_def ex_schedule_def)
  have "\<forall>ev \<in> set ex_events. fair_scan ev" "(\<Sum>ev\<leftarrow>ex_events. resumes 7 ev) = 1"
    by (simp_all add: ex_events_def scans_id)
  with one_shot_fires_once [OF ex_campaigns_ok st(1), of ex_events ex_cron] st(2) show ?thesis by linarith
qed

theorem cancel_stops_own_schedules_witness:
  "\<exists>st'. cancel_campaign ex_csv_ctx ''t1'' 1 (ex_campaigns empty_db [ex_schedule 7 None, ex_schedule 8 None]) = (Inr (), st') \<and>
     (\<exists>r \<in> set (cp_campaigns st'). cg_id r = 1 \<and> cg_status r = ''cancelled'')"
proof -
  have "fst (cancel_campaign ex_csv_ctx ''t1'' 1 (ex_campaigns empty_db [ex_schedule 7 None, ex_schedule 8 None])) = Inr ()"
    by (simp add: cancel_campaign_def cancel_tx_def with_transaction_def ex_campaigns_def Let_def)
  then obtain st' where run:
    "cancel_campaign ex_csv_ctx ''t1'' 1 (ex_campaigns empty_db [ex_schedule 7 None, ex_schedule 8 None]) = (Inr (), st')"
    by (metis prod.collapse)
  from cancel_stops_own_schedules [OF run] run show ?thesis by blast
qed

theorem jobs_stay_idle_witness:
  "jobs_idle (fold (campaign_exec ex_cron) [TickEvent (\<lambda>rows. rows) ex_csv_ctx]
     (ex_campaigns empty_db [ex_schedule 7 None, ex_schedule 8 (Some ''0 8 * * *'')]))"
proof -
  have "jobs_idle (ex_campaigns empty_db [ex_schedule 7 None, ex_schedule 8 (Some ''0 8 * * *'')])"
    by (simp add: jobs_idle_def ex_campaigns_def)
  from jobs_stay_idle [OF ex_campaigns_ok this, where evs = "[TickEvent (\<lambda>rows. rows) ex_csv_ctx]" and cron = ex_cron]
  show ?thesis by (simp add: scans_id)
qed

definition ex_foreign :: schedule_dto where
  "ex_foreign = \<lparr>sd_campaign_id = Some 1, sd_campaign_name = None, sd_start_at = 1763600000000, sd_recurrence_cron = None,
     sd_template_ref = ''promo@1'', sd_sender_id = ''OTHER'', sd_contact_group_id = None, sd_contact_upload_id = Some 4,
     sd_shard_count = None\<rparr>"

definition ex_shared :: campaigns_state where
  "ex_shared = (ex_campaigns empty_db [])\<lparr>cp_contacts := ex_contacts\<lparr>cd_uploads :=
     [\<lparr>cu_id = 4, cu_tenant_id = ''t2'', cu_target_group_id = None, cu_storage_uri = [], cu_original_file_name = ''a.csv'',
       cu_status = ''completed'', cu_total_rows = 1, cu_valid_rows = 1, cu_invalid_rows = 0, cu_metadata = JObj [],
       cu_created_at = 1, cu_completed_at = None\<rparr>]\<rparr>\<rparr>"

theorem foreign_campaign_is_scheduled_witness:
  "\<exists>st' owned. fst (schedule_campaign ex_cron ex_csv_ctx ''t2'' ex_foreign ex_shared) = Inr (1, 9, 1, 1763600000000, ''pending'') \<and>
     cg_tenant_id owned = ''t1'' \<and> (owned, Some (1, ''pending'', 0, 0)) \<in> set (list_campaigns ''t1'' st')"
proof -
  have "\<exists>st'. schedule_campaign ex_cron ex_csv_ctx ''t2'' ex_foreign ex_shared =
      (Inr (1, 9, 1, 1763600000000, ''pending''), st') \<and> cp_campaigns st' = cp_campaigns ex_shared"
    by (simp add: schedule_campaign_def with_transaction_def schedule_tx_def ex_foreign_def ex_shared_def ex_campaigns_def
        find_upload_def compute_next_run_at_def insert_schedule_def insert_job_def new_schedule_def new_job_def
        references_exist_def ex_contacts_def Let_def)
  then obtain st' where run: "schedule_campaign ex_cron ex_csv_ctx ''t2'' ex_foreign ex_shared =
      (Inr (1, 9, 1, 1763600000000, ''pending''), st')" and same: "cp_campaigns st' = cp_campaigns ex_shared" by blast
  let ?g = "hd (cp_campaigns ex_shared)"
  have g: "?g \<in> set (cp_campaigns st')" "cg_id ?g = 1" "cg_tenant_id ?g = ''t1''"
    by (simp_all add: same ex_shared_def ex_campaigns_def)
  have "\<forall>j \<in> set (cp_jobs ex_shared). jb_created_at j < c_now ex_csv_ctx"
    by (simp add: ex_shared_def ex_campaigns_def)
  from foreign_campaign_is_scheduled [OF run this g(1,2)] run g(3) show ?thesis by auto
qed

end
