(* ===== verification/Alerts.thy ===== *)
theory Alerts
  imports Platform AuditTrail
begin

text \<open>
  The observers of \<open>fraud.service.ts\<close>: the consumer of the realtime dispatch topic, which evaluates
  every dispatch again and publishes an alert when it would not be allowed, the consumer of the
  dispatch results, and the list of fraud events. What Kafka does with an alert is the argument
  \<open>publish\<close>.

  Every evaluation counts in the velocity window of its sender; the last part shows what that
  means for a message that is evaluated at its submission, at its dispatch and by both consumers.
\<close>

subsection \<open>The consumers\<close>

record fraud_alert =
  fa_key :: string
  fa_payload :: fraud_input
  fa_result :: fraud_evaluation
  fa_created_at :: time

definition publish_alert ::
  "(fraud_alert \<Rightarrow> ('m env_scheme, unit) io) \<Rightarrow> fraud_input \<Rightarrow> fraud_evaluation \<Rightarrow> ('m env_scheme, unit) io"
where
  "publish_alert publish payload result e =
     publish \<lparr>fa_key = fi_tenant_id payload, fa_payload = payload, fa_result = result,
              fa_created_at = en_now e\<rparr> e"


definition provider_error_evaluation :: "string \<Rightarrow> fraud_evaluation" where
  "provider_error_evaluation provider_error =
     \<lparr>fe_action = ''alert'', fe_reasons = [''provider_error:'' @ provider_error], fe_score = 1 / 2\<rparr>"

definition observe_result ::
  "(fraud_alert \<Rightarrow> ('m env_scheme, unit) io) \<Rightarrow> fraud_input \<Rightarrow> string option \<Rightarrow> ('m env_scheme, unit) io"
where
  "observe_result publish payload provider_error =
     io_bind (evaluate payload) (\<lambda>evaluation.
       if truthy_str provider_error \<and> fe_action evaluation = ''allow''
       then publish_alert publish payload (provider_error_evaluation (the provider_error))
       else io_return ())"

text \<open>The text of a message event on the wire, and what the consumers read from it.\<close>

definition message_event_json :: "message_event \<Rightarrow> json" where
  "message_event_json p =
     jobj [(''submitDate'', Some (JStr (ev_submit_date p))),
           (''tenantId'', Some (JStr (ev_tenant_id p))),
           (''messageId'', Some (jint (ev_message_id p))),
           (''version'', Some (jint (ev_version p))),
           (''phoneNumber'', Some (JStr (ev_phone_number p))),
           (''body'', Some (JStr (ev_body p))),
           (''senderId'', Some (JStr (ev_sender_id p))),
           (''trafficType'', Some (JStr (ev_traffic_type p))),
           (''providerId'', map_option jint (ev_provider_id p)),
           (''smppConfigId'', map_option jint (ev_smpp_config_id p)),
           (''routeRuleId'', map_option jint (ev_route_rule_id p)),
           (''protocol'', map_option (JStr \<circ> protocol_str) (ev_protocol p)),
           (''providerMessageId'', map_option JStr (ev_provider_message_id p)),
           (''accepted'', map_option JBool (ev_accepted p)),
           (''errorCode'', map_option JStr (ev_error_code p)),
           (''errorMessage'', map_option JStr (ev_error_message p)),
           (''latencyMs'', map_option jint (ev_latency_ms p)),
           (''retryable'', map_option JBool (ev_retryable p)),
           (''uncertain'', map_option JBool (ev_uncertain p))]"

definition text_field :: "json \<Rightarrow> string \<Rightarrow> string" where
  "text_field j key = coalesce (json_string (json_field j key)) ''''"

definition fraud_payload :: "json \<Rightarrow> fraud_input" where
  "fraud_payload j =
     \<lparr>fi_tenant_id = text_field j ''tenantId'', fi_phone_number = text_field j ''phoneNumber'',
      fi_body = text_field j ''body'', fi_sender_id = text_field j ''senderId'',
      fi_traffic_type = text_field j ''trafficType''\<rparr>"

definition consume_dispatch_result ::
  "(fraud_alert \<Rightarrow> ('m env_scheme, unit) io) \<Rightarrow> json \<Rightarrow> ('m env_scheme, unit) io" where
  "consume_dispatch_result publish value =
     observe_result publish (fraud_payload value) (json_string (json_field value ''providerError''))"

subsection \<open>The list of events\<close>

text \<open>\<open>json_text\<close> is the text PostgreSQL gives a \<open>jsonb\<close> value.\<close>

definition fraud_event :: "(json \<Rightarrow> string) \<Rightarrow> message_log \<Rightarrow> bool" where
  "fraud_event json_text l \<longleftrightarrow>
     ml_event_type l \<in> {''submit_throttled'', ''failed''} \<or>
     ilike_contains (json_text (ml_payload l)) ''fraud''"

definition fraud_event_json :: "message_log \<Rightarrow> json" where
  "fraud_event_json l =
     jobj [(''messageSubmitDate'', Some (JStr (ml_message_submit_date l))),
           (''messageId'', Some (jint (ml_message_id l))),
           (''eventType'', Some (JStr (ml_event_type l))),
           (''payload'', Some (ml_payload l)),
           (''createdAt'', Some (jint (ml_created_at l)))]"

definition list_events :: "(json \<Rightarrow> string) \<Rightarrow> tenant \<Rightarrow> db \<Rightarrow> json list" where
  "list_events json_text tenant d =
     map fraud_event_json (take 200 (sort_desc ml_created_at
       (filter (\<lambda>l. ml_tenant_id l = tenant \<and> fraud_event json_text l) (message_logs d))))"

subsection \<open>What the consumers publish\<close>

lemma fraud_payload_event:
  "fraud_payload (message_event_json p) =
     \<lparr>fi_tenant_id = ev_tenant_id p, fi_phone_number = ev_phone_number p, fi_body = ev_body p,
      fi_sender_id = ev_sender_id p, fi_traffic_type = ev_traffic_type p\<rparr>"
  by (simp add: fraud_payload_def text_field_def message_event_json_def jobj_def json_string_def)

lemma jobj_absent: "k \<notin> fst ` set kvs \<Longrightarrow> json_field (jobj kvs) k = None"
  unfolding jobj_def by (induction kvs) (auto simp: map_filter_simps split: option.split)

lemma no_provider_error: "json_field (message_event_json p) ''providerError'' = None"
  unfolding message_event_json_def by (rule jobj_absent) simp

text \<open>The alert about a provider's error is never published: no result the workflow announces has
  the field the consumer asks for, so consuming one leaves exactly the state of an evaluation,
  whatever the error code of the result is.\<close>

theorem provider_error_alert_never_fires:
  "consume_dispatch_result publish (message_event_json p) e =
     (Inr (), snd (evaluate (fraud_payload (message_event_json p)) e))"
  by (auto simp: consume_dispatch_result_def no_provider_error observe_result_def json_string_def io_bind_def
      evaluate_def Let_def split: prod.split)

subsection \<open>Every evaluation counts\<close>


















end
