(* ===== verification/Driver.thy ===== *)
theory Driver
  imports Wallet
begin

text \<open>
  What the database driver hands to the code. The services declare every \<open>BIGINT\<close> column as a
  \<open>number\<close>, and the rest of the development reads it as one. \<open>node-postgres\<close> decodes a \<open>BIGINT\<close>
  to a string unless a type parser is registered, and \<open>database.service.ts\<close> registers none. The
  driver is not part of the repository, so its decoding is a parameter here: the balances of
  \<open>applyWalletLedger\<close> are computed with JavaScript's operators on whatever values it gives. With
  numbers they are the ones of the \<open>Wallet\<close> theory; with strings \<open>+\<close> concatenates and \<open><\<close> compares
  character by character.
\<close>

subsection \<open>JavaScript values and operators\<close>

datatype js_value = JsNumber int | JsNaN | JsString string

fun js_to_string :: "js_value \<Rightarrow> string" where
  "js_to_string (JsNumber i) = int_str i"
| "js_to_string JsNaN = ''NaN''"
| "js_to_string (JsString s) = s"

definition str_int :: "string \<Rightarrow> int option" where
  "str_int s =
     (if s \<noteq> [] \<and> list_all is_digit s then Some (int (str_nat s))
      else if starts_with s ''-'' \<and> tl s \<noteq> [] \<and> list_all is_digit (tl s) then Some (- int (str_nat (tl s)))
      else None)"

fun js_to_number :: "js_value \<Rightarrow> int option" where
  "js_to_number (JsNumber i) = Some i"
| "js_to_number JsNaN = None"
| "js_to_number (JsString s) = str_int s"

fun js_plus :: "js_value \<Rightarrow> js_value \<Rightarrow> js_value" where
  "js_plus (JsString s) b = JsString (s @ js_to_string b)"
| "js_plus a (JsString t) = JsString (js_to_string a @ t)"
| "js_plus (JsNumber i) (JsNumber j) = JsNumber (i + j)"
| "js_plus a b = JsNaN"

definition js_minus :: "js_value \<Rightarrow> js_value \<Rightarrow> js_value" where
  "js_minus a b =
     (case (js_to_number a, js_to_number b) of (Some i, Some j) \<Rightarrow> JsNumber (i - j) | _ \<Rightarrow> JsNaN)"

fun str_less :: "string \<Rightarrow> string \<Rightarrow> bool" where
  "str_less s [] = False"
| "str_less [] (d # t) = True"
| "str_less (c # s) (d # t) = ((of_char c :: nat) < of_char d \<or> c = d \<and> str_less s t)"

fun js_less :: "js_value \<Rightarrow> js_value \<Rightarrow> bool" where
  "js_less (JsString s) (JsString t) = str_less s t"
| "js_less a b =
     (case (js_to_number a, js_to_number b) of (Some i, Some j) \<Rightarrow> i < j | _ \<Rightarrow> False)"

text \<open>A value bound to a \<open>BIGINT\<close> parameter: PostgreSQL parses its text, or refuses it.\<close>

definition int8_parameter :: "js_value \<Rightarrow> int result" where
  "int8_parameter v =
     (case js_to_number v of
        Some i \<Rightarrow> Inr i
      | None \<Rightarrow> Inl (DatabaseError ''invalid input syntax for type bigint''))"

subsection \<open>The balances of a posting\<close>

definition ledger_balances_js ::
  "(int \<Rightarrow> js_value) \<Rightarrow> wallet_row \<Rightarrow> js_value \<Rightarrow> billing_operation \<Rightarrow> (int \<times> int) result" where
  "ledger_balances_js decode wallet amount operation =
     (let available = decode (wl_available_balance_minor wallet);
          reserved = decode (wl_reserved_balance_minor wallet);
          credit = decode (wl_credit_limit_minor wallet);
          store = (\<lambda>a r. and_then (int8_parameter a) (\<lambda>x. and_then (int8_parameter r) (\<lambda>y. Inr (x, y))))
      in case operation of
        Reserve \<Rightarrow>
          if js_less (js_plus available credit) amount
          then Inl (ForbiddenException ''Insufficient wallet balance'')
          else store (js_minus available amount) (js_plus reserved amount)
      | Debit \<Rightarrow>
          if js_less reserved amount
          then Inl (ConflictException ''Reserved wallet balance is insufficient for debit'')
          else store available (js_minus reserved amount)
      | Release \<Rightarrow>
          if js_less reserved amount
          then Inl (ConflictException ''Reserved wallet balance is insufficient for release'')
          else store (js_plus available amount) (js_minus reserved amount))"

text \<open>When the driver decodes \<open>BIGINT\<close> to numbers, the balances the code computes are those of the
  wallet model, errors included.\<close>

theorem numeric_driver_agrees:
  "ledger_balances_js JsNumber wallet (JsNumber amount) operation =
     ledger_balances wallet amount operation"
  by (cases operation)
    (simp_all add: ledger_balances_js_def ledger_balances_def js_minus_def int8_parameter_def)

subsection \<open>With strings\<close>

definition text_driver :: "int \<Rightarrow> js_value" where
  "text_driver i = JsString (int_str i)"

lemma str_nat_append: "str_nat (s @ t) = str_nat s * 10 ^ length t + str_nat t"
proof (induction t rule: rev_induct)
  case (snoc c t)
  then show ?case by (simp add: str_nat_def flip: append_assoc)
qed (simp add: str_nat_def)

lemma nat_str_digits: "list_all is_digit (nat_str n) \<and> nat_str n \<noteq> []"
proof (induction n rule: nat_str.induct)
  case (1 n)
  have "d < 10 \<Longrightarrow> is_digit (digit_char d)" for d
    by (simp add: is_digit_def digit_char_eq_iff) arith
  with 1 show ?case by (subst (1 2) nat_str.simps) auto
qed

lemma is_digit_not_minus: "list_all is_digit s \<Longrightarrow> s \<noteq> [] \<Longrightarrow> \<not> starts_with s ''-''"
  by (cases s) (auto simp: is_digit_def)

lemma str_int_nat_str: "str_int (nat_str n) = Some (int n)"
  by (simp add: str_int_def nat_str_digits str_nat_nat_str)

lemma str_int_concat: "str_int (nat_str m @ nat_str n) = Some (int m * 10 ^ length (nat_str n) + int n)"
  using nat_str_digits [of m] nat_str_digits [of n]
  by (simp add: str_int_def str_nat_append str_nat_nat_str)

lemma text_driver_nat: "0 \<le> i \<Longrightarrow> text_driver i = JsString (nat_str (nat i))"
  by (simp add: text_driver_def int_str_def)
text \<open>C17: with the driver's default decoding of \<open>BIGINT\<close> to strings, a reservation on a wallet with a
  reserved balance appends the digits of the amount to it instead of adding the amount, so more is
  reserved than was taken from the available balance, and the credit check passes for an available
  balance with the digits of the credit line appended.\<close>

theorem text_driver_concatenates:
  assumes "0 \<le> wl_available_balance_minor wallet" and "0 \<le> wl_credit_limit_minor wallet"
    and "0 < wl_reserved_balance_minor wallet" and "0 < amount"
  shows "(case ledger_balances_js text_driver wallet (JsNumber amount) Reserve of
      Inl _ \<Rightarrow> wl_available_balance_minor wallet * 10 ^ length (int_str (wl_credit_limit_minor wallet)) +
          wl_credit_limit_minor wallet < amount
    | Inr (available, reserved) \<Rightarrow>
        available = wl_available_balance_minor wallet - amount \<and>
        reserved = wl_reserved_balance_minor wallet * 10 ^ length (int_str amount) + amount \<and>
        wl_available_balance_minor wallet + wl_reserved_balance_minor wallet < available + reserved)"
proof -
  obtain a c r n where ints: "wl_available_balance_minor wallet = int a" "wl_credit_limit_minor wallet = int c"
    "wl_reserved_balance_minor wallet = int r" "amount = int n"
    using assms by (metis zero_le_imp_eq_int less_imp_le)
  have len: "(10::int) \<le> 10 ^ length (nat_str n)"
    using nat_str_digits [of n] self_le_power [of "10::int" "length (nat_str n)"] by simp
  have "int r * 10 \<le> int r * 10 ^ length (nat_str n)"
    by (intro mult_left_mono len) simp
  moreover have "0 < int r" using assms(3) ints by simp
  ultimately have "int r < int r * 10 ^ length (nat_str n)" by linarith
  then show ?thesis
    by (simp add: ints ledger_balances_js_def text_driver_def int_str_def js_minus_def int8_parameter_def
        str_int_nat_str str_int_concat)
qed

definition ex_text_wallet :: wallet_row where
  "ex_text_wallet =
     \<lparr>wl_id = 1, wl_tenant_id = ''ten1'', wl_currency = ''ETB'', wl_available_balance_minor = 1000,
      wl_reserved_balance_minor = 50, wl_credit_limit_minor = 0, wl_low_balance_threshold_minor = 0,
      wl_version = 0, wl_updated_at = 0\<rparr>"

theorem text_driver_concatenates_witness:
  "ledger_balances_js text_driver ex_text_wallet (JsNumber 25) Reserve = Inr (975, 5025)"
proof -
  have "length (int_str 25) = 2" "length (int_str 0) = 1"
    by (simp_all add: int_str_def nat_str.simps)
  with text_driver_concatenates [of ex_text_wallet 25] show ?thesis
    by (auto simp: ex_text_wallet_def split: sum.splits prod.splits)
qed

end
