(* ===== verification/Reports.thy ===== *)
theory Reports
  imports Campaigns Alerts Driver
begin

text \<open>
  The two views over the tables of all services that a user sees first: the global search
  (\<open>search.service.ts\<close>) and the notifications (\<open>notifications.service.ts\<close>). Both resolve the
  tenant of the request and add what only the operators of the platform see. The text of a time
  and of a \<open>jsonb\<close> value are arguments.
\<close>

subsection \<open>The tables\<close>

record report_tables =
  rt_campaigns :: campaigns_state \<comment> \<open>with the message tables and the tenants\<close>
  rt_senders :: sender_db
  rt_api_keys :: "api_key_row list"
  rt_env :: env

abbreviation rt_db :: "report_tables \<Rightarrow> db" where
  "rt_db t \<equiv> cp_db (rt_campaigns t)"

definition dot :: string where
  "dot = [CHR '' '', CHR 0xB7, CHR '' '']"

definition id_is :: "int \<Rightarrow> string \<Rightarrow> bool" where
  "id_is i q \<longleftrightarrow> int_str i = q"

subsection \<open>Search\<close>

record search_item =
  si_id :: string
  si_entity_type :: string
  si_title :: string
  si_subtitle :: string
  si_href :: "string option"
  si_tenant_id :: "tenant option"
  si_switch_tenant :: "tenant option"

definition message_item :: "message_row \<Rightarrow> search_item" where
  "message_item r =
     \<lparr>si_id = ''message:'' @ m_submit_date r @ '':'' @ m_tenant_id r @ '':'' @ int_str (m_id r),
      si_entity_type = ''message'',
      si_title = ''Message #'' @ int_str (m_id r),
      si_subtitle = m_phone_number r @ dot @ status_str (m_status r) @
        (if truthy_str (m_provider_message_id r) then dot @ the (m_provider_message_id r) else ''''),
      si_href = Some (''/messages/'' @ m_submit_date r @ ''/'' @ m_tenant_id r @ ''/'' @ int_str (m_id r)),
      si_tenant_id = Some (m_tenant_id r), si_switch_tenant = None\<rparr>"

definition search_messages :: "tenant \<Rightarrow> string \<Rightarrow> nat \<Rightarrow> report_tables \<Rightarrow> search_item list" where
  "search_messages tenant q limit t =
     map message_item (take limit (sort_desc m_accepted_at
       (filter (\<lambda>r. m_tenant_id r = tenant \<and>
          (id_is (m_id r) q \<or>
           (case m_provider_message_id r of None \<Rightarrow> False | Some p \<Rightarrow> ilike_contains p q) \<or>
           ilike_contains (m_phone_number r) q)) (messages (rt_db t)))))"

definition search_campaigns ::
  "(time \<Rightarrow> string) \<Rightarrow> tenant \<Rightarrow> string \<Rightarrow> nat \<Rightarrow> report_tables \<Rightarrow> search_item list" where
  "search_campaigns time_text tenant q limit t =
     map (\<lambda>r. \<lparr>si_id = ''campaign:'' @ int_str (cg_id r), si_entity_type = ''campaign'',
               si_title = cg_name r,
               si_subtitle = cg_status r @
                 (case cg_scheduled_at r of None \<Rightarrow> '''' | Some s \<Rightarrow> dot @ time_text s),
               si_href = Some (''/campaigns/'' @ int_str (cg_id r)), si_tenant_id = Some tenant,
               si_switch_tenant = None\<rparr>)
       (take limit (sort_desc cg_created_at
         (filter (\<lambda>r. cg_tenant_id r = tenant \<and> (id_is (cg_id r) q \<or> ilike_contains (cg_name r) q))
           (cp_campaigns (rt_campaigns t)))))"

definition search_sender_ids :: "tenant \<Rightarrow> string \<Rightarrow> nat \<Rightarrow> report_tables \<Rightarrow> search_item list" where
  "search_sender_ids tenant q limit t =
     map (\<lambda>r. \<lparr>si_id = ''sender:'' @ int_str (sd_id r), si_entity_type = ''sender_id'',
               si_title = sd_sender_name r,
               si_subtitle = sd_status r @ dot @ ''provider #'' @ int_str (sd_provider_id r),
               si_href = Some ''/sender-ids'', si_tenant_id = Some tenant, si_switch_tenant = None\<rparr>)
       (take limit (sort_desc sd_created_at
         (filter (\<lambda>r. sd_tenant_id r = tenant \<and> (id_is (sd_id r) q \<or> ilike_contains (sd_sender_name r) q))
           (sender_rows (rt_senders t)))))"

definition search_api_keys ::
  "jwt_claims \<Rightarrow> tenant \<Rightarrow> string \<Rightarrow> nat \<Rightarrow> report_tables \<Rightarrow> search_item list" where
  "search_api_keys user tenant q limit t =
     (if jc_role user \<notin> {''owner'', ''admin'', ''developer''} then []
      else
        map (\<lambda>r. \<lparr>si_id = ''api-key:'' @ ak_id r, si_entity_type = ''api_key'', si_title = ak_name r,
                  si_subtitle = ak_key_prefix r @ dot @ (if ak_is_active r then ''active'' else ''inactive''),
                  si_href = Some ''/developer/api-keys'', si_tenant_id = Some tenant,
                  si_switch_tenant = None\<rparr>)
          (take limit (sort_desc ak_created_at
            (filter (\<lambda>r. ak_tenant_id r = tenant \<and>
               (ilike_contains (ak_name r) q \<or> ilike_contains (ak_key_prefix r) q)) (rt_api_keys t)))))"

definition search_providers :: "jwt_claims \<Rightarrow> string \<Rightarrow> nat \<Rightarrow> report_tables \<Rightarrow> search_item list" where
  "search_providers user q limit t =
     (if jc_role user \<notin> {''admin'', ''support''} then []
      else
        map (\<lambda>r. \<lparr>si_id = ''provider:'' @ int_str (pp_id r), si_entity_type = ''provider'',
                  si_title = pp_name r, si_subtitle = pp_code r @ dot @ pp_health_status r,
                  si_href = Some (''/admin/providers/'' @ int_str (pp_id r)), si_tenant_id = None,
                  si_switch_tenant = None\<rparr>)
          (take limit (sort_key pv_priority (sort_key pp_id
            (filter (\<lambda>r. ilike_contains (pp_name r) q \<or> ilike_contains (pp_code r) q \<or> id_is (pp_id r) q)
              (en_providers (rt_env t)))))))"

definition search_tenants :: "jwt_claims \<Rightarrow> string \<Rightarrow> nat \<Rightarrow> report_tables \<Rightarrow> search_item list" where
  "search_tenants user q limit t =
     (if \<not> can_use_cross_tenant_scope user then []
      else
        map (\<lambda>r. \<lparr>si_id = ''tenant:'' @ ta_id r, si_entity_type = ''tenant'', si_title = ta_name r,
                  si_subtitle = ta_code r @ dot @ ta_timezone r, si_href = None, si_tenant_id = None,
                  si_switch_tenant = Some (ta_id r)\<rparr>)
          (take limit (sort_key (\<lambda>r. map of_char (ta_name r) :: nat list)
            (filter (\<lambda>r. ta_status r = ''active'' \<and>
               (ilike_contains (ta_name r) q \<or> ilike_contains (ta_code r) q \<or> ta_id r = q))
              (cp_tenants (rt_campaigns t))))))"

record search_group =
  sg_type :: string
  sg_label :: string
  sg_items :: "search_item list"

definition global_search ::
  "(time \<Rightarrow> string) \<Rightarrow> jwt_claims \<Rightarrow> string \<Rightarrow> tenant option \<Rightarrow> nat \<Rightarrow> report_tables \<Rightarrow>
   search_group list result" where
  "global_search time_text user query requested limit t =
     (let q = trim query in
      if length q < 2 then Inr []
      else
        and_then (resolve_tenant_scope user requested) (\<lambda>tenant.
          Inr (filter (\<lambda>g. sg_items g \<noteq> [])
            [\<lparr>sg_type = ''messages'', sg_label = ''Messages'', sg_items = search_messages tenant q limit t\<rparr>,
             \<lparr>sg_type = ''campaigns'', sg_label = ''Campaigns'',
              sg_items = search_campaigns time_text tenant q limit t\<rparr>,
             \<lparr>sg_type = ''sender_ids'', sg_label = ''Sender IDs'', sg_items = search_sender_ids tenant q limit t\<rparr>,
             \<lparr>sg_type = ''api_keys'', sg_label = ''API keys'', sg_items = search_api_keys user tenant q limit t\<rparr>,
             \<lparr>sg_type = ''providers'', sg_label = ''Providers'', sg_items = search_providers user q limit t\<rparr>,
             \<lparr>sg_type = ''tenants'', sg_label = ''Tenants'', sg_items = search_tenants user q limit t\<rparr>])))"

subsection \<open>Notifications\<close>

record notification =
  no_id :: string
  no_severity :: string
  no_title :: string
  no_details :: string
  no_created_at :: time
  no_href :: string
  no_category :: string
  no_tenant_id :: "tenant option"

definition low_balance_notice :: "tenant \<Rightarrow> wallet_row list \<Rightarrow> notification list" where
  "low_balance_notice tenant rows =
     (case first_row (filter (\<lambda>w. wl_tenant_id w = tenant) rows) of
        None \<Rightarrow> []
      | Some w \<Rightarrow>
          if wl_available_balance_minor w \<le> wl_low_balance_threshold_minor w
          then [\<lparr>no_id = ''wallet-low-balance:'' @ tenant, no_severity = ''critical'',
                 no_title = ''Wallet balance is below threshold'',
                 no_details = ''Available balance has fallen below the configured low-balance threshold for this tenant.'',
                 no_created_at = wl_updated_at w, no_href = ''/wallet'', no_category = ''wallet'',
                 no_tenant_id = Some tenant\<rparr>]
          else [])"

definition rejection_notices :: "tenant \<Rightarrow> sender_row list \<Rightarrow> notification list" where
  "rejection_notices tenant senders =
     map (\<lambda>r. \<lparr>no_id = ''sender-rejected:'' @ int_str (sd_id r), no_severity = ''warning'',
               no_title = ''Sender '' @ sd_sender_name r @ '' was rejected'',
               no_details = coalesce (sd_rejection_reason r) ''Rejected during provider review.'',
               no_created_at = sd_updated_at r, no_href = ''/sender-ids'', no_category = ''sender_ids'',
               no_tenant_id = Some tenant\<rparr>)
       (take 10 (sort_desc sd_updated_at
         (filter (\<lambda>r. sd_tenant_id r = tenant \<and> sd_status r = ''rejected'') senders)))"

definition job_changed_at :: "job_row \<Rightarrow> time" where
  "job_changed_at r = coalesce (jb_completed_at r) (coalesce (jb_started_at r) (jb_created_at r))"

definition failed_job_notices :: "tenant \<Rightarrow> job_row list \<Rightarrow> notification list" where
  "failed_job_notices tenant jobs =
     map (\<lambda>r. \<lparr>no_id = ''campaign-job-failed:'' @ int_str (jb_id r), no_severity = ''critical'',
               no_title = ''Campaign job #'' @ int_str (jb_id r) @ '' failed'',
               no_details = coalesce (jb_last_error r)
                 (''Campaign '' @ int_str (jb_campaign_id r) @ '' has a failed job that needs review.''),
               no_created_at = job_changed_at r, no_href = ''/campaigns/'' @ int_str (jb_campaign_id r),
               no_category = ''campaigns'', no_tenant_id = Some tenant\<rparr>)
       (take 10 (sort_desc job_changed_at
         (filter (\<lambda>r. jb_tenant_id r = tenant \<and> jb_status r = ''failed'') jobs)))"

definition fraud_notices ::
  "(time \<Rightarrow> string) \<Rightarrow> (json \<Rightarrow> string) \<Rightarrow> tenant \<Rightarrow> message_log list \<Rightarrow> notification list" where
  "fraud_notices time_text json_text tenant logs =
     map (\<lambda>l. \<lparr>no_id = ''fraud-event:'' @ int_str (ml_message_id l) @ '':'' @ time_text (ml_created_at l),
               no_severity = ''warning'',
               no_title = ''Policy or fraud event on message #'' @ int_str (ml_message_id l),
               no_details = ''Recent '' @ ml_event_type l @ '' activity requires review.'',
               no_created_at = ml_created_at l, no_href = ''/compliance'', no_category = ''fraud'',
               no_tenant_id = Some tenant\<rparr>)
       (take 10 (sort_desc ml_created_at
         (filter (\<lambda>l. ml_tenant_id l = tenant \<and> fraud_event json_text l) logs)))"

text \<open>What only the roles of the platform see: the health of the providers and the backlogs.\<close>

definition hours :: "int \<Rightarrow> int" where
  "hours n = n * 3600000"

definition unhealthy :: "time \<Rightarrow> health_log \<Rightarrow> bool" where
  "unhealthy since l \<longleftrightarrow> hl_status l \<in> {''degraded'', ''down''} \<and> since \<le> hl_recorded_at l"

definition provider_notices :: "(time \<Rightarrow> string) \<Rightarrow> time \<Rightarrow> health_log list \<Rightarrow> notification list" where
  "provider_notices time_text now logs =
     map (\<lambda>l. \<lparr>no_id = ''provider-health:'' @ int_str (hl_provider_id l) @ '':'' @ time_text (hl_recorded_at l),
               no_severity = (if hl_status l = ''down'' then ''critical'' else ''warning''),
               no_title = ''Provider #'' @ int_str (hl_provider_id l) @ '' is '' @ hl_status l,
               no_details = ''Provider health telemetry reported '' @ hl_status l @ '' status.'',
               no_created_at = hl_recorded_at l, no_href = ''/admin/providers/'' @ int_str (hl_provider_id l),
               no_category = ''providers'', no_tenant_id = None\<rparr>)
       (take 10 (sort_desc hl_recorded_at (filter (unhealthy (now - hours 12)) logs)))"

definition count_rows :: "('r \<Rightarrow> bool) \<Rightarrow> 'r list \<Rightarrow> int" where
  "count_rows cond rows = int (length (filter cond rows))"

definition in_backlog :: "outbox_row \<Rightarrow> bool" where
  "in_backlog r \<longleftrightarrow> ob_status r \<in> {''pending'', ''publishing''}"

definition backlog_notice :: "time \<Rightarrow> string \<Rightarrow> string \<Rightarrow> int \<Rightarrow> string \<Rightarrow> string \<Rightarrow> notification list" where
  "backlog_notice now i severity n title what =
     (if 0 < n
      then [\<lparr>no_id = i, no_severity = severity, no_title = title, no_details = int_str n @ what,
             no_created_at = now, no_href = ''/ops/console'', no_category = ''operations'',
             no_tenant_id = None\<rparr>]
      else [])"

definition operations_notices :: "time \<Rightarrow> db \<Rightarrow> notification list" where
  "operations_notices now d =
     (let dlr = count_rows (\<lambda>w. \<not> wh_processed w) (dlr_webhooks d) in
      backlog_notice now ''ops-dlr-backlog'' (if 100 < dlr then ''critical'' else ''warning'') dlr
        ''DLR backlog detected'' '' delivery callbacks are waiting to be processed.'' @
      backlog_notice now ''ops-retry-backlog'' ''warning'' (count_rows in_backlog (outbox_events d))
        ''Retry backlog detected'' '' pending outbox or retry events are waiting to be published.'' @
      backlog_notice now ''ops-reconciliation-backlog'' ''warning''
        (count_rows (\<lambda>r. rc_status r = ''pending'') (reconciliation_events d))
        ''Reconciliation backlog detected'' '' unmatched or uncertain events need reconciliation.'')"

definition tenant_notices ::
  "(time \<Rightarrow> string) \<Rightarrow> (json \<Rightarrow> string) \<Rightarrow> tenant \<Rightarrow> report_tables \<Rightarrow> notification list" where
  "tenant_notices time_text json_text tenant t =
     low_balance_notice tenant (wallets (rt_db t)) @
     rejection_notices tenant (sender_rows (rt_senders t)) @
     failed_job_notices tenant (cp_jobs (rt_campaigns t)) @
     fraud_notices time_text json_text tenant (message_logs (rt_db t))"

definition platform_notices :: "(time \<Rightarrow> string) \<Rightarrow> jwt_claims \<Rightarrow> report_tables \<Rightarrow> notification list" where
  "platform_notices time_text user t =
     (if can_use_cross_tenant_scope user
      then provider_notices time_text (en_now (rt_env t)) (en_health_logs (rt_env t)) @
           operations_notices (en_now (rt_env t)) (rt_db t)
      else [])"

definition notifications ::
  "(time \<Rightarrow> string) \<Rightarrow> (json \<Rightarrow> string) \<Rightarrow> jwt_claims \<Rightarrow> tenant option \<Rightarrow> nat \<Rightarrow> report_tables \<Rightarrow>
   notification list result" where
  "notifications time_text json_text user requested limit t =
     and_then (resolve_tenant_scope user requested) (\<lambda>tenant.
       Inr (take limit (sort_desc no_created_at
         (tenant_notices time_text json_text tenant t @ platform_notices time_text user t))))"

subsection \<open>The low balance with the driver's text\<close>

text \<open>The comparison of the low-balance notice on what the database driver returns (theory \<open>Driver\<close>).\<close>

fun js_less_equal :: "js_value \<Rightarrow> js_value \<Rightarrow> bool" where
  "js_less_equal (JsString s) (JsString t) = (\<not> str_less t s)"
| "js_less_equal a b =
     (case (js_to_number a, js_to_number b) of (Some i, Some j) \<Rightarrow> i \<le> j | _ \<Rightarrow> False)"

definition low_balance_js :: "(int \<Rightarrow> js_value) \<Rightarrow> wallet_row \<Rightarrow> bool" where
  "low_balance_js decode w \<longleftrightarrow>
     js_less_equal (decode (wl_available_balance_minor w)) (decode (wl_low_balance_threshold_minor w))"

lemma low_balance_numeric:
  "low_balance_js JsNumber w \<longleftrightarrow> low_balance_notice (wl_tenant_id w) [w] \<noteq> []"
  by (simp add: low_balance_js_def low_balance_notice_def)

text \<open>Text is compared digit by digit: 900 is not below 10000, so an almost empty wallet raises no notice.\<close>

lemma low_balance_text_missed:
  assumes "wl_available_balance_minor w = 900" and "wl_low_balance_threshold_minor w = 10000"
  shows "\<not> low_balance_js text_driver w" "low_balance_notice (wl_tenant_id w) [w] \<noteq> []"
proof -
  have "\<exists>s. int_str 900 = digit_char 9 # s" "\<exists>s. int_str 10000 = digit_char 1 # s"
    by (simp_all add: int_str_def nat_str.simps)
  then show "\<not> low_balance_js text_driver w" by (auto simp: low_balance_js_def assms text_driver_def of_char_digit_char)
  show "low_balance_notice (wl_tenant_id w) [w] \<noteq> []" by (simp add: low_balance_notice_def assms)
qed

end
