(* ===== verification/Figures.thy ===== *)
theory Figures
  imports Reports
begin

text \<open>
  The services that only read: the dashboard of a tenant (\<open>dashboard/dashboard.service.ts\<close>), the
  analytics (\<open>analytics/analytics.service.ts\<close>) and the overview for the operators
  (\<open>operations/operations.service.ts\<close>). The aggregates of their queries come first: groups, averages
  that skip \<open>NULL\<close>, and the continuous percentile, with what they preserve. Fractions are exact
  rationals; \<open>day_start\<close> is the begin of a day in the time zone of the database session.
\<close>

subsection \<open>Aggregates\<close>

definition group_by :: "('k \<Rightarrow> 'o::linorder) \<Rightarrow> ('r \<Rightarrow> 'k) \<Rightarrow> 'r list \<Rightarrow> ('k \<times> 'r list) list" where
  "group_by order key rows =
     map (\<lambda>k. (k, filter (\<lambda>r. key r = k) rows)) (sort_key order (remdups (map key rows)))"

definition sql_avg :: "('r \<Rightarrow> rat option) \<Rightarrow> 'r list \<Rightarrow> rat option" where
  "sql_avg f rows =
     (case List.map_filter f rows of [] \<Rightarrow> None | vs \<Rightarrow> Some (sum_list vs / of_nat (length vs)))"

definition percentile_cont :: "rat \<Rightarrow> rat list \<Rightarrow> rat option" where
  "percentile_cont p xs =
     (if xs = [] then None
      else
        let vs = sort xs; place = p * of_nat (length xs - 1);
            lo = vs ! nat \<lfloor>place\<rfloor>; hi = vs ! nat \<lceil>place\<rceil>
        in Some (lo + (place - of_int \<lfloor>place\<rfloor>) * (hi - lo)))"

definition text_key :: "string \<Rightarrow> nat list" where
  "text_key s = map of_char s"

definition rate :: "int \<Rightarrow> int \<Rightarrow> rat" where
  "rate part whole = (if whole = 0 then 0 else of_int part / of_int whole)"

lemma sum_no_key:
  fixes v :: "'v::comm_monoid_add"
  shows "k \<notin> set ks \<Longrightarrow> (\<Sum>x\<leftarrow>ks. if k = x then v else 0) = 0"
  by (induction ks) auto

lemma sum_over_keys:
  fixes f :: "'r \<Rightarrow> 'v::comm_monoid_add"
  assumes "distinct ks" and "set (map key rows) \<subseteq> set ks"
  shows "(\<Sum>k\<leftarrow>ks. sum_list (map f (filter (\<lambda>r. key r = k) rows))) = sum_list (map f rows)"
  using assms
proof (induction rows)
  case Nil
  then show ?case by (simp add: sum_list_0)
next
  case (Cons r rows)
  then have k: "key r \<in> set ks" by simp
  have "(\<Sum>k\<leftarrow>ks. if key r = k then f r else 0) = f r"
    using \<open>distinct ks\<close> k by (induction ks) (auto simp: sum_no_key)
  moreover have "(\<Sum>k\<leftarrow>ks. sum_list (map f (filter (\<lambda>q. key q = k) (r # rows)))) =
      (\<Sum>k\<leftarrow>ks. (if key r = k then f r else 0) + sum_list (map f (filter (\<lambda>q. key q = k) rows)))"
    by (rule arg_cong [of _ _ sum_list]) simp
  ultimately show ?case using Cons by (simp add: sum_list_addf)
qed

lemma sum_over_groups:
  fixes f :: "'r \<Rightarrow> 'v::comm_monoid_add"
  shows "(\<Sum>(k, g)\<leftarrow>group_by order key rows. sum_list (map f g)) = sum_list (map f rows)"
proof -
  let ?ks = "sort_key order (remdups (map key rows))"
  have "(\<Sum>(k, g)\<leftarrow>group_by order key rows. sum_list (map f g)) =
      (\<Sum>k\<leftarrow>?ks. sum_list (map f (filter (\<lambda>r. key r = k) rows)))"
    by (simp add: group_by_def comp_def)
  also have "\<dots> = sum_list (map f rows)" by (rule sum_over_keys) (auto simp: distinct_sort)
  finally show ?thesis .
qed

lemma count_rows_sum: "count_rows cond rows = (\<Sum>r\<leftarrow>rows. if cond r then 1 else 0)"
  by (induction rows) (simp_all add: count_rows_def)

lemma count_rows_le: "(\<And>r. r \<in> set rows \<Longrightarrow> cond r \<Longrightarrow> cond' r) \<Longrightarrow> count_rows cond rows \<le> count_rows cond' rows"
  unfolding count_rows_def by (induction rows) auto

lemma count_rows_nonneg [simp]: "0 \<le> count_rows cond rows"
  by (simp add: count_rows_def)

lemma count_over_groups:
  "(\<Sum>(k, g)\<leftarrow>group_by order key rows. count_rows cond g) = count_rows cond rows"
  unfolding count_rows_sum by (rule sum_over_groups)

lemma rate_in_unit: "0 \<le> part \<Longrightarrow> part \<le> whole \<Longrightarrow> 0 \<le> rate part whole \<and> rate part whole \<le> 1"
  by (auto simp: rate_def divide_le_eq)

subsection \<open>The dashboard of a tenant\<close>

record provider_figures =
  pf_provider_id :: int
  pf_latest_status :: string
  pf_avg_latency_ms :: rat
  pf_avg_error_rate :: rat

definition figures_of :: "int \<times> health_log list \<Rightarrow> provider_figures" where
  "figures_of = (\<lambda>(p, logs).
     \<lparr>pf_provider_id = p,
      pf_latest_status = (case first_row (sort_desc hl_recorded_at logs) of Some l \<Rightarrow> hl_status l | None \<Rightarrow> ''''),
      pf_avg_latency_ms = coalesce (sql_avg (\<lambda>l. map_option of_int (hl_latency_ms l)) logs) 0,
      pf_avg_error_rate = coalesce (sql_avg hl_error_rate logs) 0\<rparr>)"

definition provider_summary :: "health_log list \<Rightarrow> provider_figures list" where
  "provider_summary logs = map figures_of (group_by id hl_provider_id logs)"

text \<open>The inner join of the health logs with the tenant's messages: one row per pair.\<close>

definition joined_logs :: "message_row list \<Rightarrow> health_log list \<Rightarrow> health_log list" where
  "joined_logs rows logs =
     concat (map (\<lambda>l. map (\<lambda>_. l) (filter (\<lambda>m. m_provider_id m = Some (hl_provider_id l)) rows)) logs)"

definition tenant_providers :: "time \<Rightarrow> tenant \<Rightarrow> message_row list \<Rightarrow> health_log list \<Rightarrow> provider_figures list" where
  "tenant_providers now tenant rows logs =
     provider_summary (joined_logs
       (filter (\<lambda>m. m_tenant_id m = tenant \<and> now - 7 * day_ms \<le> m_accepted_at m) rows)
       (filter (\<lambda>l. now - hours 24 \<le> hl_recorded_at l) logs))"


definition since :: "time \<Rightarrow> time option \<Rightarrow> bool" where
  "since t at_time \<longleftrightarrow> (case at_time of None \<Rightarrow> False | Some x \<Rightarrow> t \<le> x)"



definition job_running :: "job_row \<Rightarrow> bool" where
  "job_running j \<longleftrightarrow> jb_status j \<in> {''queued'', ''running'', ''expanding''}"


record trend_day =
  td_date :: time
  td_accepted_total :: int
  td_delivered_total :: int
  td_delivery_rate :: rat
  td_spend_minor :: int
  td_cost_minor :: int

definition trend_of :: "(time \<Rightarrow> time) \<Rightarrow> time \<Rightarrow> message_row list \<Rightarrow> trend_day list" where
  "trend_of day_start now rows =
     map (\<lambda>(date, g).
       \<lparr>td_date = date,
        td_accepted_total = int (length g),
        td_delivered_total = count_rows (\<lambda>m. m_status m = Delivered) g,
        td_delivery_rate = rate (count_rows (\<lambda>m. m_status m = Delivered) g) (int (length g)),
        td_spend_minor = sum_list (map m_price_minor g),
        td_cost_minor = sum_list (map m_cost_minor g)\<rparr>)
       (group_by id (day_start \<circ> m_accepted_at)
         (filter (\<lambda>m. now - 7 * day_ms \<le> m_accepted_at m) rows))"






subsection \<open>Analytics\<close>

record sms_summary =
  su_accepted_total :: int
  su_delivered_total :: int
  su_failed_total :: int
  su_provider_accepted_total :: int
  su_delivery_rate :: rat
  su_p95_latency_seconds :: rat

definition in_window :: "time \<Rightarrow> time option \<Rightarrow> time option \<Rightarrow> time \<Rightarrow> bool" where
  "in_window now from_at to_at t \<longleftrightarrow> coalesce from_at (now - hours 24) \<le> t \<and> t \<le> coalesce to_at now"

definition settled_after :: "time \<Rightarrow> message_row \<Rightarrow> rat" where
  "settled_after now m =
     of_int (coalesce (m_delivered_at m) (coalesce (m_failed_at m) now) - m_accepted_at m) / 1000"

definition get_sms_summary ::
  "time \<Rightarrow> tenant \<Rightarrow> time option \<Rightarrow> time option \<Rightarrow> message_row list \<Rightarrow> sms_summary" where
  "get_sms_summary now tenant from_at to_at all_rows =
     (let rows = filter (\<lambda>m. m_tenant_id m = tenant \<and> in_window now from_at to_at (m_accepted_at m)) all_rows;
          accepted = int (length rows);
          delivered = count_rows (\<lambda>m. m_status m = Delivered) rows
      in \<lparr>su_accepted_total = accepted, su_delivered_total = delivered,
          su_failed_total = count_rows (\<lambda>m. m_status m = Failed) rows,
          su_provider_accepted_total = count_rows (\<lambda>m. m_status m = ProviderAccepted) rows,
          su_delivery_rate = rate delivered accepted,
          su_p95_latency_seconds =
            coalesce (percentile_cont (95 / 100) (map (settled_after now) rows)) 0\<rparr>)"

definition get_provider_health ::
  "time \<Rightarrow> time option \<Rightarrow> time option \<Rightarrow> health_log list \<Rightarrow> provider_figures list" where
  "get_provider_health now from_at to_at logs =
     provider_summary (filter (\<lambda>l. in_window now from_at to_at (hl_recorded_at l)) logs)"

subsection \<open>The overview for the operators\<close>

record operations_overview =
  oo_queues :: "(string \<times> int \<times> int) list" \<comment> \<open>topic, backlog, failed\<close>
  oo_providers :: "(provider_figures \<times> string) list" \<comment> \<open>with the stored circuit state\<close>
  oo_dlr_backlog :: "int \<times> time option"
  oo_reconciliation_backlog :: int
  oo_campaign_jobs :: "int \<times> int"
  oo_recent_outages :: "health_log list"
  oo_tenant_anomalies :: "(tenant \<times> int) list"

definition queues_of :: "time \<Rightarrow> outbox_row list \<Rightarrow> (string \<times> int \<times> int) list" where
  "queues_of now rows =
     map (\<lambda>(topic, g). (topic, count_rows in_backlog g, count_rows (\<lambda>r. ob_status r = ''failed'') g))
       (group_by text_key ob_topic_name (filter (\<lambda>r. now - hours 24 \<le> ob_created_at r) rows))"

definition oldest :: "time list \<Rightarrow> time option" where
  "oldest ts = (if ts = [] then None else Some (Min (set ts)))"

definition anomalies_of :: "time \<Rightarrow> message_row list \<Rightarrow> (tenant \<times> int) list" where
  "anomalies_of now rows =
     take 10 (sort_desc snd (map (\<lambda>(k, g). (k, int (length g)))
       (group_by text_key m_tenant_id (filter (\<lambda>m. since (now - hours 1) (m_failed_at m)) rows))))"

definition get_overview :: "report_tables \<Rightarrow> operations_overview" where
  "get_overview t =
     (let now = en_now (rt_env t); d = rt_db t; logs = en_health_logs (rt_env t);
          waiting = filter (\<lambda>w. \<not> wh_processed w) (dlr_webhooks d);
          jobs = filter (\<lambda>j. now - hours 24 \<le> jb_created_at j) (cp_jobs (rt_campaigns t))
      in \<lparr>oo_queues = queues_of now (outbox_events d),
          oo_providers =
            map (\<lambda>p. (p, case map_of (en_circuit_rows (rt_env t)) (pf_provider_id p) of
                          None \<Rightarrow> ''closed'' | Some snapshot \<Rightarrow> circuit_state_str (cs_state snapshot)))
              (provider_summary (filter (\<lambda>l. now - hours 24 \<le> hl_recorded_at l) logs)),
          oo_dlr_backlog = (int (length waiting), oldest (map wh_received_at waiting)),
          oo_reconciliation_backlog =
            count_rows (\<lambda>r. rc_status r = ''pending'') (reconciliation_events d),
          oo_campaign_jobs =
            (count_rows job_running jobs, count_rows (\<lambda>j. jb_status j = ''failed'') jobs),
          oo_recent_outages = take 20 (sort_desc hl_recorded_at (filter (unhealthy (now - hours 24)) logs)),
          oo_tenant_anomalies = anomalies_of now (messages d)\<rparr>)"

subsection \<open>Nothing of another tenant\<close>










subsection \<open>The join of the dashboard does not weigh its averages\<close>

definition repeated :: "nat \<Rightarrow> 'r list \<Rightarrow> 'r list" where
  "repeated n rows = concat (map (replicate n) rows)"

lemma map_filter_replicate:
  "List.map_filter f (replicate n x) = (case f x of None \<Rightarrow> [] | Some y \<Rightarrow> replicate n y)"
  by (induction n) (simp_all add: map_filter_simps split: option.split)

lemma map_filter_append: "List.map_filter f (xs @ ys) = List.map_filter f xs @ List.map_filter f ys"
  by (simp add: List.map_filter_def)

lemma map_filter_repeated: "List.map_filter f (repeated n rows) = repeated n (List.map_filter f rows)"
  by (induction rows)
    (simp_all add: repeated_def map_filter_simps map_filter_append map_filter_replicate split: option.split)

lemma repeated_eq_Nil: "0 < n \<Longrightarrow> repeated n rows = [] \<longleftrightarrow> rows = []"
  by (cases rows) (simp_all add: repeated_def)

lemma length_repeated: "length (repeated n rows) = n * length rows"
  by (induction rows) (simp_all add: repeated_def)

lemma sum_repeated: "sum_list (repeated n vs) = of_nat n * sum_list vs" for vs :: "rat list"
  by (induction vs) (simp_all add: repeated_def sum_list_replicate algebra_simps)

lemma sql_avg_repeated: "0 < n \<Longrightarrow> sql_avg f (repeated n rows) = sql_avg f rows"
proof -
  assume n: "0 < n"
  have avg: "sql_avg f rows = (if List.map_filter f rows = [] then None
      else Some (sum_list (List.map_filter f rows) / of_nat (length (List.map_filter f rows))))" for rows
    by (simp add: sql_avg_def split: list.split)
  show ?thesis
    using n by (simp add: avg map_filter_repeated repeated_eq_Nil sum_repeated length_repeated)
qed

lemma head_sort_Cons:
  "first_row (sort_desc f (x # xs)) =
     (case first_row (sort_desc f xs) of None \<Rightarrow> Some x | Some y \<Rightarrow> if f y \<le> f x then Some x else Some y)"
  by (cases "sort_desc f xs") (simp_all add: sort_desc_def)

lemma head_sort_replicate:
  "0 < n \<Longrightarrow> first_row (sort_desc f (replicate n x @ xs)) = first_row (sort_desc f (x # xs))"
proof (induction n)
  case (Suc n)
  then show ?case
    by (cases n) (simp_all add: head_sort_Cons split: option.splits)
qed simp

lemma head_sort_repeated:
  "0 < n \<Longrightarrow> first_row (sort_desc f (repeated n rows)) = first_row (sort_desc f rows)"
proof (induction rows)
  case (Cons x rows)
  have "repeated n (x # rows) = replicate n x @ repeated n rows" by (simp add: repeated_def)
  then show ?case using Cons by (simp only: head_sort_replicate head_sort_Cons)
qed (simp add: repeated_def)

lemma figures_repeated: "0 < n \<Longrightarrow> figures_of (p, repeated n logs) = figures_of (p, logs)"
  by (simp add: figures_of_def sql_avg_repeated head_sort_repeated)

definition uses :: "message_row list \<Rightarrow> int \<Rightarrow> nat" where
  "uses rows p = length (filter (\<lambda>m. m_provider_id m = Some p) rows)"

lemma joined_logs_repeat: "joined_logs rows logs = concat (map (\<lambda>l. replicate (uses rows (hl_provider_id l)) l) logs)"
  by (simp add: joined_logs_def uses_def map_replicate_const)

lemma joined_of_provider:
  "filter (\<lambda>l. hl_provider_id l = p) (joined_logs rows logs) =
     repeated (uses rows p) (filter (\<lambda>l. hl_provider_id l = p) logs)"
  unfolding joined_logs_repeat repeated_def by (induction logs) auto

lemma sort_keys_cong: "set xs = set ys \<Longrightarrow> sort_key id (remdups xs) = sort_key id (remdups ys)" for xs :: "int list"
  by (simp add: id_def flip: sorted_list_of_set_sort_remdups)

lemma summary_of_used:
  "provider_summary (filter (\<lambda>l. used (hl_provider_id l)) logs) =
     filter (\<lambda>f. used (pf_provider_id f)) (provider_summary logs)"
proof -
  have "map hl_provider_id (filter (\<lambda>l. used (hl_provider_id l)) logs) = filter used (map hl_provider_id logs)"
    by (simp add: filter_map comp_def)
  then have keys: "sort_key id (remdups (map hl_provider_id (filter (\<lambda>l. used (hl_provider_id l)) logs))) =
      filter used (sort_key id (remdups (map hl_provider_id logs)))"
    by (simp only: filter_sort remdups_filter)
  have "filter (\<lambda>l. hl_provider_id l = p) (filter (\<lambda>l. used (hl_provider_id l)) logs) =
      filter (\<lambda>l. hl_provider_id l = p) logs" if "used p" for p
    unfolding filter_filter using that by (auto intro: filter_cong)
  then show ?thesis
    by (simp add: provider_summary_def group_by_def keys filter_map comp_def figures_of_def del: filter_filter
        cong: map_cong)
qed

lemma summary_of_join:
  "provider_summary (joined_logs rows logs) =
     provider_summary (filter (\<lambda>l. 0 < uses rows (hl_provider_id l)) logs)"
proof -
  let ?used = "\<lambda>l. 0 < uses rows (hl_provider_id l)"
  have "set (joined_logs rows logs) = set (filter ?used logs)"
    by (auto simp: joined_logs_repeat)
  then have keys: "sort_key id (remdups (map hl_provider_id (joined_logs rows logs))) =
      sort_key id (remdups (map hl_provider_id (filter ?used logs)))" (is "?ks = ?ks'")
    by (intro sort_keys_cong) simp
  have "figures_of (p, filter (\<lambda>l. hl_provider_id l = p) (joined_logs rows logs)) =
      figures_of (p, filter (\<lambda>l. hl_provider_id l = p) (filter ?used logs))" if "p \<in> set ?ks'" for p
  proof -
    have "0 < uses rows p" using that by auto
    moreover from this have "filter (\<lambda>l. hl_provider_id l = p) (filter ?used logs) =
        filter (\<lambda>l. hl_provider_id l = p) logs"
      unfolding filter_filter by (auto intro: filter_cong)
    ultimately show ?thesis by (simp only: joined_of_provider figures_repeated)
  qed
  then show ?thesis unfolding provider_summary_def group_by_def keys by simp
qed

text \<open>C34: the provider figures of the dashboard, read from a join that repeats every health log once per
  message of the tenant, are exactly the figures the analytics give for the providers that sent a
  message of the tenant in the last seven days: the repetition changes no average and no status.\<close>

theorem dashboard_figures_unweighted:
  assumes "\<forall>l \<in> set logs. hl_recorded_at l \<le> now"
  shows "tenant_providers now tenant rows logs =
    filter (\<lambda>f. \<exists>m \<in> set rows. m_tenant_id m = tenant \<and> now - 7 * day_ms \<le> m_accepted_at m \<and>
        m_provider_id m = Some (pf_provider_id f))
      (get_provider_health now None None logs)"
proof -
  define own where "own = filter (\<lambda>m. m_tenant_id m = tenant \<and> now - 7 * day_ms \<le> m_accepted_at m) rows"
  define recent where "recent = filter (\<lambda>l. now - hours 24 \<le> hl_recorded_at l) logs"
  have "recent = filter (\<lambda>l. in_window now None None (hl_recorded_at l)) logs"
    unfolding recent_def in_window_def using assms by (auto intro: filter_cong simp: coalesce_def)
  moreover have "0 < uses own p \<longleftrightarrow> (\<exists>m \<in> set rows. m_tenant_id m = tenant \<and>
      now - 7 * day_ms \<le> m_accepted_at m \<and> m_provider_id m = Some p)" for p
    by (auto simp: uses_def own_def filter_empty_conv)
  ultimately show ?thesis
    using summary_of_join [of own recent] summary_of_used [of "\<lambda>p. 0 < uses own p" recent]
    by (simp add: tenant_providers_def get_provider_health_def own_def recent_def)
qed

subsection \<open>Totals and bounds\<close>

text \<open>The figures by day and by topic lose nothing: the days of the trend add up to the messages,
  their delivered ones, prices and costs of the last seven days, and the queues of the overview to
  the events of the last day that wait or have failed.\<close>

theorem figures_add_up:
  "sum_list (map td_accepted_total (trend_of day_start now rows)) =
     count_rows (\<lambda>m. now - 7 * day_ms \<le> m_accepted_at m) rows \<and>
   sum_list (map td_delivered_total (trend_of day_start now rows)) =
     count_rows (\<lambda>m. now - 7 * day_ms \<le> m_accepted_at m \<and> m_status m = Delivered) rows \<and>
   sum_list (map td_spend_minor (trend_of day_start now rows)) =
     sum_list (map m_price_minor (filter (\<lambda>m. now - 7 * day_ms \<le> m_accepted_at m) rows)) \<and>
   sum_list (map td_cost_minor (trend_of day_start now rows)) =
     sum_list (map m_cost_minor (filter (\<lambda>m. now - 7 * day_ms \<le> m_accepted_at m) rows)) \<and>
   (\<Sum>(topic, backlog, failed)\<leftarrow>queues_of now events. backlog) =
     count_rows (\<lambda>r. now - hours 24 \<le> ob_created_at r \<and> in_backlog r) events \<and>
   (\<Sum>(topic, backlog, failed)\<leftarrow>queues_of now events. failed) =
     count_rows (\<lambda>r. now - hours 24 \<le> ob_created_at r \<and> ob_status r = ''failed'') events"
proof -
  let ?recent = "filter (\<lambda>m. now - 7 * day_ms \<le> m_accepted_at m) rows"
  let ?days = "group_by id (day_start \<circ> m_accepted_at) ?recent"
  let ?topics = "group_by text_key ob_topic_name (filter (\<lambda>r. now - hours 24 \<le> ob_created_at r) events)"
  have all: "int (length g) = count_rows (\<lambda>_. True) g" for g :: "message_row list"
    by (simp add: count_rows_def)
  have count: "count_rows P (filter Q xs) = count_rows (\<lambda>x. Q x \<and> P x) xs" for P Q and xs :: "'r list"
    by (simp add: count_rows_def conj_commute)
  note days = trend_of_def comp_def case_prod_beta'
  have "sum_list (map td_accepted_total (trend_of day_start now rows)) =
      (\<Sum>(k, g)\<leftarrow>?days. count_rows (\<lambda>_. True) g)" by (simp add: days all)
  moreover have "sum_list (map td_delivered_total (trend_of day_start now rows)) =
      (\<Sum>(k, g)\<leftarrow>?days. count_rows (\<lambda>m. m_status m = Delivered) g)" by (simp add: days)
  moreover have "sum_list (map td_spend_minor (trend_of day_start now rows)) =
      (\<Sum>(k, g)\<leftarrow>?days. sum_list (map m_price_minor g))" by (simp add: days)
  moreover have "sum_list (map td_cost_minor (trend_of day_start now rows)) =
      (\<Sum>(k, g)\<leftarrow>?days. sum_list (map m_cost_minor g))" by (simp add: days)
  moreover have "(\<Sum>(topic, backlog, failed)\<leftarrow>queues_of now events. backlog) =
      (\<Sum>(k, g)\<leftarrow>?topics. count_rows in_backlog g)" by (simp add: queues_of_def comp_def case_prod_beta')
  moreover have "(\<Sum>(topic, backlog, failed)\<leftarrow>queues_of now events. failed) =
      (\<Sum>(k, g)\<leftarrow>?topics. count_rows (\<lambda>r. ob_status r = ''failed'') g)"
    by (simp add: queues_of_def comp_def case_prod_beta')
  ultimately show ?thesis by (simp only: count_over_groups sum_over_groups count) (simp add: count_rows_def)
qed

lemma percentile_place:
  fixes xs :: "rat list"
  assumes "xs \<noteq> []" and "0 \<le> p" and "p \<le> 1"
  obtains lo hi v where "percentile_cont p xs = Some v" "lo \<le> hi" "hi < length xs"
    "sort xs ! lo \<le> v" "v \<le> sort xs ! hi"
    "p * of_nat (length xs - 1) < of_nat lo + 1" "of_nat hi < p * of_nat (length xs - 1) + 1"
proof -
  define place where "place = p * of_nat (length xs - 1)"
  define lo hi where "lo = nat \<lfloor>place\<rfloor>" and "hi = nat \<lceil>place\<rceil>"
  have place: "0 \<le> place" "place \<le> of_nat (length xs - 1)"
    using assms(2,3) by (simp_all add: place_def mult_left_le_one_le)
  then have hi: "hi \<le> length xs - 1" unfolding hi_def by (metis ceiling_le of_int_of_nat_eq nat_le_iff)
  have order: "lo \<le> hi" by (simp add: lo_def hi_def nat_mono floor_le_ceiling)
  let ?w = "place - of_int \<lfloor>place\<rfloor>"
  have w: "0 \<le> ?w" "?w \<le> 1" by linarith+
  have step: "sort xs ! lo \<le> sort xs ! hi"
    using hi order assms(1) by (intro sorted_nth_mono) (auto simp: Suc_diff_Suc intro: le_less_trans)
  define v where "v = sort xs ! lo + ?w * (sort xs ! hi - sort xs ! lo)"
  have "?w * (sort xs ! hi - sort xs ! lo) \<le> 1 * (sort xs ! hi - sort xs ! lo)"
    using w step by (intro mult_right_mono) simp_all
  then have "v \<le> sort xs ! hi" by (simp add: v_def)
  moreover have "sort xs ! lo \<le> v" using w step by (simp add: v_def)
  moreover have "percentile_cont p xs = Some v"
    using assms(1) by (simp add: percentile_cont_def v_def lo_def hi_def place_def Let_def)
  moreover have "hi < length xs" using hi assms(1) by (cases xs) simp_all
  moreover have "place < of_nat lo + 1" "of_nat hi < place + 1"
    using place(1) by (simp_all add: lo_def hi_def) linarith+
  ultimately show thesis using that order by (simp add: place_def)
qed

lemma sorted_above:
  fixes v :: rat
  assumes "sorted vs" and "lo < length vs" and "vs ! lo \<le> v"
  shows "length (filter (\<lambda>x. v < x) vs) \<le> length vs - Suc lo"
proof -
  have "x \<le> v" if x: "x \<in> set (take (Suc lo) vs)" for x
  proof -
    obtain i where "x = vs ! i" "i < Suc lo" using x assms(2) by (auto simp: in_set_conv_nth)
    then show ?thesis using sorted_nth_mono [OF assms(1), of i lo] assms(2,3) by simp
  qed
  then have "filter (\<lambda>x. v < x) (take (Suc lo) vs) = []" by (simp add: filter_empty_conv not_less)
  then have "filter (\<lambda>x. v < x) vs = filter (\<lambda>x. v < x) (drop (Suc lo) vs)"
    by (metis append_Nil append_take_drop_id filter_append)
  then show ?thesis by (metis length_drop length_filter_le)
qed

lemma sorted_below:
  fixes v :: rat
  assumes "sorted vs" and "hi < length vs" and "v \<le> vs ! hi"
  shows "length (filter (\<lambda>x. x < v) vs) \<le> hi"
proof -
  have "v \<le> x" if x: "x \<in> set (drop hi vs)" for x
  proof -
    obtain i where "x = vs ! (hi + i)" "hi + i < length vs" using x assms(2) by (auto simp: in_set_conv_nth)
    then show ?thesis using sorted_nth_mono [OF assms(1), of hi "hi + i"] assms(3) by simp
  qed
  then have "filter (\<lambda>x. x < v) (drop hi vs) = []" by (simp add: filter_empty_conv not_less)
  then have "filter (\<lambda>x. x < v) vs = filter (\<lambda>x. x < v) (take hi vs)"
    by (metis append.right_neutral append_take_drop_id filter_append)
  then show ?thesis using length_filter_le [of "\<lambda>x. x < v" "take hi vs"] by simp
qed

lemma count_sorted: "length (filter P (sort xs)) = length (filter P xs)"
  by (metis mset_filter mset_sort size_mset)

lemma statuses_partition:
  "count_rows (\<lambda>m. m_status m = Delivered) rows + count_rows (\<lambda>m. m_status m = Failed) rows +
     count_rows (\<lambda>m. m_status m = ProviderAccepted) rows \<le> int (length rows)"
  by (induction rows) (auto simp: count_rows_def)

text \<open>C35: the summary of a window: no count exceeds the accepted messages, the delivery rate is between 0
  and 1, and the latency it calls the 95th percentile lies between two latencies of the window, with
  less than \<open>0.05 n + 0.95\<close> of the \<open>n\<close> messages slower and less than \<open>0.95 (n - 1) + 1\<close> faster.\<close>

theorem summary_within_bounds:
  assumes "rows = filter (\<lambda>m. m_tenant_id m = tenant \<and> in_window now from_at to_at (m_accepted_at m)) all_rows"
    and "rows \<noteq> []" and "summary = get_sms_summary now tenant from_at to_at all_rows"
  shows "0 \<le> su_delivery_rate summary \<and> su_delivery_rate summary \<le> 1 \<and>
    su_delivered_total summary + su_failed_total summary + su_provider_accepted_total summary \<le>
      su_accepted_total summary \<and>
    (\<exists>quick \<in> set rows. settled_after now quick \<le> su_p95_latency_seconds summary) \<and>
    (\<exists>slow \<in> set rows. su_p95_latency_seconds summary \<le> settled_after now slow) \<and>
    of_nat (length (filter (\<lambda>m. su_p95_latency_seconds summary < settled_after now m) rows)) <
      5 / 100 * of_nat (length rows) + (95 / 100 :: rat) \<and>
    of_nat (length (filter (\<lambda>m. settled_after now m < su_p95_latency_seconds summary) rows)) <
      95 / 100 * of_nat (length rows - 1) + (1 :: rat)"
proof -
  let ?xs = "map (settled_after now) rows"
  obtain lo hi v where v: "percentile_cont (95 / 100) ?xs = Some v" "lo \<le> hi" "hi < length ?xs"
    "sort ?xs ! lo \<le> v" "v \<le> sort ?xs ! hi"
    "95 / 100 * of_nat (length ?xs - 1) < of_nat lo + (1 :: rat)"
    "of_nat hi < 95 / 100 * of_nat (length ?xs - 1) + (1 :: rat)"
    by (rule percentile_place [of ?xs "95 / 100"]) (use assms(2) in simp_all)
  have p95: "su_p95_latency_seconds summary = v"
    using v(1) assms(3) by (simp add: get_sms_summary_def assms(1) coalesce_def Let_def)
  have "sort ?xs ! lo \<in> set (sort ?xs)" "sort ?xs ! hi \<in> set (sort ?xs)"
    using v(2,3) by (simp_all only: nth_mem length_sort) 
  then have between: "\<exists>quick \<in> set rows. settled_after now quick \<le> v" "\<exists>slow \<in> set rows. v \<le> settled_after now slow"
    using v(4,5) by auto
  have "length (filter (\<lambda>x. v < x) ?xs) \<le> length rows - Suc lo"
    using sorted_above [of "sort ?xs" lo v] v(2-4) count_sorted [of "\<lambda>x. v < x" ?xs] by simp
  then have slow: "length (filter (\<lambda>m. v < settled_after now m) rows) \<le> length rows - Suc lo"
    by (simp add: filter_map comp_def)
  have "length (filter (\<lambda>x. x < v) ?xs) \<le> hi"
    using sorted_below [of "sort ?xs" hi v] v(3,5) count_sorted [of "\<lambda>x. x < v" ?xs] by simp
  then have fast: "length (filter (\<lambda>m. settled_after now m < v) rows) \<le> hi"
    by (simp add: filter_map comp_def)
  have "of_nat (length rows - Suc lo) < 5 / 100 * of_nat (length rows) + (95 / 100 :: rat)"
    using v(2,3,6) by (simp add: of_nat_diff)
  then have "of_nat (length (filter (\<lambda>m. v < settled_after now m) rows)) <
      5 / 100 * of_nat (length rows) + (95 / 100 :: rat)"
    using slow by (meson le_less_trans of_nat_mono)
  moreover have "of_nat (length (filter (\<lambda>m. settled_after now m < v) rows)) <
      95 / 100 * of_nat (length rows - 1) + (1 :: rat)"
    using fast v(7) by (metis le_less_trans length_map of_nat_mono)
  moreover have "su_delivered_total summary + su_failed_total summary + su_provider_accepted_total summary \<le>
      su_accepted_total summary"
    unfolding assms(3) get_sms_summary_def Let_def assms(1) [symmetric]
    by (simp add: statuses_partition)
  moreover have "0 \<le> su_delivery_rate summary \<and> su_delivery_rate summary \<le> 1"
    unfolding assms(3) get_sms_summary_def Let_def assms(1) [symmetric]
    by (simp add: rate_in_unit) (simp add: count_rows_def rate_in_unit)
  ultimately show ?thesis using between by (simp add: p95)
qed

subsection \<open>Examples\<close>




definition ex_log :: "int \<Rightarrow> time \<Rightarrow> health_log" where
  "ex_log latency recorded =
     \<lparr>hl_recorded_date = ''1970-01-01'', hl_provider_id = 3, hl_smpp_config_id = None, hl_protocol = Http,
      hl_status = ''healthy'', hl_latency_ms = Some latency, hl_error_rate = None, hl_success_tps = None,
      hl_throttle_count = 0, hl_sample_window_sec = 60, hl_recorded_at = recorded\<rparr>"

theorem dashboard_figures_unweighted_witness:
  "tenant_providers 1000 ''ten1'' [ex_message, ex_message\<lparr>m_id := 8\<rparr>] [ex_log 10 400, ex_log 20 500] =
     filter (\<lambda>f. \<exists>m \<in> set [ex_message, ex_message\<lparr>m_id := 8\<rparr>]. m_tenant_id m = ''ten1'' \<and>
         1000 - 7 * day_ms \<le> m_accepted_at m \<and> m_provider_id m = Some (pf_provider_id f))
       (get_provider_health 1000 None None [ex_log 10 400, ex_log 20 500])"
  by (rule dashboard_figures_unweighted) (simp add: ex_log_def)

theorem summary_within_bounds_witness:
  "su_delivery_rate (get_sms_summary 1000 ''ten1'' None None [ex_message, ex_message\<lparr>m_status := Delivered\<rparr>]) \<le> 1"
  by (rule summary_within_bounds [THEN conjunct2, THEN conjunct1, OF refl _ refl])
    (simp add: in_window_def ex_message_def hours_def coalesce_def)

end
