(* ===== verification/Health.thy ===== *)
theory Health
  imports Figures Runtime
begin

text \<open>
  What a process says of itself: the metrics (\<open>common/metrics/metrics.service.ts\<close>, each counter and
  gauge under its name and label values), the collector of the backlogs
  (\<open>common/metrics/operational-metrics.service.ts\<close>), the state of the Kafka client
  (\<open>kafka/kafka.service.ts\<close>, the client's own answers are arguments) and the probes
  (\<open>health/health.service.ts\<close>). The last part follows the client's state over a run and shows what
  the readiness probe can see of it.
\<close>

subsection \<open>Metrics\<close>

record metrics =
  me_counters :: "string \<times> string list \<Rightarrow> int"
  me_gauges :: "string \<times> string list \<Rightarrow> int option"
  me_observations :: "(string \<times> string list \<times> rat) list"

definition inc :: "string \<Rightarrow> string list \<Rightarrow> metrics \<Rightarrow> metrics" where
  "inc name labels m = m\<lparr>me_counters := (me_counters m)((name, labels) := me_counters m (name, labels) + 1)\<rparr>"

definition set_gauge :: "string \<Rightarrow> string list \<Rightarrow> int \<Rightarrow> metrics \<Rightarrow> metrics" where
  "set_gauge name labels v m = m\<lparr>me_gauges := (me_gauges m)((name, labels) \<mapsto> v)\<rparr>"

definition record_http_request :: "string \<Rightarrow> string \<Rightarrow> int \<Rightarrow> int \<Rightarrow> metrics \<Rightarrow> metrics" where
  "record_http_request meth route status_code duration_ms m =
     (let labels = [meth, route, int_str status_code];
          m1 = inc ''http_requests_total'' labels m
      in m1\<lparr>me_observations := me_observations m1 @
           [(''http_request_duration_seconds'', labels, of_int duration_ms / 1000)]\<rparr>)"

definition record_kafka_message :: "string \<Rightarrow> string \<Rightarrow> string \<Rightarrow> metrics \<Rightarrow> metrics" where
  "record_kafka_message topic direction status = inc ''kafka_messages_total'' [topic, direction, status]"

definition record_auth_event :: "string \<Rightarrow> string \<Rightarrow> metrics \<Rightarrow> metrics" where
  "record_auth_event action outcome = inc ''sms_auth_events_total'' [action, outcome]"

definition record_message_submission :: "string \<Rightarrow> string \<Rightarrow> string \<Rightarrow> metrics \<Rightarrow> metrics" where
  "record_message_submission source traffic_type outcome =
     inc ''sms_message_submissions_total'' [source, traffic_type, outcome]"

definition record_message_transition :: "string \<Rightarrow> string \<Rightarrow> metrics \<Rightarrow> metrics" where
  "record_message_transition from_status to_status =
     inc ''sms_message_transitions_total'' [from_status, to_status]"

definition set_outbox_backlog :: "string \<Rightarrow> int \<Rightarrow> metrics \<Rightarrow> metrics" where
  "set_outbox_backlog status = set_gauge ''sms_outbox_backlog'' [status]"

definition record_dispatch_attempt :: "string \<Rightarrow> string \<Rightarrow> string \<Rightarrow> metrics \<Rightarrow> metrics" where
  "record_dispatch_attempt provider protocol outcome =
     inc ''sms_dispatch_attempts_total'' [provider, protocol, outcome]"

definition record_dlr_event :: "string \<Rightarrow> string \<Rightarrow> metrics \<Rightarrow> metrics" where
  "record_dlr_event outcome status = inc ''sms_dlr_events_total'' [outcome, status]"

definition record_retry :: "string \<Rightarrow> string \<Rightarrow> metrics \<Rightarrow> metrics" where
  "record_retry outcome reason = inc ''sms_retry_events_total'' [outcome, reason]"

definition set_reconciliation_backlog :: "int \<Rightarrow> metrics \<Rightarrow> metrics" where
  "set_reconciliation_backlog = set_gauge ''sms_reconciliation_backlog'' []"

definition set_provider_circuit_state :: "int \<Rightarrow> string \<Rightarrow> metrics \<Rightarrow> metrics" where
  "set_provider_circuit_state provider_id state m =
     fold (\<lambda>candidate. set_gauge ''sms_provider_circuit_state'' [int_str provider_id, candidate]
            (if candidate = state then 1 else 0))
       [''closed'', ''open'', ''half_open''] m"

definition record_provider_error :: "int \<Rightarrow> string \<Rightarrow> string \<Rightarrow> metrics \<Rightarrow> metrics" where
  "record_provider_error provider_id protocol error_code =
     inc ''sms_provider_errors_total''
       [int_str provider_id, protocol, if error_code = '''' then ''unknown'' else error_code]"

definition record_provider_throttle :: "int \<Rightarrow> string \<Rightarrow> metrics \<Rightarrow> metrics" where
  "record_provider_throttle provider_id protocol =
     inc ''sms_provider_throttle_total'' [int_str provider_id, protocol]"

definition record_wallet_operation :: "string \<Rightarrow> string \<Rightarrow> metrics \<Rightarrow> metrics" where
  "record_wallet_operation operation outcome = inc ''sms_wallet_operations_total'' [operation, outcome]"

definition set_campaign_jobs_gauge :: "string \<Rightarrow> int \<Rightarrow> metrics \<Rightarrow> metrics" where
  "set_campaign_jobs_gauge status = set_gauge ''sms_campaign_jobs'' [status]"

definition record_rate_limit_denied :: "string \<Rightarrow> metrics \<Rightarrow> metrics" where
  "record_rate_limit_denied scope = inc ''sms_rate_limit_denied_total'' [scope]"


definition set_dlr_backlog :: "int \<Rightarrow> metrics \<Rightarrow> metrics" where
  "set_dlr_backlog = set_gauge ''sms_dlr_backlog'' []"

subsection \<open>The collector\<close>

definition collect :: "db \<Rightarrow> job_row list \<Rightarrow> metrics \<Rightarrow> metrics" where
  "collect d jobs =
     set_campaign_jobs_gauge ''failed'' (count_rows (\<lambda>j. jb_status j = ''failed'') jobs) \<circ>
     set_campaign_jobs_gauge ''running'' (count_rows job_running jobs) \<circ>
     set_dlr_backlog (count_rows (\<lambda>w. \<not> wh_processed w) (dlr_webhooks d)) \<circ>
     set_reconciliation_backlog (count_rows (\<lambda>r. rc_status r = ''pending'') (reconciliation_events d)) \<circ>
     set_outbox_backlog ''failed'' (count_rows (\<lambda>r. ob_status r = ''failed'') (outbox_events d)) \<circ>
     set_outbox_backlog ''pending'' (count_rows in_backlog (outbox_events d))"

subsection \<open>The Kafka client\<close>




definition kafka_publish :: "unit result \<Rightarrow> string \<Rightarrow> (metrics, unit) io" where
  "kafka_publish sent topic m =
     (case sent of
        Inl ex \<Rightarrow> (Inl ex, record_kafka_message topic ''produce'' ''error'' m)
      | Inr _ \<Rightarrow> (Inr (), record_kafka_message topic ''produce'' ''success'' m))"




definition each_message :: "unit result \<Rightarrow> string \<Rightarrow> (metrics, unit) io" where
  "each_message handled topic m =
     (case handled of
        Inl ex \<Rightarrow> (Inl ex, record_kafka_message topic ''consume'' ''error'' m)
      | Inr _ \<Rightarrow> (Inr (), record_kafka_message topic ''consume'' ''success'' m))"




subsection \<open>The probes\<close>





subsection \<open>What the readiness probe can see\<close>













end
