(* ===== verification/Deploy.thy ===== *)
theory Deploy
  imports Contacts Runtime
begin

text \<open>
  The scripts that prepare a database and start a process: the loader of the local environment files
  (\<open>scripts/lib/env-loader.mjs\<close>), the migration runner (\<open>scripts/lib/migration-runner.mjs\<close>) with
  \<open>scripts/prepare-database.mjs\<close>, and the choice of a role (\<open>scripts/start-role.mjs\<close>). What PostgreSQL
  makes of the text of a migration is the argument \<open>exec\<close>, the locale's order of file names the
  argument \<open>collate\<close>. The advisory lock of the runner makes runs follow one another.
\<close>

subsection \<open>The environment files\<close>

type_synonym environment = "string \<Rightarrow> string option"

definition quoted_by :: "char \<Rightarrow> string \<Rightarrow> bool" where
  "quoted_by q s \<longleftrightarrow> s \<noteq> [] \<and> hd s = q \<and> last s = q"

definition parse_env_value :: "string \<Rightarrow> string" where
  "parse_env_value raw_value =
     (let trimmed = trim raw_value in
      if quoted_by (CHR 0x22) trimmed \<or> quoted_by (CHR 0x27) trimmed then butlast (tl trimmed)
      else trimmed)"

fun index_of :: "char \<Rightarrow> string \<Rightarrow> nat option" where
  "index_of c [] = None"
| "index_of c (d # s) = (if d = c then Some 0 else map_option Suc (index_of c s))"

definition parse_env_line :: "string \<Rightarrow> (string \<times> string) option" where
  "parse_env_line line =
     (let trimmed = trim line in
      if trimmed = [] \<or> starts_with trimmed ''#'' then None
      else case index_of (CHR ''='') trimmed of
        None \<Rightarrow> None
      | Some i \<Rightarrow>
          if i = 0 then None
          else Some (trim (take i trimmed), parse_env_value (drop (i + 1) trimmed)))"

definition parse_env_file :: "string \<Rightarrow> environment" where
  "parse_env_file contents =
     fold (\<lambda>(key, value) parsed. parsed(key \<mapsto> value)) (List.map_filter parse_env_line (split_lines contents))
       (\<lambda>_. None)"

definition load_env_file :: "string option \<Rightarrow> environment \<Rightarrow> environment" where
  "load_env_file file env =
     (case file of None \<Rightarrow> env | Some contents \<Rightarrow> parse_env_file contents ++ env)"

definition load_local_env :: "(string \<Rightarrow> string option) \<Rightarrow> environment \<Rightarrow> environment" where
  "load_local_env read_file env = fold (load_env_file \<circ> read_file) [''.env'', ''.env.local''] env"

text \<open>What is set in the process wins over \<open>.env\<close>, which wins over \<open>.env.local\<close>.\<close>

lemma load_local_env_order:
  "load_local_env read_file env key =
     (case env key of Some v \<Rightarrow> Some v
      | None \<Rightarrow> case Option.bind (read_file ''.env'') (\<lambda>text. parse_env_file text key) of Some v \<Rightarrow> Some v
      | None \<Rightarrow> Option.bind (read_file ''.env.local'') (\<lambda>text. parse_env_file text key))"
  by (auto simp: load_local_env_def load_env_file_def map_add_def split: option.splits)

definition require_env :: "string \<Rightarrow> string option \<Rightarrow> environment \<Rightarrow> string result" where
  "require_env name fallback env =
     (case (case env name of Some v \<Rightarrow> Some v | None \<Rightarrow> fallback) of
        None \<Rightarrow> Inl (PlainError (''Missing required environment variable: '' @ name))
      | Some v \<Rightarrow>
          if v = '''' then Inl (PlainError (''Missing required environment variable: '' @ name)) else Inr v)"

definition parse_boolean :: "string option \<Rightarrow> bool \<Rightarrow> bool" where
  "parse_boolean v default_value =
     (case v of None \<Rightarrow> default_value
      | Some s \<Rightarrow> if s = '''' then default_value else s \<in> set [''1'', ''true'', ''TRUE'', ''yes'', ''YES''])"

definition resolve_create_if_missing :: "environment \<Rightarrow> bool" where
  "resolve_create_if_missing env =
     (case env ''POSTGRES_CREATE_DATABASE_IF_MISSING'' of
        Some v \<Rightarrow> parse_boolean (Some v) False
      | None \<Rightarrow>
          to_lower (coalesce (env ''APP_ENV'') (coalesce (env ''NODE_ENV'') ''development'')) \<noteq> ''production'')"

subsection \<open>Migrations\<close>

record 'd database =
  db_exists :: bool
  db_applied :: "string list" \<comment> \<open>\<open>schema_migrations\<close>\<close>
  db_schema :: 'd

definition ends_with :: "string \<Rightarrow> string \<Rightarrow> bool" where
  "ends_with s suffix_text \<longleftrightarrow> starts_with (rev s) (rev suffix_text)"

definition migration_files :: "(string \<Rightarrow> 'o::linorder) \<Rightarrow> (string \<times> string) list \<Rightarrow> (string \<times> string) list" where
  "migration_files collate dir = sort_key (collate \<circ> fst) (filter (\<lambda>f. ends_with (fst f) ''.sql'') dir)"

definition apply_migration ::
  "(string \<Rightarrow> 'd \<Rightarrow> 'd result) \<Rightarrow> string \<times> string \<Rightarrow> 'd database \<Rightarrow> unit result \<times> 'd database" where
  "apply_migration exec = (\<lambda>(filename, sql) st.
     (case exec sql (db_schema st) of
        Inl ex \<Rightarrow> (Inl ex, st)
      | Inr schema \<Rightarrow> (Inr (), st\<lparr>db_schema := schema, db_applied := db_applied st @ [filename]\<rparr>)))"

fun apply_migrations ::
  "(string \<Rightarrow> 'd \<Rightarrow> 'd result) \<Rightarrow> (string \<times> string) list \<Rightarrow> 'd database \<Rightarrow> unit result \<times> 'd database" where
  "apply_migrations exec [] st = (Inr (), st)"
| "apply_migrations exec (f # fs) st =
     (if fst f \<in> set (db_applied st) then apply_migrations exec fs st
      else case apply_migration exec f st of
        (Inl ex, st') \<Rightarrow> (Inl ex, st')
      | (Inr _, st') \<Rightarrow> apply_migrations exec fs st')"

definition run_migrations ::
  "(string \<Rightarrow> 'd \<Rightarrow> 'd result) \<Rightarrow> (string \<Rightarrow> 'o::linorder) \<Rightarrow> (string \<times> string) list \<Rightarrow> 'd database \<Rightarrow>
   nat result \<times> 'd database" where
  "run_migrations exec collate dir st =
     (let files = migration_files collate dir in
      case apply_migrations exec files st of
        (Inl ex, st') \<Rightarrow> (Inl ex, st')
      | (Inr _, st') \<Rightarrow> (Inr (length files), st'))"

definition ensure_database_exists :: "string \<Rightarrow> bool \<Rightarrow> 'd database \<Rightarrow> bool result \<times> 'd database" where
  "ensure_database_exists target create_if_missing st =
     (if db_exists st then (Inr False, st)
      else if \<not> create_if_missing
      then (Inl (PlainError (''Database \"'' @ target @ ''\" does not exist. Set '' @
             ''POSTGRES_CREATE_DATABASE_IF_MISSING=true or create it manually first.'')), st)
      else (Inr True, st\<lparr>db_exists := True\<rparr>))"

definition required_tables :: "string list" where
  "required_tables =
     [''tenants'', ''users'', ''wallets'', ''providers'', ''routing_rules'', ''pricing_rules'', ''messages'',
      ''message_logs'', ''transactions'', ''outbox_events'', ''dlr_webhooks'', ''campaigns'', ''campaign_jobs'',
      ''contacts'', ''contact_groups'', ''api_keys'', ''sender_ids'', ''retry_policies'',
      ''provider_circuit_state'', ''audit_logs'', ''schema_migrations'']"

text \<open>\<open>catalogue\<close> and \<open>columns\<close> are the tables of the schema and the columns of \<open>messages\<close>.\<close>

definition verify_database_schema ::
  "('d \<Rightarrow> string list) \<Rightarrow> ('d \<Rightarrow> string list) \<Rightarrow> 'd database \<Rightarrow> (nat \<times> nat) result" where
  "verify_database_schema catalogue columns st =
     (case filter (\<lambda>t. t \<notin> set (catalogue (db_schema st))) required_tables of
        t # _ \<Rightarrow> Inl (PlainError (''Required table \"'' @ t @ ''\" is missing from the target database.''))
      | [] \<Rightarrow>
          if ''version'' \<notin> set (columns (db_schema st)) \<or> ''state_changed_at'' \<notin> set (columns (db_schema st))
          then Inl (PlainError ''messages.version and messages.state_changed_at must both exist.'')
          else Inr (length required_tables, length (db_applied st)))"

definition prepare_database ::
  "(string \<Rightarrow> 'd \<Rightarrow> 'd result) \<Rightarrow> (string \<Rightarrow> 'o::linorder) \<Rightarrow> ('d \<Rightarrow> string list) \<Rightarrow> ('d \<Rightarrow> string list) \<Rightarrow>
   (string \<times> string) list \<Rightarrow> environment \<Rightarrow> string \<Rightarrow> 'd database \<Rightarrow> (bool \<times> nat \<times> nat) result \<times> 'd database"
where
  "prepare_database exec collate catalogue columns dir env target st =
     (case ensure_database_exists target (resolve_create_if_missing env) st of
        (Inl ex, st1) \<Rightarrow> (Inl ex, st1)
      | (Inr created, st1) \<Rightarrow>
          (case run_migrations exec collate dir st1 of
             (Inl ex, st2) \<Rightarrow> (Inl ex, st2)
           | (Inr _, st2) \<Rightarrow>
               (map_sum id (\<lambda>v. (created, v)) (verify_database_schema catalogue columns st2), st2)))"

text \<open>The texts of a list of migrations, one after the other.\<close>

fun exec_all :: "(string \<Rightarrow> 'd \<Rightarrow> 'd result) \<Rightarrow> (string \<times> string) list \<Rightarrow> 'd \<Rightarrow> 'd result" where
  "exec_all exec [] d = Inr d"
| "exec_all exec (f # fs) d = and_then (exec (snd f) d) (exec_all exec fs)"

definition pending_files :: "'d database \<Rightarrow> (string \<times> string) list \<Rightarrow> (string \<times> string) list" where
  "pending_files st files = filter (\<lambda>f. fst f \<notin> set (db_applied st)) files"

lemma apply_migrations_prefix:
  assumes "distinct (map fst files)" and "apply_migrations exec files st = (r, st')"
  shows "\<exists>run rest. pending_files st files = run @ rest \<and> db_applied st' = db_applied st @ map fst run \<and>
    exec_all exec run (db_schema st) = Inr (db_schema st') \<and>
    (case r of Inr _ \<Rightarrow> rest = []
     | Inl ex \<Rightarrow> rest \<noteq> [] \<and> exec (snd (hd rest)) (db_schema st') = Inl ex)"
  using assms
proof (induction files arbitrary: st)
  case Nil
  then show ?case by (auto simp: pending_files_def)
next
  case (Cons f files)
  have d: "distinct (map fst files)" using Cons.prems(1) by simp
  show ?case
  proof (cases "fst f \<in> set (db_applied st)")
    case True
    with Cons.prems have "apply_migrations exec files st = (r, st')" by simp
    with Cons.IH [OF d this] True show ?thesis by (simp add: pending_files_def)
  next
    case new: False
    show ?thesis
    proof (cases "exec (snd f) (db_schema st)")
      case (Inl ex)
      with new Cons.prems have "r = Inl ex" "st' = st"
        by (auto simp: apply_migration_def case_prod_beta')
      with Inl new show ?thesis by (auto simp: pending_files_def intro!: exI [of _ "[]"])
    next
      case (Inr schema)
      define st1 where "st1 = st\<lparr>db_schema := schema, db_applied := db_applied st @ [fst f]\<rparr>"
      have "apply_migrations exec files st1 = (r, st')"
        using Inr new Cons.prems by (simp add: apply_migration_def case_prod_beta' st1_def)
      from Cons.IH [OF d this] obtain run rest where ih: "pending_files st1 files = run @ rest"
        "db_applied st' = db_applied st1 @ map fst run" "exec_all exec run (db_schema st1) = Inr (db_schema st')"
        "case r of Inr _ \<Rightarrow> rest = [] | Inl ex \<Rightarrow> rest \<noteq> [] \<and> exec (snd (hd rest)) (db_schema st') = Inl ex"
        by blast
      have "pending_files st1 files = pending_files st files"
        unfolding pending_files_def st1_def
      proof (rule filter_cong [OF refl])
        fix g
        assume "g \<in> set files"
        then have "fst g \<in> fst ` set files" by (rule imageI)
        then have "fst g \<noteq> fst f" using Cons.prems(1) by (metis distinct.simps(2) list.map(2) list.set_map)
        then show "(fst g \<notin> set (db_applied (st\<lparr>db_schema := schema, db_applied := db_applied st @ [fst f]\<rparr>))) =
            (fst g \<notin> set (db_applied st))" by simp
      qed
      with ih new Inr show ?thesis
        by (intro exI [of _ "f # run"] exI [of _ rest]) (simp add: pending_files_def st1_def)
    qed
  qed
qed

lemma apply_migrations_done: "pending_files st files = [] \<Longrightarrow> apply_migrations exec files st = (Inr (), st)"
  by (induction files) (auto simp: pending_files_def split: if_splits)

text \<open>C38: a run of the migrations executes the files that are not recorded, in the order of their names,
  each once, and records each with its effect: a run that fails leaves the schema and the record of
  the files before the failing one, where the next run resumes, and after a run that succeeds
  another run executes nothing and changes nothing.\<close>

theorem migrations_run_once:
  assumes "distinct (map fst dir)" and "run_migrations exec collate dir st = (r, st')"
  shows "\<exists>run rest. pending_files st (migration_files collate dir) = run @ rest \<and>
    db_applied st' = db_applied st @ map fst run \<and> exec_all exec run (db_schema st) = Inr (db_schema st') \<and>
    pending_files st' (migration_files collate dir) = rest \<and>
    (case r of
       Inr n \<Rightarrow> rest = [] \<and> n = length (migration_files collate dir) \<and>
         run_migrations exec collate dir st' = (Inr n, st')
     | Inl ex \<Rightarrow> rest \<noteq> [] \<and> exec (snd (hd rest)) (db_schema st') = Inl ex)"
proof -
  let ?files = "migration_files collate dir"
  have distinct: "distinct (map fst ?files)"
    using assms(1) by (simp add: migration_files_def distinct_map inj_on_def)
  obtain r0 where r0: "apply_migrations exec ?files st = (r0, st')"
      "r = (case r0 of Inl ex \<Rightarrow> Inl ex | Inr _ \<Rightarrow> Inr (length ?files))"
    using assms(2) by (auto simp: run_migrations_def Let_def split: prod.splits sum.splits)
  from apply_migrations_prefix [OF distinct r0(1)] obtain run rest where
    run: "pending_files st ?files = run @ rest" "db_applied st' = db_applied st @ map fst run"
      "exec_all exec run (db_schema st) = Inr (db_schema st')"
      "case r0 of Inr _ \<Rightarrow> rest = [] | Inl ex \<Rightarrow> rest \<noteq> [] \<and> exec (snd (hd rest)) (db_schema st') = Inl ex"
    by blast
  have "distinct (map fst (run @ rest))" using distinct run(1) by (metis distinct_map_filter pending_files_def)
  then have apart: "filter (\<lambda>f. fst f \<notin> fst ` set run) run = []" "filter (\<lambda>f. fst f \<notin> fst ` set run) rest = rest"
    by (auto simp: filter_empty_conv filter_id_conv)
  have "pending_files st' ?files = filter (\<lambda>f. fst f \<notin> fst ` set run) (pending_files st ?files)"
    by (simp add: pending_files_def run(2) conj_commute)
  then have rest: "pending_files st' ?files = rest" by (simp add: run(1) apart)
  show ?thesis
    using run rest r0(2) apply_migrations_done [of st' ?files exec]
    by (intro exI [of _ run] exI [of _ rest]) (auto simp: run_migrations_def Let_def split: sum.splits)
qed

definition ex_dir :: "(string \<times> string) list" where
  "ex_dir = [(''002.sql'', ''b''), (''001.sql'', ''a''), (''notes.txt'', '''')]"

theorem migrations_run_once_witness:
  "run_migrations (\<lambda>sql log. Inr (log @ sql)) (map of_char :: string \<Rightarrow> nat list) ex_dir
     \<lparr>db_exists = True, db_applied = [''001.sql''], db_schema = ''a''\<rparr> =
   (Inr 2, \<lparr>db_exists = True, db_applied = [''001.sql'', ''002.sql''], db_schema = ''ab''\<rparr>) \<and>
   run_migrations (\<lambda>sql log. Inr (log @ sql)) (map of_char :: string \<Rightarrow> nat list) ex_dir
     \<lparr>db_exists = True, db_applied = [''001.sql'', ''002.sql''], db_schema = ''ab''\<rparr> =
   (Inr 2, \<lparr>db_exists = True, db_applied = [''001.sql'', ''002.sql''], db_schema = ''ab''\<rparr>)"
  (is "?first \<and> _")
proof
  show first: ?first
    by (simp add: run_migrations_def migration_files_def ex_dir_def ends_with_def apply_migration_def Let_def)
  have "distinct (map fst ex_dir)" by (simp add: ex_dir_def)
  from migrations_run_once [OF this first] show "run_migrations (\<lambda>sql log. Inr (log @ sql))
      (map of_char :: string \<Rightarrow> nat list) ex_dir
      \<lparr>db_exists = True, db_applied = [''001.sql'', ''002.sql''], db_schema = ''ab''\<rparr> =
    (Inr 2, \<lparr>db_exists = True, db_applied = [''001.sql'', ''002.sql''], db_schema = ''ab''\<rparr>)"
    by auto
qed

end
