(* ===== verification/Console.thy ===== *)
theory Console
  imports Contacts
begin

text \<open>
  The server side of the control plane (\<open>control-plane\<close>), which signs a browser in and passes its
  requests on to the API: the configured addresses (\<open>lib/runtime-env.ts\<close>), the session in a cookie
  (\<open>lib/backend.ts\<close>, \<open>app/api/auth\<close>), the gate in front of every page (\<open>proxy.ts\<close>), the proxy
  (\<open>app/api/proxy\<close>) and the menu with the roles it shows (\<open>lib/rbac.ts\<close>). The API's answers are
  arguments. The last part sends the reads of every page through the guards of the API.
\<close>

subsection \<open>Configuration\<close>

definition current_app_env :: "(string \<Rightarrow> string option) \<Rightarrow> string" where
  "current_app_env env = to_lower (trim (coalesce (env ''NEXT_PUBLIC_APP_ENV'') (coalesce (env ''APP_ENV'') '''')))"

definition should_require_hosted_config :: "(string \<Rightarrow> string option) \<Rightarrow> bool" where
  "should_require_hosted_config env \<longleftrightarrow> current_app_env env \<in> {''staging'', ''production''}"

definition get_configured_value :: "(string \<Rightarrow> string option) \<Rightarrow> string \<Rightarrow> string option" where
  "get_configured_value env name =
     (case env name of None \<Rightarrow> None
      | Some v \<Rightarrow> if trim v = '''' then None else Some (trim v))"

definition get_backend_base_url :: "(string \<Rightarrow> string option) \<Rightarrow> string result" where
  "get_backend_base_url env =
     (case get_configured_value env ''BACKEND_BASE_URL'' of
        Some url \<Rightarrow> Inr url
      | None \<Rightarrow>
          if should_require_hosted_config env
          then Inl (PlainError (''BACKEND_BASE_URL must be set for hosted deployments. '' @
            ''Use the backend Railway public domain, for example '' @
            ''https://${{sms-platform-backend.RAILWAY_PUBLIC_DOMAIN}}/api/v1.''))
          else Inr ''http://localhost:3000/api/v1'')"

definition get_swagger_url :: "(string \<Rightarrow> string option) \<Rightarrow> string result" where
  "get_swagger_url env =
     (case get_configured_value env ''NEXT_PUBLIC_BACKEND_SWAGGER_URL'' of
        Some url \<Rightarrow> Inr url
      | None \<Rightarrow>
          if should_require_hosted_config env
          then Inl (PlainError (''NEXT_PUBLIC_BACKEND_SWAGGER_URL must be set for hosted deployments. '' @
            ''Use the backend Railway public domain, for example '' @
            ''https://${{sms-platform-backend.RAILWAY_PUBLIC_DOMAIN}}/api/v1/docs.''))
          else Inr ''http://localhost:3000/api/v1/docs'')"

subsection \<open>The session cookie\<close>

text \<open>An answer of the API: its status and, when it is JSON, its body.\<close>

record 'b answer =
  an_status :: int
  an_body :: 'b
  an_text :: string

definition answer_ok :: "('b, 'm) answer_scheme \<Rightarrow> bool" where
  "answer_ok a \<longleftrightarrow> 200 \<le> an_status a \<and> an_status a \<le> 299"

definition backend_fetch :: "('b, 'm) answer_scheme result \<Rightarrow> 'b result" where
  "backend_fetch fetched =
     and_then fetched (\<lambda>response.
       if \<not> answer_ok response
       then Inl (PlainError (if an_text response = ''''
                then ''Backend request failed with status '' @ int_str (an_status response)
                else an_text response))
       else Inr (an_body response))"

record session_data =
  se_user_id :: string
  se_role :: string
  se_tenant_id :: tenant

definition get_server_session :: "string option \<Rightarrow> (string \<Rightarrow> session_data answer result) \<Rightarrow> session_data option" where
  "get_server_session cookie auth_me =
     (if \<not> truthy_str cookie then None
      else case backend_fetch (auth_me (the cookie)) of Inl _ \<Rightarrow> None | Inr session \<Rightarrow> Some session)"

datatype page_outcome = Render session_data | Redirect string

definition require_session :: "string option \<Rightarrow> (string \<Rightarrow> session_data answer result) \<Rightarrow> string list option \<Rightarrow> page_outcome" where
  "require_session cookie auth_me roles =
     (case get_server_session cookie auth_me of
        None \<Rightarrow> Redirect ''/login''
      | Some session \<Rightarrow>
          (case roles of
             Some rs \<Rightarrow> if se_role session \<notin> set rs then Redirect ''/unauthorized'' else Render session
           | None \<Rightarrow> Render session))"

text \<open>The routes under \<open>app/api/auth\<close> give the cookie after the call, and an answer or an exception.\<close>

record 'b route_answer =
  ra_status :: int
  ra_body :: "'b option"

definition unauthorized :: "'b route_answer" where
  "unauthorized = \<lparr>ra_status = 401, ra_body = None\<rparr>"

definition login_route ::
  "string answer result \<Rightarrow> (string \<Rightarrow> session_data answer result) \<Rightarrow> string option \<Rightarrow>
   session_data route_answer result \<times> string option" where
  "login_route auth_login auth_me cookie =
     (case backend_fetch auth_login of
        Inl ex \<Rightarrow> (Inl ex, cookie)
      | Inr access_token \<Rightarrow>
          (map_sum id (\<lambda>session. \<lparr>ra_status = 200, ra_body = Some session\<rparr>) (backend_fetch (auth_me access_token)),
           Some access_token))"

definition logout_route :: "string option \<Rightarrow> unit route_answer \<times> string option" where
  "logout_route cookie = (\<lparr>ra_status = 200, ra_body = Some ()\<rparr>, None)"

definition session_route_answer ::
  "string option \<Rightarrow> (string \<Rightarrow> session_data answer result) \<Rightarrow> session_data route_answer" where
  "session_route_answer cookie auth_me =
     (case get_server_session cookie auth_me of
        None \<Rightarrow> unauthorized
      | Some session \<Rightarrow> \<lparr>ra_status = 200, ra_body = Some session\<rparr>)"

definition switch_tenant_route ::
  "(string \<Rightarrow> string answer result) \<Rightarrow> (string \<Rightarrow> session_data answer result) \<Rightarrow> string option \<Rightarrow>
   session_data route_answer result \<times> string option" where
  "switch_tenant_route auth_switch auth_me cookie =
     (if \<not> truthy_str cookie then (Inr unauthorized, cookie)
      else case backend_fetch (auth_switch (the cookie)) of
        Inl ex \<Rightarrow> (Inl ex, cookie)
      | Inr access_token \<Rightarrow>
          (map_sum id (\<lambda>session. \<lparr>ra_status = 200, ra_body = Some session\<rparr>) (backend_fetch (auth_me access_token)),
           Some access_token))"

definition re_auth_route ::
  "(string \<Rightarrow> 'b answer result) \<Rightarrow> string option \<Rightarrow> 'b route_answer result" where
  "re_auth_route auth_reauth cookie =
     (if \<not> truthy_str cookie then Inr unauthorized
      else map_sum id (\<lambda>b. \<lparr>ra_status = 200, ra_body = Some b\<rparr>) (backend_fetch (auth_reauth (the cookie))))"

subsection \<open>The gate in front of the pages\<close>

datatype gate_answer = Next | NextClearing | RedirectTo string | RedirectClearing string

definition is_public_path :: "string \<Rightarrow> bool" where
  "is_public_path pathname \<longleftrightarrow> pathname \<in> set [''/login'', ''/unauthorized'']"

text \<open>\<open>check\<close> is the answer of \<open>/auth/me\<close>: the session is valid or not, or nothing when the API is away.\<close>

definition gate :: "string \<Rightarrow> string option \<Rightarrow> (string \<Rightarrow> bool option) \<Rightarrow> gate_answer" where
  "gate pathname cookie check =
     (if starts_with pathname ''/_next'' \<or> starts_with pathname ''/api/auth'' \<or>
         starts_with pathname ''/api/proxy'' \<or> starts_with pathname ''/favicon''
      then Next
      else if \<not> truthy_str cookie \<and> \<not> is_public_path pathname then RedirectTo ''/login''
      else if \<not> truthy_str cookie then Next
      else case check (the cookie) of
        Some False \<Rightarrow>
          if is_public_path pathname then NextClearing else RedirectClearing ''/login?reason=session-expired''
      | Some True \<Rightarrow> if pathname = ''/login'' then RedirectTo ''/dashboard'' else Next
      | None \<Rightarrow> Next)"

text \<open>The probes of the control plane ask \<open>/api/health\<close> without a cookie and are sent to the login page.\<close>

lemma health_probe_is_redirected: "gate ''/api/health'' None check = RedirectTo ''/login''"
  by (simp add: gate_def is_public_path_def)

subsection \<open>The proxy\<close>

record browser_request =
  br_method :: string
  br_path :: "string list"
  br_query :: "(string \<times> string) list"
  br_content_type :: "string option"
  br_request_id :: "string option"
  br_reauth_token :: "string option"
  br_body :: string

record upstream_request =
  up_method :: string
  up_url :: string
  up_query :: "(string \<times> string) list"
  up_content_type :: string
  up_guarded :: request \<comment> \<open>the headers the guards of the API read\<close>
  up_body :: "string option"

definition proxied_headers :: "string \<Rightarrow> browser_request \<Rightarrow> request" where
  "proxied_headers token request =
     \<lparr>rq_api_key = None, rq_authorization = Some (''Bearer '' @ token),
      rq_reauth_tokens = (if truthy_str (br_reauth_token request) then [the (br_reauth_token request)] else []),
      rq_request_id = (if truthy_str (br_request_id request) then br_request_id request else None),
      rq_idempotency_key = None, rq_user = None, rq_api_principal = None\<rparr>"

definition proxy_request ::
  "(string \<Rightarrow> string option) \<Rightarrow> string option \<Rightarrow> browser_request \<Rightarrow> upstream_request option result" where
  "proxy_request env cookie request =
     (if \<not> truthy_str cookie then Inr None
      else and_then (get_backend_base_url env) (\<lambda>base.
        Inr (Some
          \<lparr>up_method = br_method request,
           up_url = base @ ''/'' @ join_with ''/'' (br_path request),
           up_query = from_entries (br_query request),
           up_content_type = coalesce (br_content_type request) ''application/json'',
           up_guarded = proxied_headers (the cookie) request,
           up_body = (if br_method request \<in> {''GET'', ''HEAD''} then None else Some (br_body request))\<rparr>)))"

text \<open>A repeated query parameter reaches the API once, with its last value.\<close>

lemma repeated_parameter_collapses:
  "from_entries [(k, v), (k, w)] = [(k, w)]"
  by (simp add: from_entries_def)

subsection \<open>The menu and what its pages read\<close>

record nav_item =
  ni_href :: string
  ni_label :: string
  ni_roles :: "string list"

definition nav_items :: "nav_item list" where
  "nav_items =
     [\<lparr>ni_href = ''/dashboard'', ni_label = ''Dashboard'',
       ni_roles = [''owner'', ''admin'', ''finance'', ''support'', ''developer'', ''viewer'']\<rparr>,
      \<lparr>ni_href = ''/send'', ni_label = ''Send SMS'', ni_roles = [''owner'', ''admin'', ''support'', ''developer'']\<rparr>,
      \<lparr>ni_href = ''/messages'', ni_label = ''Messages'',
       ni_roles = [''owner'', ''admin'', ''support'', ''developer'', ''viewer'']\<rparr>,
      \<lparr>ni_href = ''/campaigns'', ni_label = ''Campaigns'',
       ni_roles = [''owner'', ''admin'', ''support'', ''developer'', ''viewer'']\<rparr>,
      \<lparr>ni_href = ''/contacts'', ni_label = ''Contacts'',
       ni_roles = [''owner'', ''admin'', ''support'', ''developer'', ''viewer'']\<rparr>,
      \<lparr>ni_href = ''/templates'', ni_label = ''Templates'',
       ni_roles = [''owner'', ''admin'', ''support'', ''developer'', ''viewer'']\<rparr>,
      \<lparr>ni_href = ''/sender-ids'', ni_label = ''Sender IDs'',
       ni_roles = [''owner'', ''admin'', ''support'', ''developer'', ''viewer'']\<rparr>,
      \<lparr>ni_href = ''/wallet'', ni_label = ''Wallet & Billing'',
       ni_roles = [''owner'', ''admin'', ''finance'', ''support'', ''viewer'']\<rparr>,
      \<lparr>ni_href = ''/developer/api-keys'', ni_label = ''API Keys'', ni_roles = [''owner'', ''admin'', ''developer'']\<rparr>,
      \<lparr>ni_href = ''/developer/docs'', ni_label = ''API Docs'', ni_roles = [''owner'', ''admin'', ''developer'', ''viewer'']\<rparr>,
      \<lparr>ni_href = ''/admin/providers'', ni_label = ''Providers'', ni_roles = [''admin'', ''support'']\<rparr>,
      \<lparr>ni_href = ''/admin/routing'', ni_label = ''Routing'', ni_roles = [''admin'', ''support'']\<rparr>,
      \<lparr>ni_href = ''/admin/pricing'', ni_label = ''Pricing'', ni_roles = [''admin'', ''support'']\<rparr>,
      \<lparr>ni_href = ''/admin/retries'', ni_label = ''Retry Policies'', ni_roles = [''admin'', ''support'']\<rparr>,
      \<lparr>ni_href = ''/ops/console'', ni_label = ''Operations'', ni_roles = [''admin'', ''support'']\<rparr>,
      \<lparr>ni_href = ''/audit'', ni_label = ''Audit Logs'',
       ni_roles = [''owner'', ''admin'', ''finance'', ''support'', ''viewer'']\<rparr>,
      \<lparr>ni_href = ''/compliance'', ni_label = ''Fraud & Compliance'', ni_roles = [''owner'', ''admin'', ''support'']\<rparr>]"

definition can_access :: "string \<Rightarrow> string list \<Rightarrow> bool" where
  "can_access role allowed_roles \<longleftrightarrow> role \<in> set allowed_roles"

definition shown_items :: "string \<Rightarrow> nav_item list" where
  "shown_items role = filter (\<lambda>item. can_access role (ni_roles item)) nav_items"

text \<open>The routes the queries of \<open>lib/hooks.ts\<close> read, and the queries each page starts with.\<close>

datatype query_hook =
    DashboardQuery | MessagesQuery | CampaignsQuery | ContactsQuery | ContactGroupsQuery | TemplatesQuery
  | SenderIdsQuery | WalletQuery | WalletTransactionsQuery | ApiKeysQuery | ProvidersQuery | RoutingRulesQuery
  | PricingRulesQuery | RetryPoliciesQuery | OperationsOverviewQuery | AuditLogsQuery | FraudRulesQuery
  | FraudEventsQuery | OptOutsQuery | SuppressionsQuery | NotificationsQuery | GlobalSearchQuery
  | MessageTraceQuery | CampaignDetailQuery | CampaignSchedulesQuery | ContactDetailQuery
  | ContactGroupDetailQuery | ContactUploadsQuery | ContactUploadErrorsQuery | ProviderDetailQuery

fun hook_route :: "query_hook \<Rightarrow> string" where
  "hook_route DashboardQuery = ''GET /dashboard/tenant''"
| "hook_route MessagesQuery = ''GET /messages''"
| "hook_route CampaignsQuery = ''GET /campaigns''"
| "hook_route ContactsQuery = ''GET /contacts''"
| "hook_route ContactGroupsQuery = ''GET /contact-groups''"
| "hook_route TemplatesQuery = ''GET /templates''"
| "hook_route SenderIdsQuery = ''GET /sender-ids''"
| "hook_route WalletQuery = ''GET /wallet''"
| "hook_route WalletTransactionsQuery = ''GET /wallet/transactions''"
| "hook_route ApiKeysQuery = ''GET /api-keys''"
| "hook_route ProvidersQuery = ''GET /providers''"
| "hook_route RoutingRulesQuery = ''GET /routing/rules''"
| "hook_route PricingRulesQuery = ''GET /routing/pricing-rules''"
| "hook_route RetryPoliciesQuery = ''GET /routing/retry-policies''"
| "hook_route OperationsOverviewQuery = ''GET /operations/overview''"
| "hook_route AuditLogsQuery = ''GET /audit/logs''"
| "hook_route FraudRulesQuery = ''GET /fraud/rules''"
| "hook_route FraudEventsQuery = ''GET /fraud/events''"
| "hook_route OptOutsQuery = ''GET /compliance/opt-outs''"
| "hook_route SuppressionsQuery = ''GET /compliance/suppressions''"
| "hook_route NotificationsQuery = ''GET /notifications''"
| "hook_route GlobalSearchQuery = ''GET /search/global''"
| "hook_route MessageTraceQuery = ''GET /messages/:submitDate/:tenantId/:id/trace''"
| "hook_route CampaignDetailQuery = ''GET /campaigns/:id''"
| "hook_route CampaignSchedulesQuery = ''GET /campaign-schedules''"
| "hook_route ContactDetailQuery = ''GET /contacts/:id''"
| "hook_route ContactGroupDetailQuery = ''GET /contact-groups/:id''"
| "hook_route ContactUploadsQuery = ''GET /contact-uploads''"
| "hook_route ContactUploadErrorsQuery = ''GET /contact-uploads/:id/errors''"
| "hook_route ProviderDetailQuery = ''GET /providers/:id''"

definition page_queries :: "string \<Rightarrow> query_hook list" where
  "page_queries href =
     coalesce (map_of
       [(''/dashboard'', [DashboardQuery]),
        (''/send'', [TemplatesQuery, SenderIdsQuery, ContactGroupsQuery, CampaignsQuery]),
        (''/messages'', [MessagesQuery]),
        (''/messages/:submitDate/:tenantId/:id'', [MessageTraceQuery]),
        (''/campaigns'', [CampaignsQuery]),
        (''/campaigns/schedules'', [CampaignSchedulesQuery]),
        (''/campaigns/:id'', [CampaignDetailQuery]),
        (''/contacts'', [ContactsQuery]),
        (''/contacts/:id'', [ContactDetailQuery]),
        (''/contacts/groups'', [ContactGroupsQuery]),
        (''/contacts/groups/:id'', [ContactGroupDetailQuery]),
        (''/contacts/uploads'', [ContactUploadsQuery, ContactGroupsQuery]),
        (''/contacts/uploads/:id'', [ContactUploadErrorsQuery]),
        (''/templates'', [TemplatesQuery]),
        (''/sender-ids'', [SenderIdsQuery, ProvidersQuery]),
        (''/wallet'', [WalletQuery, WalletTransactionsQuery]),
        (''/developer/api-keys'', [ApiKeysQuery]),
        (''/admin/providers'', [ProvidersQuery]),
        (''/admin/providers/:id'', [ProviderDetailQuery]),
        (''/admin/routing'', [RoutingRulesQuery, ProvidersQuery]),
        (''/admin/pricing'', [PricingRulesQuery, ProvidersQuery]),
        (''/admin/retries'', [RetryPoliciesQuery, ProvidersQuery]),
        (''/ops/console'', [OperationsOverviewQuery]),
        (''/audit'', [AuditLogsQuery]),
        (''/compliance'', [OptOutsQuery, SuppressionsQuery, FraudRulesQuery, FraudEventsQuery])] href) []"

text \<open>The shell around every page has the bell and the search.\<close>

definition shell_queries :: "query_hook list" where
  "shell_queries = [NotificationsQuery, GlobalSearchQuery]"

definition rule_of :: "string \<Rightarrow> access_rule option" where
  "rule_of name = map_option snd (map_of all_routes name)"

text \<open>A query is answered when the guards of its route let the proxied request pass.\<close>

definition query_admitted ::
  "(string \<Rightarrow> jwt_claims option) \<Rightarrow> string \<Rightarrow> browser_request \<Rightarrow> query_hook \<Rightarrow> bool" where
  "query_admitted verify token request hook \<longleftrightarrow>
     (case rule_of (hook_route hook) of
        None \<Rightarrow> False
      | Some rule \<Rightarrow>
          (case admit verify (\<lambda>_. None) (\<lambda>_. Inl (UnauthorizedException ''Invalid API key'')) rule
             (proxied_headers token request) of Inl _ \<Rightarrow> False | Inr _ \<Rightarrow> True))"

subsection \<open>Which pages of the menu load\<close>

definition hook_roles :: "query_hook \<Rightarrow> string list" where
  "hook_roles hook = (case rule_of (hook_route hook) of Some rule \<Rightarrow> coalesce (ar_roles rule) [] | None \<Rightarrow> [])"

lemma routes_distinct: "distinct (map fst all_routes)"
  by (simp add: all_routes_def routes_defs)

lemma rule_of_route:
  assumes "(name, rule) \<in> set (map (\<lambda>(n, handler, r). (n, r)) all_routes)"
  shows "rule_of name = Some rule"
  using assms routes_distinct by (auto simp: rule_of_def)

lemma hook_rules:
  shows "rule_of ''GET /dashboard/tenant'' = Some (role_route [''owner'', ''admin'', ''finance'', ''support'', ''developer'', ''viewer''])"
    "rule_of ''GET /messages'' = Some (role_route [''owner'', ''admin'', ''developer'', ''support'', ''viewer''])"
    "rule_of ''GET /campaigns'' = Some (role_route [''owner'', ''admin'', ''developer'', ''support'', ''viewer''])"
    "rule_of ''GET /contacts'' = Some (role_route [''owner'', ''admin'', ''developer'', ''support'', ''viewer''])"
    "rule_of ''GET /contact-groups'' = Some (role_route [''owner'', ''admin'', ''developer'', ''support'', ''viewer''])"
    "rule_of ''GET /templates'' = Some (role_route [''owner'', ''admin'', ''developer'', ''support'', ''viewer''])"
    "rule_of ''GET /sender-ids'' = Some (role_route [''owner'', ''admin'', ''developer'', ''support'', ''viewer''])"
    "rule_of ''GET /wallet'' = Some (role_route [''owner'', ''admin'', ''finance'', ''support'', ''viewer''])"
    "rule_of ''GET /wallet/transactions'' = Some (role_route [''owner'', ''admin'', ''finance'', ''support'', ''viewer''])"
    "rule_of ''GET /api-keys'' = Some (role_route [''owner'', ''admin'', ''developer''])"
    "rule_of ''GET /providers'' = Some (role_route [''admin'', ''support''])"
    "rule_of ''GET /routing/rules'' = Some (role_route [''admin'', ''support''])"
    "rule_of ''GET /routing/pricing-rules'' = Some (role_route [''admin'', ''support''])"
    "rule_of ''GET /routing/retry-policies'' = Some (role_route [''admin'', ''support''])"
    "rule_of ''GET /operations/overview'' = Some (role_route [''admin'', ''support''])"
    "rule_of ''GET /audit/logs'' = Some (role_route [''owner'', ''admin'', ''finance'', ''support'', ''viewer''])"
    "rule_of ''GET /fraud/rules'' = Some (role_route [''owner'', ''admin'', ''support''])"
    "rule_of ''GET /fraud/events'' = Some (role_route [''owner'', ''admin'', ''support''])"
    "rule_of ''GET /compliance/opt-outs'' = Some (role_route [''owner'', ''admin'', ''support'', ''viewer''])"
    "rule_of ''GET /compliance/suppressions'' = Some (role_route [''owner'', ''admin'', ''support'', ''viewer''])"
    "rule_of ''GET /notifications'' = Some (role_route [''owner'', ''admin'', ''finance'', ''support'', ''developer'', ''viewer''])"
    "rule_of ''GET /search/global'' = Some (role_route [''owner'', ''admin'', ''finance'', ''support'', ''developer'', ''viewer''])"
    "rule_of ''GET /messages/:submitDate/:tenantId/:id/trace'' = Some (role_route [''owner'', ''admin'', ''developer'', ''support'', ''viewer''])"
    "rule_of ''GET /campaigns/:id'' = Some (role_route [''owner'', ''admin'', ''developer'', ''support'', ''viewer''])"
    "rule_of ''GET /campaign-schedules'' = Some (role_route [''owner'', ''admin'', ''developer'', ''support'', ''viewer''])"
    "rule_of ''GET /contacts/:id'' = Some (role_route [''owner'', ''admin'', ''developer'', ''support'', ''viewer''])"
    "rule_of ''GET /contact-groups/:id'' = Some (role_route [''owner'', ''admin'', ''developer'', ''support'', ''viewer''])"
    "rule_of ''GET /contact-uploads'' = Some (role_route [''owner'', ''admin'', ''developer'', ''support'', ''viewer''])"
    "rule_of ''GET /contact-uploads/:id/errors'' = Some (role_route [''owner'', ''admin'', ''developer'', ''support'', ''viewer''])"
    "rule_of ''GET /providers/:id'' = Some (role_route [''admin'', ''support''])"
  by (rule rule_of_route, simp add: all_routes_def routes_defs)+

lemmas hook_role_defs = hook_roles_def hook_rules role_route_def coalesce_def

lemma hook_rule: "rule_of (hook_route hook) = Some (role_route (hook_roles hook))" "hook_roles hook \<noteq> []"
  by (cases hook; simp add: hook_role_defs)+

lemma query_admitted_iff:
  assumes "verify token = Some claims" and "jc_role claims \<noteq> ''''"
  shows "query_admitted verify token request hook \<longleftrightarrow> jc_role claims \<in> set (hook_roles hook)"
  using assms
  by (simp add: query_admitted_def hook_rule admit_def jwt_auth_guard_def roles_guard_def proxied_headers_def
      role_route_def truthy_str_def and_then_def Let_def)

lemma menu_roles:
  "list_all (\<lambda>item. list_all (\<lambda>role.
      list_all (\<lambda>hook. role \<in> set (hook_roles hook)) (page_queries (ni_href item) @ shell_queries) =
      (ni_href item = ''/sender-ids'' \<longrightarrow> role \<in> {''admin'', ''support''})) (ni_roles item)) nav_items"
  by (simp add: nav_items_def page_queries_def shell_queries_def hook_role_defs)

text \<open>C37: every page the menu shows to a role gets the answers it starts with through the proxy and the
  guards of the API, the bell and the search of the shell included, with one exception: the page of
  the sender IDs reads the providers, which the API refuses to every role but admin and support, so
  an owner, a developer or a viewer never gets the list it offers.\<close>

theorem menu_pages_load:
  assumes "item \<in> set (shown_items (jc_role claims))" and "verify token = Some claims"
  shows "list_all (query_admitted verify token request) (page_queries (ni_href item) @ shell_queries) \<longleftrightarrow>
    (ni_href item = ''/sender-ids'' \<longrightarrow> jc_role claims \<in> {''admin'', ''support''})"
proof -
  have item: "item \<in> set nav_items" "jc_role claims \<in> set (ni_roles item)"
    using assms(1) by (simp_all add: shown_items_def can_access_def)
  have "\<forall>item \<in> set nav_items. '''' \<notin> set (ni_roles item)" by (simp add: nav_items_def)
  with item have "jc_role claims \<noteq> ''''" by metis
  note admitted = query_admitted_iff [where verify = verify and token = token and request = request, OF assms(2) this]
  show ?thesis
    using menu_roles item unfolding admitted list_all_iff by blast
qed

definition ex_browse :: browser_request where
  "ex_browse = \<lparr>br_method = ''GET'', br_path = [''sender-ids''], br_query = [], br_content_type = None,
     br_request_id = None, br_reauth_token = None, br_body = ''''\<rparr>"

theorem menu_pages_load_witness:
  "\<not> list_all (query_admitted (\<lambda>token. if token = ''t1'' then Some (ex_claims\<lparr>jc_role := ''owner''\<rparr>) else None) ''t1''
      ex_browse) (page_queries ''/sender-ids'' @ shell_queries)"
proof -
  define item where "item = \<lparr>ni_href = ''/sender-ids'', ni_label = ''Sender IDs'',
       ni_roles = [''owner'', ''admin'', ''support'', ''developer'', ''viewer'']\<rparr>"
  have "item \<in> set (shown_items (jc_role (ex_claims\<lparr>jc_role := ''owner''\<rparr>)))"
    by (simp add: item_def shown_items_def can_access_def nav_items_def)
  from menu_pages_load [OF this, of "\<lambda>token. if token = ''t1'' then Some (ex_claims\<lparr>jc_role := ''owner''\<rparr>) else None"
      "''t1''" ex_browse]
  show ?thesis by (simp add: item_def)
qed

end
