(* ===== verification/Browser.thy ===== *)
theory Browser
  imports Dlr Contacts
begin

text \<open>
  What the control plane does in the browser: values kept in the local storage under a version
  (\<open>lib/local-persistence.ts\<close>), the notifications read (\<open>lib/notifications-state.ts\<close>), the saved views
  of a page (\<open>lib/saved-views.ts\<close>), filters in the address (\<open>lib/use-url-filters.ts\<close>), the preview of
  an upload (\<open>lib/uploads.ts\<close>), CSV downloads (\<open>lib/csv.ts\<close>) and the pace of the refreshes
  (\<open>lib/realtime.ts\<close>). A storage entry is the JSON value its text parses to, or malformed text.
\<close>

subsection \<open>Versioned values in the local storage\<close>

datatype stored = Parsed json | Malformed

type_synonym storage = "string \<Rightarrow> stored option"

definition is_envelope :: "json \<Rightarrow> bool" where
  "is_envelope j \<longleftrightarrow>
     (case j of JObj _ \<Rightarrow> json_field j ''version'' \<noteq> None \<and> json_field j ''value'' \<noteq> None | _ \<Rightarrow> False)"

definition try_read :: "string \<Rightarrow> storage \<Rightarrow> json option \<times> storage" where
  "try_read key st =
     (case st key of
        None \<Rightarrow> (None, st)
      | Some Malformed \<Rightarrow> (None, st(key := None))
      | Some (Parsed j) \<Rightarrow> (if j = JNull then None else Some j, st))"

fun try_read_all :: "string list \<Rightarrow> storage \<Rightarrow> json option list \<times> storage" where
  "try_read_all [] st = ([], st)"
| "try_read_all (k # ks) st =
     (let (v, st1) = try_read k st; (vs, st2) = try_read_all ks st1 in (v # vs, st2))"

definition save_versioned :: "string \<Rightarrow> string \<Rightarrow> int \<Rightarrow> json \<Rightarrow> storage \<Rightarrow> storage" where
  "save_versioned now key version v st =
     st(key \<mapsto> Parsed (JObj [(''version'', jint version), (''updatedAt'', JStr now), (''value'', v)]))"

fun first_migrated :: "(json \<Rightarrow> 'a option) \<Rightarrow> json option list \<Rightarrow> 'a option" where
  "first_migrated migrate [] = None"
| "first_migrated migrate (None # vs) = first_migrated migrate vs"
| "first_migrated migrate (Some j # vs) =
     (case migrate j of None \<Rightarrow> first_migrated migrate vs | Some a \<Rightarrow> Some a)"

text \<open>\<open>cast\<close> is the type the code gives to the value of an envelope without looking at it.\<close>

definition load_versioned ::
  "string \<Rightarrow> string \<Rightarrow> int \<Rightarrow> 'a \<Rightarrow> string list \<Rightarrow> (json \<Rightarrow> 'a option) \<Rightarrow> ('a \<Rightarrow> json) \<Rightarrow> (json \<Rightarrow> 'a) \<Rightarrow> storage \<Rightarrow>
   'a \<times> storage" where
  "load_versioned now key version default_value legacy_keys migrate encode cast st =
     (let (current, st1) = try_read key st in
      if (case current of None \<Rightarrow> False
          | Some j \<Rightarrow> is_envelope j \<and> json_field j ''version'' = Some (jint version))
      then (cast (the (json_field (the current) ''value'')), st1)
      else
        (let (olds, st2) = try_read_all legacy_keys st1 in
         case first_migrated migrate (current # olds) of
           None \<Rightarrow> (default_value, st2)
         | Some a \<Rightarrow>
             (a, fold (\<lambda>k s. s(k := None)) legacy_keys (save_versioned now key version (encode a) st2))))"

lemma load_saved:
  "load_versioned now' key version default_value legacy_keys migrate encode cast
     (save_versioned now key version v st) = (cast v, save_versioned now key version v st)"
  by (simp add: load_versioned_def save_versioned_def try_read_def is_envelope_def)

text \<open>Reading removes malformed entries only, so a second load gives what the first gave.\<close>

lemma try_read_again [simp]: "fst (try_read k (snd (try_read k' st))) = fst (try_read k st)"
  by (simp add: try_read_def split: option.split stored.split)

lemma try_read_all_again [simp]: "fst (try_read k (snd (try_read_all ks st))) = fst (try_read k st)"
  by (induction ks arbitrary: st) (simp_all add: case_prod_beta' Let_def)

lemma try_read_all_reads: "fst (try_read_all ks st) = map (\<lambda>k. fst (try_read k st)) ks"
  by (induction ks arbitrary: st) (simp_all add: case_prod_beta' Let_def)

lemma removed_elsewhere: "k \<notin> set ks \<Longrightarrow> fold (\<lambda>k s. s(k := None)) ks st k = st k"
  by (induction ks arbitrary: st) auto

lemma load_versioned_again:
  assumes load_def: "load = load_versioned now key version default_value legacy_keys migrate encode cast"
    and "key \<notin> set legacy_keys" and "cast (encode (fst (load st))) = fst (load st)"
  shows "fst (load (snd (load st))) = fst (load st)"
proof -
  let ?fits = "\<lambda>current. case current of None \<Rightarrow> False
    | Some j \<Rightarrow> is_envelope j \<and> json_field j ''version'' = Some (jint version)"
  let ?olds = "map (\<lambda>k. fst (try_read k st)) legacy_keys"
  show ?thesis
  proof (cases "?fits (fst (try_read key st))")
    case True
    then show ?thesis by (simp add: load_def load_versioned_def case_prod_beta' Let_def)
  next
    case False
    show ?thesis
    proof (cases "first_migrated migrate (fst (try_read key st) # ?olds)")
      case None
      with False show ?thesis
        by (simp add: load_def load_versioned_def case_prod_beta' Let_def try_read_all_reads)
    next
      case (Some a)
      define st2 where "st2 = fold (\<lambda>k s. s(k := None)) legacy_keys
        (save_versioned now key version (encode a) (snd (try_read_all legacy_keys (snd (try_read key st)))))"
      have l: "load st = (a, st2)"
        using False Some by (simp add: load_def load_versioned_def case_prod_beta' Let_def try_read_all_reads st2_def)
      have "st2 key = Some (Parsed (JObj [(''version'', jint version), (''updatedAt'', JStr now), (''value'', encode a)]))"
        by (simp add: st2_def removed_elsewhere [OF assms(2)] save_versioned_def)
      then have "fst (load st2) = cast (encode a)"
        by (simp add: load_def load_versioned_def try_read_def is_envelope_def)
      with l assms(3) show ?thesis by simp
    qed
  qed
qed

subsection \<open>The notifications read\<close>

fun string_entries :: "json list \<Rightarrow> string list option" where
  "string_entries [] = Some []"
| "string_entries (JStr s # js) = map_option ((#) s) (string_entries js)"
| "string_entries (_ # js) = None"

text \<open>\<open>[...new Set(ids)]\<close> keeps the first occurrence of each.\<close>

definition unique :: "'a list \<Rightarrow> 'a list" where
  "unique xs = rev (remdups (rev xs))"

definition normalize_read_ids :: "json \<Rightarrow> string list option" where
  "normalize_read_ids j =
     (case j of
        JArr xs \<Rightarrow> map_option unique (string_entries xs)
      | JObj _ \<Rightarrow>
          (case json_field j ''readIds'' of
             Some (JArr xs) \<Rightarrow> map_option unique (string_entries xs)
           | _ \<Rightarrow> None)
      | _ \<Rightarrow> None)"

definition read_ids_json :: "string list \<Rightarrow> json" where
  "read_ids_json ids = JArr (map JStr ids)"

definition read_ids_key :: "string \<Rightarrow> string \<Rightarrow> tenant \<Rightarrow> string" where
  "read_ids_key version_tag user_id tenant =
     ''sms-cp:notifications:read:'' @ version_tag @ '':'' @ user_id @ '':'' @ tenant"

definition load_notification_read_ids :: "string \<Rightarrow> string \<Rightarrow> tenant \<Rightarrow> storage \<Rightarrow> string list \<times> storage" where
  "load_notification_read_ids now user_id tenant =
     load_versioned now (read_ids_key ''v2'' user_id tenant) 2 [] [read_ids_key ''v1'' user_id tenant]
       normalize_read_ids read_ids_json (\<lambda>j. coalesce (normalize_read_ids j) [])"

definition save_notification_read_ids :: "string \<Rightarrow> string \<Rightarrow> tenant \<Rightarrow> string list \<Rightarrow> storage \<Rightarrow> storage" where
  "save_notification_read_ids now user_id tenant ids =
     save_versioned now (read_ids_key ''v2'' user_id tenant) 2 (read_ids_json (unique ids))"

lemma string_entries_JStr [simp]: "string_entries (map JStr ids) = Some ids"
  by (induction ids) simp_all

lemma unique_simps [simp]: "set (unique xs) = set xs" "distinct (unique xs)" "unique (unique xs) = unique xs"
  by (simp_all add: unique_def distinct_remdups_id)

lemma read_ids_roundtrip:
  "fst (load_notification_read_ids now' user_id tenant (save_notification_read_ids now user_id tenant ids st)) =
     unique ids"
  by (simp add: load_notification_read_ids_def save_notification_read_ids_def load_saved normalize_read_ids_def
      read_ids_json_def coalesce_def)

subsection \<open>Saved views\<close>

record saved_view =
  sv_id :: string
  sv_name :: string
  sv_filters :: "(string \<times> string) list"
  sv_is_default :: bool
  sv_created_at :: string
  sv_updated_at :: string

fun object_entries :: "json \<Rightarrow> (string \<times> json) list option" where
  "object_entries (JObj kvs) = Some kvs"
| "object_entries (JArr xs) = Some (map (\<lambda>i. (nat_str i, xs ! i)) [0..<length xs])"
| "object_entries _ = None"

fun string_items :: "(string \<times> json) list \<Rightarrow> (string \<times> string) list" where
  "string_items [] = []"
| "string_items ((k, JStr s) # kvs) = (k, s) # string_items kvs"
| "string_items (_ # kvs) = string_items kvs"

definition normalize_view :: "json \<Rightarrow> saved_view option" where
  "normalize_view entry =
     (case (json_field entry ''id'', json_field entry ''name'', json_field entry ''createdAt'',
            json_field entry ''updatedAt'', json_field entry ''isDefault'',
            Option.bind (json_field entry ''filters'') object_entries) of
        (Some (JStr i), Some (JStr n), Some (JStr c), Some (JStr u), Some (JBool b), Some kvs) \<Rightarrow>
          Some \<lparr>sv_id = i, sv_name = n, sv_filters = from_entries (string_items kvs), sv_is_default = b,
                sv_created_at = c, sv_updated_at = u\<rparr>
      | _ \<Rightarrow> None)"

definition normalize_views :: "json \<Rightarrow> saved_view list option" where
  "normalize_views j = (case j of JArr xs \<Rightarrow> Some (List.map_filter normalize_view xs) | _ \<Rightarrow> None)"

definition view_json :: "saved_view \<Rightarrow> json" where
  "view_json v =
     JObj [(''id'', JStr (sv_id v)), (''name'', JStr (sv_name v)),
           (''filters'', JObj (map (\<lambda>(k, s). (k, JStr s)) (sv_filters v))),
           (''isDefault'', JBool (sv_is_default v)),
           (''createdAt'', JStr (sv_created_at v)), (''updatedAt'', JStr (sv_updated_at v))]"

definition views_json :: "saved_view list \<Rightarrow> json" where
  "views_json views = JArr (map view_json views)"

definition views_key :: "string \<Rightarrow> string \<Rightarrow> tenant \<Rightarrow> string \<Rightarrow> string" where
  "views_key version_tag user_id tenant page =
     ''sms-cp:saved-views:'' @ version_tag @ '':'' @ user_id @ '':'' @ tenant @ '':'' @ page"

text \<open>The page of a user in a tenant: the keys of its views.\<close>

record view_page =
  vp_user_id :: string
  vp_tenant :: tenant
  vp_page :: string

definition load_views :: "string \<Rightarrow> view_page \<Rightarrow> storage \<Rightarrow> saved_view list \<times> storage" where
  "load_views now pg =
     load_versioned now (views_key ''v2'' (vp_user_id pg) (vp_tenant pg) (vp_page pg)) 2 []
       [views_key ''v1'' (vp_user_id pg) (vp_tenant pg) (vp_page pg)]
       normalize_views views_json (\<lambda>j. coalesce (normalize_views j) [])"

definition persist_views :: "string \<Rightarrow> view_page \<Rightarrow> saved_view list \<Rightarrow> storage \<Rightarrow> storage" where
  "persist_views now pg views =
     save_versioned now (views_key ''v2'' (vp_user_id pg) (vp_tenant pg) (vp_page pg)) 2 (views_json views)"

definition same_name :: "string \<Rightarrow> saved_view \<Rightarrow> bool" where
  "same_name name v \<longleftrightarrow> to_lower (sv_name v) = to_lower name"

definition save_view ::
  "string \<Rightarrow> string \<Rightarrow> string \<Rightarrow> (string \<times> string) list \<Rightarrow> bool \<Rightarrow> saved_view list \<Rightarrow>
   (string \<times> saved_view list) result" where
  "save_view now new_id name filters set_default views =
     (let trimmed_name = trim name in
      if trimmed_name = '''' then Inl (PlainError ''Saved view name is required'')
      else
        (let base = map (\<lambda>v. v\<lparr>sv_is_default := if set_default then False else sv_is_default v\<rparr>) views in
         case first_row (filter (same_name trimmed_name) views) of
           Some existing \<Rightarrow>
             Inr (sv_id existing,
               map (\<lambda>v. if sv_id v = sv_id existing
                 then v\<lparr>sv_filters := filters,
                        sv_is_default := if set_default then True else sv_is_default v, sv_updated_at := now\<rparr>
                 else v) base)
         | None \<Rightarrow>
             Inr (new_id,
               \<lparr>sv_id = new_id, sv_name = trimmed_name, sv_filters = filters, sv_is_default = set_default,
                sv_created_at = now, sv_updated_at = now\<rparr> # base)))"

definition remove_view :: "string \<Rightarrow> saved_view list \<Rightarrow> saved_view list" where
  "remove_view i views = filter (\<lambda>v. sv_id v \<noteq> i) views"

definition set_default_view :: "string \<Rightarrow> string option \<Rightarrow> saved_view list \<Rightarrow> saved_view list" where
  "set_default_view now i views =
     map (\<lambda>v. v\<lparr>sv_is_default := (if truthy_str i then Some (sv_id v) = i else False),
                sv_updated_at := (if Some (sv_id v) = i then now else sv_updated_at v)\<rparr>) views"

definition default_view :: "saved_view list \<Rightarrow> saved_view option" where
  "default_view views = first_row (filter sv_is_default views)"

datatype view_change =
    SaveView string string "(string \<times> string) list" bool \<comment> \<open>fresh id, name, filters, default\<close>
  | RemoveView string
  | SetDefaultView "string option"

fun view_action :: "string \<Rightarrow> view_page \<Rightarrow> view_change \<Rightarrow> storage \<Rightarrow> storage" where
  "view_action now pg (SaveView new_id name filters set_default) st =
     (let (views, st1) = load_views now pg st in
      case save_view now new_id name filters set_default views of
        Inl _ \<Rightarrow> st1
      | Inr (_, views') \<Rightarrow> persist_views now pg views' st1)"
| "view_action now pg (RemoveView i) st =
     (let (views, st1) = load_views now pg st in persist_views now pg (remove_view i views) st1)"
| "view_action now pg (SetDefaultView i) st =
     (let (views, st1) = load_views now pg st in persist_views now pg (set_default_view now i views) st1)"

subsection \<open>The views stay well formed\<close>

definition views_wf :: "saved_view list \<Rightarrow> bool" where
  "views_wf views \<longleftrightarrow>
     distinct (map sv_id views) \<and> distinct (map (to_lower \<circ> sv_name) views) \<and>
     length (filter sv_is_default views) \<le> 1 \<and> (\<forall>v \<in> set views. distinct (map fst (sv_filters v)))"

lemma update_new: "k \<notin> fst ` set al \<Longrightarrow> AList.update k v al = al @ [(k, v)]"
  by (induction al) auto

lemma from_entries_distinct: "distinct (map fst kvs) \<Longrightarrow> from_entries kvs = kvs"
proof -
  have "distinct (map fst (al @ kvs)) \<Longrightarrow> fold (\<lambda>(k, v) al. AList.update k v al) kvs al = al @ kvs" for al
    by (induction kvs arbitrary: al) (auto simp: update_new)
  from this [of "[]"] show "distinct (map fst kvs) \<Longrightarrow> from_entries kvs = kvs" by (simp add: from_entries_def)
qed

lemma string_items_JStr [simp]: "string_items (map (\<lambda>(k, s). (k, JStr s)) kvs) = kvs"
  by (induction kvs) auto

lemma normalize_view_json: "distinct (map fst (sv_filters v)) \<Longrightarrow> normalize_view (view_json v) = Some v"
  by (simp add: normalize_view_def view_json_def from_entries_distinct)

lemma normalize_views_json:
  "\<forall>v \<in> set views. distinct (map fst (sv_filters v)) \<Longrightarrow> normalize_views (views_json views) = Some views"
  unfolding normalize_views_def views_json_def
  by (induction views) (simp_all add: map_filter_simps normalize_view_json)

lemma load_persisted:
  "views_wf views \<Longrightarrow> fst (load_views now' pg (persist_views now pg views st)) = views"
  by (simp add: load_views_def persist_views_def load_saved normalize_views_json views_wf_def coalesce_def)

lemma load_views_again:
  assumes "views_wf (fst (load_views now pg st))"
  shows "fst (load_views now pg (snd (load_views now pg st))) = fst (load_views now pg st)"
  unfolding load_views_def
proof (rule load_versioned_again [OF refl])
  show "views_key ''v2'' (vp_user_id pg) (vp_tenant pg) (vp_page pg) \<notin>
      set [views_key ''v1'' (vp_user_id pg) (vp_tenant pg) (vp_page pg)]"
    by (simp add: views_key_def)
  let ?views = "fst (load_versioned now (views_key ''v2'' (vp_user_id pg) (vp_tenant pg) (vp_page pg)) 2 []
      [views_key ''v1'' (vp_user_id pg) (vp_tenant pg) (vp_page pg)]
      normalize_views views_json (\<lambda>j. coalesce (normalize_views j) []) st)"
  have "\<forall>v \<in> set ?views. distinct (map fst (sv_filters v))"
    using assms by (simp add: views_wf_def load_views_def)
  then show "coalesce (normalize_views (views_json ?views)) [] = ?views"
    by (simp add: normalize_views_json coalesce_def)
qed

lemma length_filter_key: "distinct (map f xs) \<Longrightarrow> length (filter (\<lambda>x. f x = k) xs) \<le> 1"
  by (induction xs) (auto simp: filter_empty_conv image_iff)

lemma length_filter_map: "length (filter P (map f xs)) = length (filter (\<lambda>x. P (f x)) xs)"
  by (simp add: filter_map comp_def)

lemma save_view_wf:
  assumes "views_wf views" and "distinct (map fst filters)" and "new_id \<notin> sv_id ` set views"
    and "save_view now new_id name filters set_default views = Inr (i, views')"
  shows "views_wf views' \<and> sv_id ` set views' \<subseteq> insert new_id (sv_id ` set views)"
proof -
  define base where "base = map (\<lambda>v. v\<lparr>sv_is_default := if set_default then False else sv_is_default v\<rparr>) views"
  have ids: "map sv_id base = map sv_id views"
    and names: "map (to_lower \<circ> sv_name) base = map (to_lower \<circ> sv_name) views"
    and fields: "\<forall>v \<in> set base. distinct (map fst (sv_filters v))"
    and defaults: "length (filter sv_is_default base) = (if set_default then 0 else length (filter sv_is_default views))"
    using assms(1) by (auto simp: base_def views_wf_def length_filter_map comp_def)
  have wf: "distinct (map sv_id base)" "distinct (map (to_lower \<circ> sv_name) base)"
    using assms(1) by (simp_all only: ids names views_wf_def)
  have base_ids: "sv_id ` set base = sv_id ` set views" using ids by (metis set_map)
  have one: "length (filter sv_is_default views) \<le> 1" using assms(1) by (simp add: views_wf_def)
  show ?thesis
  proof (cases "first_row (filter (same_name (trim name)) views)")
    case None
    then have fresh: "\<forall>v \<in> set views. to_lower (sv_name v) \<noteq> to_lower (trim name)"
      by (auto simp: filter_empty_conv same_name_def)
    then have "to_lower (trim name) \<notin> (to_lower \<circ> sv_name) ` set base"
      using names by (metis (mono_tags, lifting) comp_apply imageE set_map)
    moreover have "views' = \<lparr>sv_id = new_id, sv_name = trim name, sv_filters = filters, sv_is_default = set_default,
        sv_created_at = now, sv_updated_at = now\<rparr> # base"
      using assms(4) None by (auto simp: save_view_def base_def Let_def split: if_splits)
    ultimately show ?thesis
      using wf fields defaults one assms(2,3) base_ids by (auto simp: views_wf_def)
  next
    case (Some existing)
    define upd :: "saved_view \<Rightarrow> saved_view" where "upd = (\<lambda>v. if sv_id v = sv_id existing
      then v\<lparr>sv_filters := filters, sv_is_default := if set_default then True else sv_is_default v,
             sv_updated_at := now\<rparr> else v)"
    have views': "views' = map upd base"
      using assms(4) Some by (auto simp: save_view_def base_def upd_def Let_def split: if_splits)
    have same: "sv_id (upd v) = sv_id v" "sv_name (upd v) = sv_name v" for v by (simp_all add: upd_def)
    have "length (filter (\<lambda>v. sv_is_default (upd v)) base) \<le> 1"
    proof (cases set_default)
      case True
      then have "filter sv_is_default base = []" using defaults by simp
      then have "\<forall>v \<in> set base. sv_is_default (upd v) = (sv_id v = sv_id existing)"
        using True by (simp add: upd_def filter_empty_conv)
      then show ?thesis using length_filter_key [OF wf(1), of "sv_id existing"] by (simp cong: filter_cong)
    next
      case False
      then show ?thesis using defaults one by (simp add: upd_def if_distrib cong: if_cong)
    qed
    then show ?thesis
      using wf fields assms(2) base_ids
      by (auto simp: views' views_wf_def comp_def same length_filter_map) (auto simp: upd_def)
  qed
qed

lemma remove_view_wf:
  assumes "views_wf views"
  shows "views_wf (remove_view i views) \<and> sv_id ` set (remove_view i views) \<subseteq> sv_id ` set views"
proof -
  have "length (filter (\<lambda>v. sv_id v \<noteq> i) (filter sv_is_default views)) \<le> 1"
    using assms by (auto simp: views_wf_def simp del: filter_filter intro: le_trans [OF length_filter_le])
  then show ?thesis
    using assms by (auto simp: views_wf_def remove_view_def distinct_map_filter conj_commute)
qed

lemma set_default_view_wf:
  assumes "views_wf views"
  shows "views_wf (set_default_view now i views) \<and> sv_id ` set (set_default_view now i views) = sv_id ` set views"
proof -
  have "length (filter (\<lambda>v. truthy_str i \<and> Some (sv_id v) = i) views) \<le> 1"
  proof (cases "truthy_str i")
    case True
    then obtain k where "i = Some k" by (cases i) simp_all
    then show ?thesis using True assms length_filter_key [of sv_id views k] by (simp add: views_wf_def)
  qed simp
  then have "length (filter (\<lambda>v. if truthy_str i then Some (sv_id v) = i else False) views) \<le> 1"
    by (cases "truthy_str i") simp_all
  then show ?thesis
    using assms by (auto simp: views_wf_def set_default_view_def comp_def length_filter_map image_comp cong del: if_cong
        simp del: if_split)
qed

text \<open>A change is possible when its filters are an object and the id of a new view is fresh.\<close>

fun change_ids :: "view_change \<Rightarrow> string list" where
  "change_ids (SaveView new_id name filters set_default) = [new_id]"
| "change_ids _ = []"

fun change_ok :: "view_change \<Rightarrow> bool" where
  "change_ok (SaveView new_id name filters set_default) = distinct (map fst filters)"
| "change_ok _ = True"

lemma view_action_wf:
  assumes "views_wf (fst (load_views now pg st))" and "change_ok change"
    and "set (change_ids change) \<inter> sv_id ` set (fst (load_views now pg st)) = {}"
  shows "views_wf (fst (load_views now pg (view_action now pg change st))) \<and>
    sv_id ` set (fst (load_views now pg (view_action now pg change st))) \<subseteq>
      set (change_ids change) \<union> sv_id ` set (fst (load_views now pg st))"
proof -
  obtain views st1 where l: "load_views now pg st = (views, st1)" by fastforce
  then have again: "fst (load_views now pg st1) = views" and wf: "views_wf views"
    using load_views_again [OF assms(1)] assms(1) by simp_all
  show ?thesis
  proof (cases change)
    case (SaveView new_id name filters set_default)
    then have ok: "distinct (map fst filters)" "new_id \<notin> sv_id ` set views" using assms(2,3) l by auto
    show ?thesis
    proof (cases "save_view now new_id name filters set_default views")
      case (Inl ex)
      then show ?thesis using SaveView l wf again by auto
    next
      case (Inr r)
      then obtain i views' where r: "save_view now new_id name filters set_default views = Inr (i, views')"
        by (cases r) auto
      from save_view_wf [OF wf ok r] show ?thesis
        using SaveView l r by (auto simp: load_persisted)
    qed
  next
    case (RemoveView i)
    with remove_view_wf [OF wf, of i] l show ?thesis by (auto simp: load_persisted)
  next
    case (SetDefaultView i)
    with set_default_view_wf [OF wf, of now i] l show ?thesis by (auto simp: load_persisted)
  qed
qed

text \<open>C39: the saved views of a page stay well formed in the storage under any sequence of saves,
  removals and choices of a default: ids differ, names differ in more than the case of their
  letters, at most one view is the default, and the next load gives what was stored.\<close>

theorem saved_views_stay_wf:
  assumes "views_wf (fst (load_views now pg st))" and "\<forall>change \<in> set changes. change_ok change"
    and "distinct (concat (map change_ids changes))"
    and "set (concat (map change_ids changes)) \<inter> sv_id ` set (fst (load_views now pg st)) = {}"
  shows "views_wf (fst (load_views now pg (fold (view_action now pg) changes st))) \<and>
    (\<forall>views. views_wf views \<longrightarrow> fst (load_views now pg (persist_views now pg views st)) = views)"
proof
  show "views_wf (fst (load_views now pg (fold (view_action now pg) changes st)))"
    using assms
  proof (induction changes arbitrary: st)
    case (Cons change changes)
    have ok: "change_ok change" "set (change_ids change) \<inter> sv_id ` set (fst (load_views now pg st)) = {}"
      using Cons.prems(2,4) by auto
    note step = view_action_wf [OF Cons.prems(1) ok]
    have "set (concat (map change_ids changes)) \<inter>
        sv_id ` set (fst (load_views now pg (view_action now pg change st))) = {}"
    proof -
      have "set (concat (map change_ids changes)) \<inter> set (change_ids change) = {}" using Cons.prems(3) by auto
      moreover have "set (concat (map change_ids changes)) \<inter> sv_id ` set (fst (load_views now pg st)) = {}"
        using Cons.prems(4) by auto
      ultimately show ?thesis using step by blast
    qed
    with step Cons.prems(2,3) show ?case
      using Cons.IH [of "view_action now pg change st"] by (simp only: fold_Cons comp_apply) auto
  qed simp
  show "\<forall>views. views_wf views \<longrightarrow> fst (load_views now pg (persist_views now pg views st)) = views"
    by (simp add: load_persisted)
qed

definition ex_pg :: view_page where
  "ex_pg = \<lparr>vp_user_id = ''u1'', vp_tenant = ''ten1'', vp_page = ''audit''\<rparr>"

theorem saved_views_stay_wf_witness:
  "views_wf (fst (load_views ''now'' ex_pg (fold (view_action ''now'' ex_pg)
     [SaveView ''1'' ''Mine'' [(''action'', ''login'')] True, SaveView ''2'' '' mine'' [] True,
      SaveView ''3'' ''Other'' [] True, RemoveView ''1'', SetDefaultView (Some ''3'')] (\<lambda>_. None))))"
proof -
  have "fst (load_views ''now'' ex_pg (\<lambda>_. None)) = []"
    by (simp add: load_views_def load_versioned_def try_read_def)
  then show ?thesis
    using saved_views_stay_wf [of "''now''" ex_pg "\<lambda>_. None"
      "[SaveView ''1'' ''Mine'' [(''action'', ''login'')] True, SaveView ''2'' '' mine'' [] True,
        SaveView ''3'' ''Other'' [] True, RemoveView ''1'', SetDefaultView (Some ''3'')]"]
    by (simp add: views_wf_def)
qed

subsection \<open>Filters in the address\<close>

definition normalize_filters :: "(string \<times> string) list \<Rightarrow> (string \<times> string) list \<Rightarrow> (string \<times> string) list" where
  "normalize_filters defaults search_params =
     map (\<lambda>(key, d). (key, coalesce (map_of search_params key) d)) defaults"

definition to_search_params :: "(string \<times> string) list \<Rightarrow> (string \<times> string) list \<Rightarrow> (string \<times> string) list" where
  "to_search_params defaults filters =
     fold (\<lambda>(key, v) params.
       if trim v \<noteq> '''' \<and> Some (trim v) \<noteq> map_of defaults key then AList.update key (trim v) params else params)
       filters []"

lemma to_search_params_lookup:
  assumes "distinct (map fst filters)"
  shows "map_of (to_search_params defaults filters) key =
    (case map_of filters key of None \<Rightarrow> None
     | Some v \<Rightarrow> if trim v \<noteq> '''' \<and> Some (trim v) \<noteq> map_of defaults key then Some (trim v) else None)"
proof -
  define put where "put = (\<lambda>(k, v) params. if trim v \<noteq> '''' \<and> Some (trim v) \<noteq> map_of defaults k
    then AList.update k (trim v) params else params :: (string \<times> string) list)"
  have "map_of (fold put fs params) key =
      (case map_of fs key of None \<Rightarrow> map_of params key
       | Some v \<Rightarrow> if trim v \<noteq> '''' \<and> Some (trim v) \<noteq> map_of defaults key then Some (trim v) else map_of params key)"
    if "distinct (map fst fs)" for fs params
    using that
  proof (induction fs arbitrary: params)
    case (Cons f fs)
    obtain k v where f: "f = (k, v)" by fastforce
    have "map_of (put (k, v) params) key = (if key = k \<and> trim v \<noteq> '''' \<and> Some (trim v) \<noteq> map_of defaults k
        then Some (trim v) else map_of params key)"
      by (simp add: put_def update_conv')
    moreover have "key = k \<Longrightarrow> map_of fs key = None" using Cons.prems f by (simp add: map_of_eq_None_iff)
    ultimately show ?case using Cons f by (auto split: option.split)
  qed simp
  from this [OF assms, of "[]"] show ?thesis
    by (simp add: to_search_params_def put_def split: option.split)
qed

text \<open>What comes back from the address: every filter trimmed, and a filter that was cleared is its default.\<close>

lemma filters_roundtrip:
  assumes "distinct (map fst filters)" and "(key, d) \<in> set defaults" and "distinct (map fst defaults)"
    and "map_of filters key = Some v"
  shows "map_of (normalize_filters defaults (to_search_params defaults filters)) key =
    Some (if trim v = '''' then d else trim v)"
proof -
  have d: "map_of defaults key = Some d" using assms(2,3) by simp
  have "map_of (normalize_filters defaults params) key = Some (coalesce (map_of params key) d)" for params
    using d unfolding normalize_filters_def by (induction defaults) (auto split: if_splits)
  then show ?thesis using d by (simp add: to_search_params_lookup [OF assms(1)] assms(4) coalesce_def)
qed

subsection \<open>CSV downloads\<close>

definition double_quotes :: "string \<Rightarrow> string" where
  "double_quotes s = concat (map (\<lambda>c. if c = CHR 0x22 then [CHR 0x22, CHR 0x22] else [c]) s)"

definition escape_cell :: "string option \<Rightarrow> string" where
  "escape_cell v =
     (let s = coalesce v '''' in
      if CHR 0x22 \<in> set s \<or> CHR '','' \<in> set s \<or> CHR 0x0A \<in> set s
      then CHR 0x22 # double_quotes s @ [CHR 0x22]
      else s)"

definition csv_line :: "string option list \<Rightarrow> string" where
  "csv_line cells = join_with '','' (map escape_cell cells)"

definition csv_content :: "(string \<times> ('r \<Rightarrow> string option)) list \<Rightarrow> 'r list \<Rightarrow> string" where
  "csv_content columns rows =
     join_with [CHR 0x0A]
       (csv_line (map (\<lambda>(header, _). Some header) columns) #
        map (\<lambda>r. csv_line (map (\<lambda>(_, value_of). value_of r) columns)) rows)"

text \<open>A reader of CSV text with quoted cells (RFC 4180), as the reference for the downloads.\<close>

datatype csv_mode = Start | Plain | Quoted | Closing

fun read_csv :: "csv_mode \<Rightarrow> string \<Rightarrow> string list \<Rightarrow> string \<Rightarrow> string list list" where
  "read_csv m cell row [] = [row @ [cell]]"
| "read_csv Quoted cell row (c # s) =
     (if c = CHR 0x22 then read_csv Closing cell row s else read_csv Quoted (cell @ [c]) row s)"
| "read_csv m cell row (c # s) =
     (if c = CHR 0x22 \<and> m = Start then read_csv Quoted [] row s
      else if c = CHR 0x22 \<and> m = Closing then read_csv Quoted (cell @ [c]) row s
      else if c = CHR '','' then read_csv Start [] (row @ [cell]) s
      else if c = CHR 0x0A then (row @ [cell]) # read_csv Start [] [] s
      else read_csv Plain (cell @ [c]) row s)"

lemma read_plain:
  "CHR '','' \<notin> set s \<Longrightarrow> CHR 0x0A \<notin> set s \<Longrightarrow>
   read_csv Plain cell row (s @ rest) = read_csv Plain (cell @ s) row rest"
  by (induction s arbitrary: cell) auto

lemma read_quoted: "read_csv Quoted cell row (double_quotes s @ rest) = read_csv Quoted (cell @ s) row rest"
  by (induction s arbitrary: cell) (simp_all add: double_quotes_def)

definition ends_cell :: "string \<Rightarrow> bool" where
  "ends_cell rest \<longleftrightarrow> rest = [] \<or> hd rest = CHR '','' \<or> hd rest = CHR 0x0A"

lemma read_end: "ends_cell rest \<Longrightarrow> m \<in> {Start, Plain, Closing} \<Longrightarrow> read_csv m cell row rest = read_csv Plain cell row rest"
  by (cases rest) (auto simp: ends_cell_def)

lemma read_escaped:
  assumes "ends_cell rest"
  shows "read_csv Start [] row (escape_cell v @ rest) = read_csv Plain (coalesce v '''') row rest"
proof -
  define s where "s = coalesce v ''''"
  show ?thesis
  proof (cases "CHR 0x22 \<in> set s \<or> CHR '','' \<in> set s \<or> CHR 0x0A \<in> set s")
    case True
    then have "escape_cell v @ rest = CHR 0x22 # double_quotes s @ CHR 0x22 # rest"
      by (simp add: escape_cell_def s_def Let_def)
    then show ?thesis using read_end [OF assms, of Closing] by (simp add: read_quoted s_def)
  next
    case False
    then have e: "escape_cell v = s" by (simp add: escape_cell_def s_def Let_def)
    show ?thesis
    proof (cases s)
      case Nil
      then show ?thesis using e read_end [OF assms, of Start] by (simp add: s_def)
    next
      case (Cons c t)
      then have "read_csv Start [] row (s @ rest) = read_csv Plain [c] row (t @ rest)" using False by auto
      also have "\<dots> = read_csv Plain s row rest"
        using False Cons read_plain [where s = t and cell = "[c]"] by simp
      finally show ?thesis using e by (simp add: s_def)
    qed
  qed
qed

lemma read_line:
  assumes "cells \<noteq> []" and "rest = [] \<or> hd rest = CHR 0x0A"
  shows "read_csv Start [] row (csv_line cells @ rest) =
    (case rest of [] \<Rightarrow> [row @ map (\<lambda>v. coalesce v '''') cells]
     | _ # t \<Rightarrow> (row @ map (\<lambda>v. coalesce v '''') cells) # read_csv Start [] [] t)"
  using assms
proof (induction cells arbitrary: row)
  case (Cons v cells)
  show ?case
  proof (cases cells)
    case Nil
    then show ?thesis using Cons.prems read_escaped [of rest row v]
      by (cases rest) (auto simp: csv_line_def ends_cell_def)
  next
    case (Cons w cs)
    then have "csv_line (v # cells) @ rest = escape_cell v @ CHR '','' # csv_line cells @ rest"
      by (simp add: csv_line_def)
    then show ?thesis using Cons.IH [of "row @ [coalesce v '''']"] Cons Cons.prems
        read_escaped [of "CHR '','' # csv_line cells @ rest" row v]
      by (simp add: ends_cell_def split: list.split)
  qed
qed simp

text \<open>C40: a download reads back as the table it was made from: whatever characters the cells hold,
  commas, quotes and line breaks included, a reader of quoted CSV gets the headers and, for every
  row, the text of every cell.\<close>

theorem csv_download_roundtrip:
  assumes "columns \<noteq> []"
  shows "read_csv Start [] [] (csv_content columns rows) =
    map fst columns # map (\<lambda>r. map (\<lambda>(_, value_of). coalesce (value_of r) '''') columns) rows"
proof -
  have lines: "read_csv Start [] [] (join_with [CHR 0x0A] (map csv_line table)) =
      map (map (\<lambda>v. coalesce v '''')) table" if "table \<noteq> []" "[] \<notin> set table" for table
    using that
  proof (induction table)
    case (Cons cells table)
    then show ?case
    proof (cases table)
      case Nil
      then show ?thesis using Cons.prems read_line [of cells "[]" "[]"] by simp
    next
      case (Cons c t)
      moreover have "cells \<noteq> []" using Cons.prems(2) by auto
      ultimately show ?thesis using Cons.IH Cons.prems
          read_line [of cells "CHR 0x0A # join_with [CHR 0x0A] (map csv_line table)" "[]"] by simp
    qed
  qed simp
  show ?thesis
    using lines [of "map (\<lambda>(header, _). Some header) columns #
        map (\<lambda>r. map (\<lambda>(_, value_of). value_of r) columns) rows"] assms
    by (auto simp: csv_content_def comp_def coalesce_def case_prod_beta')
qed

theorem csv_download_roundtrip_witness:
  "read_csv Start [] [] (csv_content [(''id, name'', \<lambda>r. r), (''b'', \<lambda>_. None)] [Some ''x,y'', None]) =
     [[''id, name'', ''b''], [''x,y'', ''''], ['''', '''']]"
  using csv_download_roundtrip [of "[(''id, name'', \<lambda>r. r), (''b'', \<lambda>_. None)]" "[Some ''x,y'', None]"]
  by (simp add: coalesce_def)

subsection \<open>The preview of an upload\<close>

record upload_file =
  uf_name :: string
  uf_size :: int
  uf_text :: string

record upload_preview =
  up_csv_content :: string
  up_preview_rows :: "(string \<times> string) list list"
  up_duplicate_count :: nat

definition phone_header :: "string \<Rightarrow> bool" where
  "phone_header header \<longleftrightarrow> header \<in> set [''phone_number'', ''phoneNumber'', ''msisdn'']"

definition count_phone :: "string \<Rightarrow> string set \<times> nat \<Rightarrow> string set \<times> nat" where
  "count_phone phone = (\<lambda>(seen, n). (insert phone seen, if phone \<noteq> '''' \<and> phone \<in> seen then n + 1 else n))"

definition duplicate_count :: "string list \<Rightarrow> nat" where
  "duplicate_count phones = snd (fold count_phone phones ({}, 0))"

definition csv_values :: "string \<Rightarrow> string list" where
  "csv_values line = map trim (split_char (CHR '','') line)"

definition preview_row :: "string list \<Rightarrow> string list \<Rightarrow> (string \<times> string) list" where
  "preview_row headers cells =
     from_entries (map (\<lambda>i. (headers ! i, coalesce (column cells i) '''')) [0..<length headers])"

definition preview_csv :: "string \<Rightarrow> upload_preview" where
  "preview_csv text =
     (let lines = split_lines (trim text);
          headers = csv_values (hd lines);
          phone_of = (\<lambda>line. case find_index phone_header headers of
            None \<Rightarrow> '''' | Some i \<Rightarrow> coalesce (column (csv_values line) i) '''')
      in \<lparr>up_csv_content = text,
          up_preview_rows = map (preview_row headers \<circ> csv_values) (take 5 (tl lines)),
          up_duplicate_count = duplicate_count (map phone_of (tl lines))\<rparr>)"

text \<open>\<open>read_sheet\<close> is the spreadsheet library: the sheet as CSV, its columns and its rows.\<close>

definition preview_sheet :: "string \<times> string list \<times> (string \<Rightarrow> string) list \<Rightarrow> upload_preview" where
  "preview_sheet = (\<lambda>(csv, headers, rows).
     \<lparr>up_csv_content = csv,
      up_preview_rows = map (\<lambda>row. from_entries (map (\<lambda>h. (h, row h)) headers)) (take 5 rows),
      up_duplicate_count =
        (case find_index phone_header headers of
           None \<Rightarrow> 0 | Some i \<Rightarrow> duplicate_count (map (\<lambda>row. row (headers ! i)) rows))\<rparr>)"

definition parse_recipient_upload ::
  "(upload_file \<Rightarrow> string \<times> string list \<times> (string \<Rightarrow> string) list) \<Rightarrow> upload_file \<Rightarrow> upload_preview result" where
  "parse_recipient_upload read_sheet file =
     (let extension = to_lower (last (split_char (CHR ''.'') (uf_name file))) in
      if extension \<notin> set [''csv'', ''xlsx'', ''xls'']
      then Inl (PlainError ''Only CSV and Excel files are supported.'')
      else if 10 * 1024 * 1024 < uf_size file
      then Inl (PlainError ''Upload files must be 10 MB or smaller.'')
      else if extension = ''csv'' then Inr (preview_csv (uf_text file))
      else Inr (preview_sheet (read_sheet file)))"

text \<open>The count is the number of given phones less the number of different ones.\<close>

lemma duplicate_count_eq:
  "duplicate_count phones + card (set phones - {''''}) = length (filter (\<lambda>p. p \<noteq> '''') phones)"
proof -
  have "snd (fold count_phone ps (seen, n)) + card ((seen \<union> set ps) - {''''}) =
      n + length (filter (\<lambda>p. p \<noteq> '''') ps) + card (seen - {''''})" if "finite seen" for ps seen n
    using that
  proof (induction ps arbitrary: seen n)
    case (Cons p ps)
    have "card (insert p seen - {''''}) = (if p \<noteq> '''' \<and> p \<notin> seen then Suc (card (seen - {''''})) else card (seen - {''''}))"
      using Cons.prems by (auto simp: insert_Diff_if insert_absorb)
    with Cons.IH [of "insert p seen"] Cons.prems show ?case by (auto simp: count_phone_def)
  qed simp
  from this [of "{}" phones 0] show ?thesis by (simp add: duplicate_count_def)
qed

subsection \<open>The pace of the refreshes\<close>

definition realtime_interval :: "int \<Rightarrow> int \<Rightarrow> bool \<Rightarrow> bool \<Rightarrow> nat \<Rightarrow> int option" where
  "realtime_interval base_ms max_ms online failed failure_count =
     (if \<not> online then None
      else if \<not> failed then Some base_ms
      else Some (min max_ms (base_ms * 2 ^ min failure_count 4)))"

lemma realtime_interval_bounds:
  "0 \<le> base \<Longrightarrow> base \<le> max_ms \<Longrightarrow> realtime_interval base max_ms online failed n = Some ms \<Longrightarrow>
   base \<le> ms \<and> ms \<le> max_ms"
  using self_le_power [of "2 :: int" "min n 4"]
  by (auto simp: realtime_interval_def mult_le_cancel_left1 split: if_splits)

end
