(* ===== verification/Spec2Isabelle.thy ===== *)
theory Spec2Isabelle
  imports Rounds RoutingAdmin Health Deploy Console Browser
begin

text \<open>
  A verification development for the backend of the SMS platform (the NestJS program under
  \<open>src/src\<close>): a multi-tenant gateway that accepts messages over an API, charges a prepaid wallet,
  routes each message to a provider over HTTP or SMPP, settles the charge when the provider answers
  or a delivery receipt arrives, and runs campaigns over uploaded contacts.

  \<^bold>\<open>How the program runs.\<close> A request passes the guards and reaches a controller, which calls a service.
  Services keep their state in PostgreSQL tables and in Redis keys and change the tables in
  transactions (\<open>database/database.service.ts\<close>). A service that wants something done later writes a
  row into the table of outgoing events in the same transaction; the relay publishes these rows to
  Kafka topics, and the consumers of the topics (workflow, receipts, reconciliation) run one handler
  per event, each in its own transaction. Events may be delivered repeatedly and handled by several
  processes at once.

  \<^bold>\<open>How it is modelled.\<close> Every table is a list of records, a transaction is a function from a state to an
  exception or a result and a new state (\<open>tx\<close>, \<open>with_transaction\<close>: commit or roll back), a service
  operation with effects outside the transaction is a function \<open>io\<close> that keeps its state when it
  throws. \<open>now()\<close> and \<open>Date.now()\<close> are fields of a context \<open>ctx\<close> that a caller passes, one per
  transaction. An exception is a value of \<open>exn\<close>, one constructor per class the code throws.

  \<^bold>\<open>The theories\<close>, from the ground up.
  \<^item> \<open>Prelude\<close>: results and transactions, JavaScript strings and numbers, JSON, the SQL shapes
    (filtered update, first row, ordering, pagination). \<open>Tables\<close>: the rows of
    \<open>migrations/001_init.sql\<close> that messages, wallets, events and receipts use, and the topics.
  \<^item> \<open>Outbox\<close>: \<open>outbox/*.ts\<close> and the writer of \<open>audit/audit.service.ts\<close>: enqueueing with its dedupe
    key, claiming a batch under a lease, publishing, retrying; well-formedness and draining.
  \<^item> \<open>Wallet\<close>: the ledger part of \<open>messages/messages.service.ts\<close> (reserve, debit, release).
    \<open>Driver\<close>: the same arithmetic over what the database driver returns for \<open>BIGINT\<close>.
  \<^item> \<open>Access\<close>: the guards and the routes of all controllers with their roles, API-key and
    re-authentication marks; which requests reach which handler.
  \<^item> \<open>Messages\<close>, \<open>Queries\<close>, \<open>Submission\<close>: the rest of \<open>messages.service.ts\<close>: the status machine with the
    trigger of the table, versioned updates, explorer, trace and receipt correlation, prices, and
    submission. \<open>Templates\<close>, \<open>Compliance\<close>, \<open>SenderIds\<close>: the services a submission asks.
  \<^item> \<open>Services\<close>, \<open>Workflow\<close>, \<open>Dlr\<close>: the consumers (\<open>messages/message-workflow.service.ts\<close>,
    \<open>dlr/*.ts\<close>, \<open>reconciliation/reconciliation.service.ts\<close>); the services they call are fields of a
    record, so the theorems hold for every behaviour of them.
  \<^item> \<open>Billing\<close>, \<open>Pipeline\<close>, \<open>Guarantees\<close>, \<open>Handlers\<close>: the composition. \<open>Pipeline\<close> has the step relation
    of all transactions over one database and the rows the consumers have read and may still act
    on; \<open>Billing\<close> the invariant that ties wallets and ledger to messages; \<open>Guarantees\<close> shows that each
    handler is a sequence of steps and that in every reachable state money and messages agree.
  \<^item> \<open>Redis\<close>, \<open>RateLimit\<close>, \<open>Circuit\<close>: \<open>redis/*.ts\<close>: keys with expiry, the token bucket of the Lua script,
    the circuit breaker. \<open>Environment\<close>: the configuration tables and the Redis keys as one state, on
    which \<open>Providers\<close>, \<open>Routing\<close>, \<open>RoutingAdmin\<close> and \<open>Fraud\<close> model the services of these names.
  \<^item> \<open>Connectors\<close>: \<open>connectors/*.ts\<close>: the classification of answers, the 32-bit hash that picks a
    session, the session map while binds overlap.
  \<^item> \<open>Runtime\<close>: settings and their validation, process roles, secret references, log redaction, error
    responses. \<open>AuditTrail\<close>: the audit interceptor and the listing. \<open>Auth\<close>: sessions and API keys.
  \<^item> \<open>Contacts\<close>, \<open>Campaigns\<close>: the CSV import, and scheduling with its periodic materialisation.
  \<^item> \<open>Platform\<close>: the services of \<open>messages/messages.module.ts\<close> wired together over one state; what a
    provider or a secret store answers stays a parameter. \<open>Rounds\<close>: the topics with their consumers and
    the delivery of the events about one message, one after the other. \<open>Alerts\<close>: the observers of
    \<open>fraud/fraud.service.ts\<close> and what every evaluation counts.
  \<^item> \<open>Reports\<close>: \<open>search/search.service.ts\<close>, \<open>notifications/notifications.service.ts\<close>. \<open>Figures\<close>:
    \<open>dashboard/dashboard.service.ts\<close>, \<open>analytics/analytics.service.ts\<close>, \<open>operations/operations.service.ts\<close>
    with the aggregates of their queries. \<open>Health\<close>: \<open>common/metrics/*.ts\<close>, \<open>kafka/kafka.service.ts\<close>,
    \<open>health/health.service.ts\<close>.
  \<^item> \<open>Deploy\<close>: the environment files and the migration runner under \<open>scripts\<close>. \<open>Console\<close>: the server side of
    \<open>control-plane\<close> (session, gate, proxy, menu) against the guards of the API. \<open>Browser\<close>: what the
    control plane keeps in the browser (saved views, read notifications, filters, uploads, downloads).

  \<^bold>\<open>What the theorems show.\<close> C1 to C12: the money and the life of a message, under every interleaving of
  consumers, with all services wired in, to the end of its retries; among them three defects of the
  dispatch. C13 to C16 and C29: who may call what. C17: the effect of the driver's decoding. C18 to C21: no
  lost update, and the outbox. C22 to C24, C30 and C31: routing, circuits, limits, fraud counters, SMPP.
  C25 to C28 and C32: campaigns, contacts, API keys, settings. C33 to C36: what reports reveal and add up
  to, and what the readiness probe can see. C37 to C40: the control plane against the API, the migrations,
  saved views and downloads. Theorems without a number are further facts of the components, several of
  them defects.

  \<^bold>\<open>Conventions and bounds.\<close> Numbers that hold identifiers, counters and minor units are unbounded
  integers (exact below \<open>2 ^ 53\<close> in the code); only the session hash depends on a width and is modelled
  at 32 bits. Times are milliseconds. A string is a list of bytes; case mapping is that of ASCII
  letters. \<open>BIGINT\<close> columns are read as numbers, as the row types of the code declare; \<open>Driver\<close> states
  what changes when the driver's default holds. Every loop of the code that is modelled runs over a
  finite list; only \<open>follow\<close>, the delivery of the events of a message, has a bound on its steps, and C7
  shows that \<open>3 N\<close> steps, and two per throttling, are enough. The order of rows without \<open>ORDER BY\<close> is the order of insertion,
  except where a parameter leaves it open (the scan of due schedules).

  \<^bold>\<open>Parameters\<close>, for code that is not in the repository: \<open>scrypt\<close>, the token signature and verification,
  SHA-256, the cron parser, the date parser, the answers of providers and of the Kafka broker, random
  bytes and generated identifiers. Hypotheses on them are stated where they are used.

  \<^bold>\<open>Not modelled.\<close> Timers, connection pools, the Kafka and Redis client libraries, default metrics and their
  text format, request-context propagation (it only feeds log fields), the validation of request bodies
  by decorators (its constraints appear as hypotheses or as types), the rendering of the control plane
  and the writes of its pages, the seeding scripts (fixed rows for development) and deployment files.
\<close>

end
